(* ===== verification/Prelude.thy ===== *)
theory Prelude
  imports Main "HOL-Library.Word" "HOL-Library.AList" "HOL-Library.Multiset"
    "HOL-Library.Char_ord" "HOL-Library.List_Lexorder" "HOL-Library.Product_Lexorder"
begin

text \<open>
  Shared vocabulary of the GPU Direct Fabric development: machine integers, the finite maps that
  stand for \<open>std::unordered_map\<close>, the "latest generation wins" scan that the planner and the
  coordinator run over their records, decimal printing, and the two locales that carry an invariant
  (and a progress relation) along a bounded run of operations.
\<close>


section \<open>Machine integers\<close>

type_synonym u8 = "8 word"
type_synonym u16 = "16 word"
type_synonym u32 = "32 word"
type_synonym u64 = "64 word"

lemma unat_plus_one:
  fixes x :: u64
  assumes "Suc (unat x) < 2 ^ 64"
  shows "unat (x + 1) = Suc (unat x)"
  using assms by (simp add: unat_word_ariths)

lemma unat_plus_one_le:
  fixes x :: u64
  shows "unat (x + 1) \<le> Suc (unat x)"
  by (simp add: unat_word_ariths)

section \<open>Finite maps keyed by 64-bit ids\<close>

text \<open>
  \<open>std::unordered_map<uint64_t, T>\<close> is an association list with distinct keys; its order is one
  possible iteration order. \<open>operator[]\<close> assignment is \<open>umap_put\<close>, a loop
  that rewrites every mapped value is \<open>umap_map\<close>.
\<close>

type_synonym 'v umap = "(u64 \<times> 'v) list"

abbreviation umap_find :: "'v umap \<Rightarrow> u64 \<Rightarrow> 'v option" where
  "umap_find m k \<equiv> map_of m k"

abbreviation umap_put :: "u64 \<Rightarrow> 'v \<Rightarrow> 'v umap \<Rightarrow> 'v umap" where
  "umap_put k v m \<equiv> AList.update k v m"

abbreviation umap_erase :: "u64 \<Rightarrow> 'v umap \<Rightarrow> 'v umap" where
  "umap_erase k m \<equiv> AList.delete k m"

abbreviation umap_values :: "'v umap \<Rightarrow> 'v list" where
  "umap_values m \<equiv> map snd m"

abbreviation umap_ok :: "'v umap \<Rightarrow> bool" where
  "umap_ok m \<equiv> distinct (map fst m)"

definition umap_map :: "('v \<Rightarrow> 'w) \<Rightarrow> 'v umap \<Rightarrow> 'w umap" where
  "umap_map f m = map (\<lambda>(k, v). (k, f v)) m"

text \<open>The first entry, in iteration order, whose value satisfies a test.\<close>

definition umap_first :: "('v \<Rightarrow> bool) \<Rightarrow> 'v umap \<Rightarrow> (u64 \<times> 'v) option" where
  "umap_first P m = List.find (\<lambda>(k, v). P v) m"

declare map_of_eq_Some_iff [simp del]

lemma umap_find_put [simp]: "umap_find (umap_put k v m) = (umap_find m)(k \<mapsto> v)"
  by (rule AList.update_conv')

lemma umap_find_erase [simp]: "umap_find (umap_erase k m) = (umap_find m)(k := None)"
  by (rule AList.delete_conv')

lemma umap_ok_put [simp]: "umap_ok m \<Longrightarrow> umap_ok (umap_put k v m)"
  by (rule AList.distinct_update)

lemma umap_ok_erase [simp]: "umap_ok m \<Longrightarrow> umap_ok (umap_erase k m)"
  by (rule AList.distinct_delete)

lemma umap_map_keys [simp]: "map fst (umap_map f m) = map fst m"
  by (induction m) (auto simp: umap_map_def)

lemma umap_map_length [simp]: "length (umap_map f m) = length m"
  by (simp add: umap_map_def)

lemma umap_find_map [simp]: "umap_find (umap_map f m) k = map_option f (umap_find m k)"
  by (induction m) (auto simp: umap_map_def)

lemma umap_map_id [simp]: "umap_map (\<lambda>v. v) m = m"
  by (induction m) (auto simp: umap_map_def)

lemma umap_values_iff:
  "umap_ok m \<Longrightarrow> v \<in> set (umap_values m) \<longleftrightarrow> (\<exists>k. umap_find m k = Some v)"
  by (auto simp: image_iff map_of_eq_Some_iff) force

lemma umap_values_find: "umap_find m k = Some v \<Longrightarrow> v \<in> set (umap_values m)"
  by (force dest: map_of_SomeD)

lemma umap_put_length:
  "length (umap_put k v m) = (if umap_find m k = None then Suc (length m) else length m)"
  by (induction m) auto

lemma umap_first_Some:
  assumes "umap_first P m = Some (k, v)" and "umap_ok m"
  shows "umap_find m k = Some v" and "P v"
  using assms by (auto simp: umap_first_def find_Some_iff set_conv_nth map_of_eq_Some_iff)

lemma umap_first_None: "umap_first P m = None \<longleftrightarrow> (\<forall>v \<in> set (umap_values m). \<not> P v)"
  by (auto simp: umap_first_def find_None_iff)

text \<open>The contract clients of such a map rely on, discharged for the association list.\<close>

locale keyed_store =
  fixes find :: "'m \<Rightarrow> 'k \<Rightarrow> 'v option"
    and put :: "'k \<Rightarrow> 'v \<Rightarrow> 'm \<Rightarrow> 'm"
    and erase :: "'k \<Rightarrow> 'm \<Rightarrow> 'm"
    and ok :: "'m \<Rightarrow> bool"
    and key_of :: "'v \<Rightarrow> 'k"
  assumes find_put: "find (put k v m) k' = (if k' = k then Some v else find m k')"
    and find_erase: "find (erase k m) k' = (if k' = k then None else find m k')"
    and ok_put: "ok m \<Longrightarrow> ok (put k v m)"
    and ok_erase: "ok m \<Longrightarrow> ok (erase k m)"
begin

definition keyed :: "'m \<Rightarrow> bool" where
  "keyed m \<longleftrightarrow> ok m \<and> (\<forall>k v. find m k = Some v \<longrightarrow> key_of v = k)"

lemma keyed_put: "keyed m \<Longrightarrow> key_of v = k \<Longrightarrow> keyed (put k v m)"
  by (auto simp: keyed_def find_put ok_put)

lemma keyed_erase: "keyed m \<Longrightarrow> keyed (erase k m)"
  by (auto simp: keyed_def find_erase ok_erase split: if_splits)

lemma keyed_find: "keyed m \<Longrightarrow> find m k = Some v \<Longrightarrow> key_of v = k"
  by (simp add: keyed_def)

end

interpretation umap: keyed_store map_of AList.update AList.delete "\<lambda>m. umap_ok m" key_of
  for key_of :: "'v \<Rightarrow> u64"
  by unfold_locales (auto simp: AList.update_conv' AList.delete_conv')

lemma keyed_map:
  assumes "umap.keyed key_of m" and "\<And>v. key_of (f v) = key_of v"
  shows "umap.keyed key_of (umap_map f m)"
  using assms by (auto simp: umap.keyed_def)

lemma keyed_Nil [simp]: "umap.keyed key_of []"
  by (simp add: umap.keyed_def)

lemma keyed_ok: "umap.keyed key_of m \<Longrightarrow> umap_ok m"
  by (simp add: umap.keyed_def)

text \<open>A property of every entry of a map.\<close>

definition umap_all :: "(u64 \<Rightarrow> 'v \<Rightarrow> bool) \<Rightarrow> 'v umap \<Rightarrow> bool" where
  "umap_all P m \<longleftrightarrow> (\<forall>k v. umap_find m k = Some v \<longrightarrow> P k v)"

lemma umap_all_Nil [simp]: "umap_all P []"
  by (simp add: umap_all_def)

lemma umap_allD: "umap_all P m \<Longrightarrow> umap_find m k = Some v \<Longrightarrow> P k v"
  by (simp add: umap_all_def)

lemma umap_all_put: "umap_all P m \<Longrightarrow> P k v \<Longrightarrow> umap_all P (umap_put k v m)"
  by (simp add: umap_all_def)

lemma umap_all_erase: "umap_all P m \<Longrightarrow> umap_all P (umap_erase k m)"
  by (simp add: umap_all_def)

lemma umap_all_map [simp]: "umap_all P (umap_map f m) \<longleftrightarrow> umap_all (\<lambda>k v. P k (f v)) m"
  by (auto simp: umap_all_def)

lemma umap_all_mono: "umap_all P m \<Longrightarrow> (\<And>k v. umap_find m k = Some v \<Longrightarrow> P k v \<Longrightarrow> Q k v) \<Longrightarrow> umap_all Q m"
  by (simp add: umap_all_def)

lemma umap_all_conj: "umap_all (\<lambda>k v. P k v \<and> Q k v) m \<longleftrightarrow> umap_all P m \<and> umap_all Q m"
  by (auto simp: umap_all_def)

text \<open>No two entries agree on an attribute.\<close>

definition umap_unique :: "('v \<Rightarrow> 'a) \<Rightarrow> 'v umap \<Rightarrow> bool" where
  "umap_unique attr m \<longleftrightarrow> umap_all (\<lambda>k v. umap_all (\<lambda>k' v'. attr v = attr v' \<longrightarrow> k = k') m) m"

lemma umap_unique_Nil [simp]: "umap_unique attr []"
  by (simp add: umap_unique_def)

lemma umap_unique_put:
  assumes "umap_unique attr m"
    and "\<And>k' v'. umap_find m k' = Some v' \<Longrightarrow> attr v = attr v' \<Longrightarrow> k' = k"
  shows "umap_unique attr (umap_put k v m)"
  using assms unfolding umap_unique_def umap_all_def by (auto split: if_splits)

lemma umap_unique_erase: "umap_unique attr m \<Longrightarrow> umap_unique attr (umap_erase k m)"
  unfolding umap_unique_def umap_all_def by auto

lemma umap_unique_map:
  assumes "umap_unique attr m" and "\<And>v. attr (f v) = attr v"
  shows "umap_unique attr (umap_map f m)"
  using assms by (simp add: umap_unique_def)

lemma umap_unique_values:
  assumes "umap_ok m" "umap_unique attr m" "v \<in> set (umap_values m)" "v' \<in> set (umap_values m)"
    and "attr v = attr v'"
  shows "v = v'"
proof -
  obtain k k' where k: "umap_find m k = Some v" "umap_find m k' = Some v'"
    using assms(1,3,4) umap_values_iff by metis
  with assms(2,5) have "k = k'" unfolding umap_unique_def by (blast dest: umap_allD)
  with k show ?thesis by simp
qed

text \<open>A key above every key in use is free.\<close>

lemma umap_fresh: "umap_all (\<lambda>k v. k \<le> i) m \<Longrightarrow> i < j \<Longrightarrow> umap_find m j = None"
  by (cases "umap_find m j") (auto simp: umap_all_def)

section \<open>The record with the highest generation\<close>

text \<open>
  The scan \<open>if (best == nullptr || x.generation > best->generation) best = &x\<close> over the records
  that match a test: the first record of maximal generation.
\<close>

definition latest_by :: "('a \<Rightarrow> bool) \<Rightarrow> ('a \<Rightarrow> u64) \<Rightarrow> 'a list \<Rightarrow> 'a option" where
  "latest_by P g xs =
     foldl (\<lambda>best x. if P x \<and> (case best of None \<Rightarrow> True | Some b \<Rightarrow> g b < g x)
                     then Some x else best) None xs"

lemma latest_by_Nil [simp]: "latest_by P g [] = None"
  by (simp add: latest_by_def)

lemma latest_by_snoc [simp]:
  "latest_by P g (xs @ [x]) =
     (if P x \<and> (case latest_by P g xs of None \<Rightarrow> True | Some b \<Rightarrow> g b < g x)
      then Some x else latest_by P g xs)"
  by (simp add: latest_by_def)

lemma latest_by_None: "latest_by P g xs = None \<longleftrightarrow> (\<forall>x \<in> set xs. \<not> P x)"
  by (induction xs rule: rev_induct) (auto split: option.splits)

lemma latest_by_SomeD:
  assumes "latest_by P g xs = Some b"
  shows "b \<in> set xs" and "P b" and "\<And>x. x \<in> set xs \<Longrightarrow> P x \<Longrightarrow> g x \<le> g b"
proof -
  have "b \<in> set xs \<and> P b \<and> (\<forall>x \<in> set xs. P x \<longrightarrow> g x \<le> g b)"
    using assms
  proof (induction xs arbitrary: b rule: rev_induct)
    case Nil
    then show ?case by simp
  next
    case (snoc x xs)
    show ?case
    proof (cases "latest_by P g xs")
      case None
      with snoc.prems have "P x" "b = x"
        by (auto split: if_splits)
      with None show ?thesis by (auto simp: latest_by_None)
    next
      case (Some c)
      with snoc.IH [OF Some] snoc.prems show ?thesis
        by (auto split: if_splits intro: order.trans order.strict_implies_order)
    qed
  qed
  then show "b \<in> set xs" and "P b" and "\<And>x. x \<in> set xs \<Longrightarrow> P x \<Longrightarrow> g x \<le> g b"
    by blast+
qed

text \<open>
  Where no two matching records share a generation, the scan does not depend on the iteration
  order.
\<close>

lemma latest_by_unique:
  assumes b: "b \<in> set xs" "P b" and max: "\<And>x. x \<in> set xs \<Longrightarrow> P x \<Longrightarrow> x \<noteq> b \<Longrightarrow> g x < g b"
  shows "latest_by P g xs = Some b"
proof (cases "latest_by P g xs")
  case None
  with b show ?thesis by (auto simp: latest_by_None)
next
  case (Some c)
  note c = latest_by_SomeD [OF Some]
  have "c = b"
  proof (rule ccontr)
    assume "c \<noteq> b"
    then have "g c < g b" using max c by blast
    moreover have "g b \<le> g c" using c(3) b by blast
    ultimately show False by simp
  qed
  with Some show ?thesis by simp
qed

lemma latest_by_set:
  assumes eq: "set xs = set ys"
    and inj: "\<And>x y. x \<in> set xs \<Longrightarrow> y \<in> set xs \<Longrightarrow> P x \<Longrightarrow> P y \<Longrightarrow> g x = g y \<Longrightarrow> x = y"
  shows "latest_by P g xs = latest_by P g ys"
proof (cases "latest_by P g ys")
  case None
  then have "latest_by P g xs = None" using eq by (simp add: latest_by_None)
  with None show ?thesis by simp
next
  case (Some b)
  note b = latest_by_SomeD [OF Some]
  have "latest_by P g xs = Some b"
  proof (rule latest_by_unique)
    show "b \<in> set xs" "P b" using b eq by auto
    fix x assume "x \<in> set xs" "P x" "x \<noteq> b"
    then have "g x \<le> g b" "g x \<noteq> g b" using b eq inj by blast+
    then show "g x < g b" by simp
  qed
  with Some show ?thesis by simp
qed

text \<open>A scan for the first match does not depend on the order where at most one record matches.\<close>

lemma find_set:
  assumes eq: "set xs = set ys"
    and uniq: "\<And>x y. x \<in> set xs \<Longrightarrow> y \<in> set xs \<Longrightarrow> P x \<Longrightarrow> P y \<Longrightarrow> x = y"
  shows "List.find P xs = List.find P ys"
proof (cases "List.find P ys")
  case None
  then have "List.find P xs = None" using eq by (simp add: find_None_iff)
  with None show ?thesis by simp
next
  case (Some y)
  then have y: "y \<in> set ys" "P y" by (auto simp: find_Some_iff set_conv_nth)
  show ?thesis
  proof (cases "List.find P xs")
    case None
    with y eq show ?thesis by (simp add: find_None_iff)
  next
    case (Some x)
    then have "x \<in> set xs" "P x" by (auto simp: find_Some_iff set_conv_nth)
    then have "x = y" using y eq uniq by blast
    with Some \<open>List.find P ys = Some y\<close> show ?thesis by simp
  qed
qed

section \<open>Decimal printing\<close>

fun dec_of_nat :: "nat \<Rightarrow> string" where
  "dec_of_nat n =
     (if n < 10 then [char_of (48 + n)] else dec_of_nat (n div 10) @ [char_of (48 + n mod 10)])"

declare dec_of_nat.simps [simp del]

text \<open>\<open>std::to_string\<close> of an unsigned 64-bit value.\<close>

definition to_string_u64 :: "u64 \<Rightarrow> string" where
  "to_string_u64 v = dec_of_nat (unat v)"

section \<open>Sums over updated lists\<close>

text \<open>Work measures are sums over the threads of a system; a step updates one of them.\<close>

lemma sum_list_map_update:
  "i < length xs \<Longrightarrow> f (xs ! i) = (n :: nat) + f t \<Longrightarrow> n + sum_list (map f (xs[i := t])) = sum_list (map f xs)"
proof (induction xs arbitrary: i)
  case (Cons x xs)
  then show ?case by (cases i) (auto simp: add.left_commute)
qed simp

lemma sum_list_update_less:
  "i < length xs \<Longrightarrow> f v < (f (xs ! i) :: nat) \<Longrightarrow> sum_list (map f (xs[i := v])) < sum_list (map f xs)"
  using sum_list_map_update [of i xs f "f (xs ! i) - f v" v] by simp

section \<open>Runs of operations\<close>

text \<open>
  A state machine whose invariant is indexed by the number of operations already run: the index
  bounds the 64-bit counters, so an operation keeps the invariant as long as the run is shorter
  than the limit at which a counter could wrap around.
\<close>

locale budgeted_invariant =
  fixes step :: "'op \<Rightarrow> 's \<Rightarrow> 's"
    and inv :: "nat \<Rightarrow> 's \<Rightarrow> bool"
    and limit :: nat
  assumes inv_step: "inv n s \<Longrightarrow> n < limit \<Longrightarrow> inv (Suc n) (step x s)"
begin

lemma run_inv: "inv n s \<Longrightarrow> n + length ops \<le> limit \<Longrightarrow> inv (n + length ops) (fold step ops s)"
proof (induction ops arbitrary: n s)
  case Nil
  then show ?case by simp
next
  case (Cons x ops)
  from Cons.prems have "inv (Suc n) (step x s)" by (intro inv_step) auto
  with Cons.prems have "inv (Suc n + length ops) (fold step ops (step x s))"
    by (intro Cons.IH) auto
  then show ?case by simp
qed

end

text \<open>A relation between earlier and later states that every operation respects.\<close>

locale budgeted_progress = budgeted_invariant +
  fixes rel :: "'s \<Rightarrow> 's \<Rightarrow> bool"
  assumes rel_refl: "rel s s"
    and rel_trans: "rel s t \<Longrightarrow> rel t u \<Longrightarrow> rel s u"
    and rel_step: "inv n s \<Longrightarrow> n < limit \<Longrightarrow> rel s (step x s)"
begin

lemma run_rel: "inv n s \<Longrightarrow> n + length ops \<le> limit \<Longrightarrow> rel s (fold step ops s)"
proof (induction ops arbitrary: n s)
  case Nil
  then show ?case by (simp add: rel_refl)
next
  case (Cons x ops)
  then have "inv (Suc n) (step x s)" and "rel s (step x s)"
    by (auto intro: inv_step rel_step)
  moreover from this Cons.prems have "rel (step x s) (fold step ops (step x s))"
    by (intro Cons.IH [of "Suc n"]) auto
  ultimately show ?case by (auto intro: rel_trans)
qed

end

end
