(* ===== verification/Enums.thy ===== *)
theory Enums
  imports Prelude
begin

text \<open>
  The scoped enumerations of \<open>include/gpudirectfabric/enums.hpp\<close> and the string conversions of
  \<open>src/enums.cpp\<close>. A scoped enumeration has underlying type \<open>int\<close> and a \<open>static_cast\<close> may give it
  any value, which the server does with bytes from the wire and the recovery code with words from
  the state file; every type here therefore has, beside the source's enumerators, a constructor
  \<open>\<dots>_raw\<close> for the values without a name. The X-macro list of each enumeration is a table of
  names and values from which both conversions are expanded.
\<close>

section \<open>Conversions expanded from an X-macro table\<close>

definition enum_to_string :: "(string \<times> 'e) list \<Rightarrow> 'e \<Rightarrow> string" where
  "enum_to_string X v = (case List.find (\<lambda>(n, e). e = v) X of Some (n, _) \<Rightarrow> n | None \<Rightarrow> ''UNKNOWN'')"

definition enum_from_string :: "(string \<times> 'e) list \<Rightarrow> string \<Rightarrow> 'e option" where
  "enum_from_string X s = map_of X s"

text \<open>\<open>static_cast<int>(e)\<close> and \<open>static_cast<E>(v)\<close> over the enumerators in declaration order.\<close>

definition enum_to_int :: "'e list \<Rightarrow> ('e \<Rightarrow> int option) \<Rightarrow> 'e \<Rightarrow> int" where
  "enum_to_int es unraw e =
     (case unraw e of Some v \<Rightarrow> v | None \<Rightarrow> int (length (takeWhile (\<lambda>x. x \<noteq> e) es)))"

definition enum_of_int :: "'e list \<Rightarrow> (int \<Rightarrow> 'e) \<Rightarrow> int \<Rightarrow> 'e" where
  "enum_of_int es raw v = (if 0 \<le> v \<and> v < int (length es) then es ! nat v else raw v)"

lemma takeWhile_nth_distinct:
  "distinct xs \<Longrightarrow> i < length xs \<Longrightarrow> length (takeWhile (\<lambda>x. x \<noteq> xs ! i) xs) = i"
proof (induction xs arbitrary: i)
  case Nil
  then show ?case by simp
next
  case (Cons a xs)
  then show ?case by (cases i) auto
qed

locale enum_table =
  fixes X :: "(string \<times> 'e) list"
    and es :: "'e list"
    and raw :: "int \<Rightarrow> 'e"
    and unraw :: "'e \<Rightarrow> int option"
  assumes names: "distinct (map fst X)"
    and declared: "map snd X = es"
    and distinct_values: "distinct es"
    and unraw_raw: "unraw (raw v) = Some v"
    and unraw_declared: "e \<in> set es \<Longrightarrow> unraw e = None"
    and raw_declared: "raw v \<notin> set es"
    and int_sized: "length es < 2 ^ 31"
begin

lemma to_string_nth:
  assumes "i < length X"
  shows "enum_to_string X (snd (X ! i)) = fst (X ! i)"
proof -
  have *: "snd (X ! j) = snd (X ! i) \<Longrightarrow> j = i" if "j < length X" for j
    using assms that distinct_values declared by (metis nth_eq_iff_index_eq length_map nth_map)
  have "List.find (\<lambda>(n, e). e = snd (X ! i)) X = Some (X ! i)"
    unfolding find_Some_iff using assms *
    by (intro exI [of _ i]) (auto simp: case_prod_beta dest: less_trans)
  then show ?thesis by (simp add: enum_to_string_def case_prod_beta)
qed

lemma from_to_string: "e \<in> set es \<Longrightarrow> enum_from_string X (enum_to_string X e) = Some e"
proof -
  assume "e \<in> set es"
  then obtain i where i: "i < length X" "e = snd (X ! i)"
    using declared by (auto simp: in_set_conv_nth)
  then have "(enum_to_string X e, e) \<in> set X"
    using to_string_nth [of i] by (auto simp: in_set_conv_nth)
  then show ?thesis
    by (simp add: enum_from_string_def map_of_eq_Some_iff [OF names])
qed

lemma from_string_declared: "enum_from_string X s = Some e \<Longrightarrow> e \<in> set es"
  using declared by (force simp: enum_from_string_def dest: map_of_SomeD)

text \<open>The round trip through the printed name accepts exactly the declared values.\<close>

lemma accepted_iff: "enum_from_string X (enum_to_string X e) = Some e \<longleftrightarrow> e \<in> set es"
  using from_to_string from_string_declared by blast

lemma of_int_declared_iff: "enum_of_int es raw v \<in> set es \<longleftrightarrow> 0 \<le> v \<and> v < int (length es)"
  using raw_declared by (auto simp: enum_of_int_def)

lemma of_to_int: "e \<in> set es \<Longrightarrow> enum_of_int es raw (enum_to_int es unraw e) = e"
proof -
  assume e: "e \<in> set es"
  then obtain i where i: "i < length es" "e = es ! i"
    by (auto simp: in_set_conv_nth)
  then have "enum_to_int es unraw e = int i"
    using e distinct_values by (simp add: enum_to_int_def unraw_declared takeWhile_nth_distinct)
  with i show ?thesis by (simp add: enum_of_int_def)
qed

lemma to_of_int: "enum_to_int es unraw (enum_of_int es raw v) = v"
  using distinct_values
  by (auto simp: enum_to_int_def enum_of_int_def unraw_raw unraw_declared takeWhile_nth_distinct)

lemma to_int_bound: "e \<in> set es \<Longrightarrow> 0 \<le> enum_to_int es unraw e \<and> enum_to_int es unraw e < int (length es)"
  using of_to_int of_int_declared_iff by metis

end

section \<open>MemoryDomain\<close>

datatype MemoryDomain =
    HOST_PAGEABLE | HOST_PINNED | CUDA_DEVICE | CUDA_MANAGED | PEER_DEVICE |
    REGISTERED_GPU_MEMORY | REGISTERED_HOST_MEMORY | STORAGE_VISIBLE_BUFFER |
    NIC_VISIBLE_BUFFER | UNKNOWN | MemoryDomain_raw int

definition MemoryDomain_values :: "MemoryDomain list" where
  "MemoryDomain_values = [
     MemoryDomain.HOST_PAGEABLE, MemoryDomain.HOST_PINNED, MemoryDomain.CUDA_DEVICE,
     MemoryDomain.CUDA_MANAGED, MemoryDomain.PEER_DEVICE, MemoryDomain.REGISTERED_GPU_MEMORY,
     MemoryDomain.REGISTERED_HOST_MEMORY, MemoryDomain.STORAGE_VISIBLE_BUFFER,
     MemoryDomain.NIC_VISIBLE_BUFFER, MemoryDomain.UNKNOWN]"

fun MemoryDomain_unraw :: "MemoryDomain \<Rightarrow> int option" where
  "MemoryDomain_unraw (MemoryDomain_raw v) = Some v"
| "MemoryDomain_unraw _ = None"

definition MemoryDomain_X :: "(string \<times> MemoryDomain) list" where
  "MemoryDomain_X = [
     (''HOST_PAGEABLE'', MemoryDomain.HOST_PAGEABLE),
     (''HOST_PINNED'', MemoryDomain.HOST_PINNED), (''CUDA_DEVICE'', MemoryDomain.CUDA_DEVICE),
     (''CUDA_MANAGED'', MemoryDomain.CUDA_MANAGED),
     (''PEER_DEVICE'', MemoryDomain.PEER_DEVICE),
     (''REGISTERED_GPU_MEMORY'', MemoryDomain.REGISTERED_GPU_MEMORY),
     (''REGISTERED_HOST_MEMORY'', MemoryDomain.REGISTERED_HOST_MEMORY),
     (''STORAGE_VISIBLE_BUFFER'', MemoryDomain.STORAGE_VISIBLE_BUFFER),
     (''NIC_VISIBLE_BUFFER'', MemoryDomain.NIC_VISIBLE_BUFFER),
     (''UNKNOWN'', MemoryDomain.UNKNOWN)]"

definition MemoryDomain_to_string :: "MemoryDomain \<Rightarrow> string" where
  "MemoryDomain_to_string v = enum_to_string MemoryDomain_X v"

definition MemoryDomain_from_string :: "string \<Rightarrow> MemoryDomain option" where
  "MemoryDomain_from_string s = enum_from_string MemoryDomain_X s"

definition MemoryDomain_to_int :: "MemoryDomain \<Rightarrow> int" where
  "MemoryDomain_to_int e = enum_to_int MemoryDomain_values MemoryDomain_unraw e"

definition MemoryDomain_of_int :: "int \<Rightarrow> MemoryDomain" where
  "MemoryDomain_of_int v = enum_of_int MemoryDomain_values MemoryDomain_raw v"

interpretation md: enum_table MemoryDomain_X MemoryDomain_values MemoryDomain_raw MemoryDomain_unraw
  by unfold_locales (auto simp: MemoryDomain_X_def MemoryDomain_values_def)

section \<open>Provenance\<close>

datatype Provenance =
    CUDA_RUNTIME | CUDA_DRIVER | NVML | OPERATING_SYSTEM | RDMA_PROVIDER | VERBS | DMA_BUF |
    STORAGE_BACKEND | NVIDIA_DRIVER | BENCHMARK | PERSISTED | DERIVED | SYNTHETIC_FIXTURE |
    Provenance_raw int

definition Provenance_values :: "Provenance list" where
  "Provenance_values = [
     Provenance.CUDA_RUNTIME, Provenance.CUDA_DRIVER, Provenance.NVML,
     Provenance.OPERATING_SYSTEM, Provenance.RDMA_PROVIDER, Provenance.VERBS,
     Provenance.DMA_BUF, Provenance.STORAGE_BACKEND, Provenance.NVIDIA_DRIVER,
     Provenance.BENCHMARK, Provenance.PERSISTED, Provenance.DERIVED,
     Provenance.SYNTHETIC_FIXTURE]"

fun Provenance_unraw :: "Provenance \<Rightarrow> int option" where
  "Provenance_unraw (Provenance_raw v) = Some v"
| "Provenance_unraw _ = None"

definition Provenance_X :: "(string \<times> Provenance) list" where
  "Provenance_X = [
     (''CUDA_RUNTIME'', Provenance.CUDA_RUNTIME), (''CUDA_DRIVER'', Provenance.CUDA_DRIVER),
     (''NVML'', Provenance.NVML), (''OPERATING_SYSTEM'', Provenance.OPERATING_SYSTEM),
     (''RDMA_PROVIDER'', Provenance.RDMA_PROVIDER), (''VERBS'', Provenance.VERBS),
     (''DMA_BUF'', Provenance.DMA_BUF), (''STORAGE_BACKEND'', Provenance.STORAGE_BACKEND),
     (''NVIDIA_DRIVER'', Provenance.NVIDIA_DRIVER), (''BENCHMARK'', Provenance.BENCHMARK),
     (''PERSISTED'', Provenance.PERSISTED), (''DERIVED'', Provenance.DERIVED),
     (''SYNTHETIC_FIXTURE'', Provenance.SYNTHETIC_FIXTURE)]"

definition Provenance_to_string :: "Provenance \<Rightarrow> string" where
  "Provenance_to_string v = enum_to_string Provenance_X v"

definition Provenance_from_string :: "string \<Rightarrow> Provenance option" where
  "Provenance_from_string s = enum_from_string Provenance_X s"

definition Provenance_to_int :: "Provenance \<Rightarrow> int" where
  "Provenance_to_int e = enum_to_int Provenance_values Provenance_unraw e"

definition Provenance_of_int :: "int \<Rightarrow> Provenance" where
  "Provenance_of_int v = enum_of_int Provenance_values Provenance_raw v"

interpretation pv: enum_table Provenance_X Provenance_values Provenance_raw Provenance_unraw
  by unfold_locales (auto simp: Provenance_X_def Provenance_values_def)

section \<open>Support\<close>

datatype Support =
    REAL | SYNTHETIC | UNSUPPORTED | UNKNOWN | Support_raw int

definition Support_values :: "Support list" where
  "Support_values = [
     Support.REAL, Support.SYNTHETIC, Support.UNSUPPORTED, Support.UNKNOWN]"

fun Support_unraw :: "Support \<Rightarrow> int option" where
  "Support_unraw (Support_raw v) = Some v"
| "Support_unraw _ = None"

definition Support_X :: "(string \<times> Support) list" where
  "Support_X = [
     (''REAL'', Support.REAL), (''SYNTHETIC'', Support.SYNTHETIC),
     (''UNSUPPORTED'', Support.UNSUPPORTED), (''UNKNOWN'', Support.UNKNOWN)]"

definition Support_to_string :: "Support \<Rightarrow> string" where
  "Support_to_string v = enum_to_string Support_X v"

definition Support_from_string :: "string \<Rightarrow> Support option" where
  "Support_from_string s = enum_from_string Support_X s"

definition Support_to_int :: "Support \<Rightarrow> int" where
  "Support_to_int e = enum_to_int Support_values Support_unraw e"

definition Support_of_int :: "int \<Rightarrow> Support" where
  "Support_of_int v = enum_of_int Support_values Support_raw v"

interpretation sp: enum_table Support_X Support_values Support_raw Support_unraw
  by unfold_locales (auto simp: Support_X_def Support_values_def)

section \<open>RegistrationState\<close>

datatype RegistrationState =
    UNREGISTERED | REGISTERING | REGISTERED | REVALIDATION_REQUIRED | DEREGISTERING | RETIRED |
    FAILED | UNSUPPORTED | RegistrationState_raw int

definition RegistrationState_values :: "RegistrationState list" where
  "RegistrationState_values = [
     RegistrationState.UNREGISTERED, RegistrationState.REGISTERING,
     RegistrationState.REGISTERED, RegistrationState.REVALIDATION_REQUIRED,
     RegistrationState.DEREGISTERING, RegistrationState.RETIRED, RegistrationState.FAILED,
     RegistrationState.UNSUPPORTED]"

fun RegistrationState_unraw :: "RegistrationState \<Rightarrow> int option" where
  "RegistrationState_unraw (RegistrationState_raw v) = Some v"
| "RegistrationState_unraw _ = None"

definition RegistrationState_X :: "(string \<times> RegistrationState) list" where
  "RegistrationState_X = [
     (''UNREGISTERED'', RegistrationState.UNREGISTERED),
     (''REGISTERING'', RegistrationState.REGISTERING),
     (''REGISTERED'', RegistrationState.REGISTERED),
     (''REVALIDATION_REQUIRED'', RegistrationState.REVALIDATION_REQUIRED),
     (''DEREGISTERING'', RegistrationState.DEREGISTERING),
     (''RETIRED'', RegistrationState.RETIRED), (''FAILED'', RegistrationState.FAILED),
     (''UNSUPPORTED'', RegistrationState.UNSUPPORTED)]"

definition RegistrationState_to_string :: "RegistrationState \<Rightarrow> string" where
  "RegistrationState_to_string v = enum_to_string RegistrationState_X v"

definition RegistrationState_from_string :: "string \<Rightarrow> RegistrationState option" where
  "RegistrationState_from_string s = enum_from_string RegistrationState_X s"

definition RegistrationState_to_int :: "RegistrationState \<Rightarrow> int" where
  "RegistrationState_to_int e = enum_to_int RegistrationState_values RegistrationState_unraw e"

definition RegistrationState_of_int :: "int \<Rightarrow> RegistrationState" where
  "RegistrationState_of_int v = enum_of_int RegistrationState_values RegistrationState_raw v"

interpretation rs: enum_table RegistrationState_X RegistrationState_values RegistrationState_raw RegistrationState_unraw
  by unfold_locales (auto simp: RegistrationState_X_def RegistrationState_values_def)

section \<open>BufferLifecycle\<close>

datatype BufferLifecycle =
    ACTIVE | RETIRED | BufferLifecycle_raw int

definition BufferLifecycle_values :: "BufferLifecycle list" where
  "BufferLifecycle_values = [
     BufferLifecycle.ACTIVE, BufferLifecycle.RETIRED]"

fun BufferLifecycle_unraw :: "BufferLifecycle \<Rightarrow> int option" where
  "BufferLifecycle_unraw (BufferLifecycle_raw v) = Some v"
| "BufferLifecycle_unraw _ = None"

definition BufferLifecycle_X :: "(string \<times> BufferLifecycle) list" where
  "BufferLifecycle_X = [
     (''ACTIVE'', BufferLifecycle.ACTIVE), (''RETIRED'', BufferLifecycle.RETIRED)]"

definition BufferLifecycle_to_string :: "BufferLifecycle \<Rightarrow> string" where
  "BufferLifecycle_to_string v = enum_to_string BufferLifecycle_X v"

definition BufferLifecycle_from_string :: "string \<Rightarrow> BufferLifecycle option" where
  "BufferLifecycle_from_string s = enum_from_string BufferLifecycle_X s"

definition BufferLifecycle_to_int :: "BufferLifecycle \<Rightarrow> int" where
  "BufferLifecycle_to_int e = enum_to_int BufferLifecycle_values BufferLifecycle_unraw e"

definition BufferLifecycle_of_int :: "int \<Rightarrow> BufferLifecycle" where
  "BufferLifecycle_of_int v = enum_of_int BufferLifecycle_values BufferLifecycle_raw v"

interpretation bl: enum_table BufferLifecycle_X BufferLifecycle_values BufferLifecycle_raw BufferLifecycle_unraw
  by unfold_locales (auto simp: BufferLifecycle_X_def BufferLifecycle_values_def)

section \<open>PathEligibility\<close>

datatype PathEligibility =
    DIRECT_ALLOWED | DIRECT_ALLOWED_DEGRADED | DIRECT_UNSUPPORTED | REGISTRATION_REQUIRED |
    REGISTRATION_STALE | ENDPOINT_STALE | DEVICE_STALE | TOPOLOGY_INCOMPATIBLE |
    PROVIDER_UNAVAILABLE | FALLBACK_REQUIRED | NO_VALID_PATH | REVALIDATION_REQUIRED |
    INSUFFICIENT_EVIDENCE | POLICY_REJECTED | INVALID_BUFFER | UNSUPPORTED |
    PathEligibility_raw int

definition PathEligibility_values :: "PathEligibility list" where
  "PathEligibility_values = [
     PathEligibility.DIRECT_ALLOWED, PathEligibility.DIRECT_ALLOWED_DEGRADED,
     PathEligibility.DIRECT_UNSUPPORTED, PathEligibility.REGISTRATION_REQUIRED,
     PathEligibility.REGISTRATION_STALE, PathEligibility.ENDPOINT_STALE,
     PathEligibility.DEVICE_STALE, PathEligibility.TOPOLOGY_INCOMPATIBLE,
     PathEligibility.PROVIDER_UNAVAILABLE, PathEligibility.FALLBACK_REQUIRED,
     PathEligibility.NO_VALID_PATH, PathEligibility.REVALIDATION_REQUIRED,
     PathEligibility.INSUFFICIENT_EVIDENCE, PathEligibility.POLICY_REJECTED,
     PathEligibility.INVALID_BUFFER, PathEligibility.UNSUPPORTED]"

fun PathEligibility_unraw :: "PathEligibility \<Rightarrow> int option" where
  "PathEligibility_unraw (PathEligibility_raw v) = Some v"
| "PathEligibility_unraw _ = None"

definition PathEligibility_X :: "(string \<times> PathEligibility) list" where
  "PathEligibility_X = [
     (''DIRECT_ALLOWED'', PathEligibility.DIRECT_ALLOWED),
     (''DIRECT_ALLOWED_DEGRADED'', PathEligibility.DIRECT_ALLOWED_DEGRADED),
     (''DIRECT_UNSUPPORTED'', PathEligibility.DIRECT_UNSUPPORTED),
     (''REGISTRATION_REQUIRED'', PathEligibility.REGISTRATION_REQUIRED),
     (''REGISTRATION_STALE'', PathEligibility.REGISTRATION_STALE),
     (''ENDPOINT_STALE'', PathEligibility.ENDPOINT_STALE),
     (''DEVICE_STALE'', PathEligibility.DEVICE_STALE),
     (''TOPOLOGY_INCOMPATIBLE'', PathEligibility.TOPOLOGY_INCOMPATIBLE),
     (''PROVIDER_UNAVAILABLE'', PathEligibility.PROVIDER_UNAVAILABLE),
     (''FALLBACK_REQUIRED'', PathEligibility.FALLBACK_REQUIRED),
     (''NO_VALID_PATH'', PathEligibility.NO_VALID_PATH),
     (''REVALIDATION_REQUIRED'', PathEligibility.REVALIDATION_REQUIRED),
     (''INSUFFICIENT_EVIDENCE'', PathEligibility.INSUFFICIENT_EVIDENCE),
     (''POLICY_REJECTED'', PathEligibility.POLICY_REJECTED),
     (''INVALID_BUFFER'', PathEligibility.INVALID_BUFFER),
     (''UNSUPPORTED'', PathEligibility.UNSUPPORTED)]"

definition PathEligibility_to_string :: "PathEligibility \<Rightarrow> string" where
  "PathEligibility_to_string v = enum_to_string PathEligibility_X v"

definition PathEligibility_from_string :: "string \<Rightarrow> PathEligibility option" where
  "PathEligibility_from_string s = enum_from_string PathEligibility_X s"

definition PathEligibility_to_int :: "PathEligibility \<Rightarrow> int" where
  "PathEligibility_to_int e = enum_to_int PathEligibility_values PathEligibility_unraw e"

definition PathEligibility_of_int :: "int \<Rightarrow> PathEligibility" where
  "PathEligibility_of_int v = enum_of_int PathEligibility_values PathEligibility_raw v"

interpretation pe: enum_table PathEligibility_X PathEligibility_values PathEligibility_raw PathEligibility_unraw
  by unfold_locales (auto simp: PathEligibility_X_def PathEligibility_values_def)

section \<open>PathPolicy\<close>

datatype PathPolicy =
    DIRECT_ONLY | PREFER_DIRECT | ALLOW_STAGING | BEST_AVAILABLE | PathPolicy_raw int

definition PathPolicy_values :: "PathPolicy list" where
  "PathPolicy_values = [
     PathPolicy.DIRECT_ONLY, PathPolicy.PREFER_DIRECT, PathPolicy.ALLOW_STAGING,
     PathPolicy.BEST_AVAILABLE]"

fun PathPolicy_unraw :: "PathPolicy \<Rightarrow> int option" where
  "PathPolicy_unraw (PathPolicy_raw v) = Some v"
| "PathPolicy_unraw _ = None"

definition PathPolicy_X :: "(string \<times> PathPolicy) list" where
  "PathPolicy_X = [
     (''DIRECT_ONLY'', PathPolicy.DIRECT_ONLY), (''PREFER_DIRECT'', PathPolicy.PREFER_DIRECT),
     (''ALLOW_STAGING'', PathPolicy.ALLOW_STAGING),
     (''BEST_AVAILABLE'', PathPolicy.BEST_AVAILABLE)]"

definition PathPolicy_to_string :: "PathPolicy \<Rightarrow> string" where
  "PathPolicy_to_string v = enum_to_string PathPolicy_X v"

definition PathPolicy_from_string :: "string \<Rightarrow> PathPolicy option" where
  "PathPolicy_from_string s = enum_from_string PathPolicy_X s"

definition PathPolicy_to_int :: "PathPolicy \<Rightarrow> int" where
  "PathPolicy_to_int e = enum_to_int PathPolicy_values PathPolicy_unraw e"

definition PathPolicy_of_int :: "int \<Rightarrow> PathPolicy" where
  "PathPolicy_of_int v = enum_of_int PathPolicy_values PathPolicy_raw v"

interpretation pp: enum_table PathPolicy_X PathPolicy_values PathPolicy_raw PathPolicy_unraw
  by unfold_locales (auto simp: PathPolicy_X_def PathPolicy_values_def)

section \<open>PathClass\<close>

datatype PathClass =
    GPU_TO_GPU_DIRECT | GPU_TO_NIC_DIRECT | NIC_TO_GPU_DIRECT | GPU_TO_STORAGE_DIRECT |
    STORAGE_TO_GPU_DIRECT | GPU_TO_HOST_PINNED | HOST_PINNED_TO_GPU |
    GPU_TO_HOST_STAGED_TO_NIC | NIC_TO_HOST_STAGED_TO_GPU | GPU_TO_HOST_STAGED_TO_STORAGE |
    STORAGE_TO_HOST_STAGED_TO_GPU | PathClass_raw int

definition PathClass_values :: "PathClass list" where
  "PathClass_values = [
     PathClass.GPU_TO_GPU_DIRECT, PathClass.GPU_TO_NIC_DIRECT, PathClass.NIC_TO_GPU_DIRECT,
     PathClass.GPU_TO_STORAGE_DIRECT, PathClass.STORAGE_TO_GPU_DIRECT,
     PathClass.GPU_TO_HOST_PINNED, PathClass.HOST_PINNED_TO_GPU,
     PathClass.GPU_TO_HOST_STAGED_TO_NIC, PathClass.NIC_TO_HOST_STAGED_TO_GPU,
     PathClass.GPU_TO_HOST_STAGED_TO_STORAGE, PathClass.STORAGE_TO_HOST_STAGED_TO_GPU]"

fun PathClass_unraw :: "PathClass \<Rightarrow> int option" where
  "PathClass_unraw (PathClass_raw v) = Some v"
| "PathClass_unraw _ = None"

definition PathClass_X :: "(string \<times> PathClass) list" where
  "PathClass_X = [
     (''GPU_TO_GPU_DIRECT'', PathClass.GPU_TO_GPU_DIRECT),
     (''GPU_TO_NIC_DIRECT'', PathClass.GPU_TO_NIC_DIRECT),
     (''NIC_TO_GPU_DIRECT'', PathClass.NIC_TO_GPU_DIRECT),
     (''GPU_TO_STORAGE_DIRECT'', PathClass.GPU_TO_STORAGE_DIRECT),
     (''STORAGE_TO_GPU_DIRECT'', PathClass.STORAGE_TO_GPU_DIRECT),
     (''GPU_TO_HOST_PINNED'', PathClass.GPU_TO_HOST_PINNED),
     (''HOST_PINNED_TO_GPU'', PathClass.HOST_PINNED_TO_GPU),
     (''GPU_TO_HOST_STAGED_TO_NIC'', PathClass.GPU_TO_HOST_STAGED_TO_NIC),
     (''NIC_TO_HOST_STAGED_TO_GPU'', PathClass.NIC_TO_HOST_STAGED_TO_GPU),
     (''GPU_TO_HOST_STAGED_TO_STORAGE'', PathClass.GPU_TO_HOST_STAGED_TO_STORAGE),
     (''STORAGE_TO_HOST_STAGED_TO_GPU'', PathClass.STORAGE_TO_HOST_STAGED_TO_GPU)]"

definition PathClass_to_string :: "PathClass \<Rightarrow> string" where
  "PathClass_to_string v = enum_to_string PathClass_X v"

definition PathClass_from_string :: "string \<Rightarrow> PathClass option" where
  "PathClass_from_string s = enum_from_string PathClass_X s"

definition PathClass_to_int :: "PathClass \<Rightarrow> int" where
  "PathClass_to_int e = enum_to_int PathClass_values PathClass_unraw e"

definition PathClass_of_int :: "int \<Rightarrow> PathClass" where
  "PathClass_of_int v = enum_of_int PathClass_values PathClass_raw v"

interpretation pc: enum_table PathClass_X PathClass_values PathClass_raw PathClass_unraw
  by unfold_locales (auto simp: PathClass_X_def PathClass_values_def)

section \<open>EndpointClass\<close>

datatype EndpointClass =
    NIC | STORAGE | PEER_DEVICE | HOST | UNKNOWN | EndpointClass_raw int

definition EndpointClass_values :: "EndpointClass list" where
  "EndpointClass_values = [
     EndpointClass.NIC, EndpointClass.STORAGE, EndpointClass.PEER_DEVICE, EndpointClass.HOST,
     EndpointClass.UNKNOWN]"

fun EndpointClass_unraw :: "EndpointClass \<Rightarrow> int option" where
  "EndpointClass_unraw (EndpointClass_raw v) = Some v"
| "EndpointClass_unraw _ = None"

definition EndpointClass_X :: "(string \<times> EndpointClass) list" where
  "EndpointClass_X = [
     (''NIC'', EndpointClass.NIC), (''STORAGE'', EndpointClass.STORAGE),
     (''PEER_DEVICE'', EndpointClass.PEER_DEVICE), (''HOST'', EndpointClass.HOST),
     (''UNKNOWN'', EndpointClass.UNKNOWN)]"

definition EndpointClass_to_string :: "EndpointClass \<Rightarrow> string" where
  "EndpointClass_to_string v = enum_to_string EndpointClass_X v"

definition EndpointClass_from_string :: "string \<Rightarrow> EndpointClass option" where
  "EndpointClass_from_string s = enum_from_string EndpointClass_X s"

definition EndpointClass_to_int :: "EndpointClass \<Rightarrow> int" where
  "EndpointClass_to_int e = enum_to_int EndpointClass_values EndpointClass_unraw e"

definition EndpointClass_of_int :: "int \<Rightarrow> EndpointClass" where
  "EndpointClass_of_int v = enum_of_int EndpointClass_values EndpointClass_raw v"

interpretation ec: enum_table EndpointClass_X EndpointClass_values EndpointClass_raw EndpointClass_unraw
  by unfold_locales (auto simp: EndpointClass_X_def EndpointClass_values_def)

section \<open>TransferState\<close>

datatype TransferState =
    PLANNED | AUTHORIZED | SUBMITTED | IN_FLIGHT | COMPLETED | VERIFIED | FAILED | CANCELLED |
    STALE | REVALIDATION_REQUIRED | TransferState_raw int

definition TransferState_values :: "TransferState list" where
  "TransferState_values = [
     TransferState.PLANNED, TransferState.AUTHORIZED, TransferState.SUBMITTED,
     TransferState.IN_FLIGHT, TransferState.COMPLETED, TransferState.VERIFIED,
     TransferState.FAILED, TransferState.CANCELLED, TransferState.STALE,
     TransferState.REVALIDATION_REQUIRED]"

fun TransferState_unraw :: "TransferState \<Rightarrow> int option" where
  "TransferState_unraw (TransferState_raw v) = Some v"
| "TransferState_unraw _ = None"

definition TransferState_X :: "(string \<times> TransferState) list" where
  "TransferState_X = [
     (''PLANNED'', TransferState.PLANNED), (''AUTHORIZED'', TransferState.AUTHORIZED),
     (''SUBMITTED'', TransferState.SUBMITTED), (''IN_FLIGHT'', TransferState.IN_FLIGHT),
     (''COMPLETED'', TransferState.COMPLETED), (''VERIFIED'', TransferState.VERIFIED),
     (''FAILED'', TransferState.FAILED), (''CANCELLED'', TransferState.CANCELLED),
     (''STALE'', TransferState.STALE),
     (''REVALIDATION_REQUIRED'', TransferState.REVALIDATION_REQUIRED)]"

definition TransferState_to_string :: "TransferState \<Rightarrow> string" where
  "TransferState_to_string v = enum_to_string TransferState_X v"

definition TransferState_from_string :: "string \<Rightarrow> TransferState option" where
  "TransferState_from_string s = enum_from_string TransferState_X s"

definition TransferState_to_int :: "TransferState \<Rightarrow> int" where
  "TransferState_to_int e = enum_to_int TransferState_values TransferState_unraw e"

definition TransferState_of_int :: "int \<Rightarrow> TransferState" where
  "TransferState_of_int v = enum_of_int TransferState_values TransferState_raw v"

interpretation ts: enum_table TransferState_X TransferState_values TransferState_raw TransferState_unraw
  by unfold_locales (auto simp: TransferState_X_def TransferState_values_def)

section \<open>ErrorCode\<close>

datatype ErrorCode =
    OK | NOT_FOUND | UNSUPPORTED | INVALID_ARGUMENT | INVALID_BUFFER | INVALID_MEMORY_DOMAIN |
    REGISTRATION_REQUIRED | REGISTRATION_STALE | REGISTRATION_FAILED | STALE_BUFFER |
    STALE_ENDPOINT | STALE_GENERATION | STALE_BOOT | STALE_EPOCH | DIRECT_UNAVAILABLE |
    PROVIDER_UNAVAILABLE | TOPOLOGY_INCOMPATIBLE | FALLBACK_REQUIRED | FALLBACK_DISALLOWED |
    NO_VALID_PATH | REVALIDATION_REQUIRED | TRANSFER_FAILED | TRANSFER_STALE |
    INTEGRITY_FAILURE | PROTOCOL_ERROR | PERSISTENCE_ERROR | RESOURCE_LIMIT | CANCELLED |
    ErrorCode_raw int

definition ErrorCode_values :: "ErrorCode list" where
  "ErrorCode_values = [
     ErrorCode.OK, ErrorCode.NOT_FOUND, ErrorCode.UNSUPPORTED, ErrorCode.INVALID_ARGUMENT,
     ErrorCode.INVALID_BUFFER, ErrorCode.INVALID_MEMORY_DOMAIN,
     ErrorCode.REGISTRATION_REQUIRED, ErrorCode.REGISTRATION_STALE,
     ErrorCode.REGISTRATION_FAILED, ErrorCode.STALE_BUFFER, ErrorCode.STALE_ENDPOINT,
     ErrorCode.STALE_GENERATION, ErrorCode.STALE_BOOT, ErrorCode.STALE_EPOCH,
     ErrorCode.DIRECT_UNAVAILABLE, ErrorCode.PROVIDER_UNAVAILABLE,
     ErrorCode.TOPOLOGY_INCOMPATIBLE, ErrorCode.FALLBACK_REQUIRED,
     ErrorCode.FALLBACK_DISALLOWED, ErrorCode.NO_VALID_PATH, ErrorCode.REVALIDATION_REQUIRED,
     ErrorCode.TRANSFER_FAILED, ErrorCode.TRANSFER_STALE, ErrorCode.INTEGRITY_FAILURE,
     ErrorCode.PROTOCOL_ERROR, ErrorCode.PERSISTENCE_ERROR, ErrorCode.RESOURCE_LIMIT,
     ErrorCode.CANCELLED]"

fun ErrorCode_unraw :: "ErrorCode \<Rightarrow> int option" where
  "ErrorCode_unraw (ErrorCode_raw v) = Some v"
| "ErrorCode_unraw _ = None"

definition ErrorCode_X :: "(string \<times> ErrorCode) list" where
  "ErrorCode_X = [
     (''OK'', ErrorCode.OK), (''NOT_FOUND'', ErrorCode.NOT_FOUND),
     (''UNSUPPORTED'', ErrorCode.UNSUPPORTED),
     (''INVALID_ARGUMENT'', ErrorCode.INVALID_ARGUMENT),
     (''INVALID_BUFFER'', ErrorCode.INVALID_BUFFER),
     (''INVALID_MEMORY_DOMAIN'', ErrorCode.INVALID_MEMORY_DOMAIN),
     (''REGISTRATION_REQUIRED'', ErrorCode.REGISTRATION_REQUIRED),
     (''REGISTRATION_STALE'', ErrorCode.REGISTRATION_STALE),
     (''REGISTRATION_FAILED'', ErrorCode.REGISTRATION_FAILED),
     (''STALE_BUFFER'', ErrorCode.STALE_BUFFER),
     (''STALE_ENDPOINT'', ErrorCode.STALE_ENDPOINT),
     (''STALE_GENERATION'', ErrorCode.STALE_GENERATION),
     (''STALE_BOOT'', ErrorCode.STALE_BOOT), (''STALE_EPOCH'', ErrorCode.STALE_EPOCH),
     (''DIRECT_UNAVAILABLE'', ErrorCode.DIRECT_UNAVAILABLE),
     (''PROVIDER_UNAVAILABLE'', ErrorCode.PROVIDER_UNAVAILABLE),
     (''TOPOLOGY_INCOMPATIBLE'', ErrorCode.TOPOLOGY_INCOMPATIBLE),
     (''FALLBACK_REQUIRED'', ErrorCode.FALLBACK_REQUIRED),
     (''FALLBACK_DISALLOWED'', ErrorCode.FALLBACK_DISALLOWED),
     (''NO_VALID_PATH'', ErrorCode.NO_VALID_PATH),
     (''REVALIDATION_REQUIRED'', ErrorCode.REVALIDATION_REQUIRED),
     (''TRANSFER_FAILED'', ErrorCode.TRANSFER_FAILED),
     (''TRANSFER_STALE'', ErrorCode.TRANSFER_STALE),
     (''INTEGRITY_FAILURE'', ErrorCode.INTEGRITY_FAILURE),
     (''PROTOCOL_ERROR'', ErrorCode.PROTOCOL_ERROR),
     (''PERSISTENCE_ERROR'', ErrorCode.PERSISTENCE_ERROR),
     (''RESOURCE_LIMIT'', ErrorCode.RESOURCE_LIMIT), (''CANCELLED'', ErrorCode.CANCELLED)]"

definition ErrorCode_to_string :: "ErrorCode \<Rightarrow> string" where
  "ErrorCode_to_string v = enum_to_string ErrorCode_X v"

definition ErrorCode_from_string :: "string \<Rightarrow> ErrorCode option" where
  "ErrorCode_from_string s = enum_from_string ErrorCode_X s"

definition ErrorCode_to_int :: "ErrorCode \<Rightarrow> int" where
  "ErrorCode_to_int e = enum_to_int ErrorCode_values ErrorCode_unraw e"

definition ErrorCode_of_int :: "int \<Rightarrow> ErrorCode" where
  "ErrorCode_of_int v = enum_of_int ErrorCode_values ErrorCode_raw v"

interpretation ecode: enum_table ErrorCode_X ErrorCode_values ErrorCode_raw ErrorCode_unraw
  by unfold_locales (auto simp: ErrorCode_X_def ErrorCode_values_def)

section \<open>Direction\<close>

datatype Direction =
    GPU_TO_PEER | PEER_TO_GPU | Direction_raw int

definition Direction_values :: "Direction list" where
  "Direction_values = [
     Direction.GPU_TO_PEER, Direction.PEER_TO_GPU]"

fun Direction_unraw :: "Direction \<Rightarrow> int option" where
  "Direction_unraw (Direction_raw v) = Some v"
| "Direction_unraw _ = None"

definition Direction_X :: "(string \<times> Direction) list" where
  "Direction_X = [
     (''GPU_TO_PEER'', Direction.GPU_TO_PEER), (''PEER_TO_GPU'', Direction.PEER_TO_GPU)]"

definition Direction_to_string :: "Direction \<Rightarrow> string" where
  "Direction_to_string v = enum_to_string Direction_X v"

definition Direction_from_string :: "string \<Rightarrow> Direction option" where
  "Direction_from_string s = enum_from_string Direction_X s"

definition Direction_to_int :: "Direction \<Rightarrow> int" where
  "Direction_to_int e = enum_to_int Direction_values Direction_unraw e"

definition Direction_of_int :: "int \<Rightarrow> Direction" where
  "Direction_of_int v = enum_of_int Direction_values Direction_raw v"

interpretation dirn: enum_table Direction_X Direction_values Direction_raw Direction_unraw
  by unfold_locales (auto simp: Direction_X_def Direction_values_def)

section \<open>Locality\<close>

datatype Locality =
    LOCAL | REMOTE | UNKNOWN | Locality_raw int

definition Locality_values :: "Locality list" where
  "Locality_values = [
     Locality.LOCAL, Locality.REMOTE, Locality.UNKNOWN]"

fun Locality_unraw :: "Locality \<Rightarrow> int option" where
  "Locality_unraw (Locality_raw v) = Some v"
| "Locality_unraw _ = None"

definition Locality_X :: "(string \<times> Locality) list" where
  "Locality_X = [
     (''LOCAL'', Locality.LOCAL), (''REMOTE'', Locality.REMOTE), (''UNKNOWN'', Locality.UNKNOWN)]"

definition Locality_to_string :: "Locality \<Rightarrow> string" where
  "Locality_to_string v = enum_to_string Locality_X v"

definition Locality_from_string :: "string \<Rightarrow> Locality option" where
  "Locality_from_string s = enum_from_string Locality_X s"

definition Locality_to_int :: "Locality \<Rightarrow> int" where
  "Locality_to_int e = enum_to_int Locality_values Locality_unraw e"

definition Locality_of_int :: "int \<Rightarrow> Locality" where
  "Locality_of_int v = enum_of_int Locality_values Locality_raw v"

interpretation loc: enum_table Locality_X Locality_values Locality_raw Locality_unraw
  by unfold_locales (auto simp: Locality_X_def Locality_values_def)

section \<open>Names\<close>

text \<open>
  C40: The names of the enumerators are read back as the value they were printed for, for each of the
  thirteen enumerations; and a value without a name, which a cast from the wire or from a state file
  can produce, is never read back as itself. Printing, parsing and comparing, as the state reader does,
  therefore accepts exactly the declared values.
\<close>

theorem enum_names_roundtrip:
  "(MemoryDomain_from_string (MemoryDomain_to_string m) = Some m \<longleftrightarrow> m \<in> set MemoryDomain_values) \<and>
   (Provenance_from_string (Provenance_to_string p) = Some p \<longleftrightarrow> p \<in> set Provenance_values) \<and>
   (Support_from_string (Support_to_string s) = Some s \<longleftrightarrow> s \<in> set Support_values) \<and>
   (RegistrationState_from_string (RegistrationState_to_string r) = Some r \<longleftrightarrow> r \<in> set RegistrationState_values) \<and>
   (BufferLifecycle_from_string (BufferLifecycle_to_string l) = Some l \<longleftrightarrow> l \<in> set BufferLifecycle_values) \<and>
   (PathEligibility_from_string (PathEligibility_to_string g) = Some g \<longleftrightarrow> g \<in> set PathEligibility_values) \<and>
   (PathPolicy_from_string (PathPolicy_to_string y) = Some y \<longleftrightarrow> y \<in> set PathPolicy_values) \<and>
   (PathClass_from_string (PathClass_to_string k) = Some k \<longleftrightarrow> k \<in> set PathClass_values) \<and>
   (EndpointClass_from_string (EndpointClass_to_string c) = Some c \<longleftrightarrow> c \<in> set EndpointClass_values) \<and>
   (TransferState_from_string (TransferState_to_string t) = Some t \<longleftrightarrow> t \<in> set TransferState_values) \<and>
   (ErrorCode_from_string (ErrorCode_to_string x) = Some x \<longleftrightarrow> x \<in> set ErrorCode_values) \<and>
   (Direction_from_string (Direction_to_string d) = Some d \<longleftrightarrow> d \<in> set Direction_values) \<and>
   (Locality_from_string (Locality_to_string o1) = Some o1 \<longleftrightarrow> o1 \<in> set Locality_values)"
    unfolding MemoryDomain_from_string_def MemoryDomain_to_string_def Provenance_from_string_def
    Provenance_to_string_def Support_from_string_def Support_to_string_def RegistrationState_from_string_def
    RegistrationState_to_string_def BufferLifecycle_from_string_def BufferLifecycle_to_string_def
    PathEligibility_from_string_def PathEligibility_to_string_def PathPolicy_from_string_def
    PathPolicy_to_string_def PathClass_from_string_def PathClass_to_string_def EndpointClass_from_string_def
    EndpointClass_to_string_def TransferState_from_string_def TransferState_to_string_def
    ErrorCode_from_string_def ErrorCode_to_string_def Direction_from_string_def Direction_to_string_def
    Locality_from_string_def Locality_to_string_def
    by (intro conjI md.accepted_iff pv.accepted_iff sp.accepted_iff rs.accepted_iff bl.accepted_iff
      pe.accepted_iff pp.accepted_iff pc.accepted_iff ec.accepted_iff ts.accepted_iff ecode.accepted_iff
      dirn.accepted_iff loc.accepted_iff)

end
