(* ===== verification/Records.thy ===== *)
theory Records
  imports Enums
begin

text \<open>
  The value types of the runtime: typed identities and generations (\<open>ids.hpp\<close>), execution authority
  (\<open>authority.hpp\<close>), results and errors (\<open>result.hpp\<close>), the governed records (\<open>records.hpp\<close>,
  \<open>observation.hpp\<close>), path requests, evidence and decisions (\<open>path.hpp\<close>), transfer plans, attempts
  and receipts (\<open>transfer.hpp\<close>) and the data a backend exchanges (\<open>backend.hpp\<close>). Each struct is a
  record whose fields carry a short prefix of the struct's name, since HOL selectors are global;
  \<open>default_S\<close> is the struct \<open>S\<close> with its default member initializers.
\<close>

section \<open>Identities and generations\<close>

text \<open>The phantom parameter keeps identities of different kinds apart, as the template tag does; the
  tag types are the empty structs of the header, of which the program makes no value.\<close>

datatype (dead 'tag) Id = Id (id_value: u64)

definition id_nil :: "'tag Id \<Rightarrow> bool" where
  "id_nil i \<longleftrightarrow> id_value i = 0"

definition id_valid :: "'tag Id \<Rightarrow> bool" where
  "id_valid i \<longleftrightarrow> id_value i \<noteq> 0"

definition id_str :: "'tag Id \<Rightarrow> string" where
  "id_str i = to_string_u64 (id_value i)"

datatype (dead 'tag) Generation = Generation (gen_value: u64)

definition gen_next :: "'tag Generation \<Rightarrow> 'tag Generation" where
  "gen_next g = Generation (gen_value g + 1)"

definition gen_previous :: "'tag Generation \<Rightarrow> 'tag Generation" where
  "gen_previous g = Generation (if gen_value g = 0 then 0 else gen_value g - 1)"

definition gen_is_zero :: "'tag Generation \<Rightarrow> bool" where
  "gen_is_zero g \<longleftrightarrow> gen_value g = 0"

instantiation Id :: (type) linorder
begin

definition less_eq_Id :: "'a Id \<Rightarrow> 'a Id \<Rightarrow> bool" where
  "less_eq_Id a b \<longleftrightarrow> id_value a \<le> id_value b"

definition less_Id :: "'a Id \<Rightarrow> 'a Id \<Rightarrow> bool" where
  "less_Id a b \<longleftrightarrow> id_value a < id_value b"

instance
  by standard (auto simp: less_eq_Id_def less_Id_def Id.expand)

end

instantiation Generation :: (type) linorder
begin

definition less_eq_Generation :: "'a Generation \<Rightarrow> 'a Generation \<Rightarrow> bool" where
  "less_eq_Generation a b \<longleftrightarrow> gen_value a \<le> gen_value b"

definition less_Generation :: "'a Generation \<Rightarrow> 'a Generation \<Rightarrow> bool" where
  "less_Generation a b \<longleftrightarrow> gen_value a < gen_value b"

instance
  by standard (auto simp: less_eq_Generation_def less_Generation_def Generation.expand)

end

lemma id_value_Id [simp]: "Id (id_value i) = i"
  by (cases i) simp

lemma gen_value_Generation [simp]: "Generation (gen_value g) = g"
  by (cases g) simp

lemma id_value_eq_iff: "id_value a = id_value b \<longleftrightarrow> a = b"
  using Id.expand by blast

lemma gen_value_eq_iff: "gen_value a = gen_value b \<longleftrightarrow> a = b"
  using Generation.expand by blast

lemma id_valid_Id [simp]: "id_valid (Id v) \<longleftrightarrow> v \<noteq> 0"
  by (simp add: id_valid_def)

text \<open>A successor generation is strictly later unless the 64-bit counter is exhausted.\<close>

lemma gen_next_less:
  assumes "Suc (unat (gen_value g)) < 2 ^ 64"
  shows "g < gen_next g"
  using assms by (simp add: less_Generation_def gen_next_def word_less_nat_alt unat_plus_one)

typedecl BufferIdTag
typedecl RegistrationIdTag
typedecl DeviceIdTag
typedecl EndpointIdTag
typedecl NicIdTag
typedecl StorageEndpointIdTag
typedecl PathIdTag
typedecl TransferPlanIdTag
typedecl TransferAttemptIdTag
typedecl VerificationIdTag
typedecl WorkerIdTag
typedecl CapabilityObservationIdTag
typedecl PolicyIdTag
typedecl ProviderIdTag
typedecl BufferGenerationTag
typedecl RegistrationGenerationTag
typedecl DeviceGenerationTag
typedecl EndpointGenerationTag
typedecl NicGenerationTag
typedecl StorageGenerationTag
typedecl TransferGenerationTag
typedecl PathGenerationTag
typedecl WorkerBootIdTag
typedecl CoordinatorEpochTag

type_synonym BufferId = "BufferIdTag Id"
type_synonym RegistrationId = "RegistrationIdTag Id"
type_synonym DeviceId = "DeviceIdTag Id"
type_synonym EndpointId = "EndpointIdTag Id"
type_synonym NicId = "NicIdTag Id"
type_synonym StorageEndpointId = "StorageEndpointIdTag Id"
type_synonym PathId = "PathIdTag Id"
type_synonym TransferPlanId = "TransferPlanIdTag Id"
type_synonym TransferAttemptId = "TransferAttemptIdTag Id"
type_synonym VerificationId = "VerificationIdTag Id"
type_synonym WorkerId = "WorkerIdTag Id"
type_synonym CapabilityObservationId = "CapabilityObservationIdTag Id"
type_synonym PolicyId = "PolicyIdTag Id"
type_synonym ProviderId = "ProviderIdTag Id"

type_synonym BufferGeneration = "BufferGenerationTag Generation"
type_synonym RegistrationGeneration = "RegistrationGenerationTag Generation"
type_synonym DeviceGeneration = "DeviceGenerationTag Generation"
type_synonym EndpointGeneration = "EndpointGenerationTag Generation"
type_synonym NicGeneration = "NicGenerationTag Generation"
type_synonym StorageGeneration = "StorageGenerationTag Generation"
type_synonym TransferGeneration = "TransferGenerationTag Generation"
type_synonym PathGeneration = "PathGenerationTag Generation"
type_synonym WorkerBootId = "WorkerBootIdTag Generation"
type_synonym CoordinatorEpoch = "CoordinatorEpochTag Generation"

section \<open>Results and errors\<close>

record Error =
  err_code :: ErrorCode
  err_message :: string
  err_detail :: string

type_synonym 'a Result = "Error + 'a"

definition make_error :: "ErrorCode \<Rightarrow> string \<Rightarrow> Error" where
  "make_error c m = \<lparr>err_code = c, err_message = m, err_detail = []\<rparr>"

definition err :: "ErrorCode \<Rightarrow> string \<Rightarrow> 'a Result" where
  "err c m = Inl (make_error c m)"

definition ok :: "'a \<Rightarrow> 'a Result" where
  "ok v = Inr v"

definition has_value :: "'a Result \<Rightarrow> bool" where
  "has_value r = (case r of Inl _ \<Rightarrow> False | Inr _ \<Rightarrow> True)"

lemma has_value_simps [simp]: "has_value (ok v)" "\<not> has_value (err c m)"
  by (simp_all add: has_value_def ok_def err_def)

lemma ok_not_err [simp]: "ok v \<noteq> err c m" "err c m \<noteq> ok v"
  by (simp_all add: ok_def err_def)

lemma ok_inject [simp]: "ok v = ok w \<longleftrightarrow> v = w"
  by (simp add: ok_def)

lemma err_inject [simp]: "err c m = err c' m' \<longleftrightarrow> c = c' \<and> m = m'"
  by (simp add: err_def make_error_def)

lemma Inr_eq_ok: "Inr v = ok v"
  by (simp add: ok_def)

text \<open>
  The accessors of \<open>Error\<close> and \<open>Result\<close>. \<open>value()\<close>, \<open>operator*\<close> and \<open>operator->\<close> throw
  \<open>std::bad_variant_access\<close> on an error, \<open>error()\<close> throws on a value; \<open>None\<close> is the exception.
\<close>

definition error_ok :: "Error \<Rightarrow> bool" where
  "error_ok e \<longleftrightarrow> err_code e = ErrorCode.OK"

definition error_bool :: "Error \<Rightarrow> bool" where
  "error_bool e \<longleftrightarrow> err_code e \<noteq> ErrorCode.OK"

definition result_value :: "'a Result \<Rightarrow> 'a option" where
  "result_value r = (if \<not> has_value r then None else Some (projr r))"

definition result_error :: "'a Result \<Rightarrow> Error option" where
  "result_error r = (if has_value r then None else Some (projl r))"

definition value_or :: "'a Result \<Rightarrow> 'a \<Rightarrow> 'a" where
  "value_or r dflt = (if has_value r then projr r else dflt)"

lemma result_cases_access:
  "result_value r = Some v \<longleftrightarrow> r = ok v" "result_error r = Some e \<longleftrightarrow> r = Inl e"
  "result_value r = None \<longleftrightarrow> result_error r \<noteq> None" "value_or (ok v) d = v" "value_or (err c m) d = d"
  by (cases r; auto simp: result_value_def result_error_def value_or_def has_value_def ok_def err_def)+

section \<open>Authority\<close>

record Authority =
  au_worker :: WorkerId
  au_boot :: WorkerBootId
  au_epoch :: CoordinatorEpoch

definition worker_owned :: "Authority \<Rightarrow> bool" where
  "worker_owned a \<longleftrightarrow> id_valid (au_worker a)"

definition authority_valid :: "Authority \<Rightarrow> bool" where
  "authority_valid a \<longleftrightarrow> gen_value (au_boot a) \<noteq> 0"

definition coordinator_authority :: Authority where
  "coordinator_authority = \<lparr>au_worker = Id 0, au_boot = Generation 0, au_epoch = Generation 0\<rparr>"

abbreviation default_Authority :: Authority where
  "default_Authority \<equiv> coordinator_authority"

section \<open>Governed records\<close>

text \<open>
  A backend handle is process-local evidence; the only concrete class of the repository is the
  synthetic backend's.
\<close>

datatype BackendHandle = SyntheticHandle u64

fun handle_opaque_id :: "BackendHandle \<Rightarrow> u64" where
  "handle_opaque_id (SyntheticHandle i) = i"

fun handle_type_name :: "BackendHandle \<Rightarrow> string" where
  "handle_type_name (SyntheticHandle i) = ''synthetic''"

fun handle_describe :: "BackendHandle \<Rightarrow> string" where
  "handle_describe (SyntheticHandle i) = ''synthetic handle #'' @ to_string_u64 i"

record BufferRecord =
  b_id :: BufferId
  b_generation :: BufferGeneration
  b_authority :: Authority
  b_domain :: MemoryDomain
  b_size :: u64
  b_alignment :: u64
  b_device :: DeviceId
  b_device_generation :: DeviceGeneration
  b_locality :: Locality
  b_registration_state :: RegistrationState
  b_registration_id :: RegistrationId
  b_registration_generation :: RegistrationGeneration
  b_lifecycle :: BufferLifecycle
  b_support :: Support
  b_provenance :: Provenance
  b_freshness :: u64
  b_name :: string
  b_handle :: "BackendHandle option"

definition default_BufferRecord :: BufferRecord where
  "default_BufferRecord = \<lparr>
     b_id = Id 0, b_generation = Generation 0, b_authority = default_Authority,
     b_domain = MemoryDomain.UNKNOWN, b_size = 0, b_alignment = 1, b_device = Id 0,
     b_device_generation = Generation 0, b_locality = Locality.UNKNOWN,
     b_registration_state = RegistrationState.UNREGISTERED, b_registration_id = Id 0,
     b_registration_generation = Generation 0, b_lifecycle = BufferLifecycle.ACTIVE,
     b_support = Support.UNKNOWN, b_provenance = Provenance.SYNTHETIC_FIXTURE, b_freshness = 0,
     b_name = [], b_handle = None\<rparr>"

record DeviceRecord =
  d_id :: DeviceId
  d_generation :: DeviceGeneration
  d_name :: string
  d_compute_capability :: string
  d_peer_memory_supported :: bool
  d_support :: Support
  d_provenance :: Provenance
  d_authority :: Authority
  d_freshness :: u64

definition default_DeviceRecord :: DeviceRecord where
  "default_DeviceRecord = \<lparr>
     d_id = Id 0, d_generation = Generation 0, d_name = [], d_compute_capability = [],
     d_peer_memory_supported = False, d_support = Support.UNKNOWN,
     d_provenance = Provenance.SYNTHETIC_FIXTURE, d_authority = default_Authority, d_freshness = 0\<rparr>"

record EndpointRecord =
  e_id :: EndpointId
  e_generation :: EndpointGeneration
  e_endpoint_class :: EndpointClass
  e_name :: string
  e_topology_hint :: string
  e_healthy :: bool
  e_provider :: ProviderId
  e_support :: Support
  e_provenance :: Provenance
  e_authority :: Authority
  e_freshness :: u64
  e_handle :: "BackendHandle option"

definition default_EndpointRecord :: EndpointRecord where
  "default_EndpointRecord = \<lparr>
     e_id = Id 0, e_generation = Generation 0, e_endpoint_class = EndpointClass.UNKNOWN,
     e_name = [], e_topology_hint = [], e_healthy = False, e_provider = Id 0,
     e_support = Support.UNKNOWN, e_provenance = Provenance.SYNTHETIC_FIXTURE,
     e_authority = default_Authority, e_freshness = 0, e_handle = None\<rparr>"

record NicRecord =
  n_id :: NicId
  n_generation :: NicGeneration
  n_name :: string
  n_locator :: string
  n_rdma_capable :: bool
  n_direct_path_capable :: bool
  n_provider :: ProviderId
  n_support :: Support
  n_provenance :: Provenance
  n_authority :: Authority
  n_freshness :: u64

definition default_NicRecord :: NicRecord where
  "default_NicRecord = \<lparr>
     n_id = Id 0, n_generation = Generation 0, n_name = [], n_locator = [],
     n_rdma_capable = False, n_direct_path_capable = False, n_provider = Id 0,
     n_support = Support.UNKNOWN, n_provenance = Provenance.SYNTHETIC_FIXTURE,
     n_authority = default_Authority, n_freshness = 0\<rparr>"

record StorageEndpointRecord =
  se_id :: StorageEndpointId
  se_generation :: StorageGeneration
  se_name :: string
  se_backend_name :: string
  se_path :: string
  se_direct_path_capable :: bool
  se_provider :: ProviderId
  se_support :: Support
  se_provenance :: Provenance
  se_authority :: Authority
  se_freshness :: u64

definition default_StorageEndpointRecord :: StorageEndpointRecord where
  "default_StorageEndpointRecord = \<lparr>
     se_id = Id 0, se_generation = Generation 0, se_name = [], se_backend_name = [],
     se_path = [], se_direct_path_capable = False, se_provider = Id 0,
     se_support = Support.UNKNOWN, se_provenance = Provenance.SYNTHETIC_FIXTURE,
     se_authority = default_Authority, se_freshness = 0\<rparr>"

record Registration =
  r_id :: RegistrationId
  r_generation :: RegistrationGeneration
  r_buffer :: BufferId
  r_buffer_generation :: BufferGeneration
  r_endpoint :: EndpointId
  r_endpoint_generation :: EndpointGeneration
  r_provider :: ProviderId
  r_authority :: Authority
  r_state :: RegistrationState
  r_support :: Support
  r_provenance :: Provenance
  r_duplicated :: bool
  r_freshness :: u64
  r_required_capabilities :: "string list"
  r_handle :: "BackendHandle option"

definition default_Registration :: Registration where
  "default_Registration = \<lparr>
     r_id = Id 0, r_generation = Generation 0, r_buffer = Id 0,
     r_buffer_generation = Generation 0, r_endpoint = Id 0, r_endpoint_generation = Generation 0,
     r_provider = Id 0, r_authority = default_Authority,
     r_state = RegistrationState.UNREGISTERED, r_support = Support.UNKNOWN,
     r_provenance = Provenance.SYNTHETIC_FIXTURE, r_duplicated = False, r_freshness = 0,
     r_required_capabilities = [], r_handle = None\<rparr>"

definition refers_to_live_worker :: "BufferRecord \<Rightarrow> bool" where
  "refers_to_live_worker b \<longleftrightarrow> \<not> worker_owned (b_authority b) \<or> authority_valid (b_authority b)"

record CapabilityObservation =
  c_id :: CapabilityObservationId
  c_provider :: string
  c_capability :: string
  c_value :: string
  c_support :: Support
  c_provenance :: Provenance
  c_authority :: Authority
  c_freshness :: u64

definition default_CapabilityObservation :: CapabilityObservation where
  "default_CapabilityObservation = \<lparr>
     c_id = Id 0, c_provider = [], c_capability = [], c_value = [], c_support = Support.UNKNOWN,
     c_provenance = Provenance.SYNTHETIC_FIXTURE, c_authority = default_Authority, c_freshness = 0\<rparr>"

definition capability_enabled :: "CapabilityObservation \<Rightarrow> bool" where
  "capability_enabled c \<longleftrightarrow> c_value c = ''true''"

section \<open>Paths\<close>

record ProviderInfo =
  p_id :: ProviderId
  p_name :: string
  p_available :: bool
  p_support :: Support
  p_provenance :: Provenance

definition default_ProviderInfo :: ProviderInfo where
  "default_ProviderInfo = \<lparr>
     p_id = Id 0, p_name = [], p_available = False, p_support = Support.UNKNOWN,
     p_provenance = Provenance.SYNTHETIC_FIXTURE\<rparr>"

record RequirementViolation =
  rv_requirement :: string
  rv_satisfied :: bool
  rv_detail :: string

definition default_RequirementViolation :: RequirementViolation where
  "default_RequirementViolation = \<lparr>
     rv_requirement = [], rv_satisfied = False, rv_detail = []\<rparr>"

record PathCandidate =
  cd_path_class :: PathClass
  cd_direct :: bool
  cd_support :: Support
  cd_provenance :: Provenance
  cd_stage_count :: u32
  cd_description :: string

definition default_PathCandidate :: PathCandidate where
  "default_PathCandidate = \<lparr>
     cd_path_class = PathClass.GPU_TO_HOST_PINNED, cd_direct = False,
     cd_support = Support.UNKNOWN, cd_provenance = Provenance.SYNTHETIC_FIXTURE,
     cd_stage_count = 1, cd_description = []\<rparr>"

record PathRequest =
  rq_source :: BufferId
  rq_destination :: EndpointId
  rq_direction :: Direction
  rq_policy :: PathPolicy
  rq_size :: u64

definition default_PathRequest :: PathRequest where
  "default_PathRequest = \<lparr>
     rq_source = Id 0, rq_destination = Id 0, rq_direction = Direction.GPU_TO_PEER,
     rq_policy = PathPolicy.PREFER_DIRECT, rq_size = 0\<rparr>"

record PathEvidence =
  ev_source :: BufferRecord
  ev_destination :: EndpointRecord
  ev_device :: DeviceRecord
  ev_registrations :: "Registration list"
  ev_capabilities :: "CapabilityObservation list"
  ev_devices :: "DeviceRecord list"
  ev_endpoints :: "EndpointRecord list"
  ev_providers :: "ProviderInfo list"
  ev_live_workers :: "(WorkerId \<times> WorkerBootId) list"
  ev_epoch :: CoordinatorEpoch

definition default_PathEvidence :: PathEvidence where
  "default_PathEvidence = \<lparr>
     ev_source = default_BufferRecord, ev_destination = default_EndpointRecord,
     ev_device = default_DeviceRecord, ev_registrations = [], ev_capabilities = [],
     ev_devices = [], ev_endpoints = [], ev_providers = [], ev_live_workers = [],
     ev_epoch = Generation 0\<rparr>"

record PathDecision =
  pd_eligibility :: PathEligibility
  pd_direct_eligibility :: PathEligibility
  pd_direct_class :: PathClass
  pd_support :: Support
  pd_provenance :: Provenance
  pd_degraded :: bool
  pd_fallback_available :: bool
  pd_fallback_disallowed :: bool
  pd_source_generation :: BufferGeneration
  pd_destination_generation :: EndpointGeneration
  pd_violations :: "RequirementViolation list"
  pd_direct_candidates :: "PathCandidate list"
  pd_fallback_candidates :: "PathCandidate list"
  pd_selected_fallback :: "PathCandidate option"
  pd_selected_path :: "PathId option"
  pd_summary :: string
  pd_direct_rejection :: string

definition default_PathDecision :: PathDecision where
  "default_PathDecision = \<lparr>
     pd_eligibility = PathEligibility.UNSUPPORTED,
     pd_direct_eligibility = PathEligibility.UNSUPPORTED,
     pd_direct_class = PathClass.GPU_TO_GPU_DIRECT, pd_support = Support.UNKNOWN,
     pd_provenance = Provenance.SYNTHETIC_FIXTURE, pd_degraded = False,
     pd_fallback_available = False, pd_fallback_disallowed = False,
     pd_source_generation = Generation 0, pd_destination_generation = Generation 0,
     pd_violations = [], pd_direct_candidates = [], pd_fallback_candidates = [],
     pd_selected_fallback = None, pd_selected_path = None, pd_summary = [],
     pd_direct_rejection = []\<rparr>"

section \<open>Transfers\<close>

record TransferStage =
  sg_path_class :: PathClass
  sg_support :: Support
  sg_provenance :: Provenance
  sg_src :: BufferId
  sg_dst :: BufferId
  sg_endpoint :: EndpointId
  sg_direct :: bool
  sg_description :: string

definition default_TransferStage :: TransferStage where
  "default_TransferStage = \<lparr>
     sg_path_class = PathClass.GPU_TO_HOST_PINNED, sg_support = Support.UNKNOWN,
     sg_provenance = Provenance.SYNTHETIC_FIXTURE, sg_src = Id 0, sg_dst = Id 0,
     sg_endpoint = Id 0, sg_direct = False, sg_description = []\<rparr>"

record TransferPlan =
  tp_id :: TransferPlanId
  tp_path_generation :: PathGeneration
  tp_generation :: TransferGeneration
  tp_source :: BufferId
  tp_source_generation :: BufferGeneration
  tp_destination :: EndpointId
  tp_destination_generation :: EndpointGeneration
  tp_registration_id :: RegistrationId
  tp_registration_generation :: RegistrationGeneration
  tp_registration_buffer_generation :: BufferGeneration
  tp_policy :: PathPolicy
  tp_expected_bytes :: u64
  tp_eligibility :: PathEligibility
  tp_support :: Support
  tp_provenance :: Provenance
  tp_copy_count :: u32
  tp_stages :: "TransferStage list"
  tp_fallback_reasons :: "RequirementViolation list"
  tp_explanation :: string
  tp_epoch :: CoordinatorEpoch
  tp_authority :: Authority
  tp_authoritative :: bool

definition default_TransferPlan :: TransferPlan where
  "default_TransferPlan = \<lparr>
     tp_id = Id 0, tp_path_generation = Generation 0, tp_generation = Generation 0,
     tp_source = Id 0, tp_source_generation = Generation 0, tp_destination = Id 0,
     tp_destination_generation = Generation 0, tp_registration_id = Id 0,
     tp_registration_generation = Generation 0, tp_registration_buffer_generation = Generation 0,
     tp_policy = PathPolicy.PREFER_DIRECT, tp_expected_bytes = 0,
     tp_eligibility = PathEligibility.UNSUPPORTED, tp_support = Support.UNKNOWN,
     tp_provenance = Provenance.SYNTHETIC_FIXTURE, tp_copy_count = 0, tp_stages = [],
     tp_fallback_reasons = [], tp_explanation = [], tp_epoch = Generation 0,
     tp_authority = default_Authority, tp_authoritative = True\<rparr>"

record TransferAttempt =
  ta_id :: TransferAttemptId
  ta_plan_id :: TransferPlanId
  ta_plan_generation :: TransferGeneration
  ta_state :: TransferState
  ta_bytes :: u64
  ta_epoch :: CoordinatorEpoch
  ta_authority :: Authority
  ta_completion_committed :: bool
  ta_submitted_bytes :: u64
  ta_backend_token :: string
  ta_integrity_checked :: bool
  ta_integrity_passed :: bool
  ta_method :: string
  ta_support :: Support
  ta_provenance :: Provenance
  ta_detail :: string

definition default_TransferAttempt :: TransferAttempt where
  "default_TransferAttempt = \<lparr>
     ta_id = Id 0, ta_plan_id = Id 0, ta_plan_generation = Generation 0,
     ta_state = TransferState.PLANNED, ta_bytes = 0, ta_epoch = Generation 0,
     ta_authority = default_Authority, ta_completion_committed = False, ta_submitted_bytes = 0,
     ta_backend_token = [], ta_integrity_checked = False, ta_integrity_passed = False,
     ta_method = [], ta_support = Support.UNKNOWN, ta_provenance = Provenance.SYNTHETIC_FIXTURE,
     ta_detail = []\<rparr>"

record TransferReceipt =
  tr_attempt_id :: TransferAttemptId
  tr_plan_generation :: TransferGeneration
  tr_state :: TransferState
  tr_bytes :: u64
  tr_integrity_verified :: bool
  tr_support :: Support
  tr_provenance :: Provenance
  tr_method :: string
  tr_epoch :: CoordinatorEpoch
  tr_detail :: string

definition default_TransferReceipt :: TransferReceipt where
  "default_TransferReceipt = \<lparr>
     tr_attempt_id = Id 0, tr_plan_generation = Generation 0, tr_state = TransferState.FAILED,
     tr_bytes = 0, tr_integrity_verified = False, tr_support = Support.UNKNOWN,
     tr_provenance = Provenance.SYNTHETIC_FIXTURE, tr_method = [], tr_epoch = Generation 0,
     tr_detail = []\<rparr>"

record VerificationReceipt =
  vr_id :: VerificationId
  vr_attempt_id :: TransferAttemptId
  vr_passed :: bool
  vr_bytes_checked :: u64
  vr_support :: Support
  vr_method :: string
  vr_expected :: string
  vr_actual :: string

definition default_VerificationReceipt :: VerificationReceipt where
  "default_VerificationReceipt = \<lparr>
     vr_id = Id 0, vr_attempt_id = Id 0, vr_passed = False, vr_bytes_checked = 0,
     vr_support = Support.UNKNOWN, vr_method = [], vr_expected = [], vr_actual = []\<rparr>"

section \<open>Backend data\<close>

record RegistrationSpec =
  rsp_buffer :: BufferId
  rsp_domain :: MemoryDomain
  rsp_buffer_generation :: BufferGeneration
  rsp_endpoint :: EndpointId
  rsp_endpoint_class :: EndpointClass
  rsp_endpoint_generation :: EndpointGeneration
  rsp_size :: u64
  rsp_alignment :: u64
  rsp_authority :: Authority
  rsp_support :: Support

definition default_RegistrationSpec :: RegistrationSpec where
  "default_RegistrationSpec = \<lparr>
     rsp_buffer = Id 0, rsp_domain = MemoryDomain.UNKNOWN, rsp_buffer_generation = Generation 0,
     rsp_endpoint = Id 0, rsp_endpoint_class = EndpointClass.UNKNOWN,
     rsp_endpoint_generation = Generation 0, rsp_size = 0, rsp_alignment = 1,
     rsp_authority = default_Authority, rsp_support = Support.UNKNOWN\<rparr>"

record RegisterResult =
  rr_id :: RegistrationId
  rr_generation :: RegistrationGeneration
  rr_support :: Support
  rr_provenance :: Provenance
  rr_handle :: "BackendHandle option"

definition default_RegisterResult :: RegisterResult where
  "default_RegisterResult = \<lparr>
     rr_id = Id 0, rr_generation = Generation 0, rr_support = Support.UNKNOWN,
     rr_provenance = Provenance.SYNTHETIC_FIXTURE, rr_handle = None\<rparr>"

record TransferRun =
  run_plan :: TransferPlan
  run_accelerator_buffer :: BufferId
  run_expected_bytes :: u64
  run_accelerator_handle :: "BackendHandle option"

definition default_TransferRun :: TransferRun where
  "default_TransferRun = \<lparr>
     run_plan = default_TransferPlan, run_accelerator_buffer = Id 0, run_expected_bytes = 0,
     run_accelerator_handle = None\<rparr>"

record TransferOutcome =
  oc_state :: TransferState
  oc_bytes :: u64
  oc_integrity_checked :: bool
  oc_integrity_passed :: bool
  oc_method :: string
  oc_support :: Support
  oc_provenance :: Provenance
  oc_detail :: string

definition default_TransferOutcome :: TransferOutcome where
  "default_TransferOutcome = \<lparr>
     oc_state = TransferState.FAILED, oc_bytes = 0, oc_integrity_checked = False,
     oc_integrity_passed = False, oc_method = [], oc_support = Support.UNKNOWN,
     oc_provenance = Provenance.SYNTHETIC_FIXTURE, oc_detail = []\<rparr>"

end
