(* ===== verification/Planner.thy ===== *)
theory Planner
  imports Records
begin

text \<open>
  The path planner (\<open>src/path.cpp\<close>): helpers over an evidence snapshot, one definition per
  requirement block of \<open>PathPlanner::evaluate\<close>, and \<open>evaluate\<close> composed of them in the source's
  order. Each block runs only while no earlier requirement failed (\<open>direct == UNSUPPORTED\<close>).
  The lemmas show that the decision is exactly the first failed requirement of an abstract
  checklist, what a direct decision guarantees, when a fallback is offered, and that the decision
  does not depend on the order in which the evidence was collected.
\<close>

section \<open>Helpers\<close>

definition is_gpu_memory :: "MemoryDomain \<Rightarrow> bool" where
  "is_gpu_memory d \<longleftrightarrow> d = MemoryDomain.CUDA_DEVICE \<or> d = MemoryDomain.CUDA_MANAGED \<or>
     d = MemoryDomain.REGISTERED_GPU_MEMORY"

definition is_host_pinned :: "MemoryDomain \<Rightarrow> bool" where
  "is_host_pinned d \<longleftrightarrow> d = MemoryDomain.HOST_PINNED \<or> d = MemoryDomain.REGISTERED_HOST_MEMORY"

fun provider_for :: "EndpointClass \<Rightarrow> string" where
  "provider_for EndpointClass.NIC = ''rdma''"
| "provider_for EndpointClass.STORAGE = ''storage''"
| "provider_for EndpointClass.PEER_DEVICE = ''cuda''"
| "provider_for _ = ''host''"

fun cap_for :: "EndpointClass \<Rightarrow> string" where
  "cap_for EndpointClass.NIC = ''direct_nic''"
| "cap_for EndpointClass.STORAGE = ''direct_storage''"
| "cap_for EndpointClass.PEER_DEVICE = ''peer_memory''"
| "cap_for _ = ''direct_host''"

definition classify_direct :: "PathRequest \<Rightarrow> PathEvidence \<Rightarrow> PathClass" where
  "classify_direct req ev =
     (let cls = e_endpoint_class (ev_destination ev) in
      if rq_direction req = Direction.GPU_TO_PEER then
        (case cls of
           EndpointClass.NIC \<Rightarrow> PathClass.GPU_TO_NIC_DIRECT
         | EndpointClass.STORAGE \<Rightarrow> PathClass.GPU_TO_STORAGE_DIRECT
         | EndpointClass.PEER_DEVICE \<Rightarrow> PathClass.GPU_TO_GPU_DIRECT
         | _ \<Rightarrow> PathClass.GPU_TO_NIC_DIRECT)
      else
        (case cls of
           EndpointClass.NIC \<Rightarrow> PathClass.NIC_TO_GPU_DIRECT
         | EndpointClass.STORAGE \<Rightarrow> PathClass.STORAGE_TO_GPU_DIRECT
         | EndpointClass.PEER_DEVICE \<Rightarrow> PathClass.GPU_TO_GPU_DIRECT
         | _ \<Rightarrow> PathClass.NIC_TO_GPU_DIRECT))"

definition authority_live :: "Authority \<Rightarrow> PathEvidence \<Rightarrow> bool" where
  "authority_live a ev =
     (if gen_value (au_epoch a) \<noteq> gen_value (ev_epoch ev) then False
      else if \<not> worker_owned a then True
      else list_ex (\<lambda>(w, b). w = au_worker a \<and> b = au_boot a) (ev_live_workers ev))"

definition latest_endpoint :: "PathEvidence \<Rightarrow> EndpointId \<Rightarrow> EndpointRecord option" where
  "latest_endpoint ev i =
     latest_by (\<lambda>e. e_id e = i) (\<lambda>e. gen_value (e_generation e)) (ev_endpoints ev)"

definition latest_device :: "PathEvidence \<Rightarrow> DeviceId \<Rightarrow> DeviceRecord option" where
  "latest_device ev i =
     latest_by (\<lambda>d. d_id d = i) (\<lambda>d. gen_value (d_generation d)) (ev_devices ev)"

definition find_registration :: "PathEvidence \<Rightarrow> BufferId \<Rightarrow> EndpointId \<Rightarrow> Registration option" where
  "find_registration ev buffer endpoint =
     latest_by (\<lambda>r. r_buffer r = buffer \<and> r_endpoint r = endpoint)
       (\<lambda>r. gen_value (r_generation r)) (ev_registrations ev)"

definition host_staging_available :: "PathEvidence \<Rightarrow> bool" where
  "host_staging_available ev =
     list_ex (\<lambda>c. c_capability c = ''host_staging'' \<and> c_value c = ''true'' \<and>
                  c_support c \<noteq> Support.UNSUPPORTED \<and>
                  gen_value (au_epoch (c_authority c)) = gen_value (ev_epoch ev))
       (ev_capabilities ev)"

definition provider_available :: "PathEvidence \<Rightarrow> string \<Rightarrow> bool" where
  "provider_available ev provider =
     list_ex (\<lambda>p. p_name p = provider \<and> p_available p \<and> p_support p \<noteq> Support.UNSUPPORTED)
       (ev_providers ev)"

definition capability_for :: "PathEvidence \<Rightarrow> string \<Rightarrow> string \<Rightarrow> CapabilityObservation option" where
  "capability_for ev provider capability =
     List.find (\<lambda>c. c_provider c = provider \<and> c_capability c = capability) (ev_capabilities ev)"

definition fallback_class :: "Direction \<Rightarrow> EndpointClass \<Rightarrow> PathClass" where
  "fallback_class dir cls =
     (if dir = Direction.GPU_TO_PEER then
        (case cls of
           EndpointClass.NIC \<Rightarrow> PathClass.GPU_TO_HOST_STAGED_TO_NIC
         | EndpointClass.STORAGE \<Rightarrow> PathClass.GPU_TO_HOST_STAGED_TO_STORAGE
         | _ \<Rightarrow> PathClass.GPU_TO_HOST_PINNED)
      else
        (case cls of
           EndpointClass.NIC \<Rightarrow> PathClass.NIC_TO_HOST_STAGED_TO_GPU
         | EndpointClass.STORAGE \<Rightarrow> PathClass.STORAGE_TO_HOST_STAGED_TO_GPU
         | _ \<Rightarrow> PathClass.HOST_PINNED_TO_GPU))"

definition fallback_candidate :: "PathRequest \<Rightarrow> PathEvidence \<Rightarrow> PathCandidate" where
  "fallback_candidate req ev =
     default_PathCandidate
       \<lparr>cd_direct := False, cd_stage_count := 2, cd_support := Support.SYNTHETIC,
        cd_provenance := Provenance.SYNTHETIC_FIXTURE,
        cd_description := ''pinned-host staging fallback'',
        cd_path_class := fallback_class (rq_direction req) (e_endpoint_class (ev_destination ev))\<rparr>"

definition add_fallback_candidates ::
    "PathDecision \<Rightarrow> PathRequest \<Rightarrow> PathEvidence \<Rightarrow> PathDecision" where
  "add_fallback_candidates d req ev =
     (let c = fallback_candidate req ev
      in d\<lparr>pd_fallback_candidates := pd_fallback_candidates d @ [c],
           pd_selected_fallback := Some c, pd_fallback_available := True\<rparr>)"

section \<open>The requirement blocks\<close>

type_synonym verdict = "PathEligibility \<times> PathDecision"

definition add_v :: "string \<Rightarrow> bool \<Rightarrow> string \<Rightarrow> PathDecision \<Rightarrow> PathDecision" where
  "add_v req sat detail d =
     d\<lparr>pd_violations := pd_violations d @
         [\<lparr>rv_requirement = req, rv_satisfied = sat, rv_detail = detail\<rparr>]\<rparr>"

definition while_undecided :: "(PathDecision \<Rightarrow> verdict) \<Rightarrow> verdict \<Rightarrow> verdict" where
  "while_undecided f v = (if fst v = PathEligibility.UNSUPPORTED then f (snd v) else v)"

definition check_source :: "BufferRecord \<Rightarrow> PathDecision \<Rightarrow> verdict" where
  "check_source src d =
     (if \<not> id_valid (b_id src) then
        (PathEligibility.INVALID_BUFFER, add_v ''source_buffer'' False ''source buffer id is nil'' d)
      else if b_lifecycle src \<noteq> BufferLifecycle.ACTIVE then
        (PathEligibility.INVALID_BUFFER, add_v ''source_buffer'' False ''source buffer is retired'' d)
      else
        (PathEligibility.UNSUPPORTED,
         add_v ''source_buffer'' True ''source buffer present and active'' d))"

definition check_size :: "PathRequest \<Rightarrow> BufferRecord \<Rightarrow> PathDecision \<Rightarrow> verdict" where
  "check_size req src d =
     (if rq_size req > b_size src then
        (PathEligibility.NO_VALID_PATH,
         add_v ''size'' False ''request size exceeds buffer capacity'' d)
      else
        (PathEligibility.UNSUPPORTED,
         add_v ''size'' True ''request size within buffer capacity'' d))"

definition check_destination :: "EndpointRecord \<Rightarrow> PathDecision \<Rightarrow> verdict" where
  "check_destination dest d =
     (if \<not> id_valid (e_id dest) \<or> e_endpoint_class dest = EndpointClass.UNKNOWN then
        (PathEligibility.NO_VALID_PATH,
         add_v ''destination_endpoint'' False ''destination endpoint missing or unclassified'' d)
      else
        (PathEligibility.UNSUPPORTED,
         (add_v ''destination_endpoint'' True ''destination endpoint present'' d)
           \<lparr>pd_provenance := e_provenance dest\<rparr>))"

definition check_destination_supported :: "EndpointRecord \<Rightarrow> PathDecision \<Rightarrow> verdict" where
  "check_destination_supported dest d =
     (if e_support dest = Support.UNSUPPORTED then
        (PathEligibility.DIRECT_UNSUPPORTED,
         (add_v ''destination_supported'' False
            ''destination endpoint classified unsupported for direct access'' d)
           \<lparr>pd_support := Support.UNSUPPORTED,
            pd_direct_rejection := ''destination endpoint does not expose a supported direct path''\<rparr>)
      else
        (PathEligibility.UNSUPPORTED,
         add_v ''destination_supported'' True ''destination endpoint classified as supported'' d))"

definition check_destination_healthy :: "EndpointRecord \<Rightarrow> PathDecision \<Rightarrow> verdict" where
  "check_destination_healthy dest d =
     (if \<not> e_healthy dest then
        (PathEligibility.ENDPOINT_STALE,
         (add_v ''destination_healthy'' False ''destination endpoint is not healthy'' d)
           \<lparr>pd_direct_rejection := ''destination endpoint is unhealthy''\<rparr>)
      else
        (PathEligibility.UNSUPPORTED,
         add_v ''destination_healthy'' True ''destination endpoint healthy'' d))"

definition check_destination_generation :: "PathEvidence \<Rightarrow> PathDecision \<Rightarrow> verdict" where
  "check_destination_generation ev d =
     (case latest_endpoint ev (e_id (ev_destination ev)) of
        Some l \<Rightarrow>
          (if e_generation l \<noteq> e_generation (ev_destination ev) then
             (PathEligibility.ENDPOINT_STALE,
              (add_v ''destination_generation'' False ''destination endpoint generation is stale'' d)
                \<lparr>pd_direct_rejection := ''destination endpoint generation advanced since snapshot''\<rparr>)
           else
             (PathEligibility.UNSUPPORTED,
              add_v ''destination_generation'' True ''destination endpoint generation current'' d))
      | None \<Rightarrow>
          (PathEligibility.UNSUPPORTED,
           add_v ''destination_generation'' True ''destination endpoint generation current'' d))"

definition check_source_domain :: "BufferRecord \<Rightarrow> PathDecision \<Rightarrow> verdict" where
  "check_source_domain src d =
     (if \<not> is_gpu_memory (b_domain src) \<and> \<not> is_host_pinned (b_domain src) then
        (PathEligibility.DIRECT_UNSUPPORTED,
         (add_v ''source_memory_domain'' False
            ''source buffer is not accelerator or pinned memory'' d)
           \<lparr>pd_direct_rejection := ''source memory domain is not eligible for a governed path''\<rparr>)
      else if \<not> is_gpu_memory (b_domain src) then
        (PathEligibility.DIRECT_UNSUPPORTED,
         (add_v ''source_is_accelerator'' False
            ''governed source is host memory; direct accelerator path requires accelerator memory'' d)
           \<lparr>pd_direct_rejection := ''governed buffer is host memory, not accelerator memory''\<rparr>)
      else
        (PathEligibility.UNSUPPORTED,
         (add_v ''source_is_accelerator'' True ''source is accelerator memory'' d)
           \<lparr>pd_support := b_support src\<rparr>))"

definition check_device :: "PathEvidence \<Rightarrow> PathDecision \<Rightarrow> verdict" where
  "check_device ev d =
     (if \<not> id_valid (d_id (ev_device ev)) then
        (PathEligibility.DEVICE_STALE,
         add_v ''source_device'' False ''no device associated with the source'' d)
      else
        (case latest_device ev (d_id (ev_device ev)) of
           Some l \<Rightarrow>
             (if d_generation l \<noteq> d_generation (ev_device ev) then
                (PathEligibility.DEVICE_STALE,
                 (add_v ''source_device'' False ''device generation is stale'' d)
                   \<lparr>pd_direct_rejection := ''device generation advanced since snapshot''\<rparr>)
              else (PathEligibility.UNSUPPORTED, add_v ''source_device'' True ''device current'' d))
         | None \<Rightarrow> (PathEligibility.UNSUPPORTED, add_v ''source_device'' True ''device current'' d)))"

definition check_provider :: "PathEvidence \<Rightarrow> PathDecision \<Rightarrow> verdict" where
  "check_provider ev d =
     (let provider = provider_for (e_endpoint_class (ev_destination ev)) in
      if \<not> provider_available ev provider then
        (PathEligibility.PROVIDER_UNAVAILABLE,
         (add_v ''provider_available'' False (''provider '' @ CHR 0x27 # provider @ CHR 0x27 # '' is unavailable'') d)
           \<lparr>pd_support := Support.UNSUPPORTED,
            pd_direct_rejection := ''no available provider for '' @ provider @ '' direct path''\<rparr>)
      else
        (PathEligibility.UNSUPPORTED,
         add_v ''provider_available'' True (''provider '' @ CHR 0x27 # provider @ CHR 0x27 # '' available'') d))"

definition check_capability :: "PathEvidence \<Rightarrow> PathDecision \<Rightarrow> verdict" where
  "check_capability ev d =
     (let cls = e_endpoint_class (ev_destination ev);
          req_cap = cap_for cls;
          quoted = CHR 0x27 # req_cap @ [CHR 0x27];
          failed = (\<lambda>sup.
            (PathEligibility.INSUFFICIENT_EVIDENCE,
             (add_v ''direct_capability'' False
                (''direct capability '' @ quoted @ '' not evidenced as supported'') d)
               \<lparr>pd_support := sup,
                pd_direct_rejection := ''direct capability '' @ quoted @ '' absent or unsupported''\<rparr>))
      in case capability_for ev (provider_for cls) req_cap of
           None \<Rightarrow> failed Support.UNSUPPORTED
         | Some cap \<Rightarrow>
             (if c_value cap \<noteq> ''true'' \<or> c_support cap = Support.UNSUPPORTED then
                failed (c_support cap)
              else
                (PathEligibility.UNSUPPORTED,
                 (add_v ''direct_capability'' True (''direct capability '' @ quoted @ '' supported'') d)
                   \<lparr>pd_support := c_support cap, pd_provenance := c_provenance cap\<rparr>)))"

definition check_registration :: "PathEvidence \<Rightarrow> PathDecision \<Rightarrow> verdict" where
  "check_registration ev d =
     (let src = ev_source ev; dest = ev_destination ev in
      case find_registration ev (b_id src) (e_id dest) of
        None \<Rightarrow>
          (PathEligibility.REGISTRATION_REQUIRED,
           (add_v ''registration_current'' False ''no current registration for buffer+endpoint'' d)
             \<lparr>pd_direct_rejection := ''buffer is not registered for the destination endpoint''\<rparr>)
      | Some reg \<Rightarrow>
          (if r_state reg \<noteq> RegistrationState.REGISTERED then
             (PathEligibility.REGISTRATION_STALE,
              (add_v ''registration_current'' False ''registration is not in REGISTERED state'' d)
                \<lparr>pd_direct_rejection := ''registration state is not current''\<rparr>)
           else if r_buffer_generation reg \<noteq> b_generation src \<or>
                   r_endpoint_generation reg \<noteq> e_generation dest then
             (PathEligibility.REGISTRATION_STALE,
              (add_v ''registration_current'' False ''registration generation is stale'' d)
                \<lparr>pd_direct_rejection := ''registration generation no longer matches buffer/endpoint''\<rparr>)
           else if \<not> authority_live (r_authority reg) ev then
             (PathEligibility.REVALIDATION_REQUIRED,
              (add_v ''registration_authority'' False ''registration authority is not live'' d)
                \<lparr>pd_direct_rejection := ''registration authority is stale (worker or epoch advanced)''\<rparr>)
           else
             (PathEligibility.UNSUPPORTED,
              (add_v ''registration_current'' True ''registration current and authorized'' d)
                \<lparr>pd_support := r_support reg, pd_provenance := r_provenance reg\<rparr>)))"

definition check_alignment :: "PathRequest \<Rightarrow> BufferRecord \<Rightarrow> PathDecision \<Rightarrow> verdict" where
  "check_alignment req src d =
     (if b_alignment src < 64 \<or> rq_size req mod b_alignment src \<noteq> 0 then
        (PathEligibility.DIRECT_UNSUPPORTED,
         (add_v ''alignment'' False ''alignment not supported by direct path'' d)
           \<lparr>pd_direct_rejection := ''buffer alignment is unsupported for the direct path''\<rparr>)
      else
        (if pd_support d = Support.REAL then PathEligibility.DIRECT_ALLOWED
         else PathEligibility.DIRECT_ALLOWED_DEGRADED,
         add_v ''alignment'' True ''alignment supported'' d))"

section \<open>evaluate\<close>

definition is_direct :: "PathEligibility \<Rightarrow> bool" where
  "is_direct e \<longleftrightarrow> e = PathEligibility.DIRECT_ALLOWED \<or> e = PathEligibility.DIRECT_ALLOWED_DEGRADED"

definition initial_decision :: "PathRequest \<Rightarrow> PathEvidence \<Rightarrow> PathDecision" where
  "initial_decision req ev =
     default_PathDecision
       \<lparr>pd_direct_class := classify_direct req ev,
        pd_source_generation := b_generation (ev_source ev),
        pd_destination_generation := e_generation (ev_destination ev)\<rparr>"

definition direct_verdict :: "PathRequest \<Rightarrow> PathEvidence \<Rightarrow> verdict" where
  "direct_verdict req ev =
     (let src = ev_source ev; dest = ev_destination ev in
      while_undecided (check_alignment req src)
     (while_undecided (check_registration ev)
     (while_undecided (check_capability ev)
     (while_undecided (check_provider ev)
     (while_undecided (check_device ev)
     (while_undecided (check_source_domain src)
     (while_undecided (check_destination_generation ev)
     (while_undecided (check_destination_healthy dest)
     (while_undecided (check_destination_supported dest)
     (while_undecided (check_destination dest)
     (while_undecided (check_size req src)
     (check_source src (initial_decision req ev)))))))))))))"

definition dest_usable :: "PathEvidence \<Rightarrow> bool" where
  "dest_usable ev \<longleftrightarrow> id_valid (e_id (ev_destination ev)) \<and> e_healthy (ev_destination ev) \<and>
     e_endpoint_class (ev_destination ev) \<noteq> EndpointClass.UNKNOWN"

definition decide_outcome ::
    "PathRequest \<Rightarrow> PathEvidence \<Rightarrow> PathEligibility \<Rightarrow> PathDecision \<Rightarrow> PathDecision" where
  "decide_outcome req ev direct d0 =
     (let d = d0\<lparr>pd_direct_eligibility := direct\<rparr> in
      if is_direct direct then
        (let cand = default_PathCandidate
               \<lparr>cd_path_class := pd_direct_class d, cd_direct := True, cd_stage_count := 1,
                cd_support := pd_support d, cd_provenance := pd_provenance d,
                cd_description := ''direct '' @ PathClass_to_string (pd_direct_class d) @ '' ('' @
                  Support_to_string (pd_support d) @ '')''\<rparr>
         in d\<lparr>pd_direct_candidates := pd_direct_candidates d @ [cand], pd_eligibility := direct\<rparr>)
      else if rq_policy req = PathPolicy.DIRECT_ONLY then
        d\<lparr>pd_eligibility := direct,
          pd_fallback_disallowed := host_staging_available ev \<and> dest_usable ev\<rparr>
      else if dest_usable ev \<and> host_staging_available ev then
        add_fallback_candidates (d\<lparr>pd_eligibility := PathEligibility.FALLBACK_REQUIRED\<rparr>) req ev
      else d\<lparr>pd_eligibility := direct\<rparr>)"

definition finish_decision :: "PathDecision \<Rightarrow> PathDecision" where
  "finish_decision d =
     d\<lparr>pd_summary := ''path '' @ PathClass_to_string (pd_direct_class d) @ ''; direct='' @
          PathEligibility_to_string (pd_direct_eligibility d) @ ''; final='' @
          PathEligibility_to_string (pd_eligibility d) @ ''; support='' @
          Support_to_string (pd_support d),
       pd_degraded := pd_direct_eligibility d = PathEligibility.DIRECT_ALLOWED_DEGRADED\<rparr>"

definition evaluate :: "PathRequest \<Rightarrow> PathEvidence \<Rightarrow> PathDecision Result" where
  "evaluate req ev =
     (let (direct, d) = direct_verdict req ev
      in ok (finish_decision (decide_outcome req ev direct d)))"

fun path_direction_suffix :: "PathClass \<Rightarrow> string" where
  "path_direction_suffix PathClass.NIC_TO_GPU_DIRECT = ''to_gpu''"
| "path_direction_suffix PathClass.STORAGE_TO_GPU_DIRECT = ''to_gpu''"
| "path_direction_suffix PathClass.HOST_PINNED_TO_GPU = ''to_gpu''"
| "path_direction_suffix PathClass.NIC_TO_HOST_STAGED_TO_GPU = ''to_gpu''"
| "path_direction_suffix PathClass.STORAGE_TO_HOST_STAGED_TO_GPU = ''to_gpu''"
| "path_direction_suffix _ = ''from_gpu''"

section \<open>The checklist the planner implements\<close>

text \<open>
  The abstract contract: fourteen requirements in order, each with the outcome reported when it is
  the first one to fail.
\<close>

definition registration_of :: "PathEvidence \<Rightarrow> Registration option" where
  "registration_of ev = find_registration ev (b_id (ev_source ev)) (e_id (ev_destination ev))"

definition generation_current :: "'g option \<Rightarrow> 'g \<Rightarrow> bool" where
  "generation_current latest g \<longleftrightarrow> (case latest of None \<Rightarrow> True | Some l \<Rightarrow> l = g)"

definition capability_evidenced :: "PathEvidence \<Rightarrow> bool" where
  "capability_evidenced ev \<longleftrightarrow>
     (let cls = e_endpoint_class (ev_destination ev) in
      case capability_for ev (provider_for cls) (cap_for cls) of
        None \<Rightarrow> False
      | Some c \<Rightarrow> c_value c = ''true'' \<and> c_support c \<noteq> Support.UNSUPPORTED)"

definition registration_current :: "PathEvidence \<Rightarrow> Registration \<Rightarrow> bool" where
  "registration_current ev r \<longleftrightarrow>
     r_state r = RegistrationState.REGISTERED \<and>
     r_buffer_generation r = b_generation (ev_source ev) \<and>
     r_endpoint_generation r = e_generation (ev_destination ev)"

definition requirements :: "PathRequest \<Rightarrow> PathEvidence \<Rightarrow> (bool \<times> PathEligibility) list" where
  "requirements req ev =
     (let src = ev_source ev; dest = ev_destination ev; reg = registration_of ev in
      [(id_valid (b_id src) \<and> b_lifecycle src = BufferLifecycle.ACTIVE, PathEligibility.INVALID_BUFFER),
       (rq_size req \<le> b_size src, PathEligibility.NO_VALID_PATH),
       (id_valid (e_id dest) \<and> e_endpoint_class dest \<noteq> EndpointClass.UNKNOWN,
        PathEligibility.NO_VALID_PATH),
       (e_support dest \<noteq> Support.UNSUPPORTED, PathEligibility.DIRECT_UNSUPPORTED),
       (e_healthy dest, PathEligibility.ENDPOINT_STALE),
       (generation_current (map_option e_generation (latest_endpoint ev (e_id dest))) (e_generation dest),
        PathEligibility.ENDPOINT_STALE),
       (is_gpu_memory (b_domain src), PathEligibility.DIRECT_UNSUPPORTED),
       (id_valid (d_id (ev_device ev)) \<and>
        generation_current (map_option d_generation (latest_device ev (d_id (ev_device ev))))
          (d_generation (ev_device ev)), PathEligibility.DEVICE_STALE),
       (provider_available ev (provider_for (e_endpoint_class dest)),
        PathEligibility.PROVIDER_UNAVAILABLE),
       (capability_evidenced ev, PathEligibility.INSUFFICIENT_EVIDENCE),
       (reg \<noteq> None, PathEligibility.REGISTRATION_REQUIRED),
       (registration_current ev (the reg), PathEligibility.REGISTRATION_STALE),
       (authority_live (r_authority (the reg)) ev, PathEligibility.REVALIDATION_REQUIRED),
       (64 \<le> b_alignment src \<and> rq_size req mod b_alignment src = 0,
        PathEligibility.DIRECT_UNSUPPORTED)])"

definition first_failure :: "(bool \<times> PathEligibility) list \<Rightarrow> PathEligibility option" where
  "first_failure rs = map_option snd (List.find (\<lambda>r. \<not> fst r) rs)"

definition direct_spec :: "PathRequest \<Rightarrow> PathEvidence \<Rightarrow> PathEligibility" where
  "direct_spec req ev =
     (case first_failure (requirements req ev) of
        Some e \<Rightarrow> e
      | None \<Rightarrow> (if r_support (the (registration_of ev)) = Support.REAL
                then PathEligibility.DIRECT_ALLOWED else PathEligibility.DIRECT_ALLOWED_DEGRADED))"

definition final_spec :: "PathRequest \<Rightarrow> PathEvidence \<Rightarrow> PathEligibility" where
  "final_spec req ev =
     (if is_direct (direct_spec req ev) \<or> rq_policy req = PathPolicy.DIRECT_ONLY then direct_spec req ev
      else if dest_usable ev \<and> host_staging_available ev then PathEligibility.FALLBACK_REQUIRED
      else direct_spec req ev)"

subsection \<open>Each block decides its requirement\<close>

lemma fst_while_undecided:
  "fst (while_undecided f v) =
     (if fst v = PathEligibility.UNSUPPORTED then fst (f (snd v)) else fst v)"
  by (simp add: while_undecided_def)

lemma fst_check_source:
  "fst (check_source src d) =
     (if id_valid (b_id src) \<and> b_lifecycle src = BufferLifecycle.ACTIVE
      then PathEligibility.UNSUPPORTED else PathEligibility.INVALID_BUFFER)"
  by (simp add: check_source_def)

lemma fst_check_size:
  "fst (check_size req src d) =
     (if rq_size req \<le> b_size src then PathEligibility.UNSUPPORTED else PathEligibility.NO_VALID_PATH)"
  by (simp add: check_size_def not_le)

lemma fst_check_destination:
  "fst (check_destination dest d) =
     (if id_valid (e_id dest) \<and> e_endpoint_class dest \<noteq> EndpointClass.UNKNOWN
      then PathEligibility.UNSUPPORTED else PathEligibility.NO_VALID_PATH)"
  by (simp add: check_destination_def)

lemma fst_check_destination_supported:
  "fst (check_destination_supported dest d) =
     (if e_support dest \<noteq> Support.UNSUPPORTED
      then PathEligibility.UNSUPPORTED else PathEligibility.DIRECT_UNSUPPORTED)"
  by (simp add: check_destination_supported_def)

lemma fst_check_destination_healthy:
  "fst (check_destination_healthy dest d) =
     (if e_healthy dest then PathEligibility.UNSUPPORTED else PathEligibility.ENDPOINT_STALE)"
  by (simp add: check_destination_healthy_def)

lemma fst_check_destination_generation:
  "fst (check_destination_generation ev d) =
     (if generation_current (map_option e_generation (latest_endpoint ev (e_id (ev_destination ev))))
           (e_generation (ev_destination ev))
      then PathEligibility.UNSUPPORTED else PathEligibility.ENDPOINT_STALE)"
  by (simp add: check_destination_generation_def generation_current_def split: option.split)

lemma fst_check_source_domain:
  "fst (check_source_domain src d) =
     (if is_gpu_memory (b_domain src)
      then PathEligibility.UNSUPPORTED else PathEligibility.DIRECT_UNSUPPORTED)"
  by (simp add: check_source_domain_def)

lemma fst_check_device:
  "fst (check_device ev d) =
     (if id_valid (d_id (ev_device ev)) \<and>
         generation_current (map_option d_generation (latest_device ev (d_id (ev_device ev))))
           (d_generation (ev_device ev))
      then PathEligibility.UNSUPPORTED else PathEligibility.DEVICE_STALE)"
  by (simp add: check_device_def generation_current_def split: option.split)

lemma fst_check_provider:
  "fst (check_provider ev d) =
     (if provider_available ev (provider_for (e_endpoint_class (ev_destination ev)))
      then PathEligibility.UNSUPPORTED else PathEligibility.PROVIDER_UNAVAILABLE)"
  by (simp add: check_provider_def Let_def)

lemma fst_check_capability:
  "fst (check_capability ev d) =
     (if capability_evidenced ev
      then PathEligibility.UNSUPPORTED else PathEligibility.INSUFFICIENT_EVIDENCE)"
  by (simp add: check_capability_def capability_evidenced_def Let_def split: option.split)

lemma fst_check_registration:
  "fst (check_registration ev d) =
     (if registration_of ev = None then PathEligibility.REGISTRATION_REQUIRED
      else if \<not> registration_current ev (the (registration_of ev)) then PathEligibility.REGISTRATION_STALE
      else if \<not> authority_live (r_authority (the (registration_of ev))) ev
        then PathEligibility.REVALIDATION_REQUIRED
      else PathEligibility.UNSUPPORTED)"
  by (simp add: check_registration_def registration_of_def registration_current_def Let_def
      split: option.split)

lemma support_check_registration:
  "fst (check_registration ev d) = PathEligibility.UNSUPPORTED \<Longrightarrow>
   pd_support (snd (check_registration ev d)) = r_support (the (registration_of ev))"
  by (auto simp: check_registration_def registration_of_def Let_def split: option.splits if_splits)

lemma fst_check_alignment:
  "fst (check_alignment req src d) =
     (if 64 \<le> b_alignment src \<and> rq_size req mod b_alignment src = 0
      then (if pd_support d = Support.REAL then PathEligibility.DIRECT_ALLOWED
            else PathEligibility.DIRECT_ALLOWED_DEGRADED)
      else PathEligibility.DIRECT_UNSUPPORTED)"
  by (auto simp: check_alignment_def not_less)

lemmas fst_checks =
  fst_check_source fst_check_size fst_check_destination fst_check_destination_supported
  fst_check_destination_healthy fst_check_destination_generation fst_check_source_domain
  fst_check_device fst_check_provider fst_check_capability fst_check_registration

subsection \<open>The verdict is the first failed requirement\<close>

text \<open>The eleven blocks before the alignment check, as one verdict.\<close>

definition registered_verdict :: "PathRequest \<Rightarrow> PathEvidence \<Rightarrow> verdict" where
  "registered_verdict req ev =
     while_undecided (check_registration ev)
    (while_undecided (check_capability ev)
    (while_undecided (check_provider ev)
    (while_undecided (check_device ev)
    (while_undecided (check_source_domain (ev_source ev))
    (while_undecided (check_destination_generation ev)
    (while_undecided (check_destination_healthy (ev_destination ev))
    (while_undecided (check_destination_supported (ev_destination ev))
    (while_undecided (check_destination (ev_destination ev))
    (while_undecided (check_size req (ev_source ev))
    (check_source (ev_source ev) (initial_decision req ev)))))))))))"

lemma direct_verdict_split:
  "direct_verdict req ev =
     while_undecided (check_alignment req (ev_source ev)) (registered_verdict req ev)"
  by (simp add: direct_verdict_def registered_verdict_def Let_def)

lemma fst_registered_verdict:
  "fst (registered_verdict req ev) =
     (case first_failure (butlast (requirements req ev)) of
        Some e \<Rightarrow> e | None \<Rightarrow> PathEligibility.UNSUPPORTED)"
  unfolding registered_verdict_def fst_while_undecided fst_checks
  by (simp add: requirements_def first_failure_def Let_def)

lemma support_registered_verdict:
  assumes "fst (registered_verdict req ev) = PathEligibility.UNSUPPORTED"
  shows "pd_support (snd (registered_verdict req ev)) = r_support (the (registration_of ev))"
  using assms unfolding registered_verdict_def
  by (metis (no_types, lifting) while_undecided_def support_check_registration)

lemma first_failure_snoc:
  "first_failure (rs @ [r]) =
     (case first_failure rs of Some e \<Rightarrow> Some e | None \<Rightarrow> if fst r then None else Some (snd r))"
  by (induction rs) (auto simp: first_failure_def)

lemma first_failure_registered:
  "first_failure (butlast (requirements req ev)) = Some e \<Longrightarrow> e \<noteq> PathEligibility.UNSUPPORTED"
  by (auto simp: requirements_def first_failure_def Let_def split: if_splits)

lemma fst_direct_verdict: "fst (direct_verdict req ev) = direct_spec req ev"
proof -
  have last: "requirements req ev = butlast (requirements req ev) @
      [(64 \<le> b_alignment (ev_source ev) \<and> rq_size req mod b_alignment (ev_source ev) = 0,
        PathEligibility.DIRECT_UNSUPPORTED)]"
    by (simp add: requirements_def Let_def)
  show ?thesis
  proof (cases "first_failure (butlast (requirements req ev))")
    case None
    then have reg: "fst (registered_verdict req ev) = PathEligibility.UNSUPPORTED"
      by (simp add: fst_registered_verdict)
    show ?thesis
      unfolding direct_spec_def direct_verdict_split fst_while_undecided
      by (subst last, unfold first_failure_snoc)
         (simp add: None reg fst_check_alignment support_registered_verdict)
  next
    case (Some e)
    then have "fst (registered_verdict req ev) = e" and "e \<noteq> PathEligibility.UNSUPPORTED"
      by (simp_all add: fst_registered_verdict first_failure_registered)
    then show ?thesis
      unfolding direct_spec_def direct_verdict_split fst_while_undecided
      by (subst last, unfold first_failure_snoc) (simp add: Some)
  qed
qed

lemma eligibility_decide_outcome:
  "pd_direct_eligibility (decide_outcome req ev e d) = e"
  "pd_eligibility (decide_outcome req ev e d) =
     (if is_direct e \<or> rq_policy req = PathPolicy.DIRECT_ONLY then e
      else if dest_usable ev \<and> host_staging_available ev then PathEligibility.FALLBACK_REQUIRED else e)"
  by (auto simp: decide_outcome_def add_fallback_candidates_def Let_def)

lemma eligibility_finish_decision [simp]:
  "pd_direct_eligibility (finish_decision d) = pd_direct_eligibility d"
  "pd_eligibility (finish_decision d) = pd_eligibility d"
  "pd_violations (finish_decision d) = pd_violations d"
  "pd_support (finish_decision d) = pd_support d"
  "pd_fallback_available (finish_decision d) = pd_fallback_available d"
  "pd_fallback_disallowed (finish_decision d) = pd_fallback_disallowed d"
  "pd_fallback_candidates (finish_decision d) = pd_fallback_candidates d"
  "pd_direct_candidates (finish_decision d) = pd_direct_candidates d"
  "pd_selected_fallback (finish_decision d) = pd_selected_fallback d"
  "pd_source_generation (finish_decision d) = pd_source_generation d"
  "pd_destination_generation (finish_decision d) = pd_destination_generation d"
  "pd_direct_class (finish_decision d) = pd_direct_class d"
  by (simp_all add: finish_decision_def)

lemma evaluate_ok:
  "evaluate req ev =
     ok (finish_decision (decide_outcome req ev (direct_spec req ev) (snd (direct_verdict req ev))))"
  using fst_direct_verdict [of req ev] by (cases "direct_verdict req ev") (simp add: evaluate_def)

lemma evaluate_outcome:
  assumes "evaluate req ev = ok d"
  shows "pd_direct_eligibility d = direct_spec req ev" and "pd_eligibility d = final_spec req ev"
  using assms by (auto simp: evaluate_ok eligibility_decide_outcome final_spec_def)

subsection \<open>What the blocks never touch, and the log they keep\<close>

definition base_kept :: "PathDecision \<Rightarrow> PathDecision \<Rightarrow> bool" where
  "base_kept d0 d \<longleftrightarrow>
     pd_direct_class d = pd_direct_class d0 \<and>
     pd_source_generation d = pd_source_generation d0 \<and>
     pd_destination_generation d = pd_destination_generation d0 \<and>
     pd_fallback_available d = pd_fallback_available d0 \<and>
     pd_fallback_disallowed d = pd_fallback_disallowed d0 \<and>
     pd_fallback_candidates d = pd_fallback_candidates d0 \<and>
     pd_direct_candidates d = pd_direct_candidates d0 \<and>
     pd_selected_fallback d = pd_selected_fallback d0"

text \<open>
  The log of a verdict: every requirement recorded so far is satisfied, but for the last one when a
  requirement has failed.
\<close>

definition explained :: "verdict \<Rightarrow> bool" where
  "explained v \<longleftrightarrow>
     (let vs = pd_violations (snd v) in
      vs \<noteq> [] \<and> list_all rv_satisfied (butlast vs) \<and>
      (rv_satisfied (last vs) \<longleftrightarrow> fst v = PathEligibility.UNSUPPORTED \<or> is_direct (fst v)))"

abbreviation all_satisfied :: "PathDecision \<Rightarrow> bool" where
  "all_satisfied d \<equiv> list_all rv_satisfied (pd_violations d)"

lemma pd_violations_add_v [simp]:
  "pd_violations (add_v req sat detail d) =
     pd_violations d @ [\<lparr>rv_requirement = req, rv_satisfied = sat, rv_detail = detail\<rparr>]"
  by (simp add: add_v_def)

lemma base_kept_add_v [simp]: "base_kept d0 (add_v req sat detail d) \<longleftrightarrow> base_kept d0 d"
  by (simp add: base_kept_def add_v_def)

lemma base_kept_updates [simp]:
  "base_kept d0 (d\<lparr>pd_support := x\<rparr>) \<longleftrightarrow> base_kept d0 d"
  "base_kept d0 (d\<lparr>pd_provenance := y\<rparr>) \<longleftrightarrow> base_kept d0 d"
  "base_kept d0 (d\<lparr>pd_direct_rejection := z\<rparr>) \<longleftrightarrow> base_kept d0 d"
  by (simp_all add: base_kept_def)

lemma base_kept_refl [simp]: "base_kept d d"
  by (simp add: base_kept_def)

lemma explained_fail:
  "all_satisfied d \<Longrightarrow> e \<noteq> PathEligibility.UNSUPPORTED \<Longrightarrow> \<not> is_direct e \<Longrightarrow>
   pd_violations d' = pd_violations d @ [v] \<Longrightarrow> \<not> rv_satisfied v \<Longrightarrow> explained (e, d')"
  by (simp add: explained_def)

lemma explained_pass:
  "all_satisfied d \<Longrightarrow> e = PathEligibility.UNSUPPORTED \<or> is_direct e \<Longrightarrow>
   pd_violations d' = pd_violations d @ [v] \<Longrightarrow> rv_satisfied v \<Longrightarrow> explained (e, d')"
  by (simp add: explained_def)

text \<open>A block keeps the base fields and, started with a clean log, adds one entry that explains it.\<close>

definition block_ok :: "(PathDecision \<Rightarrow> verdict) \<Rightarrow> bool" where
  "block_ok f \<longleftrightarrow>
     (\<forall>d0 d. base_kept d0 d \<longrightarrow> base_kept d0 (snd (f d))) \<and> (\<forall>d. all_satisfied d \<longrightarrow> explained (f d))"

lemma block_okI:
  assumes "\<And>d0 d. base_kept d0 d \<Longrightarrow> base_kept d0 (snd (f d))" "\<And>d. all_satisfied d \<Longrightarrow> explained (f d)"
  shows "block_ok f"
  using assms by (simp add: block_ok_def)

lemma explained_undecided_passed:
  "explained v \<Longrightarrow> fst v = PathEligibility.UNSUPPORTED \<Longrightarrow> all_satisfied (snd v)"
  by (auto simp: explained_def Let_def list_all_iff)
     (metis append_butlast_last_id in_set_conv_decomp Un_iff set_append list.set_intros(1)
       append_self_conv2 butlast_snoc empty_iff empty_set insert_iff list.simps(15))

definition sound_verdict :: "PathDecision \<Rightarrow> verdict \<Rightarrow> bool" where
  "sound_verdict d0 v \<longleftrightarrow> base_kept d0 (snd v) \<and> explained v"

lemma sound_while_undecided:
  "block_ok f \<Longrightarrow> sound_verdict d0 v \<Longrightarrow> sound_verdict d0 (while_undecided f v)"
  using explained_undecided_passed by (auto simp: sound_verdict_def block_ok_def while_undecided_def)

lemma is_direct_simps [simp]:
  "is_direct PathEligibility.DIRECT_ALLOWED" "is_direct PathEligibility.DIRECT_ALLOWED_DEGRADED"
  "\<not> is_direct PathEligibility.UNSUPPORTED" "\<not> is_direct PathEligibility.INVALID_BUFFER"
  "\<not> is_direct PathEligibility.NO_VALID_PATH" "\<not> is_direct PathEligibility.DIRECT_UNSUPPORTED"
  "\<not> is_direct PathEligibility.ENDPOINT_STALE" "\<not> is_direct PathEligibility.DEVICE_STALE"
  "\<not> is_direct PathEligibility.PROVIDER_UNAVAILABLE" "\<not> is_direct PathEligibility.INSUFFICIENT_EVIDENCE"
  "\<not> is_direct PathEligibility.REGISTRATION_REQUIRED" "\<not> is_direct PathEligibility.REGISTRATION_STALE"
  "\<not> is_direct PathEligibility.REVALIDATION_REQUIRED" "\<not> is_direct PathEligibility.FALLBACK_REQUIRED"
  by (simp_all add: is_direct_def)

lemmas block_simps = explained_def Let_def

lemma block_source: "block_ok (check_source src)"
  by (rule block_okI) (auto simp: block_simps check_source_def)

lemma block_size: "block_ok (check_size req src)"
  by (rule block_okI) (auto simp: block_simps check_size_def)

lemma block_destination: "block_ok (check_destination dest)"
  by (rule block_okI) (auto simp: block_simps check_destination_def)

lemma block_destination_supported: "block_ok (check_destination_supported dest)"
  by (rule block_okI) (auto simp: block_simps check_destination_supported_def)

lemma block_destination_healthy: "block_ok (check_destination_healthy dest)"
  by (rule block_okI) (auto simp: block_simps check_destination_healthy_def)

lemma block_destination_generation: "block_ok (check_destination_generation ev)"
  by (rule block_okI) (auto simp: block_simps check_destination_generation_def split: option.splits)

lemma block_source_domain: "block_ok (check_source_domain src)"
  by (rule block_okI) (auto simp: block_simps check_source_domain_def)

lemma block_device: "block_ok (check_device ev)"
  by (rule block_okI) (auto simp: block_simps check_device_def split: option.splits)

lemma block_provider: "block_ok (check_provider ev)"
  by (rule block_okI) (auto simp: block_simps check_provider_def)

lemma block_capability: "block_ok (check_capability ev)"
  by (rule block_okI) (auto simp: block_simps check_capability_def split: option.splits)

lemma block_registration: "block_ok (check_registration ev)"
  by (rule block_okI) (auto simp: block_simps check_registration_def split: option.splits)

lemma block_alignment: "block_ok (check_alignment req src)"
  by (rule block_okI) (auto simp: block_simps check_alignment_def)

lemmas blocks_ok =
  block_source block_size block_destination block_destination_supported block_destination_healthy
  block_destination_generation block_source_domain block_device block_provider block_capability
  block_registration block_alignment

lemma sound_direct_verdict: "sound_verdict (initial_decision req ev) (direct_verdict req ev)"
proof -
  let ?d0 = "initial_decision req ev"
  have "sound_verdict ?d0 (check_source (ev_source ev) ?d0)"
    using blocks_ok(1) [of "ev_source ev"]
    by (auto simp: sound_verdict_def block_ok_def initial_decision_def default_PathDecision_def)
  then show ?thesis
    unfolding direct_verdict_def Let_def by (intro sound_while_undecided blocks_ok)
qed

lemma violations_decide_outcome [simp]:
  "pd_violations (decide_outcome req ev e d) = pd_violations d"
  by (simp add: decide_outcome_def add_fallback_candidates_def Let_def)

text \<open>Every decision is explained: all requirements but the last are satisfied, and the last is
  satisfied exactly when the direct path is allowed.\<close>

lemma evaluate_explained:
  assumes "evaluate req ev = ok d"
  shows "explained (pd_direct_eligibility d, d)"
proof -
  have "explained (direct_verdict req ev)"
    using sound_direct_verdict by (simp add: sound_verdict_def)
  with assms show ?thesis
    by (auto simp: evaluate_ok explained_def fst_direct_verdict eligibility_decide_outcome)
qed

lemma evaluate_base:
  assumes "evaluate req ev = ok d"
  shows "pd_direct_class d = classify_direct req ev"
    and "pd_source_generation d = b_generation (ev_source ev)"
    and "pd_destination_generation d = e_generation (ev_destination ev)"
  using assms sound_direct_verdict [of req ev]
  by (auto simp: evaluate_ok sound_verdict_def base_kept_def decide_outcome_def Let_def
      add_fallback_candidates_def initial_decision_def)

text \<open>A fallback is visible exactly in the decisions that require one.\<close>

lemma final_spec_fallback:
  "final_spec req ev = PathEligibility.FALLBACK_REQUIRED \<longleftrightarrow>
     \<not> is_direct (direct_spec req ev) \<and> rq_policy req \<noteq> PathPolicy.DIRECT_ONLY \<and>
     dest_usable ev \<and> host_staging_available ev"
proof -
  have "direct_spec req ev \<noteq> PathEligibility.FALLBACK_REQUIRED"
    by (auto simp: direct_spec_def first_failure_def requirements_def Let_def)
  then show ?thesis by (auto simp: final_spec_def)
qed

lemma fallback_decide_outcome:
  "pd_fallback_available (decide_outcome req ev e d) \<longleftrightarrow> pd_fallback_available d \<or>
     (\<not> is_direct e \<and> rq_policy req \<noteq> PathPolicy.DIRECT_ONLY \<and> dest_usable ev \<and> host_staging_available ev)"
  "pd_selected_fallback (decide_outcome req ev e d) =
     (if \<not> is_direct e \<and> rq_policy req \<noteq> PathPolicy.DIRECT_ONLY \<and> dest_usable ev \<and> host_staging_available ev
      then Some (fallback_candidate req ev) else pd_selected_fallback d)"
  "pd_fallback_candidates (decide_outcome req ev e d) =
     (if \<not> is_direct e \<and> rq_policy req \<noteq> PathPolicy.DIRECT_ONLY \<and> dest_usable ev \<and> host_staging_available ev
      then pd_fallback_candidates d @ [fallback_candidate req ev] else pd_fallback_candidates d)"
  by (auto simp: decide_outcome_def add_fallback_candidates_def Let_def)

lemma verdict_no_fallback:
  "\<not> pd_fallback_available (snd (direct_verdict req ev))"
  "pd_selected_fallback (snd (direct_verdict req ev)) = None"
  "pd_fallback_candidates (snd (direct_verdict req ev)) = []"
  using sound_direct_verdict [of req ev]
  by (simp_all add: sound_verdict_def base_kept_def initial_decision_def default_PathDecision_def)

lemma evaluate_fallback:
  assumes "evaluate req ev = ok d"
  shows "pd_fallback_available d \<longleftrightarrow> pd_eligibility d = PathEligibility.FALLBACK_REQUIRED"
    and "pd_selected_fallback d =
           (if pd_fallback_available d then Some (fallback_candidate req ev) else None)"
    and "pd_fallback_candidates d =
           (if pd_fallback_available d then [fallback_candidate req ev] else [])"
  using assms final_spec_fallback [of req ev] evaluate_outcome(2) [OF assms]
  by (auto simp: evaluate_ok fallback_decide_outcome verdict_no_fallback)

subsection \<open>What a direct decision guarantees\<close>

lemma first_failure_None: "first_failure rs = None \<longleftrightarrow> (\<forall>r \<in> set rs. fst r)"
  by (auto simp: first_failure_def find_None_iff)

lemma direct_spec_direct_iff:
  "is_direct (direct_spec req ev) \<longleftrightarrow> (\<forall>r \<in> set (requirements req ev). fst r)"
proof (cases "first_failure (requirements req ev)")
  case None
  then have "is_direct (direct_spec req ev)" by (simp add: direct_spec_def)
  with None show ?thesis by (simp add: first_failure_None)
next
  case (Some e)
  then have "\<not> is_direct e"
    by (auto simp: first_failure_def requirements_def Let_def split: if_splits)
  moreover have "\<not> (\<forall>r \<in> set (requirements req ev). fst r)"
    using Some first_failure_None [of "requirements req ev"] by auto
  ultimately show ?thesis using Some by (simp add: direct_spec_def)
qed

lemma direct_spec_decided: "direct_spec req ev \<noteq> PathEligibility.UNSUPPORTED"
  by (auto simp: direct_spec_def first_failure_def requirements_def Let_def)

lemma final_spec_direct_iff: "is_direct (final_spec req ev) \<longleftrightarrow> is_direct (direct_spec req ev)"
  by (simp add: final_spec_def)

lemma direct_spec_allowed:
  "direct_spec req ev = PathEligibility.DIRECT_ALLOWED \<Longrightarrow>
   r_support (the (registration_of ev)) = Support.REAL"
  by (auto simp: direct_spec_def first_failure_def requirements_def Let_def split: if_splits)

lemma direct_registration:
  assumes "is_direct (direct_spec req ev)"
  obtains r where "registration_of ev = Some r" "registration_current ev r"
    "authority_live (r_authority r) ev" "r \<in> set (ev_registrations ev)"
    "r_buffer r = b_id (ev_source ev)" "r_endpoint r = e_id (ev_destination ev)"
proof -
  from assms obtain r where r: "registration_of ev = Some r" "registration_current ev r"
      "authority_live (r_authority r) ev"
    unfolding direct_spec_direct_iff by (auto simp: requirements_def Let_def)
  moreover from r(1) have "r \<in> set (ev_registrations ev)"
      "r_buffer r = b_id (ev_source ev)" "r_endpoint r = e_id (ev_destination ev)"
    unfolding registration_of_def find_registration_def by (auto dest: latest_by_SomeD)
  ultimately show ?thesis using that by blast
qed

lemma evaluate_direct_support:
  assumes "evaluate req ev = ok d" and "is_direct (pd_eligibility d)"
  shows "pd_support d = r_support (the (registration_of ev))"
proof -
  have direct: "is_direct (direct_spec req ev)"
    using assms evaluate_outcome(2) final_spec_direct_iff by auto
  then have "first_failure (butlast (requirements req ev)) = None"
    unfolding direct_spec_direct_iff first_failure_None by (auto dest: in_set_butlastD)
  then have reg: "fst (registered_verdict req ev) = PathEligibility.UNSUPPORTED"
    by (simp add: fst_registered_verdict)
  have "pd_support (snd (direct_verdict req ev)) = pd_support (snd (registered_verdict req ev))"
    by (simp add: direct_verdict_split while_undecided_def reg check_alignment_def add_v_def)
  with assms direct reg show ?thesis
    by (auto simp: evaluate_ok decide_outcome_def Let_def support_registered_verdict)
qed

subsection \<open>The order of the evidence is immaterial\<close>

text \<open>
  Two snapshots of the same records in different iteration orders, as two hash tables would yield
  them, with generations and capability keys unique.
\<close>

definition same_evidence :: "PathEvidence \<Rightarrow> PathEvidence \<Rightarrow> bool" where
  "same_evidence ev ev' \<longleftrightarrow>
     ev_source ev' = ev_source ev \<and> ev_destination ev' = ev_destination ev \<and>
     ev_device ev' = ev_device ev \<and> ev_epoch ev' = ev_epoch ev \<and>
     mset (ev_registrations ev') = mset (ev_registrations ev) \<and>
     mset (ev_capabilities ev') = mset (ev_capabilities ev) \<and>
     mset (ev_devices ev') = mset (ev_devices ev) \<and>
     mset (ev_endpoints ev') = mset (ev_endpoints ev) \<and>
     mset (ev_providers ev') = mset (ev_providers ev) \<and>
     mset (ev_live_workers ev') = mset (ev_live_workers ev)"

definition evidence_unique :: "PathEvidence \<Rightarrow> bool" where
  "evidence_unique ev \<longleftrightarrow>
     (\<forall>a \<in> set (ev_registrations ev). \<forall>b \<in> set (ev_registrations ev).
        r_buffer a = r_buffer b \<longrightarrow> r_endpoint a = r_endpoint b \<longrightarrow>
        r_generation a = r_generation b \<longrightarrow> a = b) \<and>
     (\<forall>a \<in> set (ev_capabilities ev). \<forall>b \<in> set (ev_capabilities ev).
        c_provider a = c_provider b \<longrightarrow> c_capability a = c_capability b \<longrightarrow> a = b) \<and>
     (\<forall>a \<in> set (ev_devices ev). \<forall>b \<in> set (ev_devices ev). d_id a = d_id b \<longrightarrow> a = b) \<and>
     (\<forall>a \<in> set (ev_endpoints ev). \<forall>b \<in> set (ev_endpoints ev). e_id a = e_id b \<longrightarrow> a = b)"

lemma same_evidence_sets:
  assumes "same_evidence ev ev'"
  shows "set (ev_registrations ev') = set (ev_registrations ev)"
    "set (ev_capabilities ev') = set (ev_capabilities ev)" "set (ev_devices ev') = set (ev_devices ev)"
    "set (ev_endpoints ev') = set (ev_endpoints ev)" "set (ev_providers ev') = set (ev_providers ev)"
    "set (ev_live_workers ev') = set (ev_live_workers ev)"
  using assms unfolding same_evidence_def by (metis set_mset_mset)+

lemma helpers_same_evidence:
  assumes same: "same_evidence ev ev'" and uniq: "evidence_unique ev"
  shows "latest_endpoint ev' = latest_endpoint ev" "latest_device ev' = latest_device ev"
    "find_registration ev' = find_registration ev" "capability_for ev' = capability_for ev"
    "host_staging_available ev' = host_staging_available ev"
    "provider_available ev' = provider_available ev"
    "\<And>a. authority_live a ev' = authority_live a ev"
proof -
  note sets = same_evidence_sets [OF same]
  show "latest_endpoint ev' = latest_endpoint ev" "latest_device ev' = latest_device ev"
    "find_registration ev' = find_registration ev"
    unfolding latest_endpoint_def latest_device_def find_registration_def fun_eq_iff
    using sets uniq
    by (auto intro!: latest_by_set simp: evidence_unique_def gen_value_eq_iff)
  show "capability_for ev' = capability_for ev"
    unfolding capability_for_def fun_eq_iff
    using sets uniq by (auto intro!: find_set simp: evidence_unique_def)
  show "host_staging_available ev' = host_staging_available ev"
    "provider_available ev' = provider_available ev" "\<And>a. authority_live a ev' = authority_live a ev"
    using same sets
    by (auto simp: host_staging_available_def provider_available_def authority_live_def
        same_evidence_def list_ex_iff fun_eq_iff)
qed

lemma evaluate_same_evidence:
  assumes same: "same_evidence ev ev'" and uniq: "evidence_unique ev"
  shows "evaluate req ev' = evaluate req ev"
proof -
  note helpers = helpers_same_evidence [OF same uniq]
  from same have eqs: "ev_source ev' = ev_source ev" "ev_destination ev' = ev_destination ev"
      "ev_device ev' = ev_device ev"
    by (simp_all add: same_evidence_def)
  have "check_destination_generation ev' = check_destination_generation ev"
      "check_device ev' = check_device ev" "check_provider ev' = check_provider ev"
      "check_capability ev' = check_capability ev" "check_registration ev' = check_registration ev"
    by (simp_all add: fun_eq_iff check_destination_generation_def check_device_def
        check_provider_def check_capability_def check_registration_def helpers eqs Let_def
        cong: option.case_cong if_cong)
  moreover have "initial_decision req ev' = initial_decision req ev"
    by (simp add: initial_decision_def classify_direct_def eqs)
  ultimately have "direct_verdict req ev' = direct_verdict req ev"
    by (simp add: direct_verdict_def eqs)
  moreover have "decide_outcome req ev' e d = decide_outcome req ev e d" for e d
    by (simp add: decide_outcome_def dest_usable_def add_fallback_candidates_def fallback_candidate_def
        Let_def eqs helpers)
  ultimately show ?thesis by (simp add: evaluate_def)
qed

section \<open>Properties of the planner\<close>

text \<open>
  C14: The planner always returns a decision, and the decision is the one of the fourteen-requirement
  checklist: the direct eligibility is the outcome of the first requirement that fails, and the final
  eligibility replaces it by a required fallback exactly where the policy and the evidence allow one.
\<close>

theorem planner_refines_checklist:
  "case evaluate req ev of
     Inl _ \<Rightarrow> False
   | Inr d \<Rightarrow> pd_direct_eligibility d = direct_spec req ev \<and> pd_eligibility d = final_spec req ev \<and>
       pd_direct_class d = classify_direct req ev \<and>
       pd_source_generation d = b_generation (ev_source ev) \<and>
       pd_destination_generation d = e_generation (ev_destination ev)"
proof -
  obtain d where d: "evaluate req ev = ok d" by (simp add: evaluate_ok)
  from evaluate_outcome [OF d] evaluate_base [OF d] show ?thesis by (simp add: d ok_def)
qed

text \<open>
  C1: A direct path is granted exactly when the source is an active GPU buffer on a current device,
  the request fits it and is a multiple of its alignment, which is at least 64 bytes, the destination is
  a known, supported, healthy endpoint at its latest generation, its provider is available and its
  capability evidenced, and the latest registration of the pair is registered, current on both sides
  and owned by a live authority.
\<close>

theorem planner_direct_exactly:
  "case evaluate req ev of
     Inl _ \<Rightarrow> False
   | Inr d \<Rightarrow> is_direct (pd_eligibility d) \<longleftrightarrow>
       (let src = ev_source ev; dest = ev_destination ev; cls = e_endpoint_class dest in
        id_valid (b_id src) \<and> b_lifecycle src = BufferLifecycle.ACTIVE \<and>
        is_gpu_memory (b_domain src) \<and> rq_size req \<le> b_size src \<and> 64 \<le> b_alignment src \<and>
        rq_size req mod b_alignment src = 0 \<and>
        id_valid (d_id (ev_device ev)) \<and>
        generation_current (map_option d_generation (latest_device ev (d_id (ev_device ev))))
          (d_generation (ev_device ev)) \<and>
        id_valid (e_id dest) \<and> cls \<noteq> EndpointClass.UNKNOWN \<and> e_support dest \<noteq> Support.UNSUPPORTED \<and>
        e_healthy dest \<and>
        generation_current (map_option e_generation (latest_endpoint ev (e_id dest))) (e_generation dest) \<and>
        provider_available ev (provider_for cls) \<and> capability_evidenced ev \<and>
        (case find_registration ev (b_id src) (e_id dest) of
           None \<Rightarrow> False
         | Some r \<Rightarrow> registration_current ev r \<and> authority_live (r_authority r) ev))"
proof -
  obtain d where d: "evaluate req ev = ok d" by (simp add: evaluate_ok)
  have "is_direct (pd_eligibility d) \<longleftrightarrow> (\<forall>r \<in> set (requirements req ev). fst r)"
    using evaluate_outcome(2) [OF d] final_spec_direct_iff direct_spec_direct_iff by metis
  then show ?thesis
    by (cases "find_registration ev (b_id (ev_source ev)) (e_id (ev_destination ev))")
       (auto simp: d ok_def requirements_def Let_def registration_of_def del: mod_0_imp_dvd)
qed

text \<open>
  Every decision explains itself: the requirement log is not empty, all its entries but the last
  are satisfied, and the last one is satisfied exactly when the direct path is allowed.
\<close>

lemma planner_decision_explained:
  "case evaluate req ev of
     Inl _ \<Rightarrow> False
   | Inr d \<Rightarrow> pd_violations d \<noteq> [] \<and> list_all rv_satisfied (butlast (pd_violations d)) \<and>
       (rv_satisfied (last (pd_violations d)) \<longleftrightarrow> is_direct (pd_direct_eligibility d))"
proof -
  obtain d where d: "evaluate req ev = ok d" by (simp add: evaluate_ok)
  have "pd_direct_eligibility d \<noteq> PathEligibility.UNSUPPORTED"
    using evaluate_outcome(1) [OF d] direct_spec_decided [of req ev] by simp
  with evaluate_explained [OF d] show ?thesis by (simp add: d ok_def explained_def Let_def)
qed

lemma fallback_disallowed_decide_outcome:
  "pd_fallback_disallowed (decide_outcome req ev e d) \<longleftrightarrow>
     (if \<not> is_direct e \<and> rq_policy req = PathPolicy.DIRECT_ONLY then host_staging_available ev \<and> dest_usable ev
      else pd_fallback_disallowed d)"
  by (auto simp: decide_outcome_def add_fallback_candidates_def Let_def)

lemma verdict_not_disallowed: "\<not> pd_fallback_disallowed (snd (direct_verdict req ev))"
  using sound_direct_verdict [of req ev]
  by (simp add: sound_verdict_def base_kept_def initial_decision_def default_PathDecision_def)

lemma fallback_candidate_fields:
  "\<not> cd_direct (fallback_candidate req ev)" "cd_stage_count (fallback_candidate req ev) = 2"
  "cd_support (fallback_candidate req ev) = Support.SYNTHETIC"
  "cd_provenance (fallback_candidate req ev) = Provenance.SYNTHETIC_FIXTURE"
  "cd_path_class (fallback_candidate req ev) = fallback_class (rq_direction req) (e_endpoint_class (ev_destination ev))"
  by (simp_all add: fallback_candidate_def default_PathCandidate_def)

lemma fallback_class_cases:
  "fallback_class dir cls =
     (if dir = Direction.GPU_TO_PEER then
        (if cls = EndpointClass.NIC then PathClass.GPU_TO_HOST_STAGED_TO_NIC
         else if cls = EndpointClass.STORAGE then PathClass.GPU_TO_HOST_STAGED_TO_STORAGE
         else PathClass.GPU_TO_HOST_PINNED)
      else
        (if cls = EndpointClass.NIC then PathClass.NIC_TO_HOST_STAGED_TO_GPU
         else if cls = EndpointClass.STORAGE then PathClass.STORAGE_TO_HOST_STAGED_TO_GPU
         else PathClass.HOST_PINNED_TO_GPU))"
  by (cases cls) (simp_all add: fallback_class_def)

text \<open>
  C38: A fallback is required exactly when the direct path is refused, the policy is not DIRECT_ONLY,
  the destination has an identity, is healthy and of a known class, and some observation of the current
  epoch says that host staging is supported. The decision then offers one candidate and selects it: not
  direct, two stages, marked synthetic, of the path class of its direction and endpoint class. Otherwise
  the decision keeps the outcome of the direct path and offers nothing; under DIRECT_ONLY it says
  whether a fallback would have been possible.
\<close>

theorem planner_fallback_exactly:
  "\<exists>d. evaluate req ev = ok d \<and>
     (let dest = ev_destination ev;
          refused = pd_direct_eligibility d \<notin> {PathEligibility.DIRECT_ALLOWED, PathEligibility.DIRECT_ALLOWED_DEGRADED};
          possible = id_valid (e_id dest) \<and> e_healthy dest \<and> e_endpoint_class dest \<noteq> EndpointClass.UNKNOWN \<and>
            (\<exists>c \<in> set (ev_capabilities ev). c_capability c = ''host_staging'' \<and> c_value c = ''true'' \<and>
               c_support c \<noteq> Support.UNSUPPORTED \<and> au_epoch (c_authority c) = ev_epoch ev);
          required = (refused \<and> rq_policy req \<noteq> PathPolicy.DIRECT_ONLY \<and> possible) in
      (pd_eligibility d = PathEligibility.FALLBACK_REQUIRED \<longleftrightarrow> required) \<and>
      (pd_fallback_available d \<longleftrightarrow> required) \<and>
      (pd_fallback_disallowed d \<longleftrightarrow> refused \<and> rq_policy req = PathPolicy.DIRECT_ONLY \<and> possible) \<and>
      (if required then
         \<exists>c. pd_selected_fallback d = Some c \<and> pd_fallback_candidates d = [c] \<and> \<not> cd_direct c \<and>
           cd_stage_count c = 2 \<and> cd_support c = Support.SYNTHETIC \<and> cd_provenance c = Provenance.SYNTHETIC_FIXTURE \<and>
           cd_path_class c =
             (if rq_direction req = Direction.GPU_TO_PEER then
                (if e_endpoint_class dest = EndpointClass.NIC then PathClass.GPU_TO_HOST_STAGED_TO_NIC
                 else if e_endpoint_class dest = EndpointClass.STORAGE then PathClass.GPU_TO_HOST_STAGED_TO_STORAGE
                 else PathClass.GPU_TO_HOST_PINNED)
              else
                (if e_endpoint_class dest = EndpointClass.NIC then PathClass.NIC_TO_HOST_STAGED_TO_GPU
                 else if e_endpoint_class dest = EndpointClass.STORAGE then PathClass.STORAGE_TO_HOST_STAGED_TO_GPU
                 else PathClass.HOST_PINNED_TO_GPU))
       else pd_eligibility d = pd_direct_eligibility d \<and> pd_selected_fallback d = None \<and> pd_fallback_candidates d = []))"
proof -
  obtain d where d: "evaluate req ev = ok d" by (simp add: evaluate_ok)
  let ?dest = "ev_destination ev"
  let ?possible = "id_valid (e_id ?dest) \<and> e_healthy ?dest \<and> e_endpoint_class ?dest \<noteq> EndpointClass.UNKNOWN \<and>
      (\<exists>c \<in> set (ev_capabilities ev). c_capability c = ''host_staging'' \<and> c_value c = ''true'' \<and>
         c_support c \<noteq> Support.UNSUPPORTED \<and> au_epoch (c_authority c) = ev_epoch ev)"
  let ?refused = "pd_direct_eligibility d \<notin> {PathEligibility.DIRECT_ALLOWED, PathEligibility.DIRECT_ALLOWED_DEGRADED}"
  let ?required = "?refused \<and> rq_policy req \<noteq> PathPolicy.DIRECT_ONLY \<and> ?possible"
  have possible: "dest_usable ev \<and> host_staging_available ev \<longleftrightarrow> ?possible"
    by (auto simp: dest_usable_def host_staging_available_def list_ex_iff gen_value_eq_iff)
  have refused: "?refused \<longleftrightarrow> \<not> is_direct (pd_direct_eligibility d)" by (auto simp: is_direct_def)
  have required: "pd_eligibility d = PathEligibility.FALLBACK_REQUIRED \<longleftrightarrow> ?required"
    unfolding possible [symmetric] refused
    using evaluate_outcome [OF d] final_spec_fallback [of req ev] by auto
  have disallowed: "pd_fallback_disallowed d \<longleftrightarrow> ?refused \<and> rq_policy req = PathPolicy.DIRECT_ONLY \<and> ?possible"
    unfolding possible [symmetric] refused
    using d by (auto simp: evaluate_ok ok_def fallback_disallowed_decide_outcome verdict_not_disallowed eligibility_decide_outcome
        split: if_splits)
  have kept: "pd_eligibility d = pd_direct_eligibility d" if "\<not> ?required"
    using that evaluate_outcome [OF d] required by (auto simp: final_spec_def split: if_splits)
  note fallback = evaluate_fallback [OF d] fallback_candidate_fields [of req ev] fallback_class_cases
  show ?thesis
  proof (cases ?required)
    case True
    then show ?thesis
      using d required disallowed fallback by (intro exI [of _ d]) (simp add: Let_def)
  next
    case False
    then show ?thesis
      using d required disallowed fallback kept [OF False] by (intro exI [of _ d]) (simp add: Let_def)
  qed
qed

end
