(* ===== verification/Backends.thy ===== *)
theory Backends
  imports Records
begin

text \<open>
  The backend interface (\<open>include/gpudirectfabric/backend.hpp\<close>) as a table of its virtual functions,
  the registry of \<open>src/backend.cpp\<close>, and the three concrete backends: synthetic
  (\<open>src/backends/synthetic_backend.cpp\<close>), unsupported (\<open>src/backends/unsupported_backend.cpp\<close>) and
  CUDA (\<open>src/backends/cuda_backend.cpp\<close>, whose calls into the CUDA runtime are a parameter). A
  \<open>Backend*\<close> is an optional pair of a table and the object's state; \<open>nullptr\<close> is \<open>None\<close>.
\<close>

section \<open>The interface\<close>

record 'b Backend_vtable =
  vt_name :: "'b \<Rightarrow> string"
  vt_support :: "'b \<Rightarrow> Support"
  vt_provenance :: "'b \<Rightarrow> Provenance"
  vt_available :: "'b \<Rightarrow> bool"
  vt_capabilities :: "'b \<Rightarrow> CapabilityObservation list"
  vt_devices :: "'b \<Rightarrow> DeviceRecord list"
  vt_endpoints :: "'b \<Rightarrow> EndpointRecord list"
  vt_nics :: "'b \<Rightarrow> NicRecord list"
  vt_storage_endpoints :: "'b \<Rightarrow> StorageEndpointRecord list"
  vt_providers :: "'b \<Rightarrow> ProviderInfo list"
  vt_register_buffer :: "RegistrationSpec \<Rightarrow> 'b \<Rightarrow> RegisterResult Result \<times> 'b"
  vt_deregister_buffer :: "Registration \<Rightarrow> 'b \<Rightarrow> unit Result \<times> 'b"
  vt_run_transfer :: "TransferRun \<Rightarrow> 'b \<Rightarrow> TransferOutcome Result \<times> 'b"

type_synonym 'b Backend_ptr = "('b Backend_vtable \<times> 'b) option"

section \<open>Synthetic backend\<close>

record SyntheticBackend =
  sy_corrupt :: bool
  sy_next_reg_id :: u64

definition default_SyntheticBackend :: SyntheticBackend where
  "default_SyntheticBackend = \<lparr>sy_corrupt = False, sy_next_reg_id = 1\<rparr>"

definition set_corrupt :: "bool \<Rightarrow> SyntheticBackend \<Rightarrow> SyntheticBackend" where
  "set_corrupt corrupt b = b\<lparr>sy_corrupt := corrupt\<rparr>"

definition synthetic_cap :: "string \<Rightarrow> string \<Rightarrow> string \<Rightarrow> CapabilityObservation" where
  "synthetic_cap prov cap val =
     default_CapabilityObservation
       \<lparr>c_provider := prov, c_capability := cap, c_value := val, c_support := Support.SYNTHETIC,
        c_provenance := Provenance.SYNTHETIC_FIXTURE, c_freshness := 0\<rparr>"

definition synthetic_capabilities :: "SyntheticBackend \<Rightarrow> CapabilityObservation list" where
  "synthetic_capabilities b =
     [synthetic_cap ''rdma'' ''direct_nic'' ''true'',
      synthetic_cap ''storage'' ''direct_storage'' ''true'',
      synthetic_cap ''cuda'' ''peer_memory'' ''true'',
      synthetic_cap ''synthetic'' ''host_staging'' ''true'']"

definition synthetic_devices :: "SyntheticBackend \<Rightarrow> DeviceRecord list" where
  "synthetic_devices b =
     [default_DeviceRecord
       \<lparr>d_id := Id 1, d_generation := Generation 1, d_name := ''synthetic-gpu-0'',
        d_compute_capability := ''synthetic'', d_peer_memory_supported := True,
        d_support := Support.SYNTHETIC, d_provenance := Provenance.SYNTHETIC_FIXTURE,
        d_freshness := 0\<rparr>]"

definition synthetic_endpoint ::
    "u64 \<Rightarrow> EndpointClass \<Rightarrow> string \<Rightarrow> string \<Rightarrow> EndpointRecord" where
  "synthetic_endpoint i cls name topo =
     default_EndpointRecord
       \<lparr>e_id := Id i, e_generation := Generation 1, e_endpoint_class := cls, e_name := name,
        e_topology_hint := topo, e_healthy := True, e_provider := Id i,
        e_support := Support.SYNTHETIC, e_provenance := Provenance.SYNTHETIC_FIXTURE\<rparr>"

definition synthetic_endpoints :: "SyntheticBackend \<Rightarrow> EndpointRecord list" where
  "synthetic_endpoints b =
     [synthetic_endpoint 1 EndpointClass.NIC ''synthetic-nic-0'' ''synthetic:pci'',
      synthetic_endpoint 2 EndpointClass.STORAGE ''synthetic-storage-0'' ''synthetic:nvme'',
      synthetic_endpoint 3 EndpointClass.PEER_DEVICE ''synthetic-peer-gpu-1'' ''synthetic:p2p'']"

definition synthetic_nics :: "SyntheticBackend \<Rightarrow> NicRecord list" where
  "synthetic_nics b =
     [default_NicRecord
       \<lparr>n_id := Id 1, n_generation := Generation 1, n_name := ''synthetic-nic-0'',
        n_locator := ''synthetic:0'', n_rdma_capable := True, n_direct_path_capable := True,
        n_provider := Id 1, n_support := Support.SYNTHETIC,
        n_provenance := Provenance.SYNTHETIC_FIXTURE\<rparr>]"

definition synthetic_storage_endpoints :: "SyntheticBackend \<Rightarrow> StorageEndpointRecord list" where
  "synthetic_storage_endpoints b =
     [default_StorageEndpointRecord
       \<lparr>se_id := Id 1, se_generation := Generation 1, se_name := ''synthetic-storage-0'',
        se_backend_name := ''synthetic-nvme'', se_path := ''synthetic:/dev/nvme0'',
        se_direct_path_capable := True, se_provider := Id 2, se_support := Support.SYNTHETIC,
        se_provenance := Provenance.SYNTHETIC_FIXTURE\<rparr>]"

definition synthetic_provider :: "u64 \<Rightarrow> string \<Rightarrow> ProviderInfo" where
  "synthetic_provider i name =
     default_ProviderInfo
       \<lparr>p_id := Id i, p_name := name, p_available := True, p_support := Support.SYNTHETIC,
        p_provenance := Provenance.SYNTHETIC_FIXTURE\<rparr>"

definition synthetic_providers :: "SyntheticBackend \<Rightarrow> ProviderInfo list" where
  "synthetic_providers b =
     [synthetic_provider 1 ''rdma'', synthetic_provider 2 ''storage'', synthetic_provider 3 ''cuda'']"

definition synthetic_register_buffer ::
    "RegistrationSpec \<Rightarrow> SyntheticBackend \<Rightarrow> RegisterResult Result \<times> SyntheticBackend" where
  "synthetic_register_buffer spec b =
     (ok \<lparr>rr_id = Id (sy_next_reg_id b), rr_generation = Generation 1,
          rr_support = Support.SYNTHETIC, rr_provenance = Provenance.SYNTHETIC_FIXTURE,
          rr_handle = Some (SyntheticHandle (sy_next_reg_id b))\<rparr>,
      b\<lparr>sy_next_reg_id := sy_next_reg_id b + 1\<rparr>)"

definition synthetic_deregister_buffer ::
    "Registration \<Rightarrow> SyntheticBackend \<Rightarrow> unit Result \<times> SyntheticBackend" where
  "synthetic_deregister_buffer reg b = (ok (), b)"

definition synthetic_run_transfer ::
    "TransferRun \<Rightarrow> SyntheticBackend \<Rightarrow> TransferOutcome Result \<times> SyntheticBackend" where
  "synthetic_run_transfer run b =
     (ok \<lparr>oc_state = (if sy_corrupt b then TransferState.FAILED else TransferState.COMPLETED),
          oc_bytes = run_expected_bytes run, oc_integrity_checked = True,
          oc_integrity_passed = (\<not> sy_corrupt b), oc_method = ''synthetic-cpu-replica'',
          oc_support = Support.SYNTHETIC, oc_provenance = Provenance.SYNTHETIC_FIXTURE,
          oc_detail = (if sy_corrupt b then ''synthetic payload corruption detected''
                       else ''synthetic transfer completed'')\<rparr>, b)"

definition synthetic_vtable :: "SyntheticBackend Backend_vtable" where
  "synthetic_vtable =
     \<lparr>vt_name = (\<lambda>_. ''synthetic''), vt_support = (\<lambda>_. Support.SYNTHETIC),
      vt_provenance = (\<lambda>_. Provenance.SYNTHETIC_FIXTURE), vt_available = (\<lambda>_. True),
      vt_capabilities = synthetic_capabilities, vt_devices = synthetic_devices,
      vt_endpoints = synthetic_endpoints, vt_nics = synthetic_nics,
      vt_storage_endpoints = synthetic_storage_endpoints, vt_providers = synthetic_providers,
      vt_register_buffer = synthetic_register_buffer,
      vt_deregister_buffer = synthetic_deregister_buffer,
      vt_run_transfer = synthetic_run_transfer\<rparr>"

section \<open>Unsupported backend\<close>

record UnsupportedBackend =
  ub_name :: string
  ub_provider_name :: string
  ub_provenance :: Provenance

definition unsupported_capabilities :: "UnsupportedBackend \<Rightarrow> CapabilityObservation list" where
  "unsupported_capabilities b =
     [default_CapabilityObservation
       \<lparr>c_provider := ub_provider_name b, c_capability := ub_name b, c_value := ''false'',
        c_support := Support.UNSUPPORTED, c_provenance := ub_provenance b, c_freshness := 0\<rparr>]"

definition unsupported_providers :: "UnsupportedBackend \<Rightarrow> ProviderInfo list" where
  "unsupported_providers b =
     [\<lparr>p_id = Id 1, p_name = ub_provider_name b, p_available = False,
       p_support = Support.UNSUPPORTED, p_provenance = ub_provenance b\<rparr>]"

definition unsupported_error :: "'a Result" where
  "unsupported_error = err ErrorCode.UNSUPPORTED ''provider is not available on this platform''"

definition unsupported_vtable :: "UnsupportedBackend Backend_vtable" where
  "unsupported_vtable =
     \<lparr>vt_name = ub_name, vt_support = (\<lambda>_. Support.UNSUPPORTED), vt_provenance = ub_provenance,
      vt_available = (\<lambda>_. False), vt_capabilities = unsupported_capabilities,
      vt_devices = (\<lambda>_. []), vt_endpoints = (\<lambda>_. []), vt_nics = (\<lambda>_. []),
      vt_storage_endpoints = (\<lambda>_. []), vt_providers = unsupported_providers,
      vt_register_buffer = (\<lambda>spec b. (unsupported_error, b)),
      vt_deregister_buffer = (\<lambda>reg b. (unsupported_error, b)),
      vt_run_transfer = (\<lambda>run b. (unsupported_error, b))\<rparr>"

definition make_rdma_backend :: UnsupportedBackend where
  "make_rdma_backend =
     \<lparr>ub_name = ''rdma'', ub_provider_name = ''rdma'', ub_provenance = Provenance.RDMA_PROVIDER\<rparr>"

definition make_storage_backend :: UnsupportedBackend where
  "make_storage_backend =
     \<lparr>ub_name = ''storage'', ub_provider_name = ''storage'',
      ub_provenance = Provenance.STORAGE_BACKEND\<rparr>"

definition make_noop_backend :: UnsupportedBackend where
  "make_noop_backend =
     \<lparr>ub_name = ''unsupported'', ub_provider_name = ''unknown'', ub_provenance = Provenance.DERIVED\<rparr>"

section \<open>CUDA backend\<close>

text \<open>
  The CUDA runtime is a parameter: \<open>rt_count\<close> is the return code and count of \<open>gdf_cuda_count\<close>,
  \<open>rt_props i\<close> the properties of device \<open>i\<close> (name, compute capability) or \<open>None\<close> when the query
  fails.
\<close>

record cuda_runtime =
  rt_count :: "int \<times> int"
  rt_props :: "nat \<Rightarrow> (string \<times> int \<times> int) option"

record CudaBackend =
  cu_devices :: "DeviceRecord list"
  cu_providers :: "ProviderInfo list"
  cu_device_count :: int
  cu_discovered :: bool

definition dec_of_int :: "int \<Rightarrow> string" where
  "dec_of_int i = (if i < 0 then CHR ''-'' # dec_of_nat (nat (- i)) else dec_of_nat (nat i))"

definition cuda_device :: "cuda_runtime \<Rightarrow> nat \<Rightarrow> DeviceRecord" where
  "cuda_device rt i =
     (let d = default_DeviceRecord
            \<lparr>d_id := Id (of_nat (Suc i)), d_generation := Generation 1,
             d_peer_memory_supported := False, d_support := Support.REAL,
             d_provenance := Provenance.CUDA_RUNTIME, d_freshness := 0\<rparr>
      in case rt_props rt i of
           Some (name, major, minor) \<Rightarrow>
             d\<lparr>d_name := name, d_compute_capability := dec_of_int major @ ''.'' @ dec_of_int minor\<rparr>
         | None \<Rightarrow>
             d\<lparr>d_name := ''cuda-device-'' @ dec_of_nat i, d_compute_capability := ''unknown''\<rparr>)"

definition cuda_discover :: "cuda_runtime \<Rightarrow> CudaBackend \<Rightarrow> CudaBackend" where
  "cuda_discover rt b =
     (let b = b\<lparr>cu_devices := [], cu_providers := []\<rparr>; (rc, count) = rt_count rt in
      if rc \<noteq> 0 \<or> count \<le> 0 then b\<lparr>cu_device_count := 0\<rparr>
      else b\<lparr>cu_device_count := count, cu_devices := map (cuda_device rt) [0..<nat count],
             cu_providers := [\<lparr>p_id = Id 1, p_name = ''cuda'', p_available = True,
               p_support = Support.REAL, p_provenance = Provenance.CUDA_RUNTIME\<rparr>],
             cu_discovered := True\<rparr>)"

definition make_cuda_backend :: "cuda_runtime \<Rightarrow> CudaBackend" where
  "make_cuda_backend rt =
     cuda_discover rt \<lparr>cu_devices = [], cu_providers = [], cu_device_count = 0, cu_discovered = False\<rparr>"

definition cuda_available :: "CudaBackend \<Rightarrow> bool" where
  "cuda_available b \<longleftrightarrow> cu_discovered b \<and> cu_device_count b > 0"

definition cuda_support :: "CudaBackend \<Rightarrow> Support" where
  "cuda_support b =
     (if cu_discovered b \<and> cu_device_count b > 0 then Support.REAL else Support.UNSUPPORTED)"

definition cuda_cap :: "string \<Rightarrow> string \<Rightarrow> Provenance \<Rightarrow> CapabilityObservation" where
  "cuda_cap cap val p =
     default_CapabilityObservation
       \<lparr>c_provider := ''cuda'', c_capability := cap, c_value := val, c_support := Support.REAL,
        c_provenance := p, c_freshness := 0\<rparr>"

definition cuda_capabilities :: "CudaBackend \<Rightarrow> CapabilityObservation list" where
  "cuda_capabilities b =
     [cuda_cap ''device_present'' (if cu_discovered b \<and> cu_device_count b > 0 then ''true'' else ''false'')
        Provenance.CUDA_RUNTIME,
      cuda_cap ''registered_gpu_memory'' ''true'' Provenance.CUDA_DRIVER,
      cuda_cap ''host_pinned'' ''true'' Provenance.CUDA_RUNTIME,
      cuda_cap ''peer_memory'' ''false'' Provenance.CUDA_RUNTIME]"

definition cuda_register_buffer ::
    "RegistrationSpec \<Rightarrow> CudaBackend \<Rightarrow> RegisterResult Result \<times> CudaBackend" where
  "cuda_register_buffer spec b =
     (err ErrorCode.UNSUPPORTED ''CUDA backend does not expose a real direct registration path'', b)"

definition cuda_deregister_buffer :: "Registration \<Rightarrow> CudaBackend \<Rightarrow> unit Result \<times> CudaBackend" where
  "cuda_deregister_buffer reg b = (ok (), b)"

definition cuda_run_transfer ::
    "TransferRun \<Rightarrow> CudaBackend \<Rightarrow> TransferOutcome Result \<times> CudaBackend" where
  "cuda_run_transfer run b =
     (err ErrorCode.UNSUPPORTED ''no real GPUDirect path is available to execute'', b)"

definition cuda_vtable :: "CudaBackend Backend_vtable" where
  "cuda_vtable =
     \<lparr>vt_name = (\<lambda>_. ''cuda''), vt_support = cuda_support,
      vt_provenance = (\<lambda>_. Provenance.CUDA_RUNTIME), vt_available = cuda_available,
      vt_capabilities = cuda_capabilities, vt_devices = cu_devices, vt_endpoints = (\<lambda>_. []),
      vt_nics = (\<lambda>_. []), vt_storage_endpoints = (\<lambda>_. []), vt_providers = cu_providers,
      vt_register_buffer = cuda_register_buffer, vt_deregister_buffer = cuda_deregister_buffer,
      vt_run_transfer = cuda_run_transfer\<rparr>"

section \<open>Registry\<close>

text \<open>The registry keeps the non-null backends in insertion order.\<close>

definition registry_add :: "'b Backend_ptr \<Rightarrow> ('b Backend_vtable \<times> 'b) list \<Rightarrow> ('b Backend_vtable \<times> 'b) list" where
  "registry_add p rs = (case p of None \<Rightarrow> rs | Some b \<Rightarrow> rs @ [b])"

definition registry_find_by_name :: "string \<Rightarrow> ('b Backend_vtable \<times> 'b) list \<Rightarrow> 'b Backend_ptr" where
  "registry_find_by_name name rs = List.find (\<lambda>(vt, b). vt_name vt b = name) rs"

definition registry_names :: "('b Backend_vtable \<times> 'b) list \<Rightarrow> string list" where
  "registry_names rs = map (\<lambda>(vt, b). vt_name vt b) rs"

lemma registry_find_names:
  "registry_find_by_name name rs = None \<longleftrightarrow> name \<notin> set (registry_names rs)"
  by (auto simp: registry_find_by_name_def registry_names_def find_None_iff)

lemma registry_find_add:
  "registry_find_by_name name (registry_add (Some b) rs) =
     (case registry_find_by_name name rs of
        Some r \<Rightarrow> Some r
      | None \<Rightarrow> if vt_name (fst b) (snd b) = name then Some b else None)"
  by (induction rs) (auto simp: registry_find_by_name_def registry_add_def case_prod_beta)

section \<open>Honest backends\<close>

text \<open>
  The contract every backend of this repository keeps towards the coordinator: no registration and
  no transfer is labelled \<open>REAL\<close>, and an outcome that was integrity-checked and not reported as
  failed has passed the check and moved all the bytes asked for.
\<close>

locale honest_backend =
  fixes vt :: "'b Backend_vtable"
  assumes register_not_real:
      "vt_register_buffer vt spec b = (ok rr, b') \<Longrightarrow> rr_support rr \<noteq> Support.REAL"
    and run_not_real: "vt_run_transfer vt run b = (ok oc, b') \<Longrightarrow> oc_support oc \<noteq> Support.REAL"
    and run_complete:
      "vt_run_transfer vt run b = (ok oc, b') \<Longrightarrow> oc_state oc \<noteq> TransferState.FAILED \<Longrightarrow>
       oc_integrity_checked oc \<and> oc_integrity_passed oc \<and> oc_bytes oc = run_expected_bytes run"

interpretation synthetic: honest_backend synthetic_vtable
  by unfold_locales
     (auto simp: synthetic_vtable_def synthetic_register_buffer_def synthetic_run_transfer_def)

interpretation unsupported: honest_backend unsupported_vtable
  by unfold_locales (auto simp: unsupported_vtable_def unsupported_error_def)

interpretation cuda: honest_backend cuda_vtable
  by unfold_locales (auto simp: cuda_vtable_def cuda_register_buffer_def cuda_run_transfer_def)

end
