(* ===== verification/Coordinator.thy ===== *)
theory Coordinator
  imports Planner Backends
begin

text \<open>
  The coordinator's state (\<open>Coordinator::State\<close> in \<open>include/gpudirectfabric/coordinator.hpp\<close>) and
  the registry operations of \<open>src/coordinator.cpp\<close>: worker liveness, buffers, devices, endpoints,
  NICs, storage endpoints, providers, capabilities and registrations. Every public method takes the
  one mutex for its whole body, so an operation is an atomic function from a state to a result and a
  new state; the error branches return the state they leave behind.
\<close>

section \<open>State\<close>

record State =
  st_epoch :: CoordinatorEpoch
  st_next_id :: u64
  st_freshness :: u64
  st_buffers :: "BufferRecord umap"
  st_devices :: "DeviceRecord umap"
  st_endpoints :: "EndpointRecord umap"
  st_nics :: "NicRecord umap"
  st_storage :: "StorageEndpointRecord umap"
  st_registrations :: "Registration umap"
  st_providers :: "ProviderInfo umap"
  st_capabilities :: "CapabilityObservation umap"
  st_plans :: "TransferPlan umap"
  st_attempts :: "TransferAttempt umap"
  st_receipts :: "TransferReceipt umap"
  st_verifications :: "VerificationReceipt umap"
  st_workers :: "(WorkerId \<times> WorkerBootId) umap"
  st_worker_max_boot :: "u64 umap"
  st_max_buffers :: u32
  st_max_registrations :: u32
  st_max_endpoints :: u32
  st_max_plans :: u32
  st_max_attempts :: u32

definition default_State :: State where
  "default_State = \<lparr>
     st_epoch = Generation 1, st_next_id = 1, st_freshness = 1, st_buffers = [], st_devices = [],
     st_endpoints = [], st_nics = [], st_storage = [], st_registrations = [], st_providers = [],
     st_capabilities = [], st_plans = [], st_attempts = [], st_receipts = [], st_verifications = [],
     st_workers = [], st_worker_max_boot = [], st_max_buffers = 8192, st_max_registrations = 8192,
     st_max_endpoints = 4096, st_max_plans = 4096, st_max_attempts = 4096\<rparr>"

definition make_coordinator :: "CoordinatorEpoch \<Rightarrow> State" where
  "make_coordinator epoch = default_State\<lparr>st_epoch := epoch\<rparr>"

definition coordinator_epoch :: "State \<Rightarrow> CoordinatorEpoch" where
  "coordinator_epoch s = st_epoch s"

definition set_limits :: "u32 \<Rightarrow> u32 \<Rightarrow> u32 \<Rightarrow> u32 \<Rightarrow> u32 \<Rightarrow> State \<Rightarrow> State" where
  "set_limits max_buffers max_registrations max_endpoints max_plans max_attempts s =
     s\<lparr>st_max_buffers := max_buffers, st_max_registrations := max_registrations,
       st_max_endpoints := max_endpoints, st_max_plans := max_plans, st_max_attempts := max_attempts\<rparr>"

definition next_id_locked :: "State \<Rightarrow> u64 \<times> State" where
  "next_id_locked s = (st_next_id s + 1, s\<lparr>st_next_id := st_next_id s + 1\<rparr>)"

definition next_freshness_locked :: "State \<Rightarrow> u64 \<times> State" where
  "next_freshness_locked s = (st_freshness s + 1, s\<lparr>st_freshness := st_freshness s + 1\<rparr>)"

definition worker_live_locked :: "Authority \<Rightarrow> State \<Rightarrow> bool" where
  "worker_live_locked a s =
     (if gen_value (au_epoch a) \<noteq> gen_value (st_epoch s) then False
      else if \<not> worker_owned a then True
      else case umap_find (st_workers s) (id_value (au_worker a)) of
             None \<Rightarrow> False
           | Some w \<Rightarrow> snd w = au_boot a)"

definition invalidate_buffer_dependents_locked :: "BufferId \<Rightarrow> State \<Rightarrow> State" where
  "invalidate_buffer_dependents_locked buffer s =
     s\<lparr>st_registrations := umap_map (\<lambda>r. if r_buffer r = buffer
          then r\<lparr>r_state := RegistrationState.REVALIDATION_REQUIRED\<rparr> else r) (st_registrations s),
       st_plans := umap_map (\<lambda>p. if tp_source p = buffer then p\<lparr>tp_authoritative := False\<rparr> else p)
          (st_plans s)\<rparr>"

definition invalidate_endpoint_dependents_locked :: "EndpointId \<Rightarrow> State \<Rightarrow> State" where
  "invalidate_endpoint_dependents_locked endpoint s =
     s\<lparr>st_registrations := umap_map (\<lambda>r. if r_endpoint r = endpoint
          then r\<lparr>r_state := RegistrationState.REVALIDATION_REQUIRED\<rparr> else r) (st_registrations s),
       st_plans := umap_map (\<lambda>p. if tp_destination p = endpoint then p\<lparr>tp_authoritative := False\<rparr> else p)
          (st_plans s)\<rparr>"

section \<open>Worker liveness\<close>

definition register_worker ::
    "WorkerId \<Rightarrow> WorkerBootId \<Rightarrow> CoordinatorEpoch \<Rightarrow> State \<Rightarrow> unit Result \<times> State" where
  "register_worker worker boot epoch s =
     (if gen_value epoch \<noteq> gen_value (st_epoch s) then
        (err ErrorCode.STALE_EPOCH ''worker epoch mismatch'', s)
      else if \<not> id_valid worker then
        (err ErrorCode.INVALID_ARGUMENT ''invalid worker id'', s)
      else
        let k = id_value worker;
            prev_max = (case umap_find (st_worker_max_boot s) k of Some b \<Rightarrow> b | None \<Rightarrow> 0);
            record_max = (\<lambda>s. s\<lparr>st_worker_max_boot :=
                            umap_put k (gen_value boot) (st_worker_max_boot s)\<rparr>);
            set_worker = (\<lambda>w s. s\<lparr>st_workers := umap_put k (w, boot) (st_workers s)\<rparr>)
        in if gen_value boot < prev_max then
             (err ErrorCode.STALE_BOOT ''worker boot id is stale'', s)
           else if prev_max \<noteq> 0 then
             (case umap_find (st_workers s) k of
                Some wb \<Rightarrow>
                  (if gen_value (snd wb) = gen_value boot then (ok (), s)
                   else (ok (), record_max (set_worker (fst wb) s)))
              | None \<Rightarrow>
                  (if gen_value boot \<le> prev_max then
                     (err ErrorCode.STALE_BOOT ''resurrecting a dead worker requires a fresh boot id'', s)
                   else (ok (), set_worker worker (record_max s))))
           else (ok (), set_worker worker (record_max s)))"

definition mark_worker_dead :: "WorkerId \<Rightarrow> State \<Rightarrow> unit Result \<times> State" where
  "mark_worker_dead worker s =
     (ok (),
      s\<lparr>st_workers := umap_erase (id_value worker) (st_workers s),
        st_registrations := umap_map (\<lambda>r.
          if au_worker (r_authority r) = worker \<and> worker_owned (r_authority r)
          then r\<lparr>r_state := RegistrationState.REVALIDATION_REQUIRED\<rparr> else r) (st_registrations s)\<rparr>)"

definition advance_epoch :: "State \<Rightarrow> unit Result \<times> State" where
  "advance_epoch s =
     (ok (),
      s\<lparr>st_epoch := gen_next (st_epoch s), st_workers := [],
        st_registrations := umap_map (\<lambda>r.
          if r_state r = RegistrationState.REGISTERED \<or> r_state r = RegistrationState.REGISTERING
          then r\<lparr>r_state := RegistrationState.REVALIDATION_REQUIRED\<rparr> else r) (st_registrations s),
        st_plans := umap_map (\<lambda>p. p\<lparr>tp_authoritative := False\<rparr>) (st_plans s)\<rparr>)"

definition live_workers :: "State \<Rightarrow> (WorkerId \<times> WorkerBootId) list Result" where
  "live_workers s = ok (umap_values (st_workers s))"

section \<open>Buffers\<close>

record CreateBufferParams =
  cbp_domain :: MemoryDomain
  cbp_size :: u64
  cbp_alignment :: u64
  cbp_device :: DeviceId
  cbp_locality :: Locality
  cbp_support :: Support
  cbp_provenance :: Provenance
  cbp_authority :: Authority
  cbp_name :: string

definition create_buffer :: "CreateBufferParams \<Rightarrow> State \<Rightarrow> BufferRecord Result \<times> State" where
  "create_buffer p s =
     (if cbp_size p > 0 \<and> cbp_alignment p = 0 then
        (err ErrorCode.INVALID_ARGUMENT ''alignment must be nonzero when size > 0'', s)
      else if length (st_buffers s) \<ge> unat (st_max_buffers s) then
        (err ErrorCode.RESOURCE_LIMIT ''buffer limit reached'', s)
      else if worker_owned (cbp_authority p) \<and> \<not> worker_live_locked (cbp_authority p) s then
        (err ErrorCode.STALE_BOOT ''buffer owner authority is not live'', s)
      else
        let (i, s1) = next_id_locked s;
            (f, s2) = next_freshness_locked s1;
            b = default_BufferRecord
                  \<lparr>b_id := Id i, b_generation := Generation 1, b_authority := cbp_authority p,
                   b_domain := cbp_domain p, b_size := cbp_size p, b_alignment := cbp_alignment p,
                   b_device := cbp_device p, b_locality := cbp_locality p,
                   b_registration_state := RegistrationState.UNREGISTERED,
                   b_lifecycle := BufferLifecycle.ACTIVE, b_support := cbp_support p,
                   b_provenance := cbp_provenance p, b_freshness := f, b_name := cbp_name p,
                   b_handle := None\<rparr>
        in (ok b, s2\<lparr>st_buffers := umap_put (id_value (b_id b)) b (st_buffers s2)\<rparr>))"

text \<open>A worker-owned record may be changed only by its live owner.\<close>

definition owner_rejects :: "Authority \<Rightarrow> Authority \<Rightarrow> State \<Rightarrow> bool" where
  "owner_rejects owner authority s \<longleftrightarrow>
     worker_owned owner \<and> (authority \<noteq> owner \<or> \<not> worker_live_locked owner s)"

definition advance_buffer_generation ::
    "BufferId \<Rightarrow> Authority \<Rightarrow> State \<Rightarrow> BufferRecord Result \<times> State" where
  "advance_buffer_generation i authority s =
     (case umap_find (st_buffers s) (id_value i) of
        None \<Rightarrow> (err ErrorCode.NOT_FOUND ''buffer not found'', s)
      | Some b \<Rightarrow>
          if owner_rejects (b_authority b) authority s then
            (err ErrorCode.STALE_BOOT ''buffer generation advance not authorized by owner'', s)
          else
            let (f, s1) = next_freshness_locked s;
                b' = b\<lparr>b_generation := gen_next (b_generation b), b_freshness := f\<rparr>
            in (ok b', invalidate_buffer_dependents_locked i
                  (s1\<lparr>st_buffers := umap_put (id_value i) b' (st_buffers s1)\<rparr>)))"

definition retire_buffer :: "BufferId \<Rightarrow> Authority \<Rightarrow> State \<Rightarrow> unit Result \<times> State" where
  "retire_buffer i authority s =
     (case umap_find (st_buffers s) (id_value i) of
        None \<Rightarrow> (err ErrorCode.NOT_FOUND ''buffer not found'', s)
      | Some b \<Rightarrow>
          if owner_rejects (b_authority b) authority s then
            (err ErrorCode.STALE_BOOT ''buffer retire not authorized by owner'', s)
          else
            let (f, s1) = next_freshness_locked s;
                b' = b\<lparr>b_lifecycle := BufferLifecycle.RETIRED, b_freshness := f\<rparr>
            in (ok (), invalidate_buffer_dependents_locked i
                  (s1\<lparr>st_buffers := umap_put (id_value i) b' (st_buffers s1)\<rparr>)))"

definition buffers :: "State \<Rightarrow> BufferRecord list Result" where
  "buffers s = ok (sort_key (\<lambda>b. id_value (b_id b)) (umap_values (st_buffers s)))"

definition get_buffer :: "BufferId \<Rightarrow> State \<Rightarrow> BufferRecord Result" where
  "get_buffer i s =
     (case umap_find (st_buffers s) (id_value i) of
        None \<Rightarrow> err ErrorCode.NOT_FOUND ''buffer not found''
      | Some b \<Rightarrow> ok b)"

section \<open>Devices\<close>

record DeviceAddParams =
  dap_name :: string
  dap_compute_capability :: string
  dap_peer_memory_supported :: bool
  dap_support :: Support
  dap_provenance :: Provenance
  dap_authority :: Authority

definition add_device :: "DeviceAddParams \<Rightarrow> State \<Rightarrow> DeviceRecord Result \<times> State" where
  "add_device p s =
     (if worker_owned (dap_authority p) \<and> \<not> worker_live_locked (dap_authority p) s then
        (err ErrorCode.STALE_BOOT ''device authority not live'', s)
      else
        let (i, s1) = next_id_locked s;
            (f, s2) = next_freshness_locked s1;
            d = \<lparr>d_id = Id i, d_generation = Generation 1, d_name = dap_name p,
                 d_compute_capability = dap_compute_capability p,
                 d_peer_memory_supported = dap_peer_memory_supported p, d_support = dap_support p,
                 d_provenance = dap_provenance p, d_authority = dap_authority p, d_freshness = f\<rparr>
        in (ok d, s2\<lparr>st_devices := umap_put (id_value (d_id d)) d (st_devices s2)\<rparr>))"

definition devices :: "State \<Rightarrow> DeviceRecord list Result" where
  "devices s = ok (sort_key (\<lambda>d. id_value (d_id d)) (umap_values (st_devices s)))"

section \<open>Endpoints, NICs and storage endpoints\<close>

record EndpointAddParams =
  eap_endpoint_class :: EndpointClass
  eap_name :: string
  eap_topology_hint :: string
  eap_healthy :: bool
  eap_provider :: ProviderId
  eap_support :: Support
  eap_provenance :: Provenance
  eap_authority :: Authority

definition add_endpoint :: "EndpointAddParams \<Rightarrow> State \<Rightarrow> EndpointRecord Result \<times> State" where
  "add_endpoint p s =
     (if length (st_endpoints s) \<ge> unat (st_max_endpoints s) then
        (err ErrorCode.RESOURCE_LIMIT ''endpoint limit reached'', s)
      else if worker_owned (eap_authority p) \<and> \<not> worker_live_locked (eap_authority p) s then
        (err ErrorCode.STALE_BOOT ''endpoint authority not live'', s)
      else
        let (i, s1) = next_id_locked s;
            (f, s2) = next_freshness_locked s1;
            e = \<lparr>e_id = Id i, e_generation = Generation 1, e_endpoint_class = eap_endpoint_class p,
                 e_name = eap_name p, e_topology_hint = eap_topology_hint p,
                 e_healthy = eap_healthy p, e_provider = eap_provider p, e_support = eap_support p,
                 e_provenance = eap_provenance p, e_authority = eap_authority p, e_freshness = f,
                 e_handle = None\<rparr>
        in (ok e, s2\<lparr>st_endpoints := umap_put (id_value (e_id e)) e (st_endpoints s2)\<rparr>))"

definition advance_endpoint_generation ::
    "EndpointId \<Rightarrow> Authority \<Rightarrow> State \<Rightarrow> EndpointRecord Result \<times> State" where
  "advance_endpoint_generation i authority s =
     (case umap_find (st_endpoints s) (id_value i) of
        None \<Rightarrow> (err ErrorCode.NOT_FOUND ''endpoint not found'', s)
      | Some e \<Rightarrow>
          if owner_rejects (e_authority e) authority s then
            (err ErrorCode.STALE_BOOT ''endpoint generation advance not authorized'', s)
          else
            let (f, s1) = next_freshness_locked s;
                e' = e\<lparr>e_generation := gen_next (e_generation e), e_freshness := f\<rparr>
            in (ok e', invalidate_endpoint_dependents_locked i
                  (s1\<lparr>st_endpoints := umap_put (id_value i) e' (st_endpoints s1)\<rparr>)))"

definition set_endpoint_health ::
    "EndpointId \<Rightarrow> bool \<Rightarrow> Authority \<Rightarrow> State \<Rightarrow> unit Result \<times> State" where
  "set_endpoint_health i healthy authority s =
     (case umap_find (st_endpoints s) (id_value i) of
        None \<Rightarrow> (err ErrorCode.NOT_FOUND ''endpoint not found'', s)
      | Some e \<Rightarrow>
          if owner_rejects (e_authority e) authority s then
            (err ErrorCode.STALE_BOOT ''endpoint health update not authorized'', s)
          else
            let (f, s1) = next_freshness_locked s
            in (ok (), s1\<lparr>st_endpoints := umap_put (id_value i)
                   (e\<lparr>e_healthy := healthy, e_freshness := f\<rparr>) (st_endpoints s1)\<rparr>))"

definition endpoints :: "State \<Rightarrow> EndpointRecord list Result" where
  "endpoints s = ok (sort_key (\<lambda>e. id_value (e_id e)) (umap_values (st_endpoints s)))"

definition add_nic :: "NicRecord \<Rightarrow> State \<Rightarrow> NicRecord Result \<times> State" where
  "add_nic rec s =
     (let (n1, s1) = (if \<not> id_valid (n_id rec)
                      then let (i, s1) = next_id_locked s in (rec\<lparr>n_id := Id i\<rparr>, s1) else (rec, s));
          n2 = (if gen_is_zero (n_generation n1) then n1\<lparr>n_generation := Generation 1\<rparr> else n1);
          (f, s2) = next_freshness_locked s1;
          n = n2\<lparr>n_freshness := f\<rparr>
      in (ok n, s2\<lparr>st_nics := umap_put (id_value (n_id n)) n (st_nics s2)\<rparr>))"

definition nics :: "State \<Rightarrow> NicRecord list Result" where
  "nics s = ok (sort_key (\<lambda>n. id_value (n_id n)) (umap_values (st_nics s)))"

definition add_storage_endpoint ::
    "StorageEndpointRecord \<Rightarrow> State \<Rightarrow> StorageEndpointRecord Result \<times> State" where
  "add_storage_endpoint rec s =
     (let (e1, s1) = (if \<not> id_valid (se_id rec)
                      then let (i, s1) = next_id_locked s in (rec\<lparr>se_id := Id i\<rparr>, s1) else (rec, s));
          e2 = (if gen_is_zero (se_generation e1) then e1\<lparr>se_generation := Generation 1\<rparr> else e1);
          (f, s2) = next_freshness_locked s1;
          e = e2\<lparr>se_freshness := f\<rparr>
      in (ok e, s2\<lparr>st_storage := umap_put (id_value (se_id e)) e (st_storage s2)\<rparr>))"

definition storage_endpoints :: "State \<Rightarrow> StorageEndpointRecord list Result" where
  "storage_endpoints s = ok (sort_key (\<lambda>e. id_value (se_id e)) (umap_values (st_storage s)))"

section \<open>Providers and capabilities\<close>

record ProviderAddParams =
  pap_name :: string
  pap_available :: bool
  pap_support :: Support
  pap_provenance :: Provenance

definition add_provider :: "ProviderAddParams \<Rightarrow> State \<Rightarrow> ProviderInfo Result \<times> State" where
  "add_provider p s =
     (if pap_name p = [] then (err ErrorCode.INVALID_ARGUMENT ''provider name required'', s)
      else case umap_first (\<lambda>v. p_name v = pap_name p) (st_providers s) of
        Some (k, v) \<Rightarrow>
          let v' = v\<lparr>p_available := pap_available p, p_support := pap_support p,
                     p_provenance := pap_provenance p\<rparr>
          in (ok v', s\<lparr>st_providers := umap_put k v' (st_providers s)\<rparr>)
      | None \<Rightarrow>
          let (i, s1) = next_id_locked s;
              info = \<lparr>p_id = Id i, p_name = pap_name p, p_available = pap_available p,
                      p_support = pap_support p, p_provenance = pap_provenance p\<rparr>
          in (ok info, s1\<lparr>st_providers := umap_put (id_value (p_id info)) info (st_providers s1)\<rparr>))"

definition providers :: "State \<Rightarrow> ProviderInfo list Result" where
  "providers s = ok (sort_key (\<lambda>p. id_value (p_id p)) (umap_values (st_providers s)))"

record CapabilityPublishParams =
  cpp_provider :: string
  cpp_capability :: string
  cpp_value :: string
  cpp_support :: Support
  cpp_provenance :: Provenance
  cpp_authority :: Authority

definition publish_capability ::
    "CapabilityPublishParams \<Rightarrow> State \<Rightarrow> CapabilityObservation Result \<times> State" where
  "publish_capability p s =
     (if worker_owned (cpp_authority p) \<and> \<not> worker_live_locked (cpp_authority p) s then
        (err ErrorCode.STALE_BOOT ''capability authority not live'', s)
      else
        let (i, s1) = next_id_locked s;
            (f, s2) = next_freshness_locked s1;
            c = \<lparr>c_id = Id i, c_provider = cpp_provider p, c_capability = cpp_capability p,
                 c_value = cpp_value p, c_support = cpp_support p, c_provenance = cpp_provenance p,
                 c_authority = cpp_authority p, c_freshness = f\<rparr>
        in case umap_first (\<lambda>v. c_provider v = cpp_provider p \<and> c_capability v = cpp_capability p)
                  (st_capabilities s2) of
             Some (k, v) \<Rightarrow> (ok c, s2\<lparr>st_capabilities := umap_put k c (st_capabilities s2)\<rparr>)
           | None \<Rightarrow>
               (ok c, s2\<lparr>st_capabilities := umap_put (id_value (c_id c)) c (st_capabilities s2)\<rparr>))"

definition revoke_capability :: "string \<Rightarrow> string \<Rightarrow> Authority \<Rightarrow> State \<Rightarrow> unit Result \<times> State" where
  "revoke_capability provider capability authority s =
     (case umap_first (\<lambda>c. c_provider c = provider \<and> c_capability c = capability) (st_capabilities s) of
        Some (k, c) \<Rightarrow>
          if owner_rejects (c_authority c) authority s then
            (err ErrorCode.STALE_BOOT ''capability revoke not authorized'', s)
          else (ok (), s\<lparr>st_capabilities := umap_erase k (st_capabilities s)\<rparr>)
      | None \<Rightarrow> (ok (), s))"

definition capabilities :: "State \<Rightarrow> CapabilityObservation list Result" where
  "capabilities s =
     ok (sort_key (\<lambda>c. (c_provider c, c_capability c)) (umap_values (st_capabilities s)))"

section \<open>Registration\<close>

record RegisterParams =
  rp_buffer :: BufferId
  rp_endpoint :: EndpointId
  rp_provider :: ProviderId
  rp_authority :: Authority
  rp_support :: Support
  rp_provenance :: Provenance
  rp_required_capabilities :: "string list"

definition register_guards :: "RegisterParams \<Rightarrow> State \<Rightarrow> (BufferRecord \<times> EndpointRecord) Result" where
  "register_guards p s =
     (case umap_find (st_buffers s) (id_value (rp_buffer p)) of
        None \<Rightarrow> err ErrorCode.INVALID_BUFFER ''buffer does not exist''
      | Some buffer \<Rightarrow>
      if b_lifecycle buffer \<noteq> BufferLifecycle.ACTIVE then
        err ErrorCode.INVALID_BUFFER ''buffer is retired''
      else case umap_find (st_endpoints s) (id_value (rp_endpoint p)) of
        None \<Rightarrow> err ErrorCode.NOT_FOUND ''endpoint does not exist''
      | Some endpoint \<Rightarrow>
      if e_support endpoint = Support.UNSUPPORTED then
        err ErrorCode.REGISTRATION_FAILED ''cannot register against an unsupported endpoint''
      else if length (st_registrations s) \<ge> unat (st_max_registrations s) then
        err ErrorCode.RESOURCE_LIMIT ''registration limit reached''
      else if gen_value (au_epoch (rp_authority p)) \<noteq> gen_value (st_epoch s) then
        err ErrorCode.STALE_EPOCH ''registration authority epoch is stale''
      else if worker_owned (rp_authority p) \<and> \<not> worker_live_locked (rp_authority p) s then
        err ErrorCode.STALE_BOOT ''registering worker authority is not live''
      else if worker_owned (b_authority buffer) \<and> b_authority buffer \<noteq> rp_authority p then
        err ErrorCode.REGISTRATION_FAILED ''buffer is owned by a different worker''
      else if worker_owned (b_authority buffer) \<and>
              au_epoch (b_authority buffer) \<noteq> au_epoch (rp_authority p) then
        err ErrorCode.STALE_EPOCH ''buffer and registration epochs differ''
      else ok (buffer, endpoint))"

definition latest_registration :: "BufferId \<Rightarrow> EndpointId \<Rightarrow> State \<Rightarrow> Registration option" where
  "latest_registration buffer endpoint s =
     latest_by (\<lambda>v. r_buffer v = buffer \<and> r_endpoint v = endpoint)
       (\<lambda>v. gen_value (r_generation v)) (umap_values (st_registrations s))"

text \<open>What the latest registration of the pair makes of a request; \<open>None\<close> is "go on".\<close>

definition register_existing ::
    "RegisterParams \<Rightarrow> BufferRecord \<Rightarrow> EndpointRecord \<Rightarrow> Registration \<Rightarrow> Registration Result option" where
  "register_existing p buffer endpoint latest =
     (if r_state latest = RegistrationState.REGISTERED \<and>
         r_buffer_generation latest = b_generation buffer \<and>
         r_endpoint_generation latest = e_generation endpoint \<and>
         r_authority latest = rp_authority p \<and> r_provider latest = rp_provider p then
        Some (ok (latest\<lparr>r_duplicated := True\<rparr>))
      else if r_state latest = RegistrationState.REGISTERED then
        (if r_authority latest \<noteq> rp_authority p \<or> r_provider latest \<noteq> rp_provider p then
           Some (err ErrorCode.REGISTRATION_FAILED
                   ''conflicting registration already exists for this buffer+endpoint'')
         else Some (err ErrorCode.REGISTRATION_FAILED ''registration already active''))
      else if r_state latest = RegistrationState.REGISTERING then
        Some (err ErrorCode.REGISTRATION_FAILED ''registration is already in progress'')
      else None)"

definition retire_deregistering :: "Registration option \<Rightarrow> State \<Rightarrow> State" where
  "retire_deregistering latest s =
     (case latest of
        Some l \<Rightarrow>
          if r_state l = RegistrationState.DEREGISTERING then
            s\<lparr>st_registrations := umap_map (\<lambda>v. if r_id v = r_id l
                then v\<lparr>r_state := RegistrationState.RETIRED\<rparr> else v) (st_registrations s)\<rparr>
          else s
      | None \<Rightarrow> s)"

definition registration_spec :: "RegisterParams \<Rightarrow> BufferRecord \<Rightarrow> EndpointRecord \<Rightarrow> RegistrationSpec" where
  "registration_spec p buffer endpoint =
     \<lparr>rsp_buffer = b_id buffer, rsp_domain = b_domain buffer,
      rsp_buffer_generation = b_generation buffer, rsp_endpoint = e_id endpoint,
      rsp_endpoint_class = e_endpoint_class endpoint,
      rsp_endpoint_generation = e_generation endpoint, rsp_size = b_size buffer,
      rsp_alignment = b_alignment buffer, rsp_authority = rp_authority p,
      rsp_support = b_support buffer\<rparr>"

definition register_commit ::
    "RegisterParams \<Rightarrow> BufferRecord \<Rightarrow> EndpointRecord \<Rightarrow> Registration option \<Rightarrow>
     RegistrationId \<Rightarrow> Support \<Rightarrow> Provenance \<Rightarrow> BackendHandle option \<Rightarrow> State \<Rightarrow>
     Registration Result \<times> State" where
  "register_commit p buffer endpoint latest reg_id0 support prov handle s =
     (let (reg_id, s1) = (if \<not> id_valid reg_id0
                          then let (i, s1) = next_id_locked s in (Id i, s1) else (reg_id0, s));
          new_gen = (case latest of Some l \<Rightarrow> gen_next (r_generation l) | None \<Rightarrow> Generation 1);
          (f, s2) = next_freshness_locked s1;
          reg = \<lparr>r_id = reg_id, r_generation = new_gen, r_buffer = b_id buffer,
                 r_buffer_generation = b_generation buffer, r_endpoint = e_id endpoint,
                 r_endpoint_generation = e_generation endpoint, r_provider = rp_provider p,
                 r_authority = rp_authority p, r_state = RegistrationState.REGISTERED,
                 r_support = support, r_provenance = prov, r_duplicated = False, r_freshness = f,
                 r_required_capabilities = rp_required_capabilities p, r_handle = handle\<rparr>;
          s3 = s2\<lparr>st_registrations := umap_put (id_value reg_id) reg (st_registrations s2)\<rparr>;
          (f', s4) = next_freshness_locked s3;
          buffer' = buffer\<lparr>b_registration_state := RegistrationState.REGISTERED,
                           b_registration_id := reg_id, b_registration_generation := new_gen,
                           b_freshness := f'\<rparr>
      in (ok reg, s4\<lparr>st_buffers := umap_put (id_value (rp_buffer p)) buffer' (st_buffers s4)\<rparr>))"

definition register_buffer ::
    "RegisterParams \<Rightarrow> 'b Backend_ptr \<Rightarrow> State \<Rightarrow> Registration Result \<times> State \<times> 'b Backend_ptr" where
  "register_buffer p backend s =
     (case register_guards p s of
        Inl e \<Rightarrow> (Inl e, s, backend)
      | Inr (buffer, endpoint) \<Rightarrow>
          let latest = latest_registration (rp_buffer p) (rp_endpoint p) s in
          case Option.bind latest (register_existing p buffer endpoint) of
            Some r \<Rightarrow> (r, s, backend)
          | None \<Rightarrow>
              let s1 = retire_deregistering latest s in
              case backend of
                None \<Rightarrow>
                  let (r, s2) = register_commit p buffer endpoint latest (Id 0)
                                  (rp_support p) (rp_provenance p) None s1
                  in (r, s2, backend)
              | Some (vt, b) \<Rightarrow>
                  (case vt_register_buffer vt (registration_spec p buffer endpoint) b of
                     (Inl e, b') \<Rightarrow>
                       (err ErrorCode.REGISTRATION_FAILED (err_message e), s1, Some (vt, b'))
                   | (Inr rr, b') \<Rightarrow>
                       let (r, s2) = register_commit p buffer endpoint latest (rr_id rr)
                                       (rr_support rr) (rr_provenance rr) (rr_handle rr) s1
                       in (r, s2, Some (vt, b'))))"

definition deregister_commit :: "Registration \<Rightarrow> u64 \<Rightarrow> State \<Rightarrow> State" where
  "deregister_commit reg k s =
     (let (f, s1) = next_freshness_locked s;
          reg' = reg\<lparr>r_state := RegistrationState.RETIRED, r_handle := None, r_freshness := f\<rparr>;
          s2 = s1\<lparr>st_registrations := umap_put k reg' (st_registrations s1)\<rparr>
      in case umap_find (st_buffers s2) (id_value (r_buffer reg)) of
           None \<Rightarrow> s2
         | Some b \<Rightarrow>
             if b_registration_id b = r_id reg then
               let (f', s3) = next_freshness_locked s2
               in s3\<lparr>st_buffers := umap_put (id_value (r_buffer reg))
                       (b\<lparr>b_registration_state := RegistrationState.UNREGISTERED,
                          b_registration_id := Id 0, b_registration_generation := Generation 0,
                          b_freshness := f'\<rparr>) (st_buffers s3)\<rparr>
             else s2)"

definition deregister_buffer :: "RegistrationId \<Rightarrow> Authority \<Rightarrow> State \<Rightarrow> unit Result \<times> State" where
  "deregister_buffer i authority s =
     (case umap_find (st_registrations s) (id_value i) of
        None \<Rightarrow> (err ErrorCode.NOT_FOUND ''registration not found'', s)
      | Some reg \<Rightarrow>
          if r_state reg = RegistrationState.RETIRED \<or> r_state reg = RegistrationState.UNREGISTERED then
            (ok (), s)
          else if worker_owned (r_authority reg) \<and> \<not> worker_live_locked (r_authority reg) s then
            (ok (), s\<lparr>st_registrations := umap_put (id_value i)
                      (reg\<lparr>r_state := RegistrationState.RETIRED\<rparr>) (st_registrations s)\<rparr>)
          else if worker_owned (r_authority reg) \<and> authority \<noteq> r_authority reg then
            (err ErrorCode.STALE_BOOT ''deregistration not authorized by registration owner'', s)
          else
            case latest_registration (r_buffer reg) (r_endpoint reg) s of
              Some l \<Rightarrow>
                if r_id l \<noteq> r_id reg then
                  (err ErrorCode.STALE_GENERATION
                     ''stale deregistration rejected (newer registration exists)'', s)
                else (ok (), deregister_commit reg (id_value i) s)
            | None \<Rightarrow> (ok (), deregister_commit reg (id_value i) s))"

definition registrations :: "State \<Rightarrow> Registration list Result" where
  "registrations s = ok (sort_key (\<lambda>r. id_value (r_id r)) (umap_values (st_registrations s)))"

end
