(* ===== verification/Planning.thy ===== *)
theory Planning
  imports Coordinator
begin

text \<open>
  Path evaluation and transfer planning in the coordinator (\<open>src/coordinator.cpp\<close>, from
  \<open>error_for_eligibility\<close> and \<open>build_evidence_locked\<close> to \<open>plan_transfer\<close>). \<open>plan_transfer\<close> is not
  atomic: \<open>evaluate_path\<close> takes the mutex for the evidence snapshot only, and the plan is committed
  under a second acquisition. The model therefore takes two states, the one the snapshot saw and
  the one the commit finds; a run without interference passes the same state twice.
\<close>

fun error_for_eligibility :: "PathEligibility \<Rightarrow> ErrorCode" where
  "error_for_eligibility PathEligibility.DIRECT_ALLOWED = ErrorCode.OK"
| "error_for_eligibility PathEligibility.DIRECT_ALLOWED_DEGRADED = ErrorCode.OK"
| "error_for_eligibility PathEligibility.REGISTRATION_REQUIRED = ErrorCode.REGISTRATION_REQUIRED"
| "error_for_eligibility PathEligibility.REGISTRATION_STALE = ErrorCode.REGISTRATION_STALE"
| "error_for_eligibility PathEligibility.ENDPOINT_STALE = ErrorCode.STALE_ENDPOINT"
| "error_for_eligibility PathEligibility.DEVICE_STALE = ErrorCode.STALE_GENERATION"
| "error_for_eligibility PathEligibility.TOPOLOGY_INCOMPATIBLE = ErrorCode.TOPOLOGY_INCOMPATIBLE"
| "error_for_eligibility PathEligibility.PROVIDER_UNAVAILABLE = ErrorCode.PROVIDER_UNAVAILABLE"
| "error_for_eligibility PathEligibility.NO_VALID_PATH = ErrorCode.NO_VALID_PATH"
| "error_for_eligibility PathEligibility.REVALIDATION_REQUIRED = ErrorCode.REVALIDATION_REQUIRED"
| "error_for_eligibility PathEligibility.INSUFFICIENT_EVIDENCE = ErrorCode.DIRECT_UNAVAILABLE"
| "error_for_eligibility PathEligibility.POLICY_REJECTED = ErrorCode.FALLBACK_DISALLOWED"
| "error_for_eligibility PathEligibility.INVALID_BUFFER = ErrorCode.INVALID_BUFFER"
| "error_for_eligibility _ = ErrorCode.UNSUPPORTED"

record PlanRequestParams =
  prp_source :: BufferId
  prp_destination :: EndpointId
  prp_direction :: Direction
  prp_policy :: PathPolicy
  prp_size :: u64

section \<open>Evidence and evaluation\<close>

definition build_evidence_locked :: "PlanRequestParams \<Rightarrow> State \<Rightarrow> PathEvidence" where
  "build_evidence_locked p s =
     (let source = (case umap_find (st_buffers s) (id_value (prp_source p)) of
                      Some b \<Rightarrow> b | None \<Rightarrow> default_BufferRecord);
          destination = (case umap_find (st_endpoints s) (id_value (prp_destination p)) of
                           Some e \<Rightarrow> e | None \<Rightarrow> default_EndpointRecord);
          device = (if id_valid (b_device source)
                    then (case umap_find (st_devices s) (id_value (b_device source)) of
                            Some d \<Rightarrow> d | None \<Rightarrow> default_DeviceRecord)
                    else default_DeviceRecord)
      in \<lparr>ev_source = source, ev_destination = destination, ev_device = device,
          ev_registrations = umap_values (st_registrations s),
          ev_capabilities = umap_values (st_capabilities s),
          ev_devices = umap_values (st_devices s), ev_endpoints = umap_values (st_endpoints s),
          ev_providers = umap_values (st_providers s), ev_live_workers = umap_values (st_workers s),
          ev_epoch = st_epoch s\<rparr>)"

definition path_request :: "PlanRequestParams \<Rightarrow> PathRequest" where
  "path_request p =
     \<lparr>rq_source = prp_source p, rq_destination = prp_destination p, rq_direction = prp_direction p,
      rq_policy = prp_policy p, rq_size = prp_size p\<rparr>"

definition evaluate_path :: "PlanRequestParams \<Rightarrow> State \<Rightarrow> PathDecision Result" where
  "evaluate_path p s = evaluate (path_request p) (build_evidence_locked p s)"

section \<open>Planning\<close>

definition plan_admitted :: "PathDecision \<Rightarrow> bool" where
  "plan_admitted d \<longleftrightarrow>
     pd_eligibility d = PathEligibility.DIRECT_ALLOWED \<or>
     pd_eligibility d = PathEligibility.DIRECT_ALLOWED_DEGRADED \<or>
     (pd_eligibility d = PathEligibility.FALLBACK_REQUIRED \<and> pd_fallback_available d)"

definition decision_direct :: "PathDecision \<Rightarrow> bool" where
  "decision_direct d \<longleftrightarrow>
     pd_eligibility d = PathEligibility.DIRECT_ALLOWED \<or>
     pd_eligibility d = PathEligibility.DIRECT_ALLOWED_DEGRADED"

definition plan_registration :: "BufferRecord \<Rightarrow> EndpointRecord \<Rightarrow> State \<Rightarrow> Registration option" where
  "plan_registration src dst s =
     latest_by (\<lambda>v. r_buffer v = b_id src \<and> r_endpoint v = e_id dst \<and>
                    r_state v = RegistrationState.REGISTERED)
       (\<lambda>v. gen_value (r_generation v)) (umap_values (st_registrations s))"

definition direct_stage :: "PathDecision \<Rightarrow> BufferRecord \<Rightarrow> EndpointRecord \<Rightarrow> TransferStage" where
  "direct_stage d src dst = default_TransferStage
     \<lparr>sg_path_class := pd_direct_class d, sg_support := pd_support d,
      sg_provenance := pd_provenance d, sg_src := b_id src, sg_endpoint := e_id dst,
      sg_direct := True,
      sg_description := ''direct '' @ PathClass_to_string (pd_direct_class d)\<rparr>"

definition staging_buffer :: "PlanRequestParams \<Rightarrow> BufferRecord \<Rightarrow> u64 \<Rightarrow> u64 \<Rightarrow> BufferRecord" where
  "staging_buffer p src i f = default_BufferRecord
     \<lparr>b_id := Id i, b_generation := Generation 1, b_authority := b_authority src,
      b_domain := MemoryDomain.HOST_PINNED, b_size := prp_size p, b_alignment := 64,
      b_locality := Locality.LOCAL, b_support := Support.SYNTHETIC,
      b_provenance := Provenance.SYNTHETIC_FIXTURE, b_lifecycle := BufferLifecycle.ACTIVE,
      b_freshness := f, b_name := ''fallback_staging''\<rparr>"

definition staging_stages ::
    "PathDecision \<Rightarrow> BufferRecord \<Rightarrow> BufferRecord \<Rightarrow> EndpointRecord \<Rightarrow> TransferStage list" where
  "staging_stages d src tmp dst =
     (let cls = (case pd_selected_fallback d of
                   Some c \<Rightarrow> cd_path_class c | None \<Rightarrow> PathClass.GPU_TO_HOST_PINNED)
      in [default_TransferStage
            \<lparr>sg_path_class := cls, sg_support := Support.SYNTHETIC,
             sg_provenance := Provenance.SYNTHETIC_FIXTURE, sg_src := b_id src, sg_dst := b_id tmp,
             sg_direct := False, sg_description := ''GPU -> pinned host staging''\<rparr>,
          default_TransferStage
            \<lparr>sg_path_class := cls, sg_support := Support.SYNTHETIC,
             sg_provenance := Provenance.SYNTHETIC_FIXTURE, sg_src := b_id tmp,
             sg_endpoint := e_id dst, sg_direct := False,
             sg_description := ''pinned host staging -> endpoint''\<rparr>])"

text \<open>The plan before its stages are attached.\<close>

definition base_plan ::
    "PlanRequestParams \<Rightarrow> PathDecision \<Rightarrow> BufferRecord \<Rightarrow> EndpointRecord \<Rightarrow> Registration option \<Rightarrow>
     u64 \<Rightarrow> u64 \<Rightarrow> CoordinatorEpoch \<Rightarrow> TransferPlan" where
  "base_plan p d src dst reg i g epoch =
     (let plan = default_TransferPlan
            \<lparr>tp_id := Id i, tp_path_generation := Generation g, tp_generation := Generation 1,
             tp_source := b_id src, tp_source_generation := b_generation src,
             tp_destination := e_id dst, tp_destination_generation := e_generation dst,
             tp_policy := prp_policy p, tp_expected_bytes := prp_size p,
             tp_eligibility := pd_eligibility d, tp_support := pd_support d,
             tp_provenance := pd_provenance d, tp_epoch := epoch, tp_authority := b_authority src,
             tp_explanation := pd_summary d, tp_authoritative := True\<rparr>
      in case reg of
           None \<Rightarrow> plan
         | Some r \<Rightarrow> plan\<lparr>tp_registration_id := r_id r, tp_registration_generation := r_generation r,
                         tp_registration_buffer_generation := r_buffer_generation r\<rparr>)"

definition plan_guards ::
    "PlanRequestParams \<Rightarrow> PathDecision \<Rightarrow> State \<Rightarrow>
     (BufferRecord \<times> EndpointRecord \<times> Registration option) Result" where
  "plan_guards p d s =
     (if length (st_plans s) \<ge> unat (st_max_plans s) then
        err ErrorCode.RESOURCE_LIMIT ''plan limit reached''
      else case umap_find (st_buffers s) (id_value (prp_source p)) of
        None \<Rightarrow> err ErrorCode.STALE_BUFFER ''source buffer disappeared''
      | Some src \<Rightarrow>
      if gen_value (b_generation src) \<noteq> gen_value (pd_source_generation d) then
        err ErrorCode.STALE_GENERATION ''source buffer generation advanced since snapshot''
      else case umap_find (st_endpoints s) (id_value (prp_destination p)) of
        None \<Rightarrow> err ErrorCode.STALE_ENDPOINT ''destination endpoint disappeared''
      | Some dst \<Rightarrow>
      if gen_value (e_generation dst) \<noteq> gen_value (pd_destination_generation d) then
        err ErrorCode.STALE_ENDPOINT ''destination endpoint generation advanced since snapshot''
      else
        let reg = plan_registration src dst s in
        if decision_direct d \<and> reg = None then
          err ErrorCode.REGISTRATION_STALE ''registration required for direct path vanished''
        else ok (src, dst, reg))"

definition plan_build ::
    "PlanRequestParams \<Rightarrow> PathDecision \<Rightarrow> BufferRecord \<Rightarrow> EndpointRecord \<Rightarrow> Registration option \<Rightarrow>
     State \<Rightarrow> TransferPlan \<times> State" where
  "plan_build p d src dst reg s =
     (let (i, s1) = next_id_locked s;
          (g, s2) = next_id_locked s1;
          plan = base_plan p d src dst reg i g (st_epoch s2);
          (plan', s3) =
            (if decision_direct d then
               (plan\<lparr>tp_stages := [direct_stage d src dst], tp_copy_count := 1\<rparr>, s2)
             else
               let (t, s3) = next_id_locked s2;
                   (f, s4) = next_freshness_locked s3;
                   tmp = staging_buffer p src t f
               in (plan\<lparr>tp_stages := staging_stages d src tmp dst, tp_copy_count := 2\<rparr>,
                   s4\<lparr>st_buffers := umap_put (id_value (b_id tmp)) tmp (st_buffers s4)\<rparr>))
      in (plan', s3\<lparr>st_plans := umap_put (id_value (tp_id plan')) plan' (st_plans s3)\<rparr>))"

definition plan_commit ::
    "PlanRequestParams \<Rightarrow> PathDecision \<Rightarrow> State \<Rightarrow> TransferPlan Result \<times> State" where
  "plan_commit p d s =
     (case plan_guards p d s of
        Inl e \<Rightarrow> (Inl e, s)
      | Inr (src, dst, reg) \<Rightarrow> let (plan, s') = plan_build p d src dst reg s in (ok plan, s'))"

definition plan_transfer ::
    "PlanRequestParams \<Rightarrow> State \<Rightarrow> State \<Rightarrow> TransferPlan Result \<times> State" where
  "plan_transfer p snap s =
     (case evaluate_path p snap of
        Inl e \<Rightarrow> (err (err_code e) (err_message e), s)
      | Inr d \<Rightarrow>
          if \<not> plan_admitted d then
            (err (error_for_eligibility (pd_eligibility d)) (pd_direct_rejection d), s)
          else plan_commit p d s)"

end
