(* ===== verification/Lifecycle.thy ===== *)
theory Lifecycle
  imports Planning
begin

text \<open>
  The transfer lifecycle of \<open>src/coordinator_lifecycle.cpp\<close>: an attempt is begun against an
  authoritative plan (running the backend's data plane, if one is given), then completed or
  cancelled; receipts are keyed by attempt, verifications by their own identity.
\<close>

definition make_receipt ::
    "TransferAttempt \<Rightarrow> TransferState \<Rightarrow> bool \<Rightarrow> string \<Rightarrow> string \<Rightarrow> TransferReceipt" where
  "make_receipt a state integrity_ok method detail =
     \<lparr>tr_attempt_id = ta_id a, tr_plan_generation = ta_plan_generation a, tr_state = state,
      tr_bytes = ta_bytes a, tr_integrity_verified = integrity_ok, tr_support = ta_support a,
      tr_provenance = ta_provenance a, tr_method = method, tr_epoch = ta_epoch a,
      tr_detail = detail\<rparr>"

section \<open>Beginning a transfer\<close>

definition begin_guards ::
    "TransferPlanId \<Rightarrow> Authority \<Rightarrow> State \<Rightarrow> (TransferPlan \<times> BufferRecord) Result" where
  "begin_guards plan_id authority s =
     (case umap_find (st_plans s) (id_value plan_id) of
        None \<Rightarrow> err ErrorCode.NOT_FOUND ''transfer plan not found''
      | Some plan \<Rightarrow>
      if \<not> tp_authoritative plan then
        err ErrorCode.STALE_GENERATION ''transfer plan is superseded''
      else if gen_value (tp_epoch plan) \<noteq> gen_value (st_epoch s) then
        err ErrorCode.STALE_EPOCH ''transfer plan epoch is stale''
      else if worker_owned authority \<and> \<not> worker_live_locked authority s then
        err ErrorCode.STALE_BOOT ''begin authority is not live''
      else if worker_owned authority \<and> worker_owned (tp_authority plan) \<and>
              authority \<noteq> tp_authority plan then
        err ErrorCode.STALE_BOOT ''begin authority does not match plan authority''
      else if length (st_attempts s) \<ge> unat (st_max_attempts s) then
        err ErrorCode.RESOURCE_LIMIT ''attempt limit reached''
      else case umap_find (st_buffers s) (id_value (tp_source plan)) of
        None \<Rightarrow> err ErrorCode.STALE_GENERATION ''source generation advanced since plan''
      | Some src \<Rightarrow>
      if gen_value (b_generation src) \<noteq> gen_value (tp_source_generation plan) then
        err ErrorCode.STALE_GENERATION ''source generation advanced since plan''
      else case umap_find (st_endpoints s) (id_value (tp_destination plan)) of
        None \<Rightarrow> err ErrorCode.STALE_ENDPOINT ''destination generation advanced since plan''
      | Some dst \<Rightarrow>
      if gen_value (e_generation dst) \<noteq> gen_value (tp_destination_generation plan) then
        err ErrorCode.STALE_ENDPOINT ''destination generation advanced since plan''
      else if id_valid (tp_registration_id plan) \<and>
              (case umap_find (st_registrations s) (id_value (tp_registration_id plan)) of
                 None \<Rightarrow> True
               | Some r \<Rightarrow> gen_value (r_generation r) \<noteq> gen_value (tp_registration_generation plan) \<or>
                           r_state r \<noteq> RegistrationState.REGISTERED) then
        err ErrorCode.REGISTRATION_STALE ''registration stale for transfer''
      else ok (plan, src))"

definition new_attempt :: "TransferPlan \<Rightarrow> Authority \<Rightarrow> u64 \<Rightarrow> CoordinatorEpoch \<Rightarrow> TransferAttempt" where
  "new_attempt plan authority i epoch = default_TransferAttempt
     \<lparr>ta_id := Id i, ta_plan_id := tp_id plan, ta_plan_generation := tp_generation plan,
      ta_state := TransferState.IN_FLIGHT, ta_epoch := epoch, ta_authority := authority,
      ta_submitted_bytes := tp_expected_bytes plan, ta_support := tp_support plan,
      ta_provenance := tp_provenance plan\<rparr>"

definition transfer_run :: "TransferPlan \<Rightarrow> BufferRecord \<Rightarrow> TransferRun" where
  "transfer_run plan src =
     \<lparr>run_plan = plan, run_accelerator_buffer = tp_source plan,
      run_expected_bytes = tp_expected_bytes plan, run_accelerator_handle = b_handle src\<rparr>"

definition apply_outcome :: "TransferOutcome Result \<Rightarrow> TransferAttempt \<Rightarrow> TransferAttempt" where
  "apply_outcome outcome attempt =
     (case outcome of
        Inr oc \<Rightarrow>
          let a = attempt\<lparr>ta_bytes := oc_bytes oc, ta_integrity_checked := oc_integrity_checked oc,
                    ta_integrity_passed := oc_integrity_passed oc, ta_method := oc_method oc,
                    ta_support := oc_support oc, ta_provenance := oc_provenance oc,
                    ta_detail := oc_detail oc, ta_backend_token := to_string_u64 (oc_bytes oc)\<rparr>
          in if oc_state oc = TransferState.FAILED then
               a\<lparr>ta_state := TransferState.FAILED,
                 ta_detail := (if oc_detail oc = [] then ''backend transfer failed''
                               else oc_detail oc)\<rparr>
             else a
      | Inl e \<Rightarrow> attempt\<lparr>ta_state := TransferState.FAILED, ta_detail := err_message e\<rparr>)"

definition begin_transfer ::
    "TransferPlanId \<Rightarrow> Authority \<Rightarrow> 'b Backend_ptr \<Rightarrow> State \<Rightarrow>
     TransferAttempt Result \<times> State \<times> 'b Backend_ptr" where
  "begin_transfer plan_id authority backend s =
     (case begin_guards plan_id authority s of
        Inl e \<Rightarrow> (Inl e, s, backend)
      | Inr (plan, src) \<Rightarrow>
          let (i, s1) = next_id_locked s;
              attempt = new_attempt plan authority i (st_epoch s1);
              (attempt', backend') =
                (case backend of
                   None \<Rightarrow> (attempt, None)
                 | Some (vt, b) \<Rightarrow>
                     let (outcome, b') = vt_run_transfer vt (transfer_run plan src) b
                     in (apply_outcome outcome attempt, Some (vt, b')))
          in (ok attempt',
              s1\<lparr>st_attempts := umap_put (id_value (ta_id attempt')) attempt' (st_attempts s1)\<rparr>,
              backend'))"

section \<open>Completing, cancelling and verifying\<close>

definition attempt_verification :: "TransferAttempt \<Rightarrow> bool \<Rightarrow> u64 \<Rightarrow> VerificationReceipt" where
  "attempt_verification attempt passed i =
     \<lparr>vr_id = Id i, vr_attempt_id = ta_id attempt, vr_passed = passed,
      vr_bytes_checked = ta_bytes attempt, vr_support = ta_support attempt,
      vr_method = ta_method attempt, vr_expected = ''reference'',
      vr_actual = (if passed then ''reference'' else ''mismatch'')\<rparr>"

definition record_verification :: "TransferAttempt \<Rightarrow> bool \<Rightarrow> State \<Rightarrow> State" where
  "record_verification attempt passed s =
     (let (i, s1) = next_id_locked s
      in s1\<lparr>st_verifications := umap_put i (attempt_verification attempt passed i)
              (st_verifications s1)\<rparr>)"

text \<open>The in-flight branch: the integrity gate, then the byte-count check.\<close>

definition complete_commit ::
    "u64 \<Rightarrow> TransferAttempt \<Rightarrow> State \<Rightarrow> TransferReceipt Result \<times> State" where
  "complete_commit k attempt s =
     (if ta_integrity_checked attempt \<and> \<not> ta_integrity_passed attempt then
        let a = attempt\<lparr>ta_state := TransferState.FAILED, ta_completion_committed := True\<rparr>;
            fr = make_receipt a TransferState.FAILED False (ta_method a) ''integrity verification failed''
        in (err ErrorCode.INTEGRITY_FAILURE ''data integrity verification failed'',
            record_verification a False
              (s\<lparr>st_attempts := umap_put k a (st_attempts s),
                 st_receipts := umap_put k fr (st_receipts s)\<rparr>))
      else
        let completed = (ta_submitted_bytes attempt = 0 \<or> ta_bytes attempt = ta_submitted_bytes attempt);
            a = attempt\<lparr>ta_state := (if completed then TransferState.COMPLETED else TransferState.FAILED),
                        ta_completion_committed := True\<rparr>;
            receipt = make_receipt a (ta_state a) (ta_integrity_checked a) (ta_method a) (ta_detail a);
            s1 = s\<lparr>st_attempts := umap_put k a (st_attempts s),
                   st_receipts := umap_put k receipt (st_receipts s)\<rparr>
        in (ok receipt,
            if ta_state a = TransferState.COMPLETED \<and> ta_integrity_checked a \<and> ta_integrity_passed a
            then record_verification a True s1 else s1))"

definition complete_transfer ::
    "TransferAttemptId \<Rightarrow> Authority \<Rightarrow> State \<Rightarrow> TransferReceipt Result \<times> State" where
  "complete_transfer attempt_id authority s =
     (let k = id_value attempt_id in
      case umap_find (st_attempts s) k of
        None \<Rightarrow> (err ErrorCode.NOT_FOUND ''transfer attempt not found'', s)
      | Some attempt \<Rightarrow>
          let rit = umap_find (st_receipts s) k in
          if ta_completion_committed attempt \<and> rit \<noteq> None then (ok (the rit), s)
          else if ta_state attempt = TransferState.CANCELLED then
            (err ErrorCode.CANCELLED ''cannot complete a cancelled transfer'', s)
          else if ta_state attempt = TransferState.FAILED then
            (case rit of
               Some r \<Rightarrow> (ok r, s)
             | None \<Rightarrow>
                 let fr = make_receipt attempt TransferState.FAILED False (ta_method attempt)
                            (ta_detail attempt)
                 in (ok fr, s\<lparr>st_receipts := umap_put k fr (st_receipts s)\<rparr>))
          else if worker_owned authority \<and>
                  (\<not> worker_live_locked authority s \<or> authority \<noteq> ta_authority attempt) then
            (err ErrorCode.STALE_BOOT ''completion authority mismatch'', s)
          else case umap_find (st_plans s) (id_value (ta_plan_id attempt)) of
            None \<Rightarrow> (err ErrorCode.STALE_GENERATION ''plan superseded; completion is stale'', s)
          | Some plan \<Rightarrow>
              if \<not> tp_authoritative plan then
                (err ErrorCode.STALE_GENERATION ''plan superseded; completion is stale'', s)
              else complete_commit k attempt s)"

definition cancel_transfer ::
    "TransferAttemptId \<Rightarrow> Authority \<Rightarrow> State \<Rightarrow> TransferReceipt Result \<times> State" where
  "cancel_transfer attempt_id authority s =
     (let k = id_value attempt_id in
      case umap_find (st_attempts s) k of
        None \<Rightarrow> (err ErrorCode.NOT_FOUND ''transfer attempt not found'', s)
      | Some attempt \<Rightarrow>
          if ta_completion_committed attempt \<or> ta_state attempt = TransferState.COMPLETED \<or>
             ta_state attempt = TransferState.VERIFIED then
            (err ErrorCode.CANCELLED ''cannot cancel an already completed transfer'', s)
          else if worker_owned authority \<and>
                  (\<not> worker_live_locked authority s \<or> authority \<noteq> ta_authority attempt) then
            (err ErrorCode.STALE_BOOT ''cancel authority mismatch'', s)
          else
            let a = attempt\<lparr>ta_state := TransferState.CANCELLED, ta_completion_committed := False\<rparr>;
                receipt = make_receipt a TransferState.CANCELLED False (ta_method a)
                            ''transfer cancelled before completion''
            in (ok receipt, s\<lparr>st_attempts := umap_put k a (st_attempts s),
                              st_receipts := umap_put k receipt (st_receipts s)\<rparr>))"

definition verify_transfer ::
    "TransferAttemptId \<Rightarrow> bool \<Rightarrow> u64 \<Rightarrow> State \<Rightarrow> VerificationReceipt Result \<times> State" where
  "verify_transfer attempt_id passed bytes_checked s =
     (case umap_find (st_attempts s) (id_value attempt_id) of
        None \<Rightarrow> (err ErrorCode.NOT_FOUND ''transfer attempt not found'', s)
      | Some attempt \<Rightarrow>
          let (i, s1) = next_id_locked s;
              vr = \<lparr>vr_id = Id i, vr_attempt_id = ta_id attempt, vr_passed = passed,
                    vr_bytes_checked = bytes_checked, vr_support = ta_support attempt,
                    vr_method = (if ta_method attempt = [] then ''explicit'' else ta_method attempt),
                    vr_expected = ''reference'',
                    vr_actual = (if passed then ''reference'' else ''mismatch'')\<rparr>
          in (ok vr, s1\<lparr>st_verifications := umap_put (id_value (vr_id vr)) vr (st_verifications s1)\<rparr>))"

section \<open>Queries\<close>

definition plans :: "State \<Rightarrow> TransferPlan list Result" where
  "plans s = ok (sort_key (\<lambda>p. id_value (tp_id p)) (umap_values (st_plans s)))"

definition attempts :: "State \<Rightarrow> TransferAttempt list Result" where
  "attempts s = ok (sort_key (\<lambda>a. id_value (ta_id a)) (umap_values (st_attempts s)))"

definition receipts :: "State \<Rightarrow> TransferReceipt list Result" where
  "receipts s = ok (sort_key (\<lambda>r. id_value (tr_attempt_id r)) (umap_values (st_receipts s)))"

definition latest_receipt :: "TransferAttemptId \<Rightarrow> State \<Rightarrow> TransferReceipt Result" where
  "latest_receipt attempt s =
     (case umap_find (st_receipts s) (id_value attempt) of
        None \<Rightarrow> err ErrorCode.NOT_FOUND ''no receipt for attempt''
      | Some r \<Rightarrow> ok r)"

end
