(* ===== verification/Machine.thy ===== *)
theory Machine
  imports Lifecycle
begin

text \<open>
  The coordinator as a state machine: one constructor of \<open>coord_op\<close> per public method that may
  change the state, with the arguments of the call (and, for the two methods that call a backend, the
  backend), and the well-formedness invariant of the state. The invariant is indexed by the number of
  operations run so far: identities come from one 64-bit counter that an operation advances at most
  three times, generations advance at most once per operation.
\<close>

section \<open>Operations\<close>

datatype 'b coord_op =
    Set_limits u32 u32 u32 u32 u32
  | Register_worker WorkerId WorkerBootId CoordinatorEpoch
  | Mark_worker_dead WorkerId
  | Advance_epoch
  | Create_buffer CreateBufferParams
  | Advance_buffer_generation BufferId Authority
  | Retire_buffer BufferId Authority
  | Add_device DeviceAddParams
  | Add_endpoint EndpointAddParams
  | Advance_endpoint_generation EndpointId Authority
  | Set_endpoint_health EndpointId bool Authority
  | Add_nic NicRecord
  | Add_storage_endpoint StorageEndpointRecord
  | Add_provider ProviderAddParams
  | Publish_capability CapabilityPublishParams
  | Revoke_capability string string Authority
  | Register_buffer RegisterParams "'b Backend_ptr"
  | Deregister_buffer RegistrationId Authority
  | Plan_transfer PlanRequestParams State
  | Begin_transfer TransferPlanId Authority "'b Backend_ptr"
  | Complete_transfer TransferAttemptId Authority
  | Cancel_transfer TransferAttemptId Authority
  | Verify_transfer TransferAttemptId bool u64

fun step :: "'b coord_op \<Rightarrow> State \<Rightarrow> State" where
  "step (Set_limits a b c d e) s = set_limits a b c d e s"
| "step (Register_worker w b e) s = snd (register_worker w b e s)"
| "step (Mark_worker_dead w) s = snd (mark_worker_dead w s)"
| "step Advance_epoch s = snd (advance_epoch s)"
| "step (Create_buffer p) s = snd (create_buffer p s)"
| "step (Advance_buffer_generation i a) s = snd (advance_buffer_generation i a s)"
| "step (Retire_buffer i a) s = snd (retire_buffer i a s)"
| "step (Add_device p) s = snd (add_device p s)"
| "step (Add_endpoint p) s = snd (add_endpoint p s)"
| "step (Advance_endpoint_generation i a) s = snd (advance_endpoint_generation i a s)"
| "step (Set_endpoint_health i h a) s = snd (set_endpoint_health i h a s)"
| "step (Add_nic r) s = snd (add_nic r s)"
| "step (Add_storage_endpoint r) s = snd (add_storage_endpoint r s)"
| "step (Add_provider p) s = snd (add_provider p s)"
| "step (Publish_capability p) s = snd (publish_capability p s)"
| "step (Revoke_capability p c a) s = snd (revoke_capability p c a s)"
| "step (Register_buffer p be) s = fst (snd (register_buffer p be s))"
| "step (Deregister_buffer i a) s = snd (deregister_buffer i a s)"
| "step (Plan_transfer p snap) s = snd (plan_transfer p snap s)"
| "step (Begin_transfer i a be) s = fst (snd (begin_transfer i a be s))"
| "step (Complete_transfer i a) s = snd (complete_transfer i a s)"
| "step (Cancel_transfer i a) s = snd (cancel_transfer i a s)"
| "step (Verify_transfer i p n) s = snd (verify_transfer i p n s)"

section \<open>Well-formed states\<close>

definition id_in_use :: "u64 \<Rightarrow> u64 \<Rightarrow> u64 \<Rightarrow> bool" where
  "id_in_use next i k \<longleftrightarrow> i = k \<and> k \<noteq> 0 \<and> k \<le> next"

definition gen_bound :: "nat \<Rightarrow> 'tag Generation \<Rightarrow> bool" where
  "gen_bound n g \<longleftrightarrow> 0 < unat (gen_value g) \<and> unat (gen_value g) \<le> Suc n"

definition counters_wf :: "nat \<Rightarrow> u64 \<Rightarrow> bool" where
  "counters_wf n next \<longleftrightarrow> unat next \<le> Suc (3 * n)"

definition buffers_wf :: "nat \<Rightarrow> u64 \<Rightarrow> BufferRecord umap \<Rightarrow> bool" where
  "buffers_wf n next m \<longleftrightarrow> umap_ok m \<and>
     umap_all (\<lambda>k b. id_in_use next (id_value (b_id b)) k \<and> gen_bound n (b_generation b)) m"

definition endpoints_wf :: "nat \<Rightarrow> u64 \<Rightarrow> EndpointRecord umap \<Rightarrow> bool" where
  "endpoints_wf n next m \<longleftrightarrow> umap_ok m \<and>
     umap_all (\<lambda>k e. id_in_use next (id_value (e_id e)) k \<and> gen_bound n (e_generation e)) m"

definition devices_wf :: "u64 \<Rightarrow> DeviceRecord umap \<Rightarrow> bool" where
  "devices_wf next m \<longleftrightarrow> umap_ok m \<and>
     umap_all (\<lambda>k d. id_in_use next (id_value (d_id d)) k \<and> d_generation d = Generation 1) m"

definition inventory_wf :: "NicRecord umap \<Rightarrow> StorageEndpointRecord umap \<Rightarrow> bool" where
  "inventory_wf nm sm \<longleftrightarrow>
     umap.keyed (\<lambda>n. id_value (n_id n)) nm \<and> umap.keyed (\<lambda>e. id_value (se_id e)) sm"

definition providers_wf :: "u64 \<Rightarrow> ProviderInfo umap \<Rightarrow> bool" where
  "providers_wf next m \<longleftrightarrow> umap_ok m \<and>
     umap_all (\<lambda>k p. id_in_use next (id_value (p_id p)) k \<and> p_name p \<noteq> []) m \<and> umap_unique p_name m"

text \<open>A replaced capability keeps its map key, so the key need not be the observation's identity.\<close>

definition capabilities_wf :: "u64 \<Rightarrow> CapabilityObservation umap \<Rightarrow> bool" where
  "capabilities_wf next m \<longleftrightarrow> umap_ok m \<and>
     umap_all (\<lambda>k c. k \<noteq> 0 \<and> k \<le> next \<and> id_value (c_id c) \<noteq> 0 \<and> id_value (c_id c) \<le> next) m \<and>
     umap_unique (\<lambda>c. (c_provider c, c_capability c)) m \<and> umap_unique c_id m"

definition workers_wf :: "(WorkerId \<times> WorkerBootId) umap \<Rightarrow> u64 umap \<Rightarrow> bool" where
  "workers_wf wm bm \<longleftrightarrow> umap_ok wm \<and> umap_ok bm \<and>
     umap_all (\<lambda>k w. fst w = Id k \<and> k \<noteq> 0 \<and> umap_find bm k = Some (gen_value (snd w))) wm"

definition same_pair :: "Registration \<Rightarrow> Registration \<Rightarrow> bool" where
  "same_pair r r' \<longleftrightarrow> r_buffer r' = r_buffer r \<and> r_endpoint r' = r_endpoint r"

text \<open>Within a buffer-endpoint pair generations are unique and a registered entry is the latest.\<close>

definition registrations_wf :: "nat \<Rightarrow> Registration umap \<Rightarrow> bool" where
  "registrations_wf n m \<longleftrightarrow> umap_ok m \<and>
     umap_all (\<lambda>k r. id_value (r_id r) = k \<and> k \<noteq> 0 \<and> gen_bound n (r_generation r)) m \<and>
     umap_unique (\<lambda>r. (r_buffer r, r_endpoint r, r_generation r)) m \<and>
     umap_all (\<lambda>k r. r_state r = RegistrationState.REGISTERED \<longrightarrow>
       umap_all (\<lambda>k' r'. same_pair r r' \<longrightarrow> r_generation r' \<le> r_generation r) m) m"

text \<open>
  What a registered entry promises: its buffer is active and at the registered generation, its
  endpoint is at the registered generation, its authority is of this epoch, and a worker that owns it
  is live, at the registering boot or a later one.
\<close>

definition registration_fresh :: "State \<Rightarrow> Registration \<Rightarrow> bool" where
  "registration_fresh s r \<longleftrightarrow>
     (case umap_find (st_buffers s) (id_value (r_buffer r)) of
        None \<Rightarrow> False
      | Some b \<Rightarrow> b_lifecycle b = BufferLifecycle.ACTIVE \<and> b_generation b = r_buffer_generation r) \<and>
     (case umap_find (st_endpoints s) (id_value (r_endpoint r)) of
        None \<Rightarrow> False
      | Some e \<Rightarrow> e_generation e = r_endpoint_generation r) \<and>
     au_epoch (r_authority r) = st_epoch s \<and>
     (worker_owned (r_authority r) \<longrightarrow>
        (case umap_find (st_workers s) (id_value (au_worker (r_authority r))) of
           None \<Rightarrow> False
         | Some w \<Rightarrow> au_boot (r_authority r) \<le> snd w))"

definition registered_fresh :: "State \<Rightarrow> bool" where
  "registered_fresh s \<longleftrightarrow>
     umap_all (\<lambda>k r. r_state r = RegistrationState.REGISTERED \<longrightarrow> registration_fresh s r)
       (st_registrations s)"

text \<open>
  What an authoritative plan promises. Stages are part of it and not of the plan's permanent shape,
  since they are not persisted: a recovered plan, which is never authoritative, has none.
\<close>

definition plan_staged :: "TransferPlan \<Rightarrow> bool" where
  "plan_staged p \<longleftrightarrow>
     (if is_direct (tp_eligibility p) then length (tp_stages p) = 1 \<and> list_all sg_direct (tp_stages p)
      else length (tp_stages p) = 2 \<and> list_all (\<lambda>sg. \<not> sg_direct sg) (tp_stages p))"

definition plan_fresh :: "State \<Rightarrow> TransferPlan \<Rightarrow> bool" where
  "plan_fresh s p \<longleftrightarrow>
     plan_staged p \<and> tp_epoch p = st_epoch s \<and>
     (case umap_find (st_buffers s) (id_value (tp_source p)) of
        None \<Rightarrow> False
      | Some b \<Rightarrow> b_generation b = tp_source_generation p \<and>
          (is_direct (tp_eligibility p) \<longrightarrow> b_lifecycle b = BufferLifecycle.ACTIVE)) \<and>
     (case umap_find (st_endpoints s) (id_value (tp_destination p)) of
        None \<Rightarrow> False
      | Some e \<Rightarrow> e_generation e = tp_destination_generation p)"

definition plans_fresh :: "State \<Rightarrow> bool" where
  "plans_fresh s \<longleftrightarrow> umap_all (\<lambda>k p. tp_authoritative p \<longrightarrow> plan_fresh s p) (st_plans s)"

definition plan_shape :: "TransferPlan \<Rightarrow> bool" where
  "plan_shape p \<longleftrightarrow> tp_generation p = Generation 1 \<and>
     tp_copy_count p = (if is_direct (tp_eligibility p) then 1 else 2) \<and>
     (is_direct (tp_eligibility p) \<longrightarrow> id_valid (tp_registration_id p))"

definition plans_wf :: "u64 \<Rightarrow> TransferPlan umap \<Rightarrow> bool" where
  "plans_wf next m \<longleftrightarrow> umap_ok m \<and>
     umap_all (\<lambda>k p. id_in_use next (id_value (tp_id p)) k \<and> plan_shape p) m"

text \<open>
  The life of an attempt: in flight without a receipt, or in a final state whose receipt, if there is
  one, reports that state; a committed attempt has its receipt, and a completed one moved all its
  bytes and did not fail an integrity check.
\<close>

definition attempt_wf :: "TransferPlan umap \<Rightarrow> TransferReceipt umap \<Rightarrow> u64 \<Rightarrow> TransferAttempt \<Rightarrow> bool" where
  "attempt_wf pm rm k a \<longleftrightarrow>
     umap_find pm (id_value (ta_plan_id a)) \<noteq> None \<and>
     ta_state a \<in> {TransferState.IN_FLIGHT, TransferState.FAILED, TransferState.CANCELLED,
       TransferState.COMPLETED} \<and>
     (ta_completion_committed a \<longrightarrow>
        ta_state a \<in> {TransferState.FAILED, TransferState.COMPLETED} \<and> umap_find rm k \<noteq> None) \<and>
     (ta_state a = TransferState.COMPLETED \<longrightarrow>
        ta_completion_committed a \<and> (ta_submitted_bytes a = 0 \<or> ta_bytes a = ta_submitted_bytes a) \<and>
        (ta_integrity_checked a \<longrightarrow> ta_integrity_passed a))"

definition receipt_matches :: "TransferReceipt \<Rightarrow> TransferAttempt \<Rightarrow> bool" where
  "receipt_matches r a \<longleftrightarrow>
     tr_attempt_id r = ta_id a \<and> tr_plan_generation r = ta_plan_generation a \<and>
     tr_state r = ta_state a \<and> tr_bytes r = ta_bytes a \<and> tr_epoch r = ta_epoch a \<and>
     tr_support r = ta_support a \<and> ta_state a \<noteq> TransferState.IN_FLIGHT \<and>
     (tr_integrity_verified r \<longrightarrow> ta_integrity_checked a)"

definition transfers_wf ::
    "u64 \<Rightarrow> TransferPlan umap \<Rightarrow> TransferAttempt umap \<Rightarrow> TransferReceipt umap \<Rightarrow> bool" where
  "transfers_wf next pm am rm \<longleftrightarrow> umap_ok am \<and> umap_ok rm \<and>
     umap_all (\<lambda>k a. id_in_use next (id_value (ta_id a)) k \<and> attempt_wf pm rm k a) am \<and>
     umap_all (\<lambda>k r. case umap_find am k of None \<Rightarrow> False | Some a \<Rightarrow> receipt_matches r a) rm"

definition verifications_wf ::
    "u64 \<Rightarrow> TransferAttempt umap \<Rightarrow> VerificationReceipt umap \<Rightarrow> bool" where
  "verifications_wf next am m \<longleftrightarrow> umap_ok m \<and>
     umap_all (\<lambda>k v. id_in_use next (id_value (vr_id v)) k \<and>
       umap_find am (id_value (vr_attempt_id v)) \<noteq> None) m"

definition state_wf :: "nat \<Rightarrow> State \<Rightarrow> bool" where
  "state_wf n s \<longleftrightarrow>
     counters_wf n (st_next_id s) \<and>
     buffers_wf n (st_next_id s) (st_buffers s) \<and>
     endpoints_wf n (st_next_id s) (st_endpoints s) \<and>
     devices_wf (st_next_id s) (st_devices s) \<and>
     inventory_wf (st_nics s) (st_storage s) \<and>
     providers_wf (st_next_id s) (st_providers s) \<and>
     capabilities_wf (st_next_id s) (st_capabilities s) \<and>
     workers_wf (st_workers s) (st_worker_max_boot s) \<and>
     registrations_wf n (st_registrations s) \<and> registered_fresh s \<and>
     plans_wf (st_next_id s) (st_plans s) \<and> plans_fresh s \<and>
     transfers_wf (st_next_id s) (st_plans s) (st_attempts s) (st_receipts s) \<and>
     verifications_wf (st_next_id s) (st_attempts s) (st_verifications s)"

text \<open>The initial state of a coordinator is well formed, whatever its epoch.\<close>

lemma state_wf_init: "state_wf 0 (make_coordinator epoch)"
  by (simp add: state_wf_def make_coordinator_def default_State_def counters_wf_def buffers_wf_def
      endpoints_wf_def devices_wf_def inventory_wf_def providers_wf_def capabilities_wf_def
      workers_wf_def registrations_wf_def registered_fresh_def plans_wf_def plans_fresh_def
      transfers_wf_def verifications_wf_def)

section \<open>Later counters\<close>

text \<open>The number of operations up to which no counter can wrap around.\<close>

definition op_limit :: nat where
  "op_limit = 2 ^ 62"

lemma counters_room:
  assumes "counters_wf n next" and "n < op_limit"
  shows "next < next + 1" and "next + 1 < next + 2" and "next + 2 < next + 3" and "next + 1 \<noteq> 0"
    and "next + 2 \<noteq> 0" and "next + 3 \<noteq> 0"
    and "counters_wf (Suc n) next" "counters_wf (Suc n) (next + 1)" "counters_wf (Suc n) (next + 2)"
      "counters_wf (Suc n) (next + 3)"
proof -
  have small: "unat next + 3 < 2 ^ 64"
    using assms by (simp add: counters_wf_def op_limit_def)
  then have *: "unat (next + 1) = unat next + 1" "unat (next + 2) = unat next + 2"
      "unat (next + 3) = unat next + 3"
    by (simp_all add: unat_word_ariths)
  then show "next < next + 1" "next + 1 < next + 2" "next + 2 < next + 3"
    by (simp_all add: word_less_nat_alt)
  from * show "next + 1 \<noteq> 0" "next + 2 \<noteq> 0" "next + 3 \<noteq> 0" by auto
  from * assms(1) show "counters_wf (Suc n) next" "counters_wf (Suc n) (next + 1)"
      "counters_wf (Suc n) (next + 2)" "counters_wf (Suc n) (next + 3)"
    by (auto simp: counters_wf_def)
qed

lemma gen_bound_Suc: "gen_bound n g \<Longrightarrow> gen_bound (Suc n) g"
  by (simp add: gen_bound_def)

lemma gen_bound_one [simp]: "gen_bound n (Generation 1)"
  by (simp add: gen_bound_def)

lemma gen_bound_next: "gen_bound n g \<Longrightarrow> n < op_limit \<Longrightarrow> gen_bound (Suc n) (gen_next g)"
  by (auto simp: gen_bound_def gen_next_def op_limit_def unat_plus_one)

lemma gen_bound_less: "gen_bound n g \<Longrightarrow> n < op_limit \<Longrightarrow> g < gen_next g"
  by (rule gen_next_less) (simp add: gen_bound_def op_limit_def)

lemma id_in_use_mono: "id_in_use next i k \<Longrightarrow> next \<le> next' \<Longrightarrow> id_in_use next' i k"
  by (auto simp: id_in_use_def)

lemma buffers_wf_mono: "buffers_wf n next m \<Longrightarrow> next \<le> next' \<Longrightarrow> buffers_wf (Suc n) next' m"
  unfolding buffers_wf_def by (auto elim!: umap_all_mono intro: id_in_use_mono gen_bound_Suc)

lemma endpoints_wf_mono: "endpoints_wf n next m \<Longrightarrow> next \<le> next' \<Longrightarrow> endpoints_wf (Suc n) next' m"
  unfolding endpoints_wf_def by (auto elim!: umap_all_mono intro: id_in_use_mono gen_bound_Suc)

lemma devices_wf_mono: "devices_wf next m \<Longrightarrow> next \<le> next' \<Longrightarrow> devices_wf next' m"
  unfolding devices_wf_def by (auto elim!: umap_all_mono intro: id_in_use_mono)

lemma providers_wf_mono: "providers_wf next m \<Longrightarrow> next \<le> next' \<Longrightarrow> providers_wf next' m"
  unfolding providers_wf_def by (auto elim!: umap_all_mono intro: id_in_use_mono)

lemma capabilities_wf_mono: "capabilities_wf next m \<Longrightarrow> next \<le> next' \<Longrightarrow> capabilities_wf next' m"
  unfolding capabilities_wf_def by (auto elim!: umap_all_mono)

lemma registrations_wf_mono: "registrations_wf n m \<Longrightarrow> registrations_wf (Suc n) m"
  unfolding registrations_wf_def by (auto elim!: umap_all_mono intro: gen_bound_Suc)

lemma plans_wf_mono: "plans_wf next m \<Longrightarrow> next \<le> next' \<Longrightarrow> plans_wf next' m"
  unfolding plans_wf_def by (auto elim!: umap_all_mono intro: id_in_use_mono)

lemma transfers_wf_mono:
  "transfers_wf next pm am rm \<Longrightarrow> next \<le> next' \<Longrightarrow>
   (\<And>k. umap_find pm k \<noteq> None \<Longrightarrow> umap_find pm' k \<noteq> None) \<Longrightarrow>
   transfers_wf next' pm' am rm"
  unfolding transfers_wf_def attempt_wf_def
  by (auto elim!: umap_all_mono intro: id_in_use_mono)

lemma verifications_wf_mono:
  "verifications_wf next am m \<Longrightarrow> next \<le> next' \<Longrightarrow>
   (\<And>k. umap_find am k \<noteq> None \<Longrightarrow> umap_find am' k \<noteq> None) \<Longrightarrow>
   verifications_wf next' am' m"
  unfolding verifications_wf_def by (auto elim!: umap_all_mono intro: id_in_use_mono)

lemmas wf_mono =
  buffers_wf_mono endpoints_wf_mono devices_wf_mono providers_wf_mono capabilities_wf_mono
  registrations_wf_mono plans_wf_mono transfers_wf_mono verifications_wf_mono

end
