(* ===== verification/Invariant.thy ===== *)
theory Invariant
  imports Machine
begin

text \<open>
  Every operation of the coordinator keeps the well-formedness invariant of \<open>Machine\<close>. What an
  operation leaves alone is settled once by \<open>state_wf_frame\<close>; each operation's lemma then only
  argues about the maps it writes.
\<close>

section \<open>What registrations and plans depend on\<close>

definition buffers_kept :: "BufferRecord umap \<Rightarrow> BufferRecord umap \<Rightarrow> bool" where
  "buffers_kept m m' \<longleftrightarrow> umap_all (\<lambda>k b. case umap_find m' k of
       None \<Rightarrow> False
     | Some b' \<Rightarrow> b_generation b' = b_generation b \<and> b_lifecycle b' = b_lifecycle b) m"

definition endpoints_kept :: "EndpointRecord umap \<Rightarrow> EndpointRecord umap \<Rightarrow> bool" where
  "endpoints_kept m m' \<longleftrightarrow> umap_all (\<lambda>k e. case umap_find m' k of
       None \<Rightarrow> False | Some e' \<Rightarrow> e_generation e' = e_generation e) m"

definition workers_kept ::
    "(WorkerId \<times> WorkerBootId) umap \<Rightarrow> (WorkerId \<times> WorkerBootId) umap \<Rightarrow> bool" where
  "workers_kept m m' \<longleftrightarrow> umap_all (\<lambda>k w. case umap_find m' k of
       None \<Rightarrow> False | Some w' \<Rightarrow> snd w \<le> snd w') m"

definition records_kept :: "State \<Rightarrow> State \<Rightarrow> bool" where
  "records_kept s s' \<longleftrightarrow> st_epoch s' = st_epoch s \<and> buffers_kept (st_buffers s) (st_buffers s') \<and>
     endpoints_kept (st_endpoints s) (st_endpoints s') \<and> workers_kept (st_workers s) (st_workers s')"

lemma kept_refl [simp]: "buffers_kept m m" "endpoints_kept m' m'" "workers_kept m'' m''"
  by (simp_all add: buffers_kept_def endpoints_kept_def workers_kept_def umap_all_def)

lemma buffers_kept_put:
  assumes "case umap_find m k of None \<Rightarrow> True
     | Some b' \<Rightarrow> b_generation b = b_generation b' \<and> b_lifecycle b = b_lifecycle b'"
  shows "buffers_kept m (umap_put k b m)"
  using assms by (auto simp: buffers_kept_def umap_all_def)

lemma endpoints_kept_put:
  assumes "case umap_find m k of None \<Rightarrow> True | Some e' \<Rightarrow> e_generation e = e_generation e'"
  shows "endpoints_kept m (umap_put k e m)"
  using assms by (auto simp: endpoints_kept_def umap_all_def)

lemma workers_kept_put:
  assumes "case umap_find m k of None \<Rightarrow> True | Some w' \<Rightarrow> snd w' \<le> snd w"
  shows "workers_kept m (umap_put k w m)"
  using assms by (auto simp: workers_kept_def umap_all_def)

lemma kept_cases:
  assumes "records_kept s s'"
  shows "umap_find (st_buffers s) k = Some b \<Longrightarrow> \<exists>b'. umap_find (st_buffers s') k = Some b' \<and>
           b_generation b' = b_generation b \<and> b_lifecycle b' = b_lifecycle b"
    and "umap_find (st_endpoints s) k = Some e \<Longrightarrow> \<exists>e'. umap_find (st_endpoints s') k = Some e' \<and>
           e_generation e' = e_generation e"
    and "umap_find (st_workers s) k = Some w \<Longrightarrow> \<exists>w'. umap_find (st_workers s') k = Some w' \<and>
           snd w \<le> snd w'"
  using assms
  by (auto simp: records_kept_def buffers_kept_def endpoints_kept_def workers_kept_def
      dest!: umap_allD split: option.splits)

lemma registration_fresh_kept:
  assumes "records_kept s s'" and "registration_fresh s r"
  shows "registration_fresh s' r"
proof -
  have "st_epoch s' = st_epoch s" using assms(1) by (simp add: records_kept_def)
  then show ?thesis
    using assms(2) kept_cases [OF assms(1)] unfolding registration_fresh_def
    by (fastforce split: option.splits intro: order_trans)
qed

lemma plan_fresh_kept:
  assumes "records_kept s s'" and "plan_fresh s p"
  shows "plan_fresh s' p"
proof -
  have "st_epoch s' = st_epoch s" using assms(1) by (simp add: records_kept_def)
  then show ?thesis
    using assms(2) kept_cases(1,2) [OF assms(1)] unfolding plan_fresh_def
    by (fastforce split: option.splits)
qed

lemma registered_fresh_kept:
  "registered_fresh s \<Longrightarrow> records_kept s s' \<Longrightarrow> st_registrations s' = st_registrations s \<Longrightarrow>
   registered_fresh s'"
  unfolding registered_fresh_def by (auto elim!: umap_all_mono intro: registration_fresh_kept)

lemma plans_fresh_kept:
  "plans_fresh s \<Longrightarrow> records_kept s s' \<Longrightarrow> st_plans s' = st_plans s \<Longrightarrow> plans_fresh s'"
  unfolding plans_fresh_def by (auto elim!: umap_all_mono intro: plan_fresh_kept)

section \<open>The frame rule\<close>

lemma state_wf_frame:
  assumes wf: "state_wf n s" and n: "n < op_limit"
    and counter: "st_next_id s' = st_next_id s \<or> st_next_id s' = st_next_id s + 1 \<or>
        st_next_id s' = st_next_id s + 2 \<or> st_next_id s' = st_next_id s + 3"
    and buffers: "st_buffers s' = st_buffers s \<or> buffers_wf (Suc n) (st_next_id s') (st_buffers s')"
    and endpoints: "st_endpoints s' = st_endpoints s \<or>
        endpoints_wf (Suc n) (st_next_id s') (st_endpoints s')"
    and devices: "st_devices s' = st_devices s \<or> devices_wf (st_next_id s') (st_devices s')"
    and inventory: "(st_nics s' = st_nics s \<and> st_storage s' = st_storage s) \<or>
        inventory_wf (st_nics s') (st_storage s')"
    and providers: "st_providers s' = st_providers s \<or> providers_wf (st_next_id s') (st_providers s')"
    and capabilities: "st_capabilities s' = st_capabilities s \<or>
        capabilities_wf (st_next_id s') (st_capabilities s')"
    and workers: "(st_workers s' = st_workers s \<and> st_worker_max_boot s' = st_worker_max_boot s) \<or>
        workers_wf (st_workers s') (st_worker_max_boot s')"
    and registrations: "st_registrations s' = st_registrations s \<or>
        registrations_wf (Suc n) (st_registrations s')"
    and registered: "(st_registrations s' = st_registrations s \<and> records_kept s s') \<or> registered_fresh s'"
    and plans: "st_plans s' = st_plans s \<or> plans_wf (st_next_id s') (st_plans s')"
    and planned: "(st_plans s' = st_plans s \<and> records_kept s s') \<or> plans_fresh s'"
    and plan_dom: "\<And>k. umap_find (st_plans s) k \<noteq> None \<Longrightarrow> umap_find (st_plans s') k \<noteq> None"
    and transfers: "(st_attempts s' = st_attempts s \<and> st_receipts s' = st_receipts s) \<or>
        transfers_wf (st_next_id s') (st_plans s') (st_attempts s') (st_receipts s')"
    and attempt_dom: "\<And>k. umap_find (st_attempts s) k \<noteq> None \<Longrightarrow> umap_find (st_attempts s') k \<noteq> None"
    and verifications: "st_verifications s' = st_verifications s \<or>
        verifications_wf (st_next_id s') (st_attempts s') (st_verifications s')"
  shows "state_wf (Suc n) s'"
proof -
  note parts = wf [unfolded state_wf_def]
  have cnt: "counters_wf n (st_next_id s)" using parts by simp
  note room = counters_room [OF cnt n]
  have le: "st_next_id s \<le> st_next_id s'" using counter room by auto
  have "counters_wf (Suc n) (st_next_id s')" using counter room by auto
  moreover have "buffers_wf (Suc n) (st_next_id s') (st_buffers s')"
    using buffers parts le by (auto intro: wf_mono)
  moreover have "endpoints_wf (Suc n) (st_next_id s') (st_endpoints s')"
    using endpoints parts le by (auto intro: wf_mono)
  moreover have "devices_wf (st_next_id s') (st_devices s')"
    using devices parts le by (auto intro: wf_mono)
  moreover have "inventory_wf (st_nics s') (st_storage s')" using inventory parts by auto
  moreover have "providers_wf (st_next_id s') (st_providers s')"
    using providers parts le by (auto intro: wf_mono)
  moreover have "capabilities_wf (st_next_id s') (st_capabilities s')"
    using capabilities parts le by (auto intro: wf_mono)
  moreover have "workers_wf (st_workers s') (st_worker_max_boot s')" using workers parts by auto
  moreover have "registrations_wf (Suc n) (st_registrations s')"
    using registrations parts by (auto intro: wf_mono)
  moreover have "registered_fresh s'" using registered parts by (auto intro: registered_fresh_kept)
  moreover have "plans_wf (st_next_id s') (st_plans s')" using plans parts le by (auto intro: wf_mono)
  moreover have "plans_fresh s'" using planned parts by (auto intro: plans_fresh_kept)
  moreover have "transfers_wf (st_next_id s') (st_plans s') (st_attempts s') (st_receipts s')"
    using transfers transfers_wf_mono [of "st_next_id s" "st_plans s" "st_attempts s" "st_receipts s"
        "st_next_id s'" "st_plans s'"] parts le plan_dom by auto
  moreover have "verifications_wf (st_next_id s') (st_attempts s') (st_verifications s')"
    using verifications verifications_wf_mono [of "st_next_id s" "st_attempts s" "st_verifications s"
        "st_next_id s'" "st_attempts s'"] parts le attempt_dom by auto
  ultimately show ?thesis by (simp add: state_wf_def)
qed

lemma state_wf_Suc: "state_wf n s \<Longrightarrow> n < op_limit \<Longrightarrow> state_wf (Suc n) s"
  by (rule state_wf_frame) (auto simp: records_kept_def)

lemma state_wf_counters: "state_wf n s \<Longrightarrow> counters_wf n (st_next_id s)"
  by (simp add: state_wf_def)

lemmas counter_defs = next_id_locked_def next_freshness_locked_def Let_def

section \<open>Writing one entry\<close>

lemma id_in_use_new:
  "counters_wf n c \<Longrightarrow> n < op_limit \<Longrightarrow> id_in_use (c + 1) (c + 1) (c + 1)"
  using counters_room [of n c] by (simp add: id_in_use_def)

lemma id_in_use_le: "id_in_use c i k \<Longrightarrow> k \<le> c"
  by (simp add: id_in_use_def)

lemma buffers_wf_put:
  assumes "buffers_wf n c m" and "c \<le> c'"
    and "id_in_use c' (id_value (b_id b)) k" and "gen_bound (Suc n) (b_generation b)"
  shows "buffers_wf (Suc n) c' (umap_put k b m)"
  using buffers_wf_mono [OF assms(1,2)] assms(3,4) unfolding buffers_wf_def
  by (auto intro!: umap_all_put)

lemma buffers_wf_find:
  assumes "buffers_wf n c m" and "umap_find m k = Some b"
  shows "id_value (b_id b) = k" "id_in_use c (id_value (b_id b)) k" "gen_bound n (b_generation b)"
  using assms by (auto simp: buffers_wf_def id_in_use_def dest: umap_allD)

lemma buffers_wf_fresh: "buffers_wf n c m \<Longrightarrow> c < k \<Longrightarrow> umap_find m k = None"
  unfolding buffers_wf_def by (rule umap_fresh [of c]) (auto elim!: umap_all_mono simp: id_in_use_le)

lemma endpoints_wf_put:
  assumes "endpoints_wf n c m" and "c \<le> c'"
    and "id_in_use c' (id_value (e_id e)) k" and "gen_bound (Suc n) (e_generation e)"
  shows "endpoints_wf (Suc n) c' (umap_put k e m)"
  using endpoints_wf_mono [OF assms(1,2)] assms(3,4) unfolding endpoints_wf_def
  by (auto intro!: umap_all_put)

lemma endpoints_wf_find:
  assumes "endpoints_wf n c m" and "umap_find m k = Some e"
  shows "id_value (e_id e) = k" "id_in_use c (id_value (e_id e)) k" "gen_bound n (e_generation e)"
  using assms by (auto simp: endpoints_wf_def id_in_use_def dest: umap_allD)

lemma endpoints_wf_fresh: "endpoints_wf n c m \<Longrightarrow> c < k \<Longrightarrow> umap_find m k = None"
  unfolding endpoints_wf_def by (rule umap_fresh [of c]) (auto elim!: umap_all_mono simp: id_in_use_le)

lemma devices_wf_put:
  assumes "devices_wf c m" and "c \<le> c'"
    and "id_in_use c' (id_value (d_id d)) k" and "d_generation d = Generation 1"
  shows "devices_wf c' (umap_put k d m)"
  using devices_wf_mono [OF assms(1,2)] assms(3,4) unfolding devices_wf_def
  by (auto intro!: umap_all_put)

lemma verifications_wf_put:
  assumes "verifications_wf c m v" and "c \<le> c'"
    and "id_in_use c' (id_value (vr_id x)) k" and "umap_find m (id_value (vr_attempt_id x)) \<noteq> None"
  shows "verifications_wf c' m (umap_put k x v)"
  using verifications_wf_mono [OF assms(1,2)] assms(3,4) unfolding verifications_wf_def
  by (auto intro!: umap_all_put)

text \<open>Rewriting every registration or plan.\<close>

lemma registrations_wf_map:
  assumes wf: "registrations_wf n m"
    and f: "\<And>r. r_id (f r) = r_id r \<and> r_generation (f r) = r_generation r \<and>
      r_buffer (f r) = r_buffer r \<and> r_endpoint (f r) = r_endpoint r \<and>
      (r_state (f r) = RegistrationState.REGISTERED \<longrightarrow> r_state r = RegistrationState.REGISTERED)"
  shows "registrations_wf n (umap_map f m)"
proof -
  note wf' = wf [unfolded registrations_wf_def]
  have "umap_all (\<lambda>k r. id_value (r_id (f r)) = k \<and> k \<noteq> 0 \<and> gen_bound n (r_generation (f r))) m"
    using wf' f by simp
  moreover have "umap_unique (\<lambda>r. (r_buffer r, r_endpoint r, r_generation r)) (umap_map f m)"
    using wf' f by (auto intro!: umap_unique_map)
  moreover have "umap_all (\<lambda>k r. r_state (f r) = RegistrationState.REGISTERED \<longrightarrow>
      umap_all (\<lambda>k' r'. same_pair (f r) (f r') \<longrightarrow> r_generation (f r') \<le> r_generation (f r)) m) m"
    using wf' f unfolding umap_all_def same_pair_def by simp
  ultimately show ?thesis using wf' by (simp add: registrations_wf_def)
qed

lemma plan_shape_authoritative [simp]: "plan_shape (p\<lparr>tp_authoritative := x\<rparr>) = plan_shape p"
  by (simp add: plan_shape_def)

lemma plans_wf_map:
  assumes "plans_wf c m" and "c \<le> c'"
    and "\<And>p. tp_id (f p) = tp_id p" and "\<And>p. plan_shape p \<Longrightarrow> plan_shape (f p)"
  shows "plans_wf c' (umap_map f m)"
  using plans_wf_mono [OF assms(1,2)] assms(3,4) unfolding plans_wf_def by (auto elim!: umap_all_mono)

section \<open>Registries\<close>

lemma set_limits_wf: "state_wf n s \<Longrightarrow> n < op_limit \<Longrightarrow> state_wf (Suc n) (set_limits a b c d e s)"
  by (rule state_wf_frame) (auto simp: records_kept_def set_limits_def)

lemma create_buffer_wf:
  assumes wf: "state_wf n s" and n: "n < op_limit"
  shows "state_wf (Suc n) (snd (create_buffer p s))" (is "state_wf _ ?s'")
proof -
  let ?c = "st_next_id s"
  have cnt: "counters_wf n ?c" "buffers_wf n ?c (st_buffers s)" using wf by (simp_all add: state_wf_def)
  note room = counters_room [OF cnt(1) n]
  have put: "buffers_wf (Suc n) (?c + 1) (umap_put (?c + 1) b (st_buffers s))"
    if "b_id b = Id (?c + 1)" "b_generation b = Generation 1" for b
    using that room(1) by (intro buffers_wf_put [OF cnt(2)]) (simp_all add: id_in_use_new [OF cnt(1) n])
  have "buffers_kept (st_buffers s) (umap_put (?c + 1) b (st_buffers s))" for b
    using buffers_wf_fresh [OF cnt(2) room(1)] by (intro buffers_kept_put) simp
  then have kept: "records_kept s ?s'"
    by (auto simp: create_buffer_def counter_defs records_kept_def)
  show ?thesis
    using wf n by (rule state_wf_frame) (use put kept in \<open>auto simp: create_buffer_def counter_defs\<close>)
qed

text \<open>Changing a buffer or an endpoint while invalidating everything that depends on it.\<close>

lemma invalidate_buffer_wf:
  assumes wf: "state_wf n s" and n: "n < op_limit"
    and b: "umap_find (st_buffers s) (id_value i) = Some b"
    and b': "b_id b' = b_id b" "gen_bound (Suc n) (b_generation b')"
  shows "state_wf (Suc n) (invalidate_buffer_dependents_locked i
     (s\<lparr>st_freshness := f, st_buffers := umap_put (id_value i) b' (st_buffers s)\<rparr>))" (is "state_wf _ ?s'")
proof -
  note parts = wf [unfolded state_wf_def]
  have bufs: "buffers_wf n (st_next_id s) (st_buffers s)" using parts by simp
  have put: "buffers_wf (Suc n) (st_next_id s) (umap_put (id_value i) b' (st_buffers s))"
    by (rule buffers_wf_put [OF bufs]) (use buffers_wf_find [OF bufs b] b' in simp_all)
  have "registration_fresh ?s' r" if "r_buffer r \<noteq> i" "registration_fresh s r" for r
    using that by (simp add: registration_fresh_def invalidate_buffer_dependents_locked_def id_value_eq_iff)
  then have reg: "registered_fresh ?s'"
    using parts unfolding registered_fresh_def
    by (auto simp: invalidate_buffer_dependents_locked_def elim!: umap_all_mono)
  have "plan_fresh ?s' p" if "tp_source p \<noteq> i" "plan_fresh s p" for p
    using that by (simp add: plan_fresh_def invalidate_buffer_dependents_locked_def id_value_eq_iff)
  then have plan: "plans_fresh ?s'"
    using parts unfolding plans_fresh_def
    by (auto simp: invalidate_buffer_dependents_locked_def elim!: umap_all_mono)
  show ?thesis
    using wf n
    by (rule state_wf_frame)
       (use put reg plan parts in \<open>auto simp: invalidate_buffer_dependents_locked_def
          intro!: registrations_wf_mono registrations_wf_map plans_wf_map split: if_splits\<close>)
qed

lemma invalidate_endpoint_wf:
  assumes wf: "state_wf n s" and n: "n < op_limit"
    and e: "umap_find (st_endpoints s) (id_value i) = Some e"
    and e': "e_id e' = e_id e" "gen_bound (Suc n) (e_generation e')"
  shows "state_wf (Suc n) (invalidate_endpoint_dependents_locked i
     (s\<lparr>st_freshness := f, st_endpoints := umap_put (id_value i) e' (st_endpoints s)\<rparr>))" (is "state_wf _ ?s'")
proof -
  note parts = wf [unfolded state_wf_def]
  have eps: "endpoints_wf n (st_next_id s) (st_endpoints s)" using parts by simp
  have put: "endpoints_wf (Suc n) (st_next_id s) (umap_put (id_value i) e' (st_endpoints s))"
    by (rule endpoints_wf_put [OF eps]) (use endpoints_wf_find [OF eps e] e' in simp_all)
  have "registration_fresh ?s' r" if "r_endpoint r \<noteq> i" "registration_fresh s r" for r
    using that by (simp add: registration_fresh_def invalidate_endpoint_dependents_locked_def id_value_eq_iff)
  then have reg: "registered_fresh ?s'"
    using parts unfolding registered_fresh_def
    by (auto simp: invalidate_endpoint_dependents_locked_def elim!: umap_all_mono)
  have "plan_fresh ?s' p" if "tp_destination p \<noteq> i" "plan_fresh s p" for p
    using that by (simp add: plan_fresh_def invalidate_endpoint_dependents_locked_def id_value_eq_iff)
  then have plan: "plans_fresh ?s'"
    using parts unfolding plans_fresh_def
    by (auto simp: invalidate_endpoint_dependents_locked_def elim!: umap_all_mono)
  show ?thesis
    using wf n
    by (rule state_wf_frame)
       (use put reg plan parts in \<open>auto simp: invalidate_endpoint_dependents_locked_def
          intro!: registrations_wf_mono registrations_wf_map plans_wf_map split: if_splits\<close>)
qed

lemma state_wf_buffer_bound:
  "state_wf n s \<Longrightarrow> umap_find (st_buffers s) k = Some b \<Longrightarrow> gen_bound n (b_generation b)"
  by (auto simp: state_wf_def dest: buffers_wf_find)

lemma state_wf_endpoint_bound:
  "state_wf n s \<Longrightarrow> umap_find (st_endpoints s) k = Some e \<Longrightarrow> gen_bound n (e_generation e)"
  by (auto simp: state_wf_def dest: endpoints_wf_find)

lemma advance_buffer_generation_wf:
  assumes "state_wf n s" and "n < op_limit"
  shows "state_wf (Suc n) (snd (advance_buffer_generation i a s))"
  using assms state_wf_buffer_bound [OF assms(1)]
  by (auto simp: advance_buffer_generation_def counter_defs state_wf_Suc
      intro!: invalidate_buffer_wf gen_bound_next split: option.splits)

lemma retire_buffer_wf:
  assumes "state_wf n s" and "n < op_limit"
  shows "state_wf (Suc n) (snd (retire_buffer i a s))"
  using assms state_wf_buffer_bound [OF assms(1)]
  by (auto simp: retire_buffer_def counter_defs state_wf_Suc
      intro!: invalidate_buffer_wf gen_bound_Suc split: option.splits)

lemma advance_endpoint_generation_wf:
  assumes "state_wf n s" and "n < op_limit"
  shows "state_wf (Suc n) (snd (advance_endpoint_generation i a s))"
  using assms state_wf_endpoint_bound [OF assms(1)]
  by (auto simp: advance_endpoint_generation_def counter_defs state_wf_Suc
      intro!: invalidate_endpoint_wf gen_bound_next split: option.splits)

lemma set_endpoint_health_wf:
  assumes wf: "state_wf n s" and n: "n < op_limit"
  shows "state_wf (Suc n) (snd (set_endpoint_health i h a s))" (is "state_wf _ ?s'")
proof (cases "umap_find (st_endpoints s) (id_value i)")
  case None
  then show ?thesis using wf n by (simp add: set_endpoint_health_def state_wf_Suc)
next
  case (Some e)
  have eps: "endpoints_wf n (st_next_id s) (st_endpoints s)" using wf by (simp add: state_wf_def)
  have put: "endpoints_wf (Suc n) (st_next_id s) (umap_put (id_value i) (e\<lparr>e_healthy := h, e_freshness := f\<rparr>) (st_endpoints s))" for f
    by (rule endpoints_wf_put [OF eps]) (use endpoints_wf_find [OF eps Some] in \<open>simp_all add: gen_bound_Suc\<close>)
  have kept: "records_kept s ?s'"
    using Some by (auto simp: set_endpoint_health_def counter_defs records_kept_def intro!: endpoints_kept_put)
  show ?thesis
    using wf n
    by (rule state_wf_frame) (use put kept Some in \<open>auto simp: set_endpoint_health_def counter_defs\<close>)
qed

lemma add_device_wf:
  assumes wf: "state_wf n s" and n: "n < op_limit"
  shows "state_wf (Suc n) (snd (add_device p s))"
proof -
  let ?c = "st_next_id s"
  have cnt: "counters_wf n ?c" "devices_wf ?c (st_devices s)" using wf by (simp_all add: state_wf_def)
  have "devices_wf (?c + 1) (umap_put (?c + 1) d (st_devices s))"
    if "d_id d = Id (?c + 1)" "d_generation d = Generation 1" for d
    using that counters_room(1) [OF cnt(1) n]
    by (intro devices_wf_put [OF cnt(2)]) (simp_all add: id_in_use_new [OF cnt(1) n])
  then show ?thesis
    using wf n by (intro state_wf_frame [OF wf n]) (auto simp: add_device_def counter_defs records_kept_def)
qed

lemma add_endpoint_wf:
  assumes wf: "state_wf n s" and n: "n < op_limit"
  shows "state_wf (Suc n) (snd (add_endpoint p s))" (is "state_wf _ ?s'")
proof -
  let ?c = "st_next_id s"
  have cnt: "counters_wf n ?c" "endpoints_wf n ?c (st_endpoints s)" using wf by (simp_all add: state_wf_def)
  note room = counters_room [OF cnt(1) n]
  have put: "endpoints_wf (Suc n) (?c + 1) (umap_put (?c + 1) e (st_endpoints s))"
    if "e_id e = Id (?c + 1)" "e_generation e = Generation 1" for e
    using that room(1) by (intro endpoints_wf_put [OF cnt(2)]) (simp_all add: id_in_use_new [OF cnt(1) n])
  have "endpoints_kept (st_endpoints s) (umap_put (?c + 1) e (st_endpoints s))" for e
    using endpoints_wf_fresh [OF cnt(2) room(1)] by (intro endpoints_kept_put) simp
  then have kept: "records_kept s ?s'"
    by (auto simp: add_endpoint_def counter_defs records_kept_def)
  show ?thesis
    using wf n by (rule state_wf_frame) (use put kept in \<open>auto simp: add_endpoint_def counter_defs\<close>)
qed

lemma add_nic_wf:
  assumes wf: "state_wf n s" and n: "n < op_limit"
  shows "state_wf (Suc n) (snd (add_nic r s))"
  using wf by (intro state_wf_frame [OF wf n])
    (auto simp: add_nic_def counter_defs records_kept_def state_wf_def inventory_wf_def intro!: umap.keyed_put)

lemma add_storage_endpoint_wf:
  assumes wf: "state_wf n s" and n: "n < op_limit"
  shows "state_wf (Suc n) (snd (add_storage_endpoint r s))"
  using wf by (intro state_wf_frame [OF wf n])
    (auto simp: add_storage_endpoint_def counter_defs records_kept_def state_wf_def inventory_wf_def
      intro!: umap.keyed_put)

section \<open>Providers and capabilities\<close>

lemma providers_wf_put:
  assumes "providers_wf c m" and "c \<le> c'" and "id_in_use c' (id_value (p_id p)) k" and "p_name p \<noteq> []"
    and "\<And>k' p'. umap_find m k' = Some p' \<Longrightarrow> p_name p = p_name p' \<Longrightarrow> k' = k"
  shows "providers_wf c' (umap_put k p m)"
  using providers_wf_mono [OF assms(1,2)] assms(3,4,5) unfolding providers_wf_def
  by (auto intro!: umap_all_put umap_unique_put)

lemma providers_wf_unique:
  assumes "providers_wf c m" "umap_find m k = Some p" "umap_find m k' = Some p'" "p_name p = p_name p'"
  shows "k' = k"
  using assms unfolding providers_wf_def umap_unique_def by (blast dest: umap_allD)

lemma add_provider_wf:
  assumes wf: "state_wf n s" and n: "n < op_limit"
  shows "state_wf (Suc n) (snd (add_provider p s))" (is "state_wf _ ?s'")
proof (rule state_wf_frame [OF wf n])
  let ?c = "st_next_id s" and ?m = "st_providers s"
  have cnt: "counters_wf n ?c" "providers_wf ?c ?m" using wf by (simp_all add: state_wf_def)
  show "st_providers ?s' = ?m \<or> providers_wf (st_next_id ?s') (st_providers ?s')"
  proof (cases "pap_name p = []")
    case True
    then show ?thesis by (simp add: add_provider_def)
  next
    case name: False
    show ?thesis
    proof (cases "umap_first (\<lambda>v. p_name v = pap_name p) ?m")
      case None
      then have new: "\<And>k v. umap_find ?m k = Some v \<Longrightarrow> p_name v \<noteq> pap_name p"
        by (auto simp: umap_first_None dest!: umap_values_find)
      have "providers_wf (?c + 1) (umap_put (?c + 1) v ?m)"
        if "p_id v = Id (?c + 1)" "p_name v = pap_name p" for v
        using that new name counters_room(1) [OF cnt(1) n]
        by (intro providers_wf_put [OF cnt(2)]) (auto simp: id_in_use_new [OF cnt(1) n])
      then show ?thesis using None name by (simp add: add_provider_def counter_defs)
    next
      case (Some kv)
      obtain k v where kv: "kv = (k, v)" by (cases kv)
      have ok: "umap_ok ?m" using cnt(2) by (simp add: providers_wf_def)
      note found = umap_first_Some [OF Some [unfolded kv] ok]
      have "id_in_use ?c (id_value (p_id v)) k"
        using cnt(2) found(1) by (auto simp: providers_wf_def dest: umap_allD)
      then have "providers_wf ?c (umap_put k v' ?m)" if "p_id v' = p_id v" "p_name v' = p_name v" for v'
        using that found name
        by (intro providers_wf_put [OF cnt(2)]) (simp_all add: providers_wf_unique [OF cnt(2) found(1)])
      then show ?thesis using Some kv name by (simp add: add_provider_def Let_def)
    qed
  qed
qed (auto simp: add_provider_def counter_defs records_kept_def split: option.splits)

lemma capabilities_wf_put:
  assumes "capabilities_wf c m" and "c \<le> c'" and "k \<noteq> 0" "k \<le> c'" "id_value (c_id x) \<le> c'" "c < id_value (c_id x)"
    and "\<And>k' y. umap_find m k' = Some y \<Longrightarrow> c_provider x = c_provider y \<Longrightarrow>
      c_capability x = c_capability y \<Longrightarrow> k' = k"
  shows "capabilities_wf c' (umap_put k x m)"
proof -
  have "c_id x \<noteq> c_id y" if "umap_find m k' = Some y" for k' y
    using umap_allD [OF _ that, of "\<lambda>k c. k \<noteq> 0 \<and> k \<le> _ \<and> id_value (c_id c) \<noteq> 0 \<and> id_value (c_id c) \<le> _"]
      assms(1,6) unfolding capabilities_wf_def by fastforce
  then have "umap_unique c_id (umap_put k x m)"
    using assms(1) unfolding capabilities_wf_def by (intro umap_unique_put) auto
  moreover have "id_value (c_id x) \<noteq> 0" using assms(6) by auto
  ultimately show ?thesis
    using capabilities_wf_mono [OF assms(1,2)] assms(3-5,7) unfolding capabilities_wf_def
    by (auto intro!: umap_all_put umap_unique_put)
qed

lemma capabilities_wf_find:
  assumes "capabilities_wf c m" and "umap_find m k = Some x"
  shows "k \<noteq> 0" "k \<le> c"
    and "umap_find m k' = Some y \<Longrightarrow> c_provider x = c_provider y \<Longrightarrow> c_capability x = c_capability y \<Longrightarrow> k' = k"
  using assms umap_allD [of _ m k x] unfolding capabilities_wf_def umap_unique_def umap_all_def by auto

lemma publish_capability_wf:
  assumes wf: "state_wf n s" and n: "n < op_limit"
  shows "state_wf (Suc n) (snd (publish_capability p s))" (is "state_wf _ ?s'")
proof (rule state_wf_frame [OF wf n])
  let ?c = "st_next_id s" and ?m = "st_capabilities s"
  let ?P = "\<lambda>v. c_provider v = cpp_provider p \<and> c_capability v = cpp_capability p"
  have cnt: "counters_wf n ?c" "capabilities_wf ?c ?m" using wf by (simp_all add: state_wf_def)
  have ok: "umap_ok ?m" using cnt(2) by (simp add: capabilities_wf_def)
  note room = counters_room [OF cnt(1) n]
  show "st_capabilities ?s' = ?m \<or> capabilities_wf (st_next_id ?s') (st_capabilities ?s')"
  proof (cases "umap_first ?P ?m")
    case None
    then have "\<not> ?P v" if "umap_find ?m k = Some v" for k v
      using that by (auto simp: umap_first_None dest!: umap_values_find)
    then have "capabilities_wf (?c + 1) (umap_put (?c + 1) x ?m)" if "c_id x = Id (?c + 1)" "?P x" for x
      using that room by (intro capabilities_wf_put [OF cnt(2)]) auto
    then show ?thesis using None by (auto simp: publish_capability_def counter_defs)
  next
    case (Some kv)
    obtain k v where kv: "kv = (k, v)" by (cases kv)
    note found = umap_first_Some [OF Some [unfolded kv] ok]
    have "capabilities_wf (?c + 1) (umap_put k x ?m)" if "c_id x = Id (?c + 1)" "?P x" for x
      using that room(1) found(2) capabilities_wf_find(1,2) [OF cnt(2) found(1)]
      by (intro capabilities_wf_put [OF cnt(2)])
         (auto intro: capabilities_wf_find(3) [OF cnt(2) found(1)])
    then show ?thesis using Some kv by (auto simp: publish_capability_def counter_defs)
  qed
qed (auto simp: publish_capability_def counter_defs records_kept_def split: option.splits)

lemma revoke_capability_wf:
  assumes wf: "state_wf n s" and n: "n < op_limit"
  shows "state_wf (Suc n) (snd (revoke_capability p c a s))"
proof -
  have "capabilities_wf (st_next_id s) (umap_erase k (st_capabilities s))" for k
    using wf unfolding state_wf_def capabilities_wf_def by (auto intro!: umap_all_erase umap_unique_erase)
  then show ?thesis
    by (intro state_wf_frame [OF wf n])
       (auto simp: revoke_capability_def records_kept_def split: option.splits)
qed

section \<open>Workers and epochs\<close>

definition prev_max_boot :: "WorkerId \<Rightarrow> State \<Rightarrow> u64" where
  "prev_max_boot w s = (case umap_find (st_worker_max_boot s) (id_value w) of Some b \<Rightarrow> b | None \<Rightarrow> 0)"

text \<open>A registration request that succeeds leaves the worker live at the boot id it named.\<close>

lemma register_worker_cases:
  obtains (rejected) c msg where "register_worker w b e s = (err c msg, s)"
  | (same) "register_worker w b e s = (ok (), s)" "e = st_epoch s" "id_valid w"
      "\<exists>x. umap_find (st_workers s) (id_value w) = Some (x, b)"
  | (accepted) x where "register_worker w b e s = (ok (), s\<lparr>
        st_workers := umap_put (id_value w) (x, b) (st_workers s),
        st_worker_max_boot := umap_put (id_value w) (gen_value b) (st_worker_max_boot s)\<rparr>)"
      "e = st_epoch s" "id_valid w" "prev_max_boot w s \<le> gen_value b"
      "case umap_find (st_workers s) (id_value w) of
         None \<Rightarrow> x = w \<and> (prev_max_boot w s = 0 \<or> prev_max_boot w s < gen_value b)
       | Some wb \<Rightarrow> x = w \<or> x = fst wb"
proof (cases "gen_value e \<noteq> gen_value (st_epoch s) \<or> \<not> id_valid w \<or> gen_value b < prev_max_boot w s")
  case True
  then have "\<exists>c msg. register_worker w b e s = (err c msg, s)"
    unfolding register_worker_def Let_def prev_max_boot_def
    by (elim disjE) (auto simp only: simp_thms if_True if_False split: if_splits)
  then show ?thesis using rejected by blast
next
  case False
  then have ok: "e = st_epoch s" "id_valid w" "prev_max_boot w s \<le> gen_value b"
    by (auto simp: gen_value_eq_iff)
  show ?thesis
  proof (cases "umap_find (st_workers s) (id_value w)")
    case None
    show ?thesis
    proof (cases "prev_max_boot w s \<noteq> 0 \<and> gen_value b \<le> prev_max_boot w s")
      case True
      with None ok show ?thesis
        by (intro rejected) (auto simp: register_worker_def Let_def prev_max_boot_def)
    next
      case False
      have "register_worker w b e s = (ok (), s\<lparr>st_workers := umap_put (id_value w) (w, b) (st_workers s),
          st_worker_max_boot := umap_put (id_value w) (gen_value b) (st_worker_max_boot s)\<rparr>)"
        using None ok False unfolding register_worker_def Let_def prev_max_boot_def
        by (auto simp: not_less not_le State.equality)
      with None ok False show ?thesis by (intro accepted [of w]) auto
    qed
  next
    case (Some wb)
    show ?thesis
    proof (cases "prev_max_boot w s \<noteq> 0")
      case zero: False
      have "register_worker w b e s = (ok (), s\<lparr>st_workers := umap_put (id_value w) (w, b) (st_workers s),
          st_worker_max_boot := umap_put (id_value w) (gen_value b) (st_worker_max_boot s)\<rparr>)"
        using zero ok unfolding register_worker_def Let_def prev_max_boot_def
        by (simp add: not_less not_le State.equality)
      with Some ok show ?thesis by (intro accepted [of w]) auto
    next
      case True
      show ?thesis
      proof (cases "snd wb = b")
        case True
        with Some ok \<open>prev_max_boot w s \<noteq> 0\<close> show ?thesis
          by (intro same) (auto simp: register_worker_def Let_def prev_max_boot_def prod_eq_iff)
      next
        case False
        with Some ok \<open>prev_max_boot w s \<noteq> 0\<close> show ?thesis
          by (intro accepted [of "fst wb"])
             (auto simp: register_worker_def Let_def prev_max_boot_def gen_value_eq_iff)
      qed
    qed
  qed
qed

lemma workers_wf_find:
  assumes "workers_wf m bm" and "umap_find m k = Some w"
  shows "fst w = Id k" "k \<noteq> 0" "umap_find bm k = Some (gen_value (snd w))"
  using assms by (auto simp: workers_wf_def dest: umap_allD)

lemma register_worker_wf:
  assumes wf: "state_wf n s" and n: "n < op_limit"
  shows "state_wf (Suc n) (snd (register_worker w b e s))"
proof (cases rule: register_worker_cases [of w b e s])
  case rejected
  then show ?thesis using wf n by (simp add: state_wf_Suc)
next
  case same
  then show ?thesis using wf n by (simp add: state_wf_Suc)
next
  case (accepted x)
  have ws: "workers_wf (st_workers s) (st_worker_max_boot s)" using wf by (simp add: state_wf_def)
  have "x = w"
    using accepted(5) workers_wf_find(1) [OF ws] by (auto split: option.splits)
  then have put: "workers_wf (umap_put (id_value w) (x, b) (st_workers s))
      (umap_put (id_value w) (gen_value b) (st_worker_max_boot s))"
    using ws accepted(3) unfolding workers_wf_def id_valid_def umap_all_def by auto
  have "workers_kept (st_workers s) (umap_put (id_value w) (x, b) (st_workers s))"
    using accepted(4) workers_wf_find(3) [OF ws]
    by (intro workers_kept_put) (auto simp: prev_max_boot_def less_eq_Generation_def split: option.splits)
  then show ?thesis
    by (intro state_wf_frame [OF wf n]) (use put in \<open>auto simp: accepted(1) records_kept_def\<close>)
qed

lemma mark_worker_dead_wf:
  assumes wf: "state_wf n s" and n: "n < op_limit"
  shows "state_wf (Suc n) (snd (mark_worker_dead w s))" (is "state_wf _ ?s'")
proof -
  note parts = wf [unfolded state_wf_def]
  have ws: "workers_wf (umap_erase (id_value w) (st_workers s)) (st_worker_max_boot s)"
    using parts unfolding workers_wf_def by (auto intro: umap_all_erase)
  have "registration_fresh ?s' r"
    if "\<not> (au_worker (r_authority r) = w \<and> worker_owned (r_authority r))" "registration_fresh s r" for r
    using that by (auto simp: registration_fresh_def mark_worker_dead_def id_value_eq_iff)
  then have reg: "registered_fresh ?s'"
    using parts unfolding registered_fresh_def
    by (auto simp: mark_worker_dead_def elim!: umap_all_mono)
  have "plan_fresh ?s' p \<longleftrightarrow> plan_fresh s p" for p
    by (simp add: plan_fresh_def mark_worker_dead_def)
  then have "plans_fresh ?s'" using parts by (simp add: plans_fresh_def mark_worker_dead_def)
  then show ?thesis
    by (intro state_wf_frame [OF wf n])
       (use ws reg parts in \<open>auto simp: mark_worker_dead_def intro!: registrations_wf_mono registrations_wf_map split: if_splits\<close>)
qed

lemma advance_epoch_wf:
  assumes wf: "state_wf n s" and n: "n < op_limit"
  shows "state_wf (Suc n) (snd (advance_epoch s))"
proof -
  note parts = wf [unfolded state_wf_def]
  have "workers_wf [] (st_worker_max_boot s)" using parts by (simp add: workers_wf_def)
  moreover have "registered_fresh (snd (advance_epoch s))" "plans_fresh (snd (advance_epoch s))"
    by (simp_all add: registered_fresh_def plans_fresh_def advance_epoch_def, simp_all add: umap_all_def)
  moreover have "registrations_wf (Suc n) (st_registrations (snd (advance_epoch s)))"
    using parts by (simp add: advance_epoch_def registrations_wf_mono registrations_wf_map)
  moreover have "plans_wf (st_next_id s) (st_plans (snd (advance_epoch s)))"
    using parts by (auto simp: advance_epoch_def intro!: plans_wf_map)
  ultimately show ?thesis
    by (intro state_wf_frame [OF wf n]) (simp_all add: advance_epoch_def)
qed

end
