(* ===== verification/Invariant_Transfers.thy ===== *)
theory Invariant_Transfers
  imports Invariant
begin

text \<open>
  The invariant across registration, planning and the transfer lifecycle, and the interpretation of
  the locale of budgeted invariants on the coordinator: every state a bounded run of operations
  reaches is well formed.
\<close>

section \<open>Registration\<close>

lemma registrations_wf_find:
  assumes "registrations_wf n m" and "umap_find m k = Some r"
  shows "id_value (r_id r) = k" "k \<noteq> 0" "gen_bound n (r_generation r)"
  using assms by (auto simp: registrations_wf_def dest: umap_allD)

lemma registrations_wf_unique:
  assumes "registrations_wf n m" "umap_find m k = Some r" "umap_find m k' = Some r'"
    and "same_pair r r'" "r_generation r = r_generation r'"
  shows "k = k'"
proof -
  have "umap_unique (\<lambda>r. (r_buffer r, r_endpoint r, r_generation r)) m"
    using assms(1) by (simp add: registrations_wf_def)
  from this [unfolded umap_unique_def, THEN umap_allD, OF assms(2), THEN umap_allD, OF assms(3)]
  show ?thesis using assms(4,5) by (simp add: same_pair_def)
qed

lemma registrations_wf_latest:
  assumes "registrations_wf n m" "umap_find m k = Some r" "umap_find m k' = Some r'"
    and "same_pair r r'" "r_state r = RegistrationState.REGISTERED"
  shows "r_generation r' \<le> r_generation r"
proof -
  have "umap_all (\<lambda>k r. r_state r = RegistrationState.REGISTERED \<longrightarrow>
      umap_all (\<lambda>k' r'. same_pair r r' \<longrightarrow> r_generation r' \<le> r_generation r) m) m"
    using assms(1) by (simp add: registrations_wf_def)
  from umap_allD [OF this assms(2)] assms(5)
  have "umap_all (\<lambda>k' r'. same_pair r r' \<longrightarrow> r_generation r' \<le> r_generation r) m" by simp
  from umap_allD [OF this assms(3)] assms(4) show ?thesis by simp
qed

lemma registrations_wf_put:
  assumes wf: "registrations_wf n m" and r: "id_value (r_id r) = k" "k \<noteq> 0" "gen_bound (Suc n) (r_generation r)"
    and older: "\<And>k' r'. umap_find m k' = Some r' \<Longrightarrow> same_pair r r' \<Longrightarrow>
      r_generation r' < r_generation r \<and> r_state r' \<noteq> RegistrationState.REGISTERED"
  shows "registrations_wf (Suc n) (umap_put k r m)"
proof -
  note wf' = registrations_wf_mono [OF wf, unfolded registrations_wf_def]
  have "umap_unique (\<lambda>r. (r_buffer r, r_endpoint r, r_generation r)) (umap_put k r m)"
    using wf' older by (intro umap_unique_put) (fastforce simp: same_pair_def)+
  moreover have "r_generation y \<le> r_generation x"
    if x: "umap_find (umap_put k r m) k' = Some x" "r_state x = RegistrationState.REGISTERED"
      and y: "umap_find (umap_put k r m) k'' = Some y" "same_pair x y" for k' k'' x y
  proof (cases "k' = k")
    case True
    with x have "x = r" by simp
    with y older [of k'' y] show ?thesis by (auto split: if_splits)
  next
    case False
    with x have x': "umap_find m k' = Some x" by simp
    have "y \<noteq> r" using older [OF x'] x y by (auto simp: same_pair_def)
    with y have "umap_find m k'' = Some y" by (auto split: if_splits)
    with registrations_wf_latest [OF wf x'] x y show ?thesis by simp
  qed
  ultimately show ?thesis
    using wf' r unfolding registrations_wf_def
    by (auto intro!: umap_all_put simp: umap_all_def split: if_splits)
qed

text \<open>Rewriting an entry that does not become registered.\<close>

lemma registrations_wf_update:
  assumes wf: "registrations_wf n m" and r: "umap_find m k = Some r"
    and r': "r_id r' = r_id r" "r_generation r' = r_generation r" "same_pair r r'"
      "r_state r' \<noteq> RegistrationState.REGISTERED"
  shows "registrations_wf n (umap_put k r' m)"
proof -
  note wf' = wf [unfolded registrations_wf_def]
  have "umap_unique (\<lambda>r. (r_buffer r, r_endpoint r, r_generation r)) (umap_put k r' m)"
  proof (rule umap_unique_put)
    fix k' v' assume "umap_find m k' = Some v'"
      "(r_buffer r', r_endpoint r', r_generation r') = (r_buffer v', r_endpoint v', r_generation v')"
    with registrations_wf_unique [OF wf r, of k' v'] r' show "k' = k" by (simp add: same_pair_def)
  qed (use wf' in simp)
  moreover have "r_generation y \<le> r_generation x"
    if "umap_find (umap_put k r' m) k' = Some x" "r_state x = RegistrationState.REGISTERED"
      "umap_find (umap_put k r' m) k'' = Some y" "same_pair x y" for k' k'' x y
  proof -
    from that r' have x: "umap_find m k' = Some x" by (auto split: if_splits)
    show ?thesis
    proof (cases "k'' = k")
      case True
      with that r' have "y = r'" by simp
      with registrations_wf_latest [OF wf x r] that r' show ?thesis by (simp add: same_pair_def)
    next
      case False
      with registrations_wf_latest [OF wf x] that show ?thesis by simp
    qed
  qed
  ultimately show ?thesis
    using wf' r r' registrations_wf_find [OF wf r] unfolding registrations_wf_def
    by (auto intro!: umap_all_put simp: umap_all_def split: if_splits)
qed

lemma register_guards_ok:
  assumes "register_guards p s = ok (b, e)"
  shows "umap_find (st_buffers s) (id_value (rp_buffer p)) = Some b"
    "umap_find (st_endpoints s) (id_value (rp_endpoint p)) = Some e"
    "b_lifecycle b = BufferLifecycle.ACTIVE" "e_support e \<noteq> Support.UNSUPPORTED"
    "length (st_registrations s) < unat (st_max_registrations s)"
    "au_epoch (rp_authority p) = st_epoch s"
    "worker_owned (rp_authority p) \<Longrightarrow> worker_live_locked (rp_authority p) s"
    "worker_owned (b_authority b) \<Longrightarrow> b_authority b = rp_authority p"
  using assms by (auto simp: register_guards_def gen_value_eq_iff split: option.splits if_splits)

lemma retire_deregistering_wf:
  assumes wf: "state_wf n s"
  shows "state_wf n (retire_deregistering latest s)"
proof (cases "\<exists>l. latest = Some l \<and> r_state l = RegistrationState.DEREGISTERING")
  case False
  then show ?thesis using wf by (auto simp: retire_deregistering_def split: option.splits)
next
  case True
  then obtain l where l: "latest = Some l" "r_state l = RegistrationState.DEREGISTERING" by blast
  let ?s' = "retire_deregistering latest s"
  note parts = wf [unfolded state_wf_def]
  have "registration_fresh ?s' r \<longleftrightarrow> registration_fresh s r" "plan_fresh ?s' p \<longleftrightarrow> plan_fresh s p" for r p
    by (simp_all add: l retire_deregistering_def registration_fresh_def plan_fresh_def)
  then have "registered_fresh ?s'" "plans_fresh ?s'"
    using parts unfolding registered_fresh_def plans_fresh_def
    by (auto simp: l retire_deregistering_def elim!: umap_all_mono split: if_splits)
  moreover have "registrations_wf n (st_registrations ?s')"
    using parts by (auto simp: l retire_deregistering_def intro!: registrations_wf_map split: if_splits)
  ultimately show ?thesis
    using parts by (simp add: state_wf_def l retire_deregistering_def)
qed

text \<open>What a registration request does, by outcome.\<close>

lemma register_buffer_cases:
  obtains (unchanged) r where "register_buffer p be s = (r, s, be)"
  | (backend_failed) vt b b' and e :: Error where "be = Some (vt, b)"
      "register_buffer p be s = (err ErrorCode.REGISTRATION_FAILED (err_message e),
        retire_deregistering (latest_registration (rp_buffer p) (rp_endpoint p) s) s, Some (vt, b'))"
  | (committed) b e i supp prov h be' where "register_guards p s = ok (b, e)"
      "\<And>l. latest_registration (rp_buffer p) (rp_endpoint p) s = Some l \<Longrightarrow>
         r_state l \<noteq> RegistrationState.REGISTERED \<and> r_state l \<noteq> RegistrationState.REGISTERING"
      "register_buffer p be s =
        (let latest = latest_registration (rp_buffer p) (rp_endpoint p) s;
             (r, s') = register_commit p b e latest i supp prov h (retire_deregistering latest s)
         in (r, s', be'))"
proof -
  let ?l = "latest_registration (rp_buffer p) (rp_endpoint p) s"
  show thesis
  proof (cases "register_guards p s")
    case (Inl e)
    then have "register_buffer p be s = (Inl e, s, be)" by (simp add: register_buffer_def)
    then show thesis by (rule unchanged)
  next
    case (Inr x)
    obtain b e where x: "x = (b, e)" by (cases x)
    show thesis
    proof (cases "Option.bind ?l (register_existing p b e)")
      case (Some r)
      with Inr x have "register_buffer p be s = (r, s, be)" by (simp add: register_buffer_def Let_def)
      then show thesis by (rule unchanged)
    next
      case None
      then have fresh: "r_state l \<noteq> RegistrationState.REGISTERED \<and> r_state l \<noteq> RegistrationState.REGISTERING"
        if "?l = Some l" for l
        using that by (auto simp: register_existing_def split: if_splits)
      show thesis
      proof (cases be)
        case be: None
        show thesis
          by (rule committed [of b e "Id 0" "rp_support p" "rp_provenance p" None be])
             (use Inr x None fresh be in \<open>auto simp: register_buffer_def Let_def ok_def\<close>)
      next
        case be: (Some vb)
        obtain vt bk where vb: "vb = (vt, bk)" by (cases vb)
        obtain rr b' where call: "vt_register_buffer vt (registration_spec p b e) bk = (rr, b')"
          by (cases "vt_register_buffer vt (registration_spec p b e) bk")
        show thesis
        proof (cases rr)
          case (Inl err)
          show thesis
            by (rule backend_failed [of vt bk err b'])
               (use Inr x None be vb call Inl in \<open>auto simp: register_buffer_def Let_def\<close>)
        next
          case rr: (Inr v)
          show thesis
            by (rule committed [of b e "rr_id v" "rr_support v" "rr_provenance v" "rr_handle v" "Some (vt, b')"])
               (use Inr x None fresh be vb call rr in \<open>auto simp: register_buffer_def Let_def ok_def\<close>)
        qed
      qed
    qed
  qed
qed

definition new_generation :: "Registration option \<Rightarrow> RegistrationGeneration" where
  "new_generation latest = (case latest of Some l \<Rightarrow> gen_next (r_generation l) | None \<Rightarrow> Generation 1)"

text \<open>The registration a commit stores, and what it leaves of the state.\<close>

lemma register_commit_cases:
  obtains reg b' c' where
    "register_commit p b e latest i supp prov h s = (ok reg,
       s\<lparr>st_next_id := c', st_freshness := st_freshness s + 2,
         st_registrations := umap_put (id_value (r_id reg)) reg (st_registrations s),
         st_buffers := umap_put (id_value (rp_buffer p)) b' (st_buffers s)\<rparr>)"
    "if id_valid i then r_id reg = i \<and> c' = st_next_id s
     else r_id reg = Id (st_next_id s + 1) \<and> c' = st_next_id s + 1"
    "r_generation reg = new_generation latest" "r_buffer reg = b_id b" "r_endpoint reg = e_id e"
    "r_buffer_generation reg = b_generation b" "r_endpoint_generation reg = e_generation e"
    "r_authority reg = rp_authority p" "r_provider reg = rp_provider p"
    "r_state reg = RegistrationState.REGISTERED" "r_support reg = supp" "\<not> r_duplicated reg"
    "b_id b' = b_id b" "b_generation b' = b_generation b" "b_lifecycle b' = b_lifecycle b"
    "b_registration_id b' = r_id reg" "b_authority b' = b_authority b"
proof -
  let ?i = "if id_valid i then i else Id (st_next_id s + 1)"
  let ?c = "if id_valid i then st_next_id s else st_next_id s + 1"
  let ?reg = "\<lparr>r_id = ?i, r_generation = new_generation latest, r_buffer = b_id b,
      r_buffer_generation = b_generation b, r_endpoint = e_id e, r_endpoint_generation = e_generation e,
      r_provider = rp_provider p, r_authority = rp_authority p, r_state = RegistrationState.REGISTERED,
      r_support = supp, r_provenance = prov, r_duplicated = False, r_freshness = st_freshness s + 1,
      r_required_capabilities = rp_required_capabilities p, r_handle = h\<rparr>"
  let ?b = "b\<lparr>b_registration_state := RegistrationState.REGISTERED, b_registration_id := ?i,
      b_registration_generation := new_generation latest, b_freshness := st_freshness s + 2\<rparr>"
  show thesis
    by (rule that [of ?reg ?b ?c])
       (auto simp: register_commit_def counter_defs new_generation_def add.commute intro!: State.equality)
qed

lemma latest_registration_facts:
  assumes wf: "registrations_wf n (st_registrations s)"
  shows "latest_registration b e s = Some l \<Longrightarrow> \<exists>k. umap_find (st_registrations s) k = Some l \<and>
      r_buffer l = b \<and> r_endpoint l = e"
    and "latest_registration b e s = Some l \<Longrightarrow> umap_find (st_registrations s) k = Some r \<Longrightarrow>
      r_buffer r = b \<Longrightarrow> r_endpoint r = e \<Longrightarrow> r_generation r \<le> r_generation l"
    and "latest_registration b e s = None \<Longrightarrow> umap_find (st_registrations s) k = Some r \<Longrightarrow>
      r_buffer r = b \<Longrightarrow> r_endpoint r \<noteq> e"
proof -
  have ok: "umap_ok (st_registrations s)" using wf by (simp add: registrations_wf_def)
  show "latest_registration b e s = Some l \<Longrightarrow> \<exists>k. umap_find (st_registrations s) k = Some l \<and>
      r_buffer l = b \<and> r_endpoint l = e"
    unfolding latest_registration_def umap_values_iff [OF ok, symmetric]
    using latest_by_SomeD(1,2) umap_values_iff [OF ok] by fast
  show "latest_registration b e s = Some l \<Longrightarrow> umap_find (st_registrations s) k = Some r \<Longrightarrow>
      r_buffer r = b \<Longrightarrow> r_endpoint r = e \<Longrightarrow> r_generation r \<le> r_generation l"
    unfolding latest_registration_def less_eq_Generation_def
    using latest_by_SomeD(3) umap_values_find by fast
  show "latest_registration b e s = None \<Longrightarrow> umap_find (st_registrations s) k = Some r \<Longrightarrow>
      r_buffer r = b \<Longrightarrow> r_endpoint r \<noteq> e"
    unfolding latest_registration_def latest_by_None using umap_values_find by fast
qed

text \<open>Where the latest registration of a pair is not registered, the next generation is new to it.\<close>

lemma new_generation_newer:
  assumes wf: "registrations_wf n (st_registrations s)" and n: "n < op_limit"
    and latest: "\<And>l. latest_registration b e s = Some l \<Longrightarrow> r_state l \<noteq> RegistrationState.REGISTERED"
  shows "gen_bound (Suc n) (new_generation (latest_registration b e s))"
    and "umap_find (st_registrations s) k = Some r \<Longrightarrow> r_buffer r = b \<Longrightarrow> r_endpoint r = e \<Longrightarrow>
      r_generation r < new_generation (latest_registration b e s) \<and> r_state r \<noteq> RegistrationState.REGISTERED"
proof -
  note facts = latest_registration_facts [OF wf]
  have bound: "gen_bound n (r_generation l)" if "latest_registration b e s = Some l" for l
    using facts(1) [OF that] registrations_wf_find(3) [OF wf] by blast
  then show "gen_bound (Suc n) (new_generation (latest_registration b e s))"
    using n by (auto simp: new_generation_def gen_bound_next split: option.splits)
  assume r: "umap_find (st_registrations s) k = Some r" "r_buffer r = b" "r_endpoint r = e"
  then obtain l where l: "latest_registration b e s = Some l"
    using facts(3) by (cases "latest_registration b e s") auto
  note le = facts(2) [OF l r]
  obtain k' where k': "umap_find (st_registrations s) k' = Some l" "r_buffer l = b" "r_endpoint l = e"
    using facts(1) [OF l] by blast
  have "r_generation r < gen_next (r_generation l)"
    using le gen_bound_less [OF bound [OF l] n] by (rule order.strict_trans1)
  moreover have "r_state r \<noteq> RegistrationState.REGISTERED"
  proof
    assume reg: "r_state r = RegistrationState.REGISTERED"
    have pair: "same_pair r l" using r k' by (simp add: same_pair_def)
    with registrations_wf_latest [OF wf r(1) k'(1) _ reg] le have "r_generation r = r_generation l" by simp
    with registrations_wf_unique [OF wf r(1) k'(1) pair] r(1) k'(1) have "r = l" by simp
    with latest [OF l] reg show False by simp
  qed
  ultimately show "r_generation r < new_generation (latest_registration b e s) \<and>
      r_state r \<noteq> RegistrationState.REGISTERED"
    by (simp add: new_generation_def l)
qed

lemma register_commit_wf:
  assumes wf: "state_wf n s" and n: "n < op_limit"
    and b: "umap_find (st_buffers s) (id_value (rp_buffer p)) = Some b" "b_lifecycle b = BufferLifecycle.ACTIVE"
    and e: "umap_find (st_endpoints s) (id_value (rp_endpoint p)) = Some e"
    and auth: "au_epoch (rp_authority p) = st_epoch s"
      "worker_owned (rp_authority p) \<Longrightarrow> worker_live_locked (rp_authority p) s"
    and gen: "gen_bound (Suc n) (new_generation latest)"
    and newer: "\<And>k r. umap_find (st_registrations s) k = Some r \<Longrightarrow> r_buffer r = rp_buffer p \<Longrightarrow>
      r_endpoint r = rp_endpoint p \<Longrightarrow>
      r_generation r < new_generation latest \<and> r_state r \<noteq> RegistrationState.REGISTERED"
  shows "state_wf (Suc n) (snd (register_commit p b e latest i supp prov h s))" (is "state_wf _ ?s'")
proof -
  note parts = wf [unfolded state_wf_def]
  have maps: "counters_wf n (st_next_id s)" "buffers_wf n (st_next_id s) (st_buffers s)"
      "endpoints_wf n (st_next_id s) (st_endpoints s)" "registrations_wf n (st_registrations s)"
    using parts by simp_all
  note room = counters_room [OF maps(1) n]
  have ids: "b_id b = rp_buffer p" "e_id e = rp_endpoint p"
    using buffers_wf_find(1) [OF maps(2) b(1)] endpoints_wf_find(1) [OF maps(3) e]
    by (simp_all add: id_value_eq_iff)
  obtain reg b' c' where eq: "?s' = s\<lparr>st_next_id := c', st_freshness := st_freshness s + 2,
        st_registrations := umap_put (id_value (r_id reg)) reg (st_registrations s),
        st_buffers := umap_put (id_value (rp_buffer p)) b' (st_buffers s)\<rparr>"
    and c: "if id_valid i then r_id reg = i \<and> c' = st_next_id s
     else r_id reg = Id (st_next_id s + 1) \<and> c' = st_next_id s + 1"
    and reg: "r_generation reg = new_generation latest" "r_buffer reg = rp_buffer p"
      "r_endpoint reg = rp_endpoint p" "r_buffer_generation reg = b_generation b"
      "r_endpoint_generation reg = e_generation e" "r_authority reg = rp_authority p"
    and b': "b_id b' = rp_buffer p" "b_generation b' = b_generation b" "b_lifecycle b' = b_lifecycle b"
    by (rule register_commit_cases [of p b e latest i supp prov h s]) (use ids in auto)
  have le: "st_next_id s \<le> c'" and valid: "id_value (r_id reg) \<noteq> 0"
    using c room by (auto simp: id_valid_def split: if_splits)
  have regs: "registrations_wf (Suc n) (umap_put (id_value (r_id reg)) reg (st_registrations s))"
    by (rule registrations_wf_put [OF maps(4)]) (use valid gen reg newer in \<open>auto simp: same_pair_def\<close>)
  have bufs: "buffers_wf (Suc n) c' (umap_put (id_value (rp_buffer p)) b' (st_buffers s))"
    by (rule buffers_wf_put [OF maps(2) le])
       (use buffers_wf_find [OF maps(2) b(1)] b' ids le in \<open>auto simp: gen_bound_Suc intro: id_in_use_mono\<close>)
  have kept: "records_kept s ?s'"
    using b(1) b' by (auto simp: eq records_kept_def intro!: buffers_kept_put)
  have "registration_fresh ?s' reg"
    using b b' e auth reg unfolding registration_fresh_def worker_live_locked_def
    by (auto simp: eq split: option.splits if_splits)
  then have "registered_fresh ?s'"
    using parts kept unfolding registered_fresh_def eq
    by (auto intro!: umap_all_put elim!: umap_all_mono intro: registration_fresh_kept)
  then show ?thesis
    by (intro state_wf_frame [OF wf n]) (use regs bufs kept c in \<open>auto simp: eq split: if_splits\<close>)
qed

lemma retire_deregistering_frame:
  "st_buffers (retire_deregistering l s) = st_buffers s"
  "st_endpoints (retire_deregistering l s) = st_endpoints s"
  "st_epoch (retire_deregistering l s) = st_epoch s"
  "st_workers (retire_deregistering l s) = st_workers s"
  "worker_live_locked a (retire_deregistering l s) = worker_live_locked a s"
  by (auto simp: retire_deregistering_def worker_live_locked_def split: option.splits)

lemma retire_deregistering_find:
  assumes "umap_find (st_registrations (retire_deregistering l s)) k = Some r'"
  obtains r where "umap_find (st_registrations s) k = Some r" "r_buffer r' = r_buffer r"
    "r_endpoint r' = r_endpoint r" "r_generation r' = r_generation r"
    "r_state r' = RegistrationState.REGISTERED \<Longrightarrow> r_state r = RegistrationState.REGISTERED"
  using assms by (auto simp: retire_deregistering_def split: option.splits if_splits)

lemma register_buffer_wf:
  assumes wf: "state_wf n s" and n: "n < op_limit"
  shows "state_wf (Suc n) (fst (snd (register_buffer p be s)))"
proof (cases rule: register_buffer_cases [of p be s])
  case unchanged
  then show ?thesis using wf n by (simp add: state_wf_Suc)
next
  case backend_failed
  then show ?thesis using wf n by (simp add: state_wf_Suc retire_deregistering_wf)
next
  case (committed b e i supp prov h be')
  let ?l = "latest_registration (rp_buffer p) (rp_endpoint p) s"
  note g = register_guards_ok [OF committed(1)]
  have regs: "registrations_wf n (st_registrations s)" using wf by (simp add: state_wf_def)
  note newer = new_generation_newer [OF regs n, of "rp_buffer p" "rp_endpoint p"]
  have "state_wf (Suc n) (snd (register_commit p b e ?l i supp prov h (retire_deregistering ?l s)))"
  proof (rule register_commit_wf [OF retire_deregistering_wf [OF wf] n])
    show "gen_bound (Suc n) (new_generation ?l)" using newer(1) committed(2) by blast
    fix k r assume r: "umap_find (st_registrations (retire_deregistering ?l s)) k = Some r"
      "r_buffer r = rp_buffer p" "r_endpoint r = rp_endpoint p"
    then show "r_generation r < new_generation ?l \<and> r_state r \<noteq> RegistrationState.REGISTERED"
      using newer(2) committed(2) by (elim retire_deregistering_find) metis
  qed (use g in \<open>simp_all add: retire_deregistering_frame\<close>)
  then show ?thesis by (simp add: committed(3) Let_def case_prod_beta)
qed

lemma deregister_commit_wf:
  assumes wf: "state_wf n s" and n: "n < op_limit" and r: "umap_find (st_registrations s) k = Some r"
  shows "state_wf (Suc n) (deregister_commit r k s)" (is "state_wf _ ?s'")
proof -
  note parts = wf [unfolded state_wf_def]
  have maps: "buffers_wf n (st_next_id s) (st_buffers s)" "registrations_wf n (st_registrations s)"
    using parts by simp_all
  have "registrations_wf n (umap_put k (r\<lparr>r_state := RegistrationState.RETIRED, r_handle := None, r_freshness := f\<rparr>)
      (st_registrations s))" for f
    by (rule registrations_wf_update [OF maps(2) r]) (simp_all add: same_pair_def)
  then have regs: "registrations_wf (Suc n) (st_registrations ?s')"
    by (auto simp: deregister_commit_def counter_defs registrations_wf_mono split: option.splits)
  have "buffers_wf (Suc n) (st_next_id s) (umap_put j (b\<lparr>b_registration_state := x, b_registration_id := y,
      b_registration_generation := z, b_freshness := f\<rparr>) (st_buffers s))"
    if "umap_find (st_buffers s) j = Some b" for j b x y z f
    by (rule buffers_wf_put [OF maps(1)]) (use buffers_wf_find [OF maps(1) that] in \<open>simp_all add: gen_bound_Suc\<close>)
  then have bufs: "buffers_wf (Suc n) (st_next_id s) (st_buffers ?s')"
    using buffers_wf_mono [OF maps(1)] by (auto simp: deregister_commit_def counter_defs split: option.splits)
  have kept: "records_kept s ?s'"
    by (auto simp: deregister_commit_def counter_defs records_kept_def intro!: buffers_kept_put split: option.splits)
  have "st_registrations ?s' = umap_put k (r\<lparr>r_state := RegistrationState.RETIRED, r_handle := None,
      r_freshness := st_freshness s + 1\<rparr>) (st_registrations s)"
    by (auto simp: deregister_commit_def counter_defs split: option.splits)
  then have "registered_fresh ?s'"
    using parts kept unfolding registered_fresh_def
    by (auto intro!: umap_all_put elim!: umap_all_mono intro: registration_fresh_kept)
  then show ?thesis
    by (intro state_wf_frame [OF wf n])
       (use regs bufs kept in \<open>auto simp: deregister_commit_def counter_defs split: option.splits\<close>)
qed

lemma deregister_buffer_wf:
  assumes wf: "state_wf n s" and n: "n < op_limit"
  shows "state_wf (Suc n) (snd (deregister_buffer i a s))"
proof (cases "umap_find (st_registrations s) (id_value i)")
  case None
  then show ?thesis using wf n by (simp add: deregister_buffer_def state_wf_Suc)
next
  case (Some r)
  note parts = wf [unfolded state_wf_def]
  let ?r = "r\<lparr>r_state := RegistrationState.RETIRED\<rparr>"
  let ?s = "s\<lparr>st_registrations := umap_put (id_value i) ?r (st_registrations s)\<rparr>"
  have regs: "registrations_wf n (umap_put (id_value i) ?r (st_registrations s))"
    by (rule registrations_wf_update [OF _ Some]) (use parts in \<open>simp_all add: same_pair_def\<close>)
  have kept: "records_kept s ?s" by (simp add: records_kept_def)
  then have "registered_fresh ?s"
    using parts unfolding registered_fresh_def
    by (auto intro!: umap_all_put elim!: umap_all_mono intro: registration_fresh_kept)
  then have "state_wf (Suc n) ?s"
    by (intro state_wf_frame [OF wf n]) (use regs kept in \<open>auto simp: registrations_wf_mono\<close>)
  then show ?thesis
    using Some wf n deregister_commit_wf [OF wf n Some]
    by (auto simp: deregister_buffer_def state_wf_Suc split: option.splits)
qed

section \<open>Planning\<close>

lemma decision_direct_iff: "decision_direct d \<longleftrightarrow> is_direct (pd_eligibility d)"
  by (auto simp: decision_direct_def is_direct_def)

lemma plan_guards_ok:
  assumes "plan_guards p d s = ok (src, dst, reg)"
  shows "umap_find (st_buffers s) (id_value (prp_source p)) = Some src"
    "umap_find (st_endpoints s) (id_value (prp_destination p)) = Some dst"
    "b_generation src = pd_source_generation d" "e_generation dst = pd_destination_generation d"
    "reg = plan_registration src dst s" "is_direct (pd_eligibility d) \<Longrightarrow> reg \<noteq> None"
    "length (st_plans s) < unat (st_max_plans s)"
  using assms
  by (auto simp: plan_guards_def Let_def gen_value_eq_iff decision_direct_iff split: option.splits if_splits)

lemma plan_registration_facts:
  assumes "registrations_wf n (st_registrations s)" and "plan_registration src dst s = Some r"
  obtains k where "umap_find (st_registrations s) k = Some r" "r_buffer r = b_id src"
    "r_endpoint r = e_id dst" "r_state r = RegistrationState.REGISTERED" "id_valid (r_id r)"
proof -
  have ok: "umap_ok (st_registrations s)" using assms(1) by (simp add: registrations_wf_def)
  note found = latest_by_SomeD [OF assms(2) [unfolded plan_registration_def]]
  obtain k where k: "umap_find (st_registrations s) k = Some r"
    using found(1) umap_values_iff [OF ok] by blast
  with found(2) registrations_wf_find(1,2) [OF assms(1) k] show thesis
    by (intro that [of k]) (auto simp: id_valid_def)
qed

text \<open>What a planner decision that passes the guards adds to the state.\<close>

definition plan_describes :: "PlanRequestParams \<Rightarrow> PathDecision \<Rightarrow> State \<Rightarrow> BufferRecord \<Rightarrow> EndpointRecord \<Rightarrow>
    Registration option \<Rightarrow> TransferPlan \<Rightarrow> bool" where
  "plan_describes p d s src dst reg plan \<longleftrightarrow>
     tp_id plan = Id (st_next_id s + 1) \<and> tp_source plan = b_id src \<and>
     tp_source_generation plan = b_generation src \<and> tp_destination plan = e_id dst \<and>
     tp_destination_generation plan = e_generation dst \<and> tp_eligibility plan = pd_eligibility d \<and>
     tp_support plan = pd_support d \<and> tp_expected_bytes plan = prp_size p \<and> tp_epoch plan = st_epoch s \<and>
     tp_authority plan = b_authority src \<and> tp_authoritative plan \<and> tp_generation plan = Generation 1 \<and>
     (case reg of
        None \<Rightarrow> tp_registration_id plan = Id 0
      | Some r \<Rightarrow> tp_registration_id plan = r_id r \<and> tp_registration_generation plan = r_generation r)"

lemma plan_build_cases:
  obtains (direct) plan where "is_direct (pd_eligibility d)" "plan_describes p d s src dst reg plan"
      "tp_copy_count plan = 1" "tp_stages plan = [direct_stage d src dst]"
      "plan_build p d src dst reg s = (plan, s\<lparr>st_next_id := st_next_id s + 2,
         st_plans := umap_put (st_next_id s + 1) plan (st_plans s)\<rparr>)"
  | (staged) plan tmp where "\<not> is_direct (pd_eligibility d)" "plan_describes p d s src dst reg plan"
      "tp_copy_count plan = 2" "tp_stages plan = staging_stages d src tmp dst"
      "tmp = staging_buffer p src (st_next_id s + 3) (st_freshness s + 1)"
      "plan_build p d src dst reg s = (plan, s\<lparr>st_next_id := st_next_id s + 3,
         st_freshness := st_freshness s + 1,
         st_buffers := umap_put (st_next_id s + 3) tmp (st_buffers s),
         st_plans := umap_put (st_next_id s + 1) plan (st_plans s)\<rparr>)"
proof (cases "is_direct (pd_eligibility d)")
  case True
  let ?c = "st_next_id s"
  let ?plan = "(base_plan p d src dst reg (?c + 1) (?c + 2) (st_epoch s))
      \<lparr>tp_stages := [direct_stage d src dst], tp_copy_count := 1\<rparr>"
  have "tp_id ?plan = Id (?c + 1)" by (auto simp: base_plan_def Let_def split: option.splits)
  with True show ?thesis
    by (intro direct [of ?plan])
       (auto simp: plan_build_def counter_defs decision_direct_iff plan_describes_def base_plan_def
          default_TransferPlan_def add.commute split: option.splits)
next
  case False
  let ?c = "st_next_id s"
  let ?tmp = "staging_buffer p src (?c + 3) (st_freshness s + 1)"
  let ?plan = "(base_plan p d src dst reg (?c + 1) (?c + 2) (st_epoch s))
      \<lparr>tp_stages := staging_stages d src ?tmp dst, tp_copy_count := 2\<rparr>"
  have "tp_id ?plan = Id (?c + 1)" by (auto simp: base_plan_def Let_def split: option.splits)
  with False show ?thesis
    by (intro staged [of ?plan ?tmp])
       (auto simp: plan_build_def counter_defs decision_direct_iff plan_describes_def base_plan_def
          staging_buffer_def default_TransferPlan_def add.commute split: option.splits)
qed

lemma plans_wf_put:
  assumes "plans_wf c m" and "c \<le> c'" and "id_in_use c' (id_value (tp_id p)) k" and "plan_shape p"
  shows "plans_wf c' (umap_put k p m)"
  using plans_wf_mono [OF assms(1,2)] assms(3,4) unfolding plans_wf_def by (auto intro!: umap_all_put)

lemma plan_add_wf:
  assumes wf: "state_wf n s" and n: "n < op_limit"
    and s': "st_next_id s' = st_next_id s + 2 \<or> st_next_id s' = st_next_id s + 3"
      "st_plans s' = umap_put (st_next_id s + 1) plan (st_plans s)"
      "buffers_wf (Suc n) (st_next_id s') (st_buffers s')" "records_kept s s'"
      "st_endpoints s' = st_endpoints s" "st_devices s' = st_devices s" "st_nics s' = st_nics s"
      "st_storage s' = st_storage s" "st_registrations s' = st_registrations s"
      "st_providers s' = st_providers s" "st_capabilities s' = st_capabilities s"
      "st_attempts s' = st_attempts s" "st_receipts s' = st_receipts s"
      "st_verifications s' = st_verifications s" "st_workers s' = st_workers s"
      "st_worker_max_boot s' = st_worker_max_boot s"
    and plan: "tp_id plan = Id (st_next_id s + 1)" "plan_shape plan" "plan_fresh s plan"
  shows "state_wf (Suc n) s'"
proof -
  note parts = wf [unfolded state_wf_def]
  have cnt: "counters_wf n (st_next_id s)" "plans_wf (st_next_id s) (st_plans s)" using parts by simp_all
  note room = counters_room [OF cnt(1) n]
  have "id_in_use (st_next_id s') (id_value (tp_id plan)) (st_next_id s + 1)" "st_next_id s \<le> st_next_id s'"
    using room s'(1) plan(1) by (auto simp: id_in_use_def)
  then have "plans_wf (st_next_id s') (st_plans s')"
    unfolding s'(2) by (intro plans_wf_put [OF cnt(2)] plan)
  moreover have "plans_fresh s'"
    using parts plan(3) s'(4) unfolding plans_fresh_def s'(2)
    by (auto intro!: umap_all_put elim!: umap_all_mono intro: plan_fresh_kept)
  moreover have "\<And>k. umap_find (st_plans s) k \<noteq> None \<Longrightarrow> umap_find (st_plans s') k \<noteq> None"
    unfolding s'(2) by auto
  ultimately show ?thesis
    by (intro state_wf_frame [OF wf n]) (use s' in simp_all)
qed

lemma plan_commit_wf:
  assumes wf: "state_wf n s" and n: "n < op_limit"
  shows "state_wf (Suc n) (snd (plan_commit p d s))"
proof (cases "plan_guards p d s")
  case (Inl e)
  then show ?thesis using wf n by (simp add: plan_commit_def state_wf_Suc)
next
  case (Inr x)
  obtain src dst reg where x: "x = (src, dst, reg)" by (cases x)
  have "plan_guards p d s = ok (src, dst, reg)" by (simp add: Inr x ok_def)
  note g = plan_guards_ok [OF this]
  note parts = wf [unfolded state_wf_def]
  have maps: "counters_wf n (st_next_id s)" "buffers_wf n (st_next_id s) (st_buffers s)"
      "endpoints_wf n (st_next_id s) (st_endpoints s)" "registrations_wf n (st_registrations s)"
    using parts by simp_all
  note room = counters_room [OF maps(1) n]
  have ids: "b_id src = prp_source p" "e_id dst = prp_destination p"
    using buffers_wf_find(1) [OF maps(2) g(1)] endpoints_wf_find(1) [OF maps(3) g(2)]
    by (simp_all add: id_value_eq_iff)
  have reg: "b_lifecycle src = BufferLifecycle.ACTIVE \<and> id_valid (r_id r)" if "reg = Some r" for r
  proof -
    have "plan_registration src dst s = Some r" using g(5) that by simp
    then obtain k where k: "umap_find (st_registrations s) k = Some r" "r_buffer r = b_id src"
        "r_state r = RegistrationState.REGISTERED" "id_valid (r_id r)"
      by (rule plan_registration_facts [OF maps(4)])
    have "registered_fresh s" using parts by simp
    from umap_allD [OF this [unfolded registered_fresh_def] k(1)] k g(1) ids
    show ?thesis by (simp add: registration_fresh_def)
  qed
  have fresh: "plan_fresh s plan" if "plan_describes p d s src dst reg plan" "plan_staged plan" for plan
    using that g reg ids unfolding plan_fresh_def plan_describes_def by auto
  show ?thesis
  proof (cases rule: plan_build_cases [of d p s src dst reg])
    case (direct plan)
    obtain r where r: "reg = Some r" using g(6) direct(1) by blast
    have "plan_shape plan" "plan_staged plan"
      using direct reg [OF r]
      by (auto simp: plan_shape_def plan_staged_def plan_describes_def r direct_stage_def)
    then have "state_wf (Suc n) (s\<lparr>st_next_id := st_next_id s + 2,
         st_plans := umap_put (st_next_id s + 1) plan (st_plans s)\<rparr>)"
      using fresh [OF direct(2)] direct(2) room(1,2) buffers_wf_mono [OF maps(2)]
      by (intro plan_add_wf [OF wf n]) (auto simp: records_kept_def plan_describes_def)
    then show ?thesis by (simp add: plan_commit_def Inr x direct(5))
  next
    case (staged plan tmp)
    have "plan_shape plan" "plan_staged plan"
      using staged
      by (auto simp: plan_shape_def plan_staged_def plan_describes_def staging_stages_def Let_def)
    moreover have "buffers_wf (Suc n) (st_next_id s + 3) (umap_put (st_next_id s + 3) tmp (st_buffers s))"
      by (rule buffers_wf_put [OF maps(2)]) (use room in \<open>auto simp: staged(5) staging_buffer_def id_in_use_def\<close>)
    moreover have "buffers_kept (st_buffers s) (umap_put (st_next_id s + 3) tmp (st_buffers s))"
      using buffers_wf_fresh [OF maps(2), of "st_next_id s + 3"] room by (intro buffers_kept_put) auto
    ultimately have "state_wf (Suc n) (s\<lparr>st_next_id := st_next_id s + 3,
         st_freshness := st_freshness s + 1,
         st_buffers := umap_put (st_next_id s + 3) tmp (st_buffers s),
         st_plans := umap_put (st_next_id s + 1) plan (st_plans s)\<rparr>)"
      using fresh [OF staged(2)] staged(2)
      by (intro plan_add_wf [OF wf n]) (auto simp: records_kept_def plan_describes_def)
    then show ?thesis by (simp add: plan_commit_def Inr x staged(6))
  qed
qed

lemma plan_transfer_wf:
  "state_wf n s \<Longrightarrow> n < op_limit \<Longrightarrow> state_wf (Suc n) (snd (plan_transfer p snap s))"
  by (auto simp: plan_transfer_def state_wf_Suc plan_commit_wf split: sum.splits)

section \<open>The transfer lifecycle\<close>

lemma transfers_wf_put_attempt:
  assumes wf: "transfers_wf c pm am rm" and "c \<le> c'"
    and a: "id_in_use c' (id_value (ta_id a)) k" "attempt_wf pm rm k a"
    and r: "umap_find rm k = None"
  shows "transfers_wf c' pm (umap_put k a am) rm"
proof -
  note wf' = transfers_wf_mono [OF assms(1,2), of pm, unfolded transfers_wf_def, simplified]
  have "umap_all (\<lambda>j r. case umap_find (umap_put k a am) j of None \<Rightarrow> False | Some a \<Rightarrow> receipt_matches r a) rm"
    using wf' r unfolding umap_all_def by simp
  then show ?thesis using wf' a unfolding transfers_wf_def by (auto intro!: umap_all_put)
qed

text \<open>An attempt and its receipt change together.\<close>

lemma transfers_wf_put_both:
  assumes wf: "transfers_wf c pm am rm"
    and a: "id_in_use c (id_value (ta_id a)) k" "attempt_wf pm (umap_put k r rm) k a"
    and r: "receipt_matches r a"
  shows "transfers_wf c pm (umap_put k a am) (umap_put k r rm)"
proof -
  note wf' = wf [unfolded transfers_wf_def]
  have "attempt_wf pm (umap_put k r rm) j x" if "umap_find am j = Some x" for j x
    using umap_allD [OF conjunct1 [OF conjunct2 [OF conjunct2 [OF wf']]] that]
    by (auto simp: attempt_wf_def)
  then have "umap_all (\<lambda>j x. id_in_use c (id_value (ta_id x)) j \<and> attempt_wf pm (umap_put k r rm) j x)
      (umap_put k a am)"
    using wf' a unfolding umap_all_def by simp
  moreover have "umap_all (\<lambda>j r. case umap_find (umap_put k a am) j of
      None \<Rightarrow> False | Some a \<Rightarrow> receipt_matches r a) (umap_put k r rm)"
    using wf' r unfolding umap_all_def by simp
  ultimately show ?thesis using wf' unfolding transfers_wf_def by simp
qed

definition attempt_begun :: "TransferPlan \<Rightarrow> Authority \<Rightarrow> State \<Rightarrow> TransferAttempt \<Rightarrow> bool" where
  "attempt_begun plan authority s a \<longleftrightarrow>
     ta_id a = Id (st_next_id s + 1) \<and> ta_plan_id a = tp_id plan \<and>
     ta_plan_generation a = tp_generation plan \<and> ta_epoch a = st_epoch s \<and> ta_authority a = authority \<and>
     ta_submitted_bytes a = tp_expected_bytes plan \<and> \<not> ta_completion_committed a \<and>
     ta_state a \<in> {TransferState.IN_FLIGHT, TransferState.FAILED}"

lemma attempt_begun_new: "attempt_begun plan au s (new_attempt plan au (st_next_id s + 1) (st_epoch s))"
  by (simp add: attempt_begun_def new_attempt_def default_TransferAttempt_def)

lemma attempt_begun_outcome: "attempt_begun plan au s a \<Longrightarrow> attempt_begun plan au s (apply_outcome r a)"
  by (auto simp: attempt_begun_def apply_outcome_def Let_def split: sum.splits)

lemma begin_transfer_cases:
  obtains (rejected) e where "begin_transfer i au be s = (Inl e, s, be)"
  | (begun) plan src a be' where "begin_guards i au s = ok (plan, src)" "attempt_begun plan au s a"
      "begin_transfer i au be s = (ok a, s\<lparr>st_next_id := st_next_id s + 1,
         st_attempts := umap_put (st_next_id s + 1) a (st_attempts s)\<rparr>, be')"
      "be = None \<Longrightarrow> a = new_attempt plan au (st_next_id s + 1) (st_epoch s)"
      "\<And>vt b. be = Some (vt, b) \<Longrightarrow>
         a = apply_outcome (fst (vt_run_transfer vt (transfer_run plan src) b))
               (new_attempt plan au (st_next_id s + 1) (st_epoch s))"
proof (cases "begin_guards i au s")
  case (Inl e)
  then have "begin_transfer i au be s = (Inl e, s, be)" by (simp add: begin_transfer_def)
  then show ?thesis by (rule rejected)
next
  case (Inr x)
  obtain plan src where x: "x = (plan, src)" by (cases x)
  let ?a = "new_attempt plan au (st_next_id s + 1) (st_epoch s)"
  have id: "ta_id a = Id (st_next_id s + 1)" if "attempt_begun plan au s a" for a
    using that by (simp add: attempt_begun_def)
  show ?thesis
  proof (cases be)
    case None
    show ?thesis
      by (rule begun [of plan src ?a None])
         (use Inr x None id [OF attempt_begun_new] attempt_begun_new in
           \<open>auto simp: begin_transfer_def counter_defs ok_def\<close>)
  next
    case (Some vb)
    obtain vt b where vb: "vb = (vt, b)" by (cases vb)
    let ?o = "vt_run_transfer vt (transfer_run plan src) b"
    note begun' = attempt_begun_outcome [OF attempt_begun_new, of plan au s "fst ?o"]
    show ?thesis
      by (rule begun [of plan src "apply_outcome (fst ?o) ?a" "Some (vt, snd ?o)"])
         (use Inr x Some vb id [OF begun'] begun' in
           \<open>auto simp: begin_transfer_def counter_defs ok_def case_prod_beta\<close>)
  qed
qed

lemma begin_guards_ok:
  assumes "begin_guards i au s = ok (plan, src)"
  shows "umap_find (st_plans s) (id_value i) = Some plan" "tp_authoritative plan"
    "tp_epoch plan = st_epoch s"
    "worker_owned au \<Longrightarrow> worker_live_locked au s"
    "worker_owned au \<Longrightarrow> worker_owned (tp_authority plan) \<Longrightarrow> au = tp_authority plan"
    "length (st_attempts s) < unat (st_max_attempts s)"
    "umap_find (st_buffers s) (id_value (tp_source plan)) = Some src"
    "b_generation src = tp_source_generation plan"
    "\<exists>dst. umap_find (st_endpoints s) (id_value (tp_destination plan)) = Some dst \<and>
       e_generation dst = tp_destination_generation plan"
    "id_valid (tp_registration_id plan) \<Longrightarrow> \<exists>r. umap_find (st_registrations s) (id_value (tp_registration_id plan)) = Some r \<and>
       r_generation r = tp_registration_generation plan \<and> r_state r = RegistrationState.REGISTERED"
  using assms by (auto simp: begin_guards_def gen_value_eq_iff split: option.splits if_splits)

lemma transfers_wf_receipt_fresh:
  assumes "transfers_wf c pm am rm" and "c < k"
  shows "umap_find rm k = None" "umap_find am k = None"
proof -
  note wf = assms(1) [unfolded transfers_wf_def]
  show am: "umap_find am k = None"
    by (rule umap_fresh [OF _ assms(2)]) (use wf in \<open>auto elim!: umap_all_mono simp: id_in_use_le\<close>)
  then show "umap_find rm k = None"
    using wf by (cases "umap_find rm k") (auto dest: umap_allD)
qed

lemma begin_transfer_wf:
  assumes wf: "state_wf n s" and n: "n < op_limit"
  shows "state_wf (Suc n) (fst (snd (begin_transfer i au be s)))"
proof (cases rule: begin_transfer_cases [of i au be s])
  case rejected
  then show ?thesis using wf n by (simp add: state_wf_Suc)
next
  case (begun plan src a be')
  note parts = wf [unfolded state_wf_def]
  let ?c = "st_next_id s"
  have maps: "counters_wf n ?c" "plans_wf ?c (st_plans s)"
      "transfers_wf ?c (st_plans s) (st_attempts s) (st_receipts s)"
    using parts by simp_all
  note room = counters_room [OF maps(1) n]
  note plan = begin_guards_ok(1) [OF begun(1)]
  have "id_value (tp_id plan) = id_value i"
    using maps(2) plan unfolding plans_wf_def id_in_use_def by (auto dest: umap_allD)
  with plan begun(2) have "attempt_wf (st_plans s) (st_receipts s) (?c + 1) a"
    by (auto simp: attempt_wf_def attempt_begun_def)
  moreover have "id_in_use (?c + 1) (id_value (ta_id a)) (?c + 1)"
    using begun(2) id_in_use_new [OF maps(1) n] by (simp add: attempt_begun_def)
  ultimately have "transfers_wf (?c + 1) (st_plans s) (umap_put (?c + 1) a (st_attempts s)) (st_receipts s)"
    using room(1) transfers_wf_receipt_fresh(1) [OF maps(3) room(1)]
    by (intro transfers_wf_put_attempt [OF maps(3)]) auto
  then show ?thesis
    by (intro state_wf_frame [OF wf n]) (auto simp: begun(3) records_kept_def)
qed

lemma record_verification_frame:
  "st_verifications (record_verification a v s) =
     umap_put (st_next_id s + 1) (attempt_verification a v (st_next_id s + 1)) (st_verifications s)"
  "st_next_id (record_verification a v s) = st_next_id s + 1"
  "st_attempts (record_verification a v s) = st_attempts s"
  "st_receipts (record_verification a v s) = st_receipts s"
  "st_plans (record_verification a v s) = st_plans s"
  "st_buffers (record_verification a v s) = st_buffers s"
  "st_endpoints (record_verification a v s) = st_endpoints s"
  "st_devices (record_verification a v s) = st_devices s"
  "st_nics (record_verification a v s) = st_nics s"
  "st_storage (record_verification a v s) = st_storage s"
  "st_providers (record_verification a v s) = st_providers s"
  "st_capabilities (record_verification a v s) = st_capabilities s"
  "st_registrations (record_verification a v s) = st_registrations s"
  "st_workers (record_verification a v s) = st_workers s"
  "st_worker_max_boot (record_verification a v s) = st_worker_max_boot s"
  "st_epoch (record_verification a v s) = st_epoch s"
  by (simp_all add: record_verification_def counter_defs)

lemma state_wf_attempt:
  assumes "state_wf n s" and "umap_find (st_attempts s) k = Some a"
  shows "attempt_wf (st_plans s) (st_receipts s) k a" "id_value (ta_id a) = k"
    "id_in_use (st_next_id s) (id_value (ta_id a)) k"
  using assms unfolding state_wf_def transfers_wf_def id_in_use_def by (auto dest: umap_allD)

text \<open>Closing an attempt: it and its receipt are rewritten, possibly with a verification receipt.\<close>

lemma close_attempt_wf:
  assumes wf: "state_wf n s" and n: "n < op_limit"
    and a: "umap_find (st_attempts s) k = Some a" "ta_id a' = ta_id a"
      "attempt_wf (st_plans s) (umap_put k r (st_receipts s)) k a'" "receipt_matches r a'"
    and s': "s' = s\<lparr>st_attempts := umap_put k a' (st_attempts s), st_receipts := umap_put k r (st_receipts s)\<rparr>"
  shows "state_wf (Suc n) s'" and "state_wf (Suc n) (record_verification a' v s')"
proof -
  note parts = wf [unfolded state_wf_def]
  have maps: "counters_wf n (st_next_id s)"
      "transfers_wf (st_next_id s) (st_plans s) (st_attempts s) (st_receipts s)"
      "verifications_wf (st_next_id s) (st_attempts s) (st_verifications s)"
    using parts by simp_all
  note room = counters_room [OF maps(1) n]
  have id: "id_in_use (st_next_id s) (id_value (ta_id a')) k"
    using state_wf_attempt(3) [OF wf a(1)] a(2) by simp
  then have ta_id: "id_value (ta_id a') = k" by (simp add: id_in_use_def)
  have tr: "transfers_wf (st_next_id s) (st_plans s) (umap_put k a' (st_attempts s)) (umap_put k r (st_receipts s))"
    by (rule transfers_wf_put_both [OF maps(2) id a(3,4)])
  show "state_wf (Suc n) s'"
    by (intro state_wf_frame [OF wf n]) (use tr in \<open>auto simp: s' records_kept_def\<close>)
  have "verifications_wf (st_next_id s) (umap_put k a' (st_attempts s)) (st_verifications s)"
    by (rule verifications_wf_mono [OF maps(3)]) auto
  then have vs: "verifications_wf (st_next_id s + 1) (umap_put k a' (st_attempts s))
      (umap_put (st_next_id s + 1) (attempt_verification a' v (st_next_id s + 1)) (st_verifications s))"
    using room(1) id_in_use_new [OF maps(1) n] ta_id
    by (intro verifications_wf_put) (auto simp: attempt_verification_def)
  have "transfers_wf (st_next_id s + 1) (st_plans s) (umap_put k a' (st_attempts s)) (umap_put k r (st_receipts s))"
    by (rule transfers_wf_mono [OF tr]) (use room(1) in auto)
  then show "state_wf (Suc n) (record_verification a' v s')"
    by (intro state_wf_frame [OF wf n])
       (use vs in \<open>auto simp: s' record_verification_frame records_kept_def\<close>)
qed

lemma state_wf_receipt:
  assumes "state_wf n s" and "umap_find (st_receipts s) k = Some r"
  obtains a where "umap_find (st_attempts s) k = Some a" "receipt_matches r a"
  using assms umap_allD [of _ "st_receipts s" k r] unfolding state_wf_def transfers_wf_def
  by (auto split: option.splits)

lemma complete_commit_wf:
  assumes wf: "state_wf n s" and n: "n < op_limit" and a: "umap_find (st_attempts s) k = Some a"
  shows "state_wf (Suc n) (snd (complete_commit k a s))"
proof -
  have plan: "umap_find (st_plans s) (id_value (ta_plan_id a)) \<noteq> None"
    using state_wf_attempt(1) [OF wf a] by (simp add: attempt_wf_def)
  let ?r = "\<lambda>a' v m det. make_receipt a' (ta_state a') v m det"
  have close: "state_wf (Suc n) (s\<lparr>st_attempts := umap_put k a' (st_attempts s),
        st_receipts := umap_put k (?r a' v m det) (st_receipts s)\<rparr>)"
      "state_wf (Suc n) (record_verification a' w (s\<lparr>st_attempts := umap_put k a' (st_attempts s),
        st_receipts := umap_put k (?r a' v m det) (st_receipts s)\<rparr>))"
    if "a' = a\<lparr>ta_state := st, ta_completion_committed := True\<rparr>"
      "st = TransferState.FAILED \<or> (st = TransferState.COMPLETED \<and>
        (ta_submitted_bytes a = 0 \<or> ta_bytes a = ta_submitted_bytes a) \<and>
        (ta_integrity_checked a \<longrightarrow> ta_integrity_passed a))" "v \<longrightarrow> ta_integrity_checked a" for a' st v m det w
  proof -
    have at: "attempt_wf (st_plans s) (umap_put k (?r a' v m det) (st_receipts s)) k a'"
      using that plan by (auto simp: attempt_wf_def)
    have rc: "receipt_matches (?r a' v m det) a'"
      using that by (auto simp: receipt_matches_def make_receipt_def)
    have id: "ta_id a' = ta_id a" using that by simp
    show "state_wf (Suc n) (s\<lparr>st_attempts := umap_put k a' (st_attempts s),
          st_receipts := umap_put k (?r a' v m det) (st_receipts s)\<rparr>)"
      by (rule close_attempt_wf(1) [OF wf n a id at rc refl])
    show "state_wf (Suc n) (record_verification a' w (s\<lparr>st_attempts := umap_put k a' (st_attempts s),
        st_receipts := umap_put k (?r a' v m det) (st_receipts s)\<rparr>))"
      by (rule close_attempt_wf(2) [OF wf n a id at rc refl])
  qed
  show ?thesis
  proof (cases "ta_integrity_checked a \<and> \<not> ta_integrity_passed a")
    case True
    with close(2) [OF refl, of TransferState.FAILED False] show ?thesis
      by (simp add: complete_commit_def Let_def)
  next
    case False
    with close [OF refl, of "if ta_submitted_bytes a = 0 \<or> ta_bytes a = ta_submitted_bytes a
        then TransferState.COMPLETED else TransferState.FAILED" "ta_integrity_checked a"] show ?thesis
      by (auto simp: complete_commit_def Let_def)
  qed
qed

lemma fail_receipt_wf:
  assumes wf: "state_wf n s" and n: "n < op_limit" and a: "umap_find (st_attempts s) k = Some a"
    and "ta_state a = TransferState.FAILED"
  shows "state_wf (Suc n) (s\<lparr>st_receipts := umap_put k
     (make_receipt a TransferState.FAILED False (ta_method a) (ta_detail a)) (st_receipts s)\<rparr>)"
proof -
  have same: "umap_put k a (st_attempts s) = st_attempts s"
    using a by (simp add: update_triv)
  have "attempt_wf (st_plans s) (umap_put k r (st_receipts s)) k a" for r
    using state_wf_attempt(1) [OF wf a] by (auto simp: attempt_wf_def)
  then show ?thesis
    using close_attempt_wf(1) [OF wf n a refl _ _ refl, of "make_receipt a TransferState.FAILED False (ta_method a) (ta_detail a)"]
    by (simp add: same receipt_matches_def make_receipt_def assms(4))
qed

lemma complete_transfer_wf:
  assumes wf: "state_wf n s" and n: "n < op_limit"
  shows "state_wf (Suc n) (snd (complete_transfer i au s))"
  using state_wf_Suc [OF wf n] complete_commit_wf [OF wf n] fail_receipt_wf [OF wf n]
  by (auto simp: complete_transfer_def Let_def split: option.splits)

lemma cancel_transfer_wf:
  assumes wf: "state_wf n s" and n: "n < op_limit"
  shows "state_wf (Suc n) (snd (cancel_transfer i au s))"
proof (cases "umap_find (st_attempts s) (id_value i)")
  case None
  then show ?thesis using wf n by (simp add: cancel_transfer_def Let_def state_wf_Suc)
next
  case (Some a)
  let ?a = "a\<lparr>ta_state := TransferState.CANCELLED, ta_completion_committed := False\<rparr>"
  have "attempt_wf (st_plans s) (umap_put (id_value i) r (st_receipts s)) (id_value i) ?a" for r
    using state_wf_attempt(1) [OF wf Some] by (auto simp: attempt_wf_def)
  with close_attempt_wf(1) [OF wf n Some _ _ _ refl, of ?a
      "make_receipt ?a TransferState.CANCELLED False (ta_method ?a) ''transfer cancelled before completion''"]
  show ?thesis
    using Some state_wf_Suc [OF wf n]
    by (auto simp: cancel_transfer_def Let_def receipt_matches_def make_receipt_def)
qed

lemma verify_transfer_wf:
  assumes wf: "state_wf n s" and n: "n < op_limit"
  shows "state_wf (Suc n) (snd (verify_transfer i v b s))"
proof (cases "umap_find (st_attempts s) (id_value i)")
  case None
  then show ?thesis using wf n by (simp add: verify_transfer_def state_wf_Suc)
next
  case (Some a)
  have maps: "counters_wf n (st_next_id s)"
      "verifications_wf (st_next_id s) (st_attempts s) (st_verifications s)"
    using wf by (simp_all add: state_wf_def)
  have "verifications_wf (st_next_id s + 1) (st_attempts s) (umap_put (st_next_id s + 1) x (st_verifications s))"
    if "vr_id x = Id (st_next_id s + 1)" "vr_attempt_id x = ta_id a" for x
    using that Some counters_room(1) [OF maps(1) n] id_in_use_new [OF maps(1) n] state_wf_attempt(2) [OF wf Some]
    by (intro verifications_wf_put [OF maps(2)]) auto
  then show ?thesis
    by (intro state_wf_frame [OF wf n]) (use Some in \<open>auto simp: verify_transfer_def counter_defs records_kept_def\<close>)
qed

section \<open>Runs\<close>

lemmas op_wf =
  set_limits_wf register_worker_wf mark_worker_dead_wf advance_epoch_wf create_buffer_wf
  advance_buffer_generation_wf retire_buffer_wf add_device_wf add_endpoint_wf
  advance_endpoint_generation_wf set_endpoint_health_wf add_nic_wf add_storage_endpoint_wf
  add_provider_wf publish_capability_wf revoke_capability_wf register_buffer_wf deregister_buffer_wf
  plan_transfer_wf begin_transfer_wf complete_transfer_wf cancel_transfer_wf verify_transfer_wf

lemma step_wf: "state_wf n s \<Longrightarrow> n < op_limit \<Longrightarrow> state_wf (Suc n) (step x s)"
  by (cases x) (simp_all add: op_wf)

interpretation coordinator: budgeted_invariant step state_wf op_limit
  by unfold_locales (rule step_wf)

text \<open>The states a coordinator reaches from its initial one.\<close>

definition run :: "'b coord_op list \<Rightarrow> State \<Rightarrow> State" where
  "run ops s = fold step ops s"

lemma run_wf: "length ops \<le> op_limit \<Longrightarrow> state_wf (length ops) (run ops (make_coordinator epoch))"
  using coordinator.run_inv [OF state_wf_init, of ops epoch] by (simp add: run_def)

end
