(* ===== verification/Progress.thy ===== *)
theory Progress
  imports Invariant_Transfers
begin

text \<open>
  What no operation ever undoes: records stay, generations and boot fences never decrease, a retired
  buffer stays retired, a superseded plan stays superseded, and a committed or cancelled attempt never
  changes again. The relation is carried along runs by the locale \<open>budgeted_progress\<close>.
\<close>

section \<open>The relation\<close>

definition umap_evolves :: "('v \<Rightarrow> 'v \<Rightarrow> bool) \<Rightarrow> 'v umap \<Rightarrow> 'v umap \<Rightarrow> bool" where
  "umap_evolves R m m' \<longleftrightarrow>
     umap_all (\<lambda>k v. case umap_find m' k of None \<Rightarrow> False | Some v' \<Rightarrow> R v v') m"

lemma umap_evolves_refl: "(\<And>v. R v v) \<Longrightarrow> umap_evolves R m m"
  by (auto simp: umap_evolves_def umap_all_def)

lemma umap_evolves_find:
  assumes "umap_evolves R m m'" and "umap_find m k = Some v"
  obtains v' where "umap_find m' k = Some v'" "R v v'"
  using umap_allD [OF assms(1) [unfolded umap_evolves_def] assms(2)] by (auto split: option.splits)

lemma umap_evolves_trans:
  assumes R: "\<And>a b c. R a b \<Longrightarrow> R b c \<Longrightarrow> R a c" and m: "umap_evolves R m m'" "umap_evolves R m' m''"
  shows "umap_evolves R m m''"
  unfolding umap_evolves_def [of R m m''] umap_all_def
proof (intro allI impI)
  fix k v assume "umap_find m k = Some v"
  then obtain v' where v': "umap_find m' k = Some v'" "R v v'" by (rule umap_evolves_find [OF m(1)])
  then obtain v'' where "umap_find m'' k = Some v''" "R v' v''" by (elim umap_evolves_find [OF m(2)])
  with R v' show "case umap_find m'' k of None \<Rightarrow> False | Some v'' \<Rightarrow> R v v''" by auto
qed

lemma umap_evolves_put:
  assumes "\<And>v. R v v" and "case umap_find m k of None \<Rightarrow> True | Some v \<Rightarrow> R v v'"
  shows "umap_evolves R m (umap_put k v' m)"
  using assms by (auto simp: umap_evolves_def umap_all_def split: option.splits)

lemma umap_evolves_map: "(\<And>v. R v (f v)) \<Longrightarrow> umap_evolves R m (umap_map f m)"
  by (auto simp: umap_evolves_def umap_all_def)

definition buffer_evolves :: "BufferRecord \<Rightarrow> BufferRecord \<Rightarrow> bool" where
  "buffer_evolves b b' \<longleftrightarrow> b_id b' = b_id b \<and> b_generation b \<le> b_generation b' \<and>
     b_authority b' = b_authority b \<and> b_size b' = b_size b \<and> b_domain b' = b_domain b \<and>
     (b_lifecycle b \<noteq> BufferLifecycle.ACTIVE \<longrightarrow> b_lifecycle b' \<noteq> BufferLifecycle.ACTIVE)"

definition endpoint_evolves :: "EndpointRecord \<Rightarrow> EndpointRecord \<Rightarrow> bool" where
  "endpoint_evolves e e' \<longleftrightarrow> e_id e' = e_id e \<and> e_generation e \<le> e_generation e' \<and>
     e_authority e' = e_authority e \<and> e_endpoint_class e' = e_endpoint_class e"

definition plan_evolves :: "TransferPlan \<Rightarrow> TransferPlan \<Rightarrow> bool" where
  "plan_evolves p p' \<longleftrightarrow> p' = p \<or> p' = p\<lparr>tp_authoritative := False\<rparr>"

definition attempt_evolves :: "TransferAttempt \<Rightarrow> TransferAttempt \<Rightarrow> bool" where
  "attempt_evolves a a' \<longleftrightarrow>
     (ta_completion_committed a \<or> ta_state a = TransferState.CANCELLED \<longrightarrow> a' = a) \<and>
     a' = a\<lparr>ta_state := ta_state a', ta_completion_committed := ta_completion_committed a'\<rparr>"

text \<open>A receipt stays, and is final once its attempt is committed.\<close>

definition receipts_evolve :: "State \<Rightarrow> State \<Rightarrow> bool" where
  "receipts_evolve s s' \<longleftrightarrow>
     umap_all (\<lambda>k r. umap_find (st_receipts s') k \<noteq> None \<and>
       (\<forall>a. umap_find (st_attempts s) k = Some a \<longrightarrow> ta_completion_committed a \<longrightarrow>
          umap_find (st_receipts s') k = Some r)) (st_receipts s)"

lemma receipts_evolveD:
  assumes "receipts_evolve s s'" and "umap_find (st_receipts s) k = Some r"
  shows "\<exists>r'. umap_find (st_receipts s') k = Some r'"
    and "umap_find (st_attempts s) k = Some a \<Longrightarrow> ta_completion_committed a \<Longrightarrow>
      umap_find (st_receipts s') k = Some r"
  using umap_allD [OF assms(1) [unfolded receipts_evolve_def] assms(2)] by auto

definition progress :: "State \<Rightarrow> State \<Rightarrow> bool" where
  "progress s s' \<longleftrightarrow>
     umap_evolves buffer_evolves (st_buffers s) (st_buffers s') \<and>
     umap_evolves endpoint_evolves (st_endpoints s) (st_endpoints s') \<and>
     umap_evolves (\<le>) (st_worker_max_boot s) (st_worker_max_boot s') \<and>
     umap_evolves plan_evolves (st_plans s) (st_plans s') \<and>
     umap_evolves attempt_evolves (st_attempts s) (st_attempts s') \<and>
     receipts_evolve s s'"

lemma evolves_refl [simp]:
  "buffer_evolves b b" "endpoint_evolves e e" "plan_evolves p p" "attempt_evolves a a"
  by (simp_all add: buffer_evolves_def endpoint_evolves_def plan_evolves_def attempt_evolves_def)

lemma evolves_trans:
  "buffer_evolves b b' \<Longrightarrow> buffer_evolves b' b'' \<Longrightarrow> buffer_evolves b b''"
  "endpoint_evolves e e' \<Longrightarrow> endpoint_evolves e' e'' \<Longrightarrow> endpoint_evolves e e''"
  "plan_evolves p p' \<Longrightarrow> plan_evolves p' p'' \<Longrightarrow> plan_evolves p p''"
  by (auto simp: buffer_evolves_def endpoint_evolves_def plan_evolves_def)

lemma attempt_evolves_trans:
  assumes "attempt_evolves a a'" "attempt_evolves a' a''"
  shows "attempt_evolves a a''"
proof -
  obtain t c where a': "a' = a\<lparr>ta_state := t, ta_completion_committed := c\<rparr>"
    using assms(1) unfolding attempt_evolves_def by blast
  obtain t' c' where a'': "a'' = a'\<lparr>ta_state := t', ta_completion_committed := c'\<rparr>"
    using assms(2) unfolding attempt_evolves_def by blast
  have "a'' = a" if "ta_completion_committed a \<or> ta_state a = TransferState.CANCELLED"
    using that assms unfolding attempt_evolves_def by blast
  moreover have "a'' = a\<lparr>ta_state := ta_state a'', ta_completion_committed := ta_completion_committed a''\<rparr>"
    by (simp add: a'' a')
  ultimately show ?thesis unfolding attempt_evolves_def by blast
qed

lemma progress_refl: "progress s s"
  by (simp add: progress_def umap_evolves_refl receipts_evolve_def umap_all_def)

lemma progress_trans:
  assumes "progress s t" "progress t u"
  shows "progress s u"
proof -
  have ev: "receipts_evolve s t" "receipts_evolve t u" "umap_evolves attempt_evolves (st_attempts s) (st_attempts t)"
    using assms by (simp_all add: progress_def)
  have "receipts_evolve s u"
    unfolding receipts_evolve_def umap_all_def
  proof (intro allI impI conjI)
    fix k r assume r: "umap_find (st_receipts s) k = Some r"
    from receipts_evolveD(1) [OF ev(1) r] obtain r' where "umap_find (st_receipts t) k = Some r'" ..
    from receipts_evolveD(1) [OF ev(2) this] show "umap_find (st_receipts u) k \<noteq> None" by auto
    fix a assume a: "umap_find (st_attempts s) k = Some a" "ta_completion_committed a"
    have r': "umap_find (st_receipts t) k = Some r" by (rule receipts_evolveD(2) [OF ev(1) r a])
    obtain a' where "umap_find (st_attempts t) k = Some a'" "attempt_evolves a a'"
      by (rule umap_evolves_find [OF ev(3) a(1)])
    with a(2) have "umap_find (st_attempts t) k = Some a" by (simp add: attempt_evolves_def)
    from receipts_evolveD(2) [OF ev(2) r' this a(2)] show "umap_find (st_receipts u) k = Some r" .
  qed
  with assms show ?thesis
    unfolding progress_def
    by (auto intro: umap_evolves_trans [OF evolves_trans(1)] umap_evolves_trans [OF evolves_trans(2)]
        umap_evolves_trans [OF evolves_trans(3)] umap_evolves_trans [OF attempt_evolves_trans]
        umap_evolves_trans [OF order_trans])
qed

section \<open>Every operation respects it\<close>

lemma progress_frame:
  assumes "st_buffers s' = st_buffers s \<or> umap_evolves buffer_evolves (st_buffers s) (st_buffers s')"
    and "st_endpoints s' = st_endpoints s \<or>
      umap_evolves endpoint_evolves (st_endpoints s) (st_endpoints s')"
    and "st_worker_max_boot s' = st_worker_max_boot s \<or>
      umap_evolves (\<le>) (st_worker_max_boot s) (st_worker_max_boot s')"
    and "st_plans s' = st_plans s \<or> umap_evolves plan_evolves (st_plans s) (st_plans s')"
    and "st_attempts s' = st_attempts s \<or> umap_evolves attempt_evolves (st_attempts s) (st_attempts s')"
    and "st_receipts s' = st_receipts s \<or> receipts_evolve s s'"
  shows "progress s s'"
  using assms unfolding progress_def
  by (auto simp: umap_evolves_refl) (auto simp: receipts_evolve_def umap_all_def)

lemma buffers_put_fresh:
  "state_wf n s \<Longrightarrow> n < op_limit \<Longrightarrow> k = st_next_id s + 1 \<or> k = st_next_id s + 3 \<Longrightarrow>
   umap_evolves buffer_evolves (st_buffers s) (umap_put k b (st_buffers s))"
  using counters_room(1-3) [of n "st_next_id s"] buffers_wf_fresh [of n "st_next_id s" "st_buffers s" k]
  by (intro umap_evolves_put) (auto simp: state_wf_def)

lemma endpoints_put_fresh:
  "state_wf n s \<Longrightarrow> n < op_limit \<Longrightarrow>
   umap_evolves endpoint_evolves (st_endpoints s) (umap_put (st_next_id s + 1) e (st_endpoints s))"
  using counters_room(1) [of n "st_next_id s"] endpoints_wf_fresh [of n "st_next_id s" "st_endpoints s"]
  by (intro umap_evolves_put) (auto simp: state_wf_def)

lemma plans_put_fresh:
  assumes "state_wf n s" and "n < op_limit"
  shows "umap_evolves plan_evolves (st_plans s) (umap_put (st_next_id s + 1) p (st_plans s))"
proof -
  have "counters_wf n (st_next_id s)" "plans_wf (st_next_id s) (st_plans s)"
    using assms by (simp_all add: state_wf_def)
  then have "umap_find (st_plans s) (st_next_id s + 1) = None"
    using counters_room(1) [OF _ assms(2)]
    by (intro umap_fresh [of "st_next_id s"]) (auto simp: plans_wf_def elim!: umap_all_mono dest: id_in_use_le)
  then show ?thesis by (intro umap_evolves_put) auto
qed

lemma create_buffer_progress:
  "state_wf n s \<Longrightarrow> n < op_limit \<Longrightarrow> progress s (snd (create_buffer p s))"
  using buffers_put_fresh [of n s "st_next_id s + 1"]
  by (intro progress_frame) (auto simp: create_buffer_def counter_defs)

lemma add_endpoint_progress:
  "state_wf n s \<Longrightarrow> n < op_limit \<Longrightarrow> progress s (snd (add_endpoint p s))"
  using endpoints_put_fresh [of n s] by (intro progress_frame) (auto simp: add_endpoint_def counter_defs)

lemma advance_buffer_generation_progress:
  assumes "state_wf n s" and "n < op_limit"
  shows "progress s (snd (advance_buffer_generation i a s))"
proof (rule progress_frame)
  have "b_generation b < gen_next (b_generation b)" if "umap_find (st_buffers s) k = Some b" for k b
    by (rule gen_bound_less [OF state_wf_buffer_bound [OF assms(1) that] assms(2)])
  then show "st_buffers (snd (advance_buffer_generation i a s)) = st_buffers s \<or>
      umap_evolves buffer_evolves (st_buffers s) (st_buffers (snd (advance_buffer_generation i a s)))"
    by (auto simp: advance_buffer_generation_def counter_defs invalidate_buffer_dependents_locked_def
        buffer_evolves_def less_imp_le intro!: umap_evolves_put split: option.splits)
qed (auto simp: advance_buffer_generation_def counter_defs invalidate_buffer_dependents_locked_def
       plan_evolves_def intro!: umap_evolves_map split: option.splits)

lemma retire_buffer_progress: "progress s (snd (retire_buffer i a s))"
  by (rule progress_frame)
     (auto simp: retire_buffer_def counter_defs invalidate_buffer_dependents_locked_def
       plan_evolves_def buffer_evolves_def intro!: umap_evolves_map umap_evolves_put split: option.splits)

lemma advance_endpoint_generation_progress:
  assumes "state_wf n s" and "n < op_limit"
  shows "progress s (snd (advance_endpoint_generation i a s))"
proof (rule progress_frame)
  have "e_generation e < gen_next (e_generation e)" if "umap_find (st_endpoints s) k = Some e" for k e
    by (rule gen_bound_less [OF state_wf_endpoint_bound [OF assms(1) that] assms(2)])
  then show "st_endpoints (snd (advance_endpoint_generation i a s)) = st_endpoints s \<or>
      umap_evolves endpoint_evolves (st_endpoints s) (st_endpoints (snd (advance_endpoint_generation i a s)))"
    by (auto simp: advance_endpoint_generation_def counter_defs invalidate_endpoint_dependents_locked_def
        endpoint_evolves_def less_imp_le intro!: umap_evolves_put split: option.splits)
qed (auto simp: advance_endpoint_generation_def counter_defs invalidate_endpoint_dependents_locked_def
       plan_evolves_def intro!: umap_evolves_map split: option.splits)

lemma set_endpoint_health_progress: "progress s (snd (set_endpoint_health i h a s))"
  by (rule progress_frame)
     (auto simp: set_endpoint_health_def counter_defs endpoint_evolves_def
       intro!: umap_evolves_put split: option.splits)

lemma register_worker_progress:
  "progress s (snd (register_worker w b e s))"
proof (cases rule: register_worker_cases [of w b e s])
  case (accepted x)
  have "umap_evolves (\<le>) (st_worker_max_boot s)
      (umap_put (id_value w) (gen_value b) (st_worker_max_boot s))"
    using accepted(4) by (intro umap_evolves_put) (auto simp: prev_max_boot_def split: option.splits)
  then show ?thesis by (intro progress_frame) (auto simp: accepted(1))
qed (simp_all add: progress_refl)

lemma register_buffer_progress:
  "progress s (fst (snd (register_buffer p be s)))"
proof (cases rule: register_buffer_cases [of p be s])
  case unchanged
  then show ?thesis by (simp add: progress_refl)
next
  case backend_failed
  then show ?thesis
    by (intro progress_frame) (auto simp: retire_deregistering_def split: option.splits)
next
  case (committed b e i supp prov h be')
  note found = register_guards_ok(1) [OF committed(1)]
  let ?l = "latest_registration (rp_buffer p) (rp_endpoint p) s"
  let ?s = "retire_deregistering ?l s"
  have "umap_evolves buffer_evolves (st_buffers s) (umap_put (id_value (rp_buffer p)) (b\<lparr>b_registration_state := x,
      b_registration_id := y, b_registration_generation := z, b_freshness := f\<rparr>) (st_buffers s))" for x y z f
    using found by (intro umap_evolves_put) (auto simp: buffer_evolves_def)
  then have "progress s (snd (register_commit p b e ?l i supp prov h ?s))"
    by (intro progress_frame)
       (auto simp: register_commit_def counter_defs retire_deregistering_def split: option.splits)
  then show ?thesis by (simp add: committed(3) Let_def case_prod_beta)
qed

lemma deregister_buffer_progress: "progress s (snd (deregister_buffer i a s))"
  by (rule progress_frame)
     (auto simp: deregister_buffer_def deregister_commit_def counter_defs buffer_evolves_def
       intro!: umap_evolves_put split: option.splits)

lemma plan_transfer_progress:
  assumes wf: "state_wf n s" and n: "n < op_limit"
  shows "progress s (snd (plan_transfer p snap s))"
proof -
  have "progress s (snd (plan_build p d src dst reg s))" for d src dst reg
  proof (cases rule: plan_build_cases [of d p s src dst reg])
    case direct
    then show ?thesis using plans_put_fresh [OF wf n] by (intro progress_frame) auto
  next
    case staged
    then show ?thesis
      using plans_put_fresh [OF wf n] buffers_put_fresh [OF wf n] by (intro progress_frame) auto
  qed
  then show ?thesis
    by (auto simp: plan_transfer_def plan_commit_def progress_refl case_prod_beta split: sum.splits)
qed

lemma begin_transfer_progress:
  assumes wf: "state_wf n s" and n: "n < op_limit"
  shows "progress s (fst (snd (begin_transfer i au be s)))"
proof (cases rule: begin_transfer_cases [of i au be s])
  case rejected
  then show ?thesis by (simp add: progress_refl)
next
  case (begun plan src a be')
  have maps: "counters_wf n (st_next_id s)"
      "transfers_wf (st_next_id s) (st_plans s) (st_attempts s) (st_receipts s)"
    using wf by (simp_all add: state_wf_def)
  have "umap_find (st_attempts s) (st_next_id s + 1) = None"
    by (rule transfers_wf_receipt_fresh(2) [OF maps(2) counters_room(1) [OF maps(1) n]])
  then have "umap_evolves attempt_evolves (st_attempts s) (umap_put (st_next_id s + 1) a (st_attempts s))"
    by (intro umap_evolves_put) auto
  then show ?thesis by (intro progress_frame) (auto simp: begun(3))
qed

text \<open>Closing an attempt that is neither committed nor cancelled.\<close>

lemma close_attempt_progress:
  assumes a: "umap_find (st_attempts s) k = Some a" "\<not> ta_completion_committed a"
      "ta_state a = TransferState.CANCELLED \<longrightarrow> st = TransferState.CANCELLED \<and> \<not> c"
    and s': "st_attempts s' = umap_put k (a\<lparr>ta_state := st, ta_completion_committed := c\<rparr>) (st_attempts s)"
      "st_receipts s' = umap_put k r (st_receipts s)" "st_buffers s' = st_buffers s"
      "st_endpoints s' = st_endpoints s" "st_worker_max_boot s' = st_worker_max_boot s" "st_plans s' = st_plans s"
  shows "progress s s'"
proof -
  have "attempt_evolves a (a\<lparr>ta_state := st, ta_completion_committed := c\<rparr>)"
    using a(2,3) by (auto simp: attempt_evolves_def)
  then have "umap_evolves attempt_evolves (st_attempts s) (st_attempts s')"
    unfolding s' using a by (intro umap_evolves_put) auto
  moreover have "receipts_evolve s s'"
    using a(1,2) by (auto simp: receipts_evolve_def umap_all_def s')
  ultimately show ?thesis by (intro progress_frame) (auto simp: s')
qed

lemma complete_commit_progress:
  assumes "umap_find (st_attempts s) k = Some a" "\<not> ta_completion_committed a"
    and "ta_state a \<noteq> TransferState.CANCELLED"
  shows "progress s (snd (complete_commit k a s))"
  using assms unfolding complete_commit_def Let_def
  by (auto intro!: close_attempt_progress [OF assms(1,2)] simp: record_verification_frame)

lemma complete_transfer_progress:
  assumes wf: "state_wf n s"
  shows "progress s (snd (complete_transfer i au s))"
proof (cases "umap_find (st_attempts s) (id_value i)")
  case None
  then show ?thesis by (simp add: complete_transfer_def Let_def progress_refl)
next
  case (Some a)
  have "ta_completion_committed a \<longrightarrow> umap_find (st_receipts s) (id_value i) \<noteq> None"
    using state_wf_attempt(1) [OF wf Some] by (simp add: attempt_wf_def)
  moreover have "progress s (s\<lparr>st_receipts := umap_put (id_value i) r (st_receipts s)\<rparr>)"
    if "umap_find (st_receipts s) (id_value i) = None" for r
    using that by (intro progress_frame) (auto simp: receipts_evolve_def umap_all_def)
  moreover note complete_commit_progress [OF Some]
  ultimately show ?thesis
    using Some by (auto simp: complete_transfer_def Let_def progress_refl split: option.splits)
qed

lemma cancel_transfer_progress: "progress s (snd (cancel_transfer i au s))"
proof (cases "umap_find (st_attempts s) (id_value i)")
  case None
  then show ?thesis by (simp add: cancel_transfer_def Let_def progress_refl)
next
  case (Some a)
  show ?thesis
    using close_attempt_progress [OF Some, where st = TransferState.CANCELLED and c = False] Some
    by (auto simp: cancel_transfer_def Let_def progress_refl)
qed

lemma other_ops_progress:
  "progress s (set_limits a b c d e s)" "progress s (snd (mark_worker_dead w s))"
  "progress s (snd (advance_epoch s))" "progress s (snd (add_device dp s))"
  "progress s (snd (add_nic nr s))" "progress s (snd (add_storage_endpoint sr s))"
  "progress s (snd (add_provider pp s))" "progress s (snd (publish_capability cp s))"
  "progress s (snd (revoke_capability pr ca au s))" "progress s (snd (verify_transfer i v n s))"
  by (intro progress_frame;
      auto simp: set_limits_def mark_worker_dead_def advance_epoch_def add_device_def add_nic_def
        add_storage_endpoint_def add_provider_def publish_capability_def revoke_capability_def
        verify_transfer_def counter_defs plan_evolves_def intro!: umap_evolves_map split: option.splits)+

lemmas op_progress =
  create_buffer_progress add_endpoint_progress advance_buffer_generation_progress
  retire_buffer_progress advance_endpoint_generation_progress set_endpoint_health_progress
  register_worker_progress register_buffer_progress deregister_buffer_progress plan_transfer_progress
  begin_transfer_progress complete_transfer_progress cancel_transfer_progress other_ops_progress

lemma step_progress: "state_wf n s \<Longrightarrow> n < op_limit \<Longrightarrow> progress s (step x s)"
  by (cases x) (simp_all add: op_progress)

interpretation coordinator: budgeted_progress step state_wf op_limit progress
  by unfold_locales (fact progress_refl progress_trans step_progress)+

section \<open>Consequences for later states\<close>

lemma run_progress:
  "state_wf n s \<Longrightarrow> n + length ops \<le> op_limit \<Longrightarrow> progress s (run ops s) \<and> state_wf (n + length ops) (run ops s)"
  using coordinator.run_rel [of n s ops] coordinator.run_inv [of n s ops] by (simp add: run_def)

lemma progress_attempt:
  assumes "progress s s'" and "umap_find (st_attempts s) k = Some a"
    and "ta_completion_committed a \<or> ta_state a = TransferState.CANCELLED"
  shows "umap_find (st_attempts s') k = Some a"
proof -
  have "umap_evolves attempt_evolves (st_attempts s) (st_attempts s')" using assms(1) by (simp add: progress_def)
  then obtain a' where "umap_find (st_attempts s') k = Some a'" "attempt_evolves a a'"
    using assms(2) by (rule umap_evolves_find)
  with assms(3) show ?thesis by (simp add: attempt_evolves_def)
qed

lemma progress_receipt:
  assumes "progress s s'" and "umap_find (st_receipts s) k = Some r"
    and "umap_find (st_attempts s) k = Some a" "ta_completion_committed a"
  shows "umap_find (st_receipts s') k = Some r"
  using assms receipts_evolveD(2) by (auto simp: progress_def)

lemma progress_superseded:
  assumes "progress s s'" and "umap_find (st_plans s) k = Some p" "\<not> tp_authoritative p"
  obtains p' where "umap_find (st_plans s') k = Some p'" "\<not> tp_authoritative p'"
proof -
  have "umap_evolves plan_evolves (st_plans s) (st_plans s')" using assms(1) by (simp add: progress_def)
  then obtain p' where "umap_find (st_plans s') k = Some p'" "plan_evolves p p'"
    using assms(2) by (rule umap_evolves_find)
  with assms(3) show ?thesis by (intro that [of p']) (auto simp: plan_evolves_def)
qed

lemma progress_max_boot:
  assumes "progress s s'"
  shows "prev_max_boot w s \<le> prev_max_boot w s'"
proof (cases "umap_find (st_worker_max_boot s) (id_value w)")
  case None
  then show ?thesis by (simp add: prev_max_boot_def)
next
  case (Some v)
  have "umap_evolves (\<le>) (st_worker_max_boot s) (st_worker_max_boot s')"
    using assms by (simp add: progress_def)
  then obtain v' where "umap_find (st_worker_max_boot s') (id_value w) = Some v'" "v \<le> v'"
    using Some by (rule umap_evolves_find)
  with Some show ?thesis by (simp add: prev_max_boot_def)
qed

end
