(* ===== verification/Synthetic_Seed.thy ===== *)
theory Synthetic_Seed
  imports Progress
begin

text \<open>
  \<open>seed_synthetic\<close> of \<open>src/backends/synthetic_backend.cpp\<close>: a coordinator is given the synthetic
  backend's providers, device, endpoints and capabilities. Its effect on the coordinator is a run of
  ordinary operations, so a seeded coordinator is a reachable one.
\<close>

record SyntheticSeedResult =
  sr_device :: DeviceId
  sr_nic :: EndpointId
  sr_storage :: EndpointId
  sr_peer :: EndpointId
  sr_rdma :: ProviderId
  sr_storage_provider :: ProviderId
  sr_cuda :: ProviderId

definition default_SyntheticSeedResult :: SyntheticSeedResult where
  "default_SyntheticSeedResult =
     \<lparr>sr_device = Id 0, sr_nic = Id 0, sr_storage = Id 0, sr_peer = Id 0, sr_rdma = Id 0,
      sr_storage_provider = Id 0, sr_cuda = Id 0\<rparr>"

definition seed_provider_params :: "ProviderInfo \<Rightarrow> ProviderAddParams" where
  "seed_provider_params p =
     \<lparr>pap_name = p_name p, pap_available = p_available p, pap_support = p_support p,
      pap_provenance = p_provenance p\<rparr>"

definition seed_provider ::
    "ProviderInfo \<Rightarrow> SyntheticSeedResult \<times> State \<Rightarrow> SyntheticSeedResult \<times> State" where
  "seed_provider p rs =
     (let (r, s) = rs;
          (res, s') = add_provider (seed_provider_params p) s
      in (case res of
            Inl _ \<Rightarrow> r
          | Inr info \<Rightarrow>
              let r1 = (if p_name p = ''rdma'' then r\<lparr>sr_rdma := p_id info\<rparr> else r);
                  r2 = (if p_name p = ''storage'' then r1\<lparr>sr_storage_provider := p_id info\<rparr> else r1)
              in if p_name p = ''cuda'' then r2\<lparr>sr_cuda := p_id info\<rparr> else r2, s'))"

definition seed_device_params :: "DeviceRecord \<Rightarrow> DeviceAddParams" where
  "seed_device_params d =
     \<lparr>dap_name = d_name d, dap_compute_capability = d_compute_capability d,
      dap_peer_memory_supported = d_peer_memory_supported d, dap_support = d_support d,
      dap_provenance = d_provenance d, dap_authority = default_Authority\<rparr>"

definition seed_device ::
    "DeviceRecord \<Rightarrow> SyntheticSeedResult \<times> State \<Rightarrow> SyntheticSeedResult \<times> State" where
  "seed_device d rs =
     (let (r, s) = rs;
          (res, s') = add_device (seed_device_params d) s
      in (case res of Inl _ \<Rightarrow> r | Inr dev \<Rightarrow> r\<lparr>sr_device := d_id dev\<rparr>, s'))"

definition seed_endpoint_params :: "EndpointRecord \<Rightarrow> EndpointAddParams" where
  "seed_endpoint_params e =
     \<lparr>eap_endpoint_class = e_endpoint_class e, eap_name = e_name e,
      eap_topology_hint = e_topology_hint e, eap_healthy = e_healthy e, eap_provider = e_provider e,
      eap_support = e_support e, eap_provenance = e_provenance e, eap_authority = default_Authority\<rparr>"

definition seed_endpoint ::
    "EndpointRecord \<Rightarrow> SyntheticSeedResult \<times> State \<Rightarrow> SyntheticSeedResult \<times> State" where
  "seed_endpoint e rs =
     (let (r, s) = rs;
          (res, s') = add_endpoint (seed_endpoint_params e) s
      in (case res of
            Inl _ \<Rightarrow> r
          | Inr ep \<Rightarrow>
              let r1 = (if e_endpoint_class e = EndpointClass.NIC then r\<lparr>sr_nic := e_id ep\<rparr> else r);
                  r2 = (if e_endpoint_class e = EndpointClass.STORAGE then r1\<lparr>sr_storage := e_id ep\<rparr> else r1)
              in if e_endpoint_class e = EndpointClass.PEER_DEVICE then r2\<lparr>sr_peer := e_id ep\<rparr> else r2, s'))"

definition seed_capability_params :: "CoordinatorEpoch \<Rightarrow> CapabilityObservation \<Rightarrow> CapabilityPublishParams" where
  "seed_capability_params epoch c =
     \<lparr>cpp_provider = c_provider c, cpp_capability = c_capability c, cpp_value = c_value c,
      cpp_support = c_support c, cpp_provenance = c_provenance c,
      cpp_authority = default_Authority\<lparr>au_epoch := epoch\<rparr>\<rparr>"

definition seed_capability ::
    "CoordinatorEpoch \<Rightarrow> CapabilityObservation \<Rightarrow> SyntheticSeedResult \<times> State \<Rightarrow>
     SyntheticSeedResult \<times> State" where
  "seed_capability epoch c rs =
     (let (r, s) = rs; (res, s') = publish_capability (seed_capability_params epoch c) s in (r, s'))"

definition seed_synthetic :: "SyntheticBackend \<Rightarrow> State \<Rightarrow> SyntheticSeedResult \<times> State" where
  "seed_synthetic backend s =
     (let epoch = st_epoch s;
          rs1 = fold seed_provider (synthetic_providers backend) (default_SyntheticSeedResult, s);
          rs2 = fold seed_device (synthetic_devices backend) rs1;
          rs3 = fold seed_endpoint (synthetic_endpoints backend) rs2
      in fold (seed_capability epoch) (synthetic_capabilities backend) rs3)"

section \<open>Seeding is a run of coordinator operations\<close>

definition seed_ops :: "SyntheticBackend \<Rightarrow> CoordinatorEpoch \<Rightarrow> 'b coord_op list" where
  "seed_ops backend epoch =
     map (Add_provider \<circ> seed_provider_params) (synthetic_providers backend) @
     map (Add_device \<circ> seed_device_params) (synthetic_devices backend) @
     map (Add_endpoint \<circ> seed_endpoint_params) (synthetic_endpoints backend) @
     map (Publish_capability \<circ> seed_capability_params epoch) (synthetic_capabilities backend)"

lemma fold_seed:
  assumes "\<And>x rs. snd (f x rs) = step (g x) (snd rs)"
  shows "snd (fold f xs rs) = run (map g xs) (snd rs)"
  using assms by (induction xs arbitrary: rs) (simp_all add: run_def)

lemma run_append: "run (xs @ ys) s = run ys (run xs s)"
  by (simp add: run_def)

lemma seed_steps:
  "snd (seed_provider p rs) = step ((Add_provider \<circ> seed_provider_params) p) (snd rs)"
  "snd (seed_device d rs) = step ((Add_device \<circ> seed_device_params) d) (snd rs)"
  "snd (seed_endpoint e rs) = step ((Add_endpoint \<circ> seed_endpoint_params) e) (snd rs)"
  "snd (seed_capability ep c rs) = step ((Publish_capability \<circ> seed_capability_params ep) c) (snd rs)"
  by (simp_all add: seed_provider_def seed_device_def seed_endpoint_def seed_capability_def
      case_prod_beta Let_def)

lemma seed_synthetic_run: "snd (seed_synthetic b s) = run (seed_ops b (st_epoch s) :: 'b coord_op list) s"
proof -
  have 1: "snd (fold seed_provider xs rs) =
      run (map (Add_provider \<circ> seed_provider_params :: _ \<Rightarrow> 'b coord_op) xs) (snd rs)" for xs rs
    by (rule fold_seed) (rule seed_steps)
  have 2: "snd (fold seed_device xs rs) =
      run (map (Add_device \<circ> seed_device_params :: _ \<Rightarrow> 'b coord_op) xs) (snd rs)" for xs rs
    by (rule fold_seed) (rule seed_steps)
  have 3: "snd (fold seed_endpoint xs rs) =
      run (map (Add_endpoint \<circ> seed_endpoint_params :: _ \<Rightarrow> 'b coord_op) xs) (snd rs)" for xs rs
    by (rule fold_seed) (rule seed_steps)
  have 4: "snd (fold (seed_capability ep) xs rs) =
      run (map (Publish_capability \<circ> seed_capability_params ep :: _ \<Rightarrow> 'b coord_op) xs) (snd rs)" for ep xs rs
    by (rule fold_seed) (rule seed_steps)
  show ?thesis
    by (simp only: seed_synthetic_def seed_ops_def run_append Let_def 1 2 3 4 snd_conv)
qed

end
