(* ===== verification/Scenario.thy ===== *)
theory Scenario
  imports Synthetic_Seed
begin

text \<open>
  A concrete run of the coordinator, evaluated step by step: a worker, a provider, a device, a NIC
  endpoint, a capability, a GPU buffer of the worker registered with the synthetic backend, then a
  direct plan, its transfer and the completion. The states are written out, and each is shown to be
  what the operations compute; the witnesses of the development apply its theorems here.
\<close>

section \<open>A concrete run\<close>

definition demo_epoch :: CoordinatorEpoch where
  "demo_epoch = Generation 1"

definition demo_authority :: Authority where
  "demo_authority = \<lparr>au_worker = Id 7, au_boot = Generation 1, au_epoch = demo_epoch\<rparr>"

definition demo_buffer :: CreateBufferParams where
  "demo_buffer =
     \<lparr>cbp_domain = MemoryDomain.CUDA_DEVICE, cbp_size = 4096, cbp_alignment = 64, cbp_device = Id 3,
      cbp_locality = Locality.LOCAL, cbp_support = Support.SYNTHETIC,
      cbp_provenance = Provenance.SYNTHETIC_FIXTURE, cbp_authority = demo_authority,
      cbp_name = ''demo''\<rparr>"

definition demo_register :: RegisterParams where
  "demo_register =
     \<lparr>rp_buffer = Id 6, rp_endpoint = Id 4, rp_provider = Id 2, rp_authority = demo_authority,
      rp_support = Support.SYNTHETIC, rp_provenance = Provenance.SYNTHETIC_FIXTURE,
      rp_required_capabilities = []\<rparr>"

definition demo_request :: PlanRequestParams where
  "demo_request =
     \<lparr>prp_source = Id 6, prp_destination = Id 4, prp_direction = Direction.GPU_TO_PEER,
      prp_policy = PathPolicy.PREFER_DIRECT, prp_size = 4096\<rparr>"

definition demo_backend :: "SyntheticBackend Backend_ptr" where
  "demo_backend = Some (synthetic_vtable, default_SyntheticBackend)"

definition demo_ops :: "SyntheticBackend coord_op list" where
  "demo_ops =
     [Register_worker (Id 7) (Generation 1) demo_epoch,
      Add_provider \<lparr>pap_name = ''rdma'', pap_available = True, pap_support = Support.SYNTHETIC,
        pap_provenance = Provenance.SYNTHETIC_FIXTURE\<rparr>,
      Add_device \<lparr>dap_name = ''gpu'', dap_compute_capability = [], dap_peer_memory_supported = False,
        dap_support = Support.SYNTHETIC, dap_provenance = Provenance.SYNTHETIC_FIXTURE,
        dap_authority = default_Authority\<rparr>,
      Add_endpoint \<lparr>eap_endpoint_class = EndpointClass.NIC, eap_name = ''nic'', eap_topology_hint = [],
        eap_healthy = True, eap_provider = Id 2, eap_support = Support.SYNTHETIC,
        eap_provenance = Provenance.SYNTHETIC_FIXTURE, eap_authority = default_Authority\<rparr>,
      Publish_capability \<lparr>cpp_provider = ''rdma'', cpp_capability = ''direct_nic'', cpp_value = ''true'',
        cpp_support = Support.SYNTHETIC, cpp_provenance = Provenance.SYNTHETIC_FIXTURE,
        cpp_authority = default_Authority\<lparr>au_epoch := demo_epoch\<rparr>\<rparr>,
      Create_buffer demo_buffer, Register_buffer demo_register demo_backend]"

definition demo_buffer_record :: BufferRecord where
  "demo_buffer_record =
     \<lparr>b_id = Id 6, b_generation = Generation 1, b_authority = demo_authority,
      b_domain = MemoryDomain.CUDA_DEVICE, b_size = 4096, b_alignment = 64, b_device = Id 3,
      b_device_generation = Generation 0, b_locality = Locality.LOCAL,
      b_registration_state = RegistrationState.REGISTERED, b_registration_id = Id 1,
      b_registration_generation = Generation 1, b_lifecycle = BufferLifecycle.ACTIVE,
      b_support = Support.SYNTHETIC, b_provenance = Provenance.SYNTHETIC_FIXTURE, b_freshness = 7,
      b_name = ''demo'', b_handle = None\<rparr>"

definition demo_endpoint_record :: EndpointRecord where
  "demo_endpoint_record =
     \<lparr>e_id = Id 4, e_generation = Generation 1, e_endpoint_class = EndpointClass.NIC, e_name = ''nic'',
      e_topology_hint = [], e_healthy = True, e_provider = Id 2, e_support = Support.SYNTHETIC,
      e_provenance = Provenance.SYNTHETIC_FIXTURE, e_authority = default_Authority, e_freshness = 3,
      e_handle = None\<rparr>"

definition demo_registration :: Registration where
  "demo_registration =
     \<lparr>r_id = Id 1, r_generation = Generation 1, r_buffer = Id 6, r_buffer_generation = Generation 1,
      r_endpoint = Id 4, r_endpoint_generation = Generation 1, r_provider = Id 2,
      r_authority = demo_authority, r_state = RegistrationState.REGISTERED,
      r_support = Support.SYNTHETIC, r_provenance = Provenance.SYNTHETIC_FIXTURE,
      r_duplicated = False, r_freshness = 6, r_required_capabilities = [],
      r_handle = Some (SyntheticHandle 1)\<rparr>"

definition demo_state :: State where
  "demo_state =
     \<lparr>st_epoch = demo_epoch, st_next_id = 6, st_freshness = 7,
      st_buffers = [(6, demo_buffer_record)],
      st_devices = [(3, \<lparr>d_id = Id 3, d_generation = Generation 1, d_name = ''gpu'',
        d_compute_capability = [], d_peer_memory_supported = False, d_support = Support.SYNTHETIC,
        d_provenance = Provenance.SYNTHETIC_FIXTURE, d_authority = default_Authority, d_freshness = 2\<rparr>)],
      st_endpoints = [(4, demo_endpoint_record)], st_nics = [], st_storage = [],
      st_registrations = [(1, demo_registration)],
      st_providers = [(2, \<lparr>p_id = Id 2, p_name = ''rdma'', p_available = True,
        p_support = Support.SYNTHETIC, p_provenance = Provenance.SYNTHETIC_FIXTURE\<rparr>)],
      st_capabilities = [(5, \<lparr>c_id = Id 5, c_provider = ''rdma'', c_capability = ''direct_nic'',
        c_value = ''true'', c_support = Support.SYNTHETIC, c_provenance = Provenance.SYNTHETIC_FIXTURE,
        c_authority = default_Authority\<lparr>au_epoch := demo_epoch\<rparr>, c_freshness = 4\<rparr>)],
      st_plans = [], st_attempts = [], st_receipts = [], st_verifications = [],
      st_workers = [(7, Id 7, Generation 1)], st_worker_max_boot = [(7, 1)], st_max_buffers = 8192,
      st_max_registrations = 8192, st_max_endpoints = 4096, st_max_plans = 4096,
      st_max_attempts = 4096\<rparr>"

lemma demo_run: "run demo_ops (make_coordinator demo_epoch) = demo_state"
  by code_simp

text \<open>The plan, the attempt and the completion that follow.\<close>

definition demo_plan :: TransferPlan where
  "demo_plan = default_TransferPlan
     \<lparr>tp_id := Id 7, tp_path_generation := Generation 8, tp_generation := Generation 1,
      tp_source := Id 6, tp_source_generation := Generation 1, tp_destination := Id 4,
      tp_destination_generation := Generation 1, tp_registration_id := Id 1,
      tp_registration_generation := Generation 1, tp_registration_buffer_generation := Generation 1,
      tp_policy := PathPolicy.PREFER_DIRECT, tp_expected_bytes := 4096,
      tp_eligibility := PathEligibility.DIRECT_ALLOWED_DEGRADED, tp_support := Support.SYNTHETIC,
      tp_copy_count := 1,
      tp_stages := [default_TransferStage
        \<lparr>sg_path_class := PathClass.GPU_TO_NIC_DIRECT, sg_support := Support.SYNTHETIC, sg_src := Id 6,
         sg_endpoint := Id 4, sg_direct := True, sg_description := ''direct GPU_TO_NIC_DIRECT''\<rparr>],
      tp_explanation := ''path GPU_TO_NIC_DIRECT; direct=DIRECT_ALLOWED_DEGRADED; final=DIRECT_ALLOWED_DEGRADED; support=SYNTHETIC'',
      tp_epoch := demo_epoch, tp_authority := demo_authority\<rparr>"

definition demo_planned :: State where
  "demo_planned = demo_state\<lparr>st_next_id := 8, st_plans := [(7, demo_plan)]\<rparr>"

lemma demo_plan_transfer: "plan_transfer demo_request demo_state demo_state = (ok demo_plan, demo_planned)"
  by code_simp

definition demo_attempt :: TransferAttempt where
  "demo_attempt = default_TransferAttempt
     \<lparr>ta_id := Id 9, ta_plan_id := Id 7, ta_plan_generation := Generation 1,
      ta_state := TransferState.IN_FLIGHT, ta_bytes := 4096, ta_epoch := demo_epoch,
      ta_authority := demo_authority, ta_submitted_bytes := 4096, ta_backend_token := ''4096'',
      ta_integrity_checked := True, ta_integrity_passed := True, ta_method := ''synthetic-cpu-replica'',
      ta_support := Support.SYNTHETIC, ta_detail := ''synthetic transfer completed''\<rparr>"

definition demo_begun :: State where
  "demo_begun = demo_planned\<lparr>st_next_id := 9, st_attempts := [(9, demo_attempt)]\<rparr>"

lemma demo_begin_attempt: "fst (begin_transfer (Id 7) demo_authority demo_backend demo_planned) = ok demo_attempt"
  by code_simp

lemma demo_begin_state: "fst (snd (begin_transfer (Id 7) demo_authority demo_backend demo_planned)) = demo_begun"
  by code_simp

definition demo_closed_attempt :: TransferAttempt where
  "demo_closed_attempt =
     demo_attempt\<lparr>ta_state := TransferState.COMPLETED, ta_completion_committed := True\<rparr>"

definition demo_receipt :: TransferReceipt where
  "demo_receipt =
     \<lparr>tr_attempt_id = Id 9, tr_plan_generation = Generation 1, tr_state = TransferState.COMPLETED,
      tr_bytes = 4096, tr_integrity_verified = True, tr_support = Support.SYNTHETIC,
      tr_provenance = Provenance.SYNTHETIC_FIXTURE, tr_method = ''synthetic-cpu-replica'',
      tr_epoch = demo_epoch, tr_detail = ''synthetic transfer completed''\<rparr>"

definition demo_completed :: State where
  "demo_completed = demo_begun
     \<lparr>st_next_id := 10, st_attempts := [(9, demo_closed_attempt)], st_receipts := [(9, demo_receipt)],
      st_verifications := [(10, \<lparr>vr_id = Id 10, vr_attempt_id = Id 9, vr_passed = True,
        vr_bytes_checked = 4096, vr_support = Support.SYNTHETIC, vr_method = ''synthetic-cpu-replica'',
        vr_expected = ''reference'', vr_actual = ''reference''\<rparr>)]\<rparr>"

lemma demo_complete: "complete_transfer (Id 9) demo_authority demo_begun = (ok demo_receipt, demo_completed)"
  by (simp add: complete_transfer_def complete_commit_def record_verification_def attempt_verification_def
      cancel_transfer_def make_receipt_def worker_live_locked_def worker_owned_def next_id_locked_def
      demo_begun_def demo_planned_def demo_state_def demo_attempt_def demo_plan_def demo_closed_attempt_def
      demo_receipt_def demo_completed_def demo_authority_def demo_epoch_def default_TransferAttempt_def
      default_TransferPlan_def Let_def)

lemma demo_cancel:
  "cancel_transfer (Id 9) demo_authority demo_begun =
     (ok (demo_receipt\<lparr>tr_state := TransferState.CANCELLED, tr_integrity_verified := False,
            tr_detail := ''transfer cancelled before completion''\<rparr>),
      demo_begun\<lparr>st_attempts := [(9, demo_attempt\<lparr>ta_state := TransferState.CANCELLED\<rparr>)],
        st_receipts := [(9, demo_receipt\<lparr>tr_state := TransferState.CANCELLED,
          tr_integrity_verified := False, tr_detail := ''transfer cancelled before completion''\<rparr>)]\<rparr>)"
  by (simp add: complete_transfer_def complete_commit_def record_verification_def attempt_verification_def
      cancel_transfer_def make_receipt_def worker_live_locked_def worker_owned_def next_id_locked_def
      demo_begun_def demo_planned_def demo_state_def demo_attempt_def demo_plan_def demo_closed_attempt_def
      demo_receipt_def demo_completed_def demo_authority_def demo_epoch_def default_TransferAttempt_def
      default_TransferPlan_def Let_def)

text \<open>The operations behind these states, and their lengths.\<close>

definition demo_plan_ops :: "SyntheticBackend coord_op list" where
  "demo_plan_ops = demo_ops @ [Plan_transfer demo_request demo_state]"

definition demo_begin_ops :: "SyntheticBackend coord_op list" where
  "demo_begin_ops = demo_plan_ops @ [Begin_transfer (Id 7) demo_authority demo_backend]"

definition demo_complete_ops :: "SyntheticBackend coord_op list" where
  "demo_complete_ops = demo_begin_ops @ [Complete_transfer (Id 9) demo_authority]"

lemma run_simps: "run [] s = s" "run (x # ops) s = run ops (step x s)"
  by (simp_all add: run_def)

lemma demo_runs:
  "run demo_plan_ops (make_coordinator demo_epoch) = demo_planned"
  "run demo_begin_ops (make_coordinator demo_epoch) = demo_begun"
  "run demo_complete_ops (make_coordinator demo_epoch) = demo_completed"
  by (simp_all add: demo_plan_ops_def demo_begin_ops_def demo_complete_ops_def run_append run_simps demo_run
      demo_plan_transfer demo_begin_state demo_complete)

lemma demo_lengths [simp]:
  "length demo_ops \<le> op_limit" "length demo_plan_ops \<le> op_limit" "length demo_begin_ops \<le> op_limit"
  "length demo_complete_ops \<le> op_limit" "length demo_ops < op_limit" "length demo_plan_ops < op_limit"
  "length demo_begin_ops < op_limit" "length demo_complete_ops < op_limit"
  by (simp_all add: demo_ops_def demo_plan_ops_def demo_begin_ops_def demo_complete_ops_def op_limit_def)

lemmas demo_states = demo_state_def demo_planned_def demo_begun_def demo_completed_def

end
