(* ===== verification/Guarantees.thy ===== *)
theory Guarantees
  imports Scenario
begin

text \<open>
  What the coordinator guarantees about its registries, plans and transfers, in every state a run of
  its operations reaches. The witnesses apply the theorems to the run of \<open>Scenario\<close>.
\<close>

section \<open>Well-formed states\<close>

lemma state_wf_registered:
  assumes "state_wf n s" "umap_find (st_registrations s) k = Some r" "r_state r = RegistrationState.REGISTERED"
  shows "registration_fresh s r"
proof -
  have "registered_fresh s" using assms(1) by (simp add: state_wf_def)
  from umap_allD [OF this [unfolded registered_fresh_def] assms(2)] assms(3) show ?thesis by simp
qed

lemma state_wf_plan:
  assumes "state_wf n s" "umap_find (st_plans s) k = Some p"
  shows "id_value (tp_id p) = k" "plan_shape p" "tp_authoritative p \<Longrightarrow> plan_fresh s p"
proof -
  have "plans_fresh s" "plans_wf (st_next_id s) (st_plans s)" using assms(1) by (simp_all add: state_wf_def)
  from umap_allD [OF this(1) [unfolded plans_fresh_def] assms(2)]
    umap_allD [OF conjunct2 [OF this(2) [unfolded plans_wf_def]] assms(2)]
  show "id_value (tp_id p) = k" "plan_shape p" "tp_authoritative p \<Longrightarrow> plan_fresh s p"
    by (simp_all add: id_in_use_def)
qed

lemma state_wf_regs: "state_wf n s \<Longrightarrow> registrations_wf n (st_registrations s)"
  by (simp add: state_wf_def)

lemma registered_newest:
  assumes wf: "state_wf n s" and r: "umap_find (st_registrations s) k = Some r"
      "r_state r = RegistrationState.REGISTERED"
    and r': "umap_find (st_registrations s) k' = Some r'" "same_pair r r'" "r_generation r \<le> r_generation r'"
  shows "k' = k"
  using registrations_wf_latest [OF state_wf_regs [OF wf] r(1) r'(1,2) r(2)] r'(3)
    registrations_wf_unique [OF state_wf_regs [OF wf] r(1) r'(1,2)] by simp

lemma registered_latest:
  assumes wf: "state_wf n s" and r: "umap_find (st_registrations s) k = Some r"
      "r_state r = RegistrationState.REGISTERED"
  shows "latest_registration (r_buffer r) (r_endpoint r) s = Some r"
proof -
  note facts = latest_registration_facts [OF state_wf_regs [OF wf]]
  obtain l where l: "latest_registration (r_buffer r) (r_endpoint r) s = Some l"
    using facts(3) [OF _ r(1)] by (cases "latest_registration (r_buffer r) (r_endpoint r) s") auto
  obtain j where j: "umap_find (st_registrations s) j = Some l" "same_pair r l"
    using facts(1) [OF l] by (auto simp: same_pair_def)
  have "j = k" by (rule registered_newest [OF wf r j]) (rule facts(2) [OF l r(1)], simp_all)
  with j r(1) l show ?thesis by simp
qed

text \<open>
  C2: In every reachable state a registration in state REGISTERED is backed by the registries: its
  buffer exists, is active and still at the registered generation, its endpoint is at the registered
  generation, its authority is of the current epoch, and if a worker owns it that worker is live, at
  the registering boot id or a later one.
\<close>

theorem registered_is_current:
  assumes "length ops \<le> op_limit" and "s = run ops (make_coordinator epoch)"
    and "umap_find (st_registrations s) k = Some r" and "r_state r = RegistrationState.REGISTERED"
  shows "\<exists>b e. umap_find (st_buffers s) (id_value (r_buffer r)) = Some b \<and>
      b_lifecycle b = BufferLifecycle.ACTIVE \<and> b_generation b = r_buffer_generation r \<and>
      umap_find (st_endpoints s) (id_value (r_endpoint r)) = Some e \<and>
      e_generation e = r_endpoint_generation r \<and> au_epoch (r_authority r) = st_epoch s \<and>
      (worker_owned (r_authority r) \<longrightarrow>
         (\<exists>w. umap_find (st_workers s) (id_value (au_worker (r_authority r))) = Some w \<and>
              au_boot (r_authority r) \<le> snd w))"
  using state_wf_registered [OF run_wf [OF assms(1), of epoch, folded assms(2)] assms(3,4)]
  unfolding registration_fresh_def by (auto split: option.splits)

theorem registered_is_current_witness:
  "\<exists>b e. umap_find (st_buffers demo_state) 6 = Some b \<and> b_lifecycle b = BufferLifecycle.ACTIVE \<and>
     umap_find (st_endpoints demo_state) 4 = Some e \<and> e_generation e = Generation 1"
proof -
  have "umap_find (st_registrations demo_state) 1 = Some demo_registration"
      "r_state demo_registration = RegistrationState.REGISTERED"
    by (simp_all add: demo_state_def demo_registration_def)
  from registered_is_current [OF demo_lengths(1) demo_run [symmetric] this]
  show ?thesis by (auto simp: demo_registration_def)
qed

text \<open>
  C22: In every reachable state at most one registration of a buffer-endpoint pair is REGISTERED, and
  it is the one the coordinator's scan for the latest generation of the pair finds, whatever order
  the hash table is iterated in.
\<close>

theorem registered_unique_and_latest:
  assumes "length ops \<le> op_limit" and "s = run ops (make_coordinator epoch)"
    and "umap_find (st_registrations s) k = Some r" and "r_state r = RegistrationState.REGISTERED"
  shows "latest_registration (r_buffer r) (r_endpoint r) s = Some r \<and>
    (\<forall>k' r'. umap_find (st_registrations s) k' = Some r' \<longrightarrow> r_buffer r' = r_buffer r \<longrightarrow>
       r_endpoint r' = r_endpoint r \<longrightarrow> r_state r' = RegistrationState.REGISTERED \<longrightarrow> k' = k)"
proof -
  have wf: "state_wf (length ops) s" using run_wf [OF assms(1), of epoch] assms(2) by simp
  show ?thesis
    using registered_latest [OF wf assms(3,4)] registered_newest [OF wf assms(3,4)]
      registrations_wf_latest [OF state_wf_regs [OF wf] _ assms(3)]
    by (auto simp: same_pair_def)
qed

theorem registered_unique_and_latest_witness:
  "latest_registration (Id 6) (Id 4) demo_state = Some demo_registration"
proof -
  have "umap_find (st_registrations demo_state) 1 = Some demo_registration"
      "r_state demo_registration = RegistrationState.REGISTERED"
    by (simp_all add: demo_state_def demo_registration_def)
  from registered_unique_and_latest [OF demo_lengths(1) demo_run [symmetric] this]
  show ?thesis by (simp add: demo_registration_def)
qed

text \<open>
  C21: In every reachable state an authoritative plan is current: it was made in the current epoch and
  its source and destination are at the generations it names; a direct plan's source is active, and
  the plan has exactly one direct stage and names a registration, while a fallback plan has exactly
  two staged copies.
\<close>

theorem authoritative_plan_is_current:
  assumes "length ops \<le> op_limit" and "s = run ops (make_coordinator epoch)"
    and "umap_find (st_plans s) k = Some p" and "tp_authoritative p"
  shows "tp_epoch p = st_epoch s \<and>
    (\<exists>b e. umap_find (st_buffers s) (id_value (tp_source p)) = Some b \<and>
       b_generation b = tp_source_generation p \<and>
       (is_direct (tp_eligibility p) \<longrightarrow> b_lifecycle b = BufferLifecycle.ACTIVE) \<and>
       umap_find (st_endpoints s) (id_value (tp_destination p)) = Some e \<and>
       e_generation e = tp_destination_generation p) \<and>
    (if is_direct (tp_eligibility p)
     then length (tp_stages p) = 1 \<and> list_all sg_direct (tp_stages p) \<and> id_valid (tp_registration_id p)
     else length (tp_stages p) = 2 \<and> list_all (\<lambda>sg. \<not> sg_direct sg) (tp_stages p))"
  using state_wf_plan(2,3) [OF run_wf [OF assms(1), of epoch, folded assms(2)] assms(3)] assms(4)
  unfolding plan_fresh_def plan_shape_def plan_staged_def by (auto split: option.splits if_splits)

theorem authoritative_plan_is_current_witness:
  "tp_epoch demo_plan = st_epoch demo_planned \<and> length (tp_stages demo_plan) = 1"
proof -
  have "umap_find (st_plans demo_planned) 7 = Some demo_plan" "tp_authoritative demo_plan"
    by (simp_all add: demo_planned_def demo_plan_def default_TransferPlan_def)
  from authoritative_plan_is_current [OF demo_lengths(2) demo_runs(1) [symmetric] this]
  show ?thesis by (simp add: demo_plan_def)
qed

section \<open>Planning\<close>

lemma evaluate_path_ok: "\<exists>d. evaluate_path p s = ok d"
  by (simp add: evaluate_path_def evaluate_ok)

lemma plan_transfer_ok:
  assumes "plan_transfer p snap s = (ok plan, s')"
  obtains d src dst reg where "evaluate_path p snap = ok d" "plan_admitted d"
    "plan_guards p d s = ok (src, dst, reg)" "plan_build p d src dst reg s = (plan, s')"
    "plan_describes p d s src dst reg plan"
proof -
  obtain d where d: "evaluate_path p snap = ok d" using evaluate_path_ok by blast
  with assms have adm: "plan_admitted d" and commit: "plan_commit p d s = (ok plan, s')"
    by (auto simp: plan_transfer_def ok_def err_def split: if_splits)
  then obtain src dst reg where g: "plan_guards p d s = ok (src, dst, reg)"
      and b: "plan_build p d src dst reg s = (plan, s')"
    by (auto simp: plan_commit_def ok_def split: sum.splits prod.splits)
  have "plan_describes p d s src dst reg plan"
    using b by (cases rule: plan_build_cases [of d p s src dst reg]) auto
  with d adm g b show thesis by (rule that)
qed

lemma plan_transfer_registration:
  assumes wf: "state_wf n s" and ok: "plan_transfer p snap s = (ok plan, s')" and "is_direct (tp_eligibility plan)"
  obtains r where "umap_find (st_registrations s) (id_value (tp_registration_id plan)) = Some r"
    "r_state r = RegistrationState.REGISTERED" "r_buffer r = tp_source plan" "r_endpoint r = tp_destination plan"
    "r_generation r = tp_registration_generation plan"
proof -
  from ok obtain d src dst reg where g: "plan_guards p d s = ok (src, dst, reg)"
      and pd: "plan_describes p d s src dst reg plan" by (rule plan_transfer_ok)
  from pd assms(3) have "is_direct (pd_eligibility d)" by (simp add: plan_describes_def)
  with plan_guards_ok(5,6) [OF g] obtain r where r: "reg = Some r" "plan_registration src dst s = Some r" by auto
  from plan_registration_facts [OF state_wf_regs [OF wf] r(2)]
  obtain k where k: "umap_find (st_registrations s) k = Some r" "r_buffer r = b_id src" "r_endpoint r = e_id dst"
      "r_state r = RegistrationState.REGISTERED" by blast
  have "id_value (r_id r) = k" by (rule registrations_wf_find(1) [OF state_wf_regs [OF wf] k(1)])
  with k pd r(1) show thesis by (intro that [of r]) (simp_all add: plan_describes_def)
qed

text \<open>
  C3: A direct plan is sound end to end, also when other operations run between the evaluation of the
  evidence and the commit: the evidence snapshot met every direct-path requirement, and at the commit
  the source is active, source and destination are at the generations the plan names, and the plan
  names a registration of exactly this pair that is REGISTERED at those generations.
\<close>

theorem direct_plan_sound:
  assumes "length ops \<le> op_limit" and "s = run ops (make_coordinator epoch)"
    and "plan_transfer p snap s = (ok plan, s')" and "is_direct (tp_eligibility plan)"
  shows "list_all fst (requirements (path_request p) (build_evidence_locked p snap)) \<and>
    (\<exists>b e r. umap_find (st_buffers s) (id_value (tp_source plan)) = Some b \<and>
       b_lifecycle b = BufferLifecycle.ACTIVE \<and> b_generation b = tp_source_generation plan \<and>
       umap_find (st_endpoints s) (id_value (tp_destination plan)) = Some e \<and>
       e_generation e = tp_destination_generation plan \<and>
       umap_find (st_registrations s) (id_value (tp_registration_id plan)) = Some r \<and>
       r_state r = RegistrationState.REGISTERED \<and> r_buffer r = tp_source plan \<and>
       r_endpoint r = tp_destination plan \<and> r_buffer_generation r = tp_source_generation plan \<and>
       r_endpoint_generation r = tp_destination_generation plan)"
proof -
  have wf: "state_wf (length ops) s" using run_wf [OF assms(1), of epoch] assms(2) by simp
  from assms(3) obtain d src dst reg where d: "evaluate_path p snap = ok d"
      and g: "plan_guards p d s = ok (src, dst, reg)" and pd: "plan_describes p d s src dst reg plan"
    by (rule plan_transfer_ok)
  have "is_direct (final_spec (path_request p) (build_evidence_locked p snap))"
    using evaluate_outcome(2) [OF d [unfolded evaluate_path_def]] assms(4) pd by (simp add: plan_describes_def)
  then have 1: "list_all fst (requirements (path_request p) (build_evidence_locked p snap))"
    by (simp add: final_spec_direct_iff direct_spec_direct_iff list_all_iff)
  obtain r where r: "umap_find (st_registrations s) (id_value (tp_registration_id plan)) = Some r"
    "r_state r = RegistrationState.REGISTERED" "r_buffer r = tp_source plan" "r_endpoint r = tp_destination plan"
    by (rule plan_transfer_registration [OF wf assms(3,4)])
  note fresh = state_wf_registered [OF wf r(1,2)]
  have bufs: "buffers_wf (length ops) (st_next_id s) (st_buffers s)"
    and eps: "endpoints_wf (length ops) (st_next_id s) (st_endpoints s)"
    using wf by (simp_all add: state_wf_def)
  have "umap_find (st_buffers s) (id_value (tp_source plan)) = Some src"
      "umap_find (st_endpoints s) (id_value (tp_destination plan)) = Some dst"
    using plan_guards_ok(1,2) [OF g] pd buffers_wf_find(1) [OF bufs plan_guards_ok(1) [OF g]]
      endpoints_wf_find(1) [OF eps plan_guards_ok(2) [OF g]]
    by (simp_all add: plan_describes_def)
  with 1 r fresh pd show ?thesis
    by (auto simp: registration_fresh_def plan_describes_def)
qed

theorem direct_plan_sound_witness:
  "\<exists>r. umap_find (st_registrations demo_state) 1 = Some r \<and> r_state r = RegistrationState.REGISTERED \<and>
     r_buffer r = Id 6 \<and> r_endpoint r = Id 4"
proof -
  have "is_direct (tp_eligibility demo_plan)" by (simp add: demo_plan_def)
  from direct_plan_sound [OF demo_lengths(1) demo_run [symmetric] demo_plan_transfer this]
  show ?thesis by (auto simp: demo_plan_def)
qed

lemma admitted_destination:
  assumes "evaluate_path p s = ok d"
    and "is_direct (pd_eligibility d) \<or> pd_eligibility d = PathEligibility.FALLBACK_REQUIRED"
  shows "umap_find (st_endpoints s) (id_value (prp_destination p)) \<noteq> None"
proof
  assume none: "umap_find (st_endpoints s) (id_value (prp_destination p)) = None"
  let ?req = "path_request p" and ?ev = "build_evidence_locked p s"
  have "ev_destination ?ev = default_EndpointRecord" by (simp add: build_evidence_locked_def Let_def none)
  then have dest: "\<not> id_valid (e_id (ev_destination ?ev))" by (simp add: default_EndpointRecord_def id_valid_def)
  note ev = assms(1) [unfolded evaluate_path_def]
  have "is_direct (direct_spec ?req ?ev) \<or> dest_usable ?ev"
    using assms(2) evaluate_outcome(2) [OF ev] final_spec_direct_iff [of ?req ?ev] final_spec_fallback [of ?req ?ev] by auto
  then show False
    using dest unfolding direct_spec_direct_iff by (auto simp: requirements_def Let_def dest_usable_def)
qed

text \<open>
  C16: Planning succeeds whenever the evaluation admits the request and the source buffer exists: without
  interference between snapshot and commit, and below the plan limit, \<open>plan_transfer\<close> returns an
  authoritative plan with the decided eligibility exactly when the decision is a direct path or an
  available fallback; otherwise it returns the error of the eligibility and leaves the state alone. A
  request that names a buffer the coordinator does not know may be admitted as a fallback all the same;
  \<open>plan_transfer\<close> then refuses it with STALE_BUFFER and leaves the state alone.
\<close>

theorem plan_transfer_complete:
  assumes "length ops \<le> op_limit" and "s = run ops (make_coordinator epoch)"
    and "length (st_plans s) < unat (st_max_plans s)"
  shows "\<exists>d. evaluate_path p s = ok d \<and>
    (if is_direct (pd_eligibility d) \<or> pd_eligibility d = PathEligibility.FALLBACK_REQUIRED
     then if umap_find (st_buffers s) (id_value (prp_source p)) = None
       then plan_transfer p s s = (err ErrorCode.STALE_BUFFER ''source buffer disappeared'', s)
       else \<exists>plan s'. plan_transfer p s s = (ok plan, s') \<and> tp_eligibility plan = pd_eligibility d \<and>
         tp_authoritative plan \<and> umap_find (st_plans s') (id_value (tp_id plan)) = Some plan
     else plan_transfer p s s = (err (error_for_eligibility (pd_eligibility d)) (pd_direct_rejection d), s))"
proof -
  have wf: "state_wf (length ops) s" using run_wf [OF assms(1), of epoch] assms(2) by simp
  obtain d where d: "evaluate_path p s = ok d" using evaluate_path_ok by blast
  note ev = d [unfolded evaluate_path_def]
  have adm: "plan_admitted d \<longleftrightarrow> is_direct (pd_eligibility d) \<or> pd_eligibility d = PathEligibility.FALLBACK_REQUIRED"
    using evaluate_fallback(1) [OF ev] by (auto simp: plan_admitted_def is_direct_def)
  show ?thesis
  proof (cases "plan_admitted d \<and> umap_find (st_buffers s) (id_value (prp_source p)) \<noteq> None")
    case False
    then show ?thesis
      using d adm assms(3)
      by (auto simp: plan_transfer_def ok_def plan_commit_def plan_guards_def err_def)
  next
    case True
    then obtain src dst where src: "umap_find (st_buffers s) (id_value (prp_source p)) = Some src"
      and dst: "umap_find (st_endpoints s) (id_value (prp_destination p)) = Some dst"
      using admitted_destination [OF d] adm by auto
    have ids: "b_id src = prp_source p" "e_id dst = prp_destination p"
      using buffers_wf_find(1) [OF _ src] endpoints_wf_find(1) [OF _ dst] wf
      by (auto simp: state_wf_def id_value_eq_iff)
    have evd: "ev_source (build_evidence_locked p s) = src" "ev_destination (build_evidence_locked p s) = dst"
        "ev_registrations (build_evidence_locked p s) = umap_values (st_registrations s)"
      by (simp_all add: build_evidence_locked_def Let_def src dst)
    have gens: "b_generation src = pd_source_generation d" "e_generation dst = pd_destination_generation d"
      using evaluate_base(2,3) [OF ev] evd by simp_all
    have "plan_registration src dst s \<noteq> None" if "is_direct (pd_eligibility d)"
    proof -
      have "is_direct (direct_spec (path_request p) (build_evidence_locked p s))"
        using that evaluate_outcome(2) [OF ev] final_spec_direct_iff by simp
      then obtain r where "registration_current (build_evidence_locked p s) r"
          "r \<in> set (umap_values (st_registrations s))" "r_buffer r = b_id src" "r_endpoint r = e_id dst"
        by (rule direct_registration) (use evd in simp)
      then show ?thesis
        unfolding plan_registration_def latest_by_None registration_current_def by blast
    qed
    then have g: "plan_guards p d s = ok (src, dst, plan_registration src dst s)"
      using assms(3) src dst gens by (simp add: plan_guards_def Let_def decision_direct_iff)
    obtain plan s' where b: "plan_build p d src dst (plan_registration src dst s) s = (plan, s')" by fastforce
    have facts: "plan_describes p d s src dst (plan_registration src dst s) plan \<and>
        umap_find (st_plans s') (st_next_id s + 1) = Some plan"
      using b by (cases rule: plan_build_cases [of d p s src dst "plan_registration src dst s"]) auto
    have "plan_commit p d s = (ok plan, s')" using g b by (simp add: plan_commit_def ok_def)
    with d adm facts True show ?thesis
      by (auto simp: plan_transfer_def ok_def plan_describes_def)
  qed
qed

theorem plan_transfer_complete_witness:
  "\<exists>plan s'. plan_transfer demo_request demo_state demo_state = (ok plan, s') \<and> tp_authoritative plan"
proof -
  have "length (st_plans demo_state) < unat (st_max_plans demo_state)" by (simp add: demo_state_def)
  from plan_transfer_complete [OF demo_lengths(1) demo_run [symmetric] this, of demo_request] demo_plan_transfer
  show ?thesis by (auto simp: err_def ok_def split: if_splits)
qed

end
