(* ===== verification/Guarantees_Transfers.thy ===== *)
theory Guarantees_Transfers
  imports Guarantees
begin

text \<open>
  Guarantees of the transfer lifecycle: what beginning a transfer checks, that a cancelled transfer
  never completes, that a committed receipt is final, and what a completed receipt certifies.
\<close>

section \<open>Beginning\<close>

text \<open>
  C4: A transfer begins, in whatever state, only against a plan that is still authoritative and of the
  current epoch, with the source buffer and the destination endpoint there and at the plan's
  generations, with the plan's registration, if it names one, still REGISTERED at the planned
  generation, below the limit on attempts and, for a worker, under a live authority that is the plan's
  if a worker owns the plan. The new attempt carries the plan's identity and byte count, is stored, is in
  flight or failed, and is not committed. In a state reached by operations of the coordinator, a direct
  plan does name a registration and its source is active, and the identity of the attempt is fresh.
\<close>

theorem begin_transfer_sound:
  assumes "begin_transfer i au be s = (ok a, s', be')"
  shows "\<exists>plan src dst. umap_find (st_plans s) (id_value i) = Some plan \<and> tp_authoritative plan \<and>
      tp_epoch plan = st_epoch s \<and>
      umap_find (st_buffers s) (id_value (tp_source plan)) = Some src \<and>
      b_generation src = tp_source_generation plan \<and>
      umap_find (st_endpoints s) (id_value (tp_destination plan)) = Some dst \<and>
      e_generation dst = tp_destination_generation plan \<and>
      (id_valid (tp_registration_id plan) \<longrightarrow>
        (\<exists>r. umap_find (st_registrations s) (id_value (tp_registration_id plan)) = Some r \<and>
          r_generation r = tp_registration_generation plan \<and> r_state r = RegistrationState.REGISTERED)) \<and>
      (worker_owned au \<longrightarrow> worker_live_locked au s \<and>
        (worker_owned (tp_authority plan) \<longrightarrow> au = tp_authority plan)) \<and>
      length (st_attempts s) < unat (st_max_attempts s) \<and>
      umap_find (st_attempts s') (id_value (ta_id a)) = Some a \<and> ta_plan_id a = tp_id plan \<and>
      ta_submitted_bytes a = tp_expected_bytes plan \<and> \<not> ta_completion_committed a \<and>
      ta_state a \<in> {TransferState.IN_FLIGHT, TransferState.FAILED} \<and>
      (\<forall>(ops :: 'b coord_op list) epoch. length ops < op_limit \<and> s = run ops (make_coordinator epoch) \<longrightarrow>
        (is_direct (tp_eligibility plan) \<longrightarrow>
          id_valid (tp_registration_id plan) \<and> b_lifecycle src = BufferLifecycle.ACTIVE) \<and>
        umap_find (st_attempts s) (id_value (ta_id a)) = None \<and> ta_plan_id a = i)"
proof (cases rule: begin_transfer_cases [of i au be s])
  case (rejected e)
  with assms show ?thesis by (simp add: ok_def)
next
  case (begun plan src a' be'')
  have [simp]: "a' = a" "s' = s\<lparr>st_next_id := st_next_id s + 1,
       st_attempts := umap_put (st_next_id s + 1) a (st_attempts s)\<rparr>"
    using begun(3) assms by auto
  note g = begin_guards_ok [OF begun(1)]
  obtain dst where dst: "umap_find (st_endpoints s) (id_value (tp_destination plan)) = Some dst"
    "e_generation dst = tp_destination_generation plan" using g(9) by blast
  have reached: "(is_direct (tp_eligibility plan) \<longrightarrow>
          id_valid (tp_registration_id plan) \<and> b_lifecycle src = BufferLifecycle.ACTIVE) \<and>
        umap_find (st_attempts s) (id_value (ta_id a)) = None \<and> ta_plan_id a = i"
    if "length ops < op_limit" "s = run ops (make_coordinator epoch)" for ops :: "'b coord_op list" and epoch
  proof -
    have wf: "state_wf (length ops) s" using run_wf [of ops epoch] that by simp
    note plan = state_wf_plan [OF wf g(1)]
    have maps: "counters_wf (length ops) (st_next_id s)"
        "transfers_wf (st_next_id s) (st_plans s) (st_attempts s) (st_receipts s)"
      using wf by (simp_all add: state_wf_def)
    have "umap_find (st_attempts s) (st_next_id s + 1) = None"
      by (rule transfers_wf_receipt_fresh(2) [OF maps(2) counters_room(1) [OF maps(1) that(1)]])
    moreover have "b_lifecycle src = BufferLifecycle.ACTIVE \<and> id_valid (tp_registration_id plan)"
      if "is_direct (tp_eligibility plan)"
      using that plan(2,3) g(2,7) by (auto simp: plan_fresh_def plan_shape_def)
    moreover have "tp_id plan = i" using plan(1) by (simp add: id_value_eq_iff)
    ultimately show ?thesis using begun(2) by (auto simp: attempt_begun_def)
  qed
  show ?thesis
    using g dst begun(2) reached
    by (intro exI [of _ plan] exI [of _ src] exI [of _ dst]) (auto simp: attempt_begun_def)
qed

theorem begin_transfer_sound_witness:
  "\<exists>plan dst. umap_find (st_plans demo_planned) 7 = Some plan \<and> tp_authoritative plan \<and>
     umap_find (st_endpoints demo_planned) (id_value (tp_destination plan)) = Some dst \<and>
     e_generation dst = tp_destination_generation plan \<and>
     umap_find (st_attempts demo_begun) 9 = Some demo_attempt \<and> umap_find (st_attempts demo_planned) 9 = None"
proof -
  obtain be' where "begin_transfer (Id 7) demo_authority demo_backend demo_planned = (ok demo_attempt, demo_begun, be')"
    using demo_begin_attempt demo_begin_state by (metis prod.collapse)
  from begin_transfer_sound [OF this]
  obtain plan dst where p: "umap_find (st_plans demo_planned) 7 = Some plan" "tp_authoritative plan"
      "umap_find (st_endpoints demo_planned) (id_value (tp_destination plan)) = Some dst"
      "e_generation dst = tp_destination_generation plan"
      "umap_find (st_attempts demo_begun) (id_value (ta_id demo_attempt)) = Some demo_attempt"
    and fresh: "length demo_plan_ops < op_limit \<and> demo_planned = run demo_plan_ops (make_coordinator demo_epoch) \<longrightarrow>
      umap_find (st_attempts demo_planned) (id_value (ta_id demo_attempt)) = None"
    by fastforce
  have "ta_id demo_attempt = Id 9" by (simp add: demo_attempt_def)
  with p fresh demo_lengths(6) demo_runs(1) show ?thesis by auto
qed

section \<open>Cancelling and completing\<close>

lemma complete_after_close:
  assumes "umap_find (st_attempts t) (id_value i) = Some a"
  shows "ta_state a = TransferState.CANCELLED \<Longrightarrow> \<not> ta_completion_committed a \<Longrightarrow>
      complete_transfer i au t = (err ErrorCode.CANCELLED ''cannot complete a cancelled transfer'', t)"
    and "ta_completion_committed a \<Longrightarrow> umap_find (st_receipts t) (id_value i) = Some r \<Longrightarrow>
      complete_transfer i au t = (ok r, t)"
    and "ta_completion_committed a \<Longrightarrow>
      cancel_transfer i au t = (err ErrorCode.CANCELLED ''cannot cancel an already completed transfer'', t)"
  using assms by (auto simp: complete_transfer_def cancel_transfer_def Let_def)

lemma cancel_transfer_ok:
  assumes "cancel_transfer i au s = (ok r, s')"
  obtains a where "umap_find (st_attempts s') (id_value i) = Some a" "ta_state a = TransferState.CANCELLED"
    "\<not> ta_completion_committed a" "tr_state r = TransferState.CANCELLED"
  using assms by (auto simp: cancel_transfer_def Let_def make_receipt_def split: option.splits if_splits)

text \<open>
  C19: A cancelled transfer never completes: after a successful cancellation, whatever operations
  follow, the attempt stays CANCELLED and every attempt to complete it is refused with CANCELLED and
  changes nothing.
\<close>

theorem cancelled_never_completes:
  assumes "length ops + 1 + length later \<le> op_limit" and "s = run ops (make_coordinator epoch)"
    and "cancel_transfer i au s = (ok r, s')" and "t = run later s'"
  shows "complete_transfer i au' t = (err ErrorCode.CANCELLED ''cannot complete a cancelled transfer'', t) \<and>
    (\<exists>a. umap_find (st_attempts t) (id_value i) = Some a \<and> ta_state a = TransferState.CANCELLED)"
proof -
  have wf: "state_wf (length ops) s" using run_wf [of ops epoch] assms(1,2) by simp
  have "state_wf (Suc (length ops)) s'"
    using cancel_transfer_wf [OF wf, of i au] assms(1,3) by simp
  then have prog: "progress s' t" using run_progress [of "Suc (length ops)" s' later] assms(1,4) by simp
  obtain a where a: "umap_find (st_attempts s') (id_value i) = Some a" "ta_state a = TransferState.CANCELLED"
    "\<not> ta_completion_committed a" by (rule cancel_transfer_ok [OF assms(3)])
  have "umap_find (st_attempts t) (id_value i) = Some a" by (rule progress_attempt [OF prog a(1)]) (simp add: a)
  with a complete_after_close(1) [OF this] show ?thesis by blast
qed

theorem cancelled_never_completes_witness:
  "fst (complete_transfer (Id 9) demo_authority
     (run [Advance_epoch :: SyntheticBackend coord_op] (snd (cancel_transfer (Id 9) demo_authority demo_begun)))) =
     err ErrorCode.CANCELLED ''cannot complete a cancelled transfer''"
proof -
  have "length demo_begin_ops + 1 + length [Advance_epoch :: SyntheticBackend coord_op] \<le> op_limit"
    by (simp add: demo_begin_ops_def demo_plan_ops_def demo_ops_def op_limit_def)
  from cancelled_never_completes [OF this demo_runs(2) [symmetric] demo_cancel refl]
  show ?thesis by (simp add: demo_cancel)
qed

text \<open>
  C20: Completion is final and idempotent: once an attempt is committed its receipt never changes,
  whatever operations follow; completing it again, under any authority, returns that receipt and
  changes nothing, and cancelling it is refused.
\<close>

theorem committed_receipt_final:
  assumes "length ops + length later \<le> op_limit" and "s = run ops (make_coordinator epoch)"
    and "umap_find (st_attempts s) (id_value i) = Some a" and "ta_completion_committed a"
    and "t = run later s"
  shows "\<exists>r. umap_find (st_receipts s) (id_value i) = Some r \<and> tr_state r = ta_state a \<and>
    umap_find (st_receipts t) (id_value i) = Some r \<and> complete_transfer i au t = (ok r, t) \<and>
    cancel_transfer i au t = (err ErrorCode.CANCELLED ''cannot cancel an already completed transfer'', t)"
proof -
  have wf: "state_wf (length ops) s" using run_wf [of ops epoch] assms(1,2) by simp
  have prog: "progress s t" using run_progress [OF wf, of later] assms(1,5) by simp
  obtain r where r: "umap_find (st_receipts s) (id_value i) = Some r"
    using state_wf_attempt(1) [OF wf assms(3)] assms(4) by (auto simp: attempt_wf_def)
  obtain a' where "umap_find (st_attempts s) (id_value i) = Some a'" "receipt_matches r a'"
    by (rule state_wf_receipt [OF wf r])
  with assms(3) have "tr_state r = ta_state a" by (simp add: receipt_matches_def)
  moreover have a': "umap_find (st_attempts t) (id_value i) = Some a"
    by (rule progress_attempt [OF prog assms(3)]) (simp add: assms(4))
  moreover have "umap_find (st_receipts t) (id_value i) = Some r"
    by (rule progress_receipt [OF prog r assms(3,4)])
  ultimately show ?thesis
    using r complete_after_close(2,3) [OF a' assms(4)] by blast
qed

theorem committed_receipt_final_witness:
  "complete_transfer (Id 9) coordinator_authority
     (run [Advance_epoch :: SyntheticBackend coord_op] demo_completed) =
   (ok demo_receipt, run [Advance_epoch :: SyntheticBackend coord_op] demo_completed)"
proof -
  have len: "length demo_complete_ops + length [Advance_epoch :: SyntheticBackend coord_op] \<le> op_limit"
    by (simp add: demo_complete_ops_def demo_begin_ops_def demo_plan_ops_def demo_ops_def op_limit_def)
  have "umap_find (st_attempts demo_completed) (id_value (Id 9)) = Some demo_closed_attempt"
      "ta_completion_committed demo_closed_attempt"
    by (simp_all add: demo_completed_def demo_closed_attempt_def)
  from committed_receipt_final [OF len demo_runs(3) [symmetric] this refl]
  show ?thesis by (auto simp: demo_completed_def)
qed

text \<open>
  C6: A receipt that says COMPLETED certifies it: its attempt is committed, moved exactly the bytes
  submitted (or none were submitted), failed no integrity check, and the receipt reports the
  attempt's bytes, epoch and support and claims integrity only where it was checked.
\<close>

theorem completed_receipt_certifies:
  assumes "length ops \<le> op_limit" and "s = run ops (make_coordinator epoch)"
    and "umap_find (st_receipts s) k = Some r" and "tr_state r = TransferState.COMPLETED"
  shows "\<exists>a. umap_find (st_attempts s) k = Some a \<and> ta_state a = TransferState.COMPLETED \<and>
    ta_completion_committed a \<and> (ta_submitted_bytes a = 0 \<or> ta_bytes a = ta_submitted_bytes a) \<and>
    (ta_integrity_checked a \<longrightarrow> ta_integrity_passed a) \<and> tr_attempt_id r = ta_id a \<and>
    tr_bytes r = ta_bytes a \<and> tr_epoch r = ta_epoch a \<and> tr_support r = ta_support a \<and>
    (tr_integrity_verified r \<longrightarrow> ta_integrity_checked a \<and> ta_integrity_passed a) \<and>
    umap_find (st_plans s) (id_value (ta_plan_id a)) \<noteq> None"
proof -
  have wf: "state_wf (length ops) s" using run_wf [of ops epoch] assms(1,2) by simp
  obtain a where a: "umap_find (st_attempts s) k = Some a" "receipt_matches r a"
    by (rule state_wf_receipt [OF wf assms(3)])
  with state_wf_attempt(1) [OF wf a(1)] assms(4) show ?thesis
    by (intro exI [of _ a]) (simp add: attempt_wf_def receipt_matches_def)
qed

theorem completed_receipt_certifies_witness:
  "\<exists>a. umap_find (st_attempts demo_completed) 9 = Some a \<and> ta_bytes a = tr_bytes demo_receipt \<and>
     ta_integrity_passed a"
proof -
  have "umap_find (st_receipts demo_completed) 9 = Some demo_receipt" "tr_state demo_receipt = TransferState.COMPLETED"
    by (simp_all add: demo_completed_def demo_receipt_def)
  from completed_receipt_certifies [OF demo_lengths(4) demo_runs(3) [symmetric] this]
  show ?thesis by (auto simp: demo_receipt_def)
qed

text \<open>
  C39: With a backend that is not corrupting, a transfer that begins completes: completing it next,
  under the same authority, yields a COMPLETED receipt with verified integrity for all the planned
  bytes and records a passed verification; with a corrupting backend the attempt is FAILED at once
  and completing it yields a FAILED receipt.
\<close>

theorem synthetic_transfer_outcome:
  assumes "length ops < op_limit" and "s = run ops (make_coordinator epoch)"
    and "begin_transfer i au (Some (synthetic_vtable, b)) s = (ok a, s', be')"
  shows "\<exists>r t. complete_transfer (ta_id a) au s' = (ok r, t) \<and>
    umap_find (st_receipts t) (id_value (ta_id a)) = Some r \<and> tr_support r = Support.SYNTHETIC \<and>
    (if sy_corrupt b then ta_state a = TransferState.FAILED \<and> tr_state r = TransferState.FAILED
     else tr_state r = TransferState.COMPLETED \<and> tr_integrity_verified r \<and>
       tr_bytes r = ta_submitted_bytes a \<and>
       (\<exists>v. umap_find (st_verifications t) (st_next_id t) = Some v \<and> vr_passed v \<and>
            vr_attempt_id v = ta_id a \<and> vr_bytes_checked v = ta_submitted_bytes a))"
proof -
  have wf: "state_wf (length ops) s" using run_wf [of ops epoch] assms(1,2) by simp
  show ?thesis
  proof (cases rule: begin_transfer_cases [of i au "Some (synthetic_vtable, b)" s])
    case (rejected e)
    with assms(3) show ?thesis by (simp add: ok_def)
  next
    case (begun plan src a' be'')
    note g = begin_guards_ok [OF begun(1)]
    have s': "s' = s\<lparr>st_next_id := st_next_id s + 1,
         st_attempts := umap_put (st_next_id s + 1) a (st_attempts s)\<rparr>" and "a' = a"
      using begun(3) assms(3) by auto
    have a: "a = apply_outcome (fst (synthetic_run_transfer (transfer_run plan src) b))
        (new_attempt plan au (st_next_id s + 1) (st_epoch s))"
      using begun(5) \<open>a' = a\<close> by (simp add: synthetic_vtable_def)
    have id: "ta_id a = Id (st_next_id s + 1)" using begun(2) \<open>a' = a\<close> by (simp add: attempt_begun_def)
    have maps: "counters_wf (length ops) (st_next_id s)"
        "transfers_wf (st_next_id s) (st_plans s) (st_attempts s) (st_receipts s)"
      using wf by (simp_all add: state_wf_def)
    have rc: "umap_find (st_receipts s) (st_next_id s + 1) = None"
      by (rule transfers_wf_receipt_fresh(1) [OF maps(2) counters_room(1) [OF maps(1) assms(1)]])
    have pl: "umap_find (st_plans s) (id_value (tp_id plan)) = Some plan" "tp_authoritative plan"
      using g(1,2) state_wf_plan(1) [OF wf g(1)] by simp_all
    have live: "worker_owned au \<longrightarrow> worker_live_locked au s'"
      using g(4) by (auto simp: worker_live_locked_def s')
    have facts: "ta_state a = (if sy_corrupt b then TransferState.FAILED else TransferState.IN_FLIGHT)"
        "ta_bytes a = ta_submitted_bytes a" "ta_integrity_checked a" "ta_integrity_passed a \<longleftrightarrow> \<not> sy_corrupt b"
        "ta_support a = Support.SYNTHETIC" "\<not> ta_completion_committed a" "ta_authority a = au" "ta_plan_id a = tp_id plan"
      by (simp_all add: a apply_outcome_def ok_def synthetic_run_transfer_def new_attempt_def Let_def
          transfer_run_def default_TransferAttempt_def)
    show ?thesis
      using rc pl live id facts
      by (cases "sy_corrupt b")
         (auto simp: complete_transfer_def complete_commit_def Let_def s' make_receipt_def
            record_verification_def next_id_locked_def attempt_verification_def)
  qed
qed

theorem synthetic_transfer_outcome_witness:
  "\<exists>r t. complete_transfer (ta_id demo_attempt) demo_authority demo_begun = (ok r, t) \<and>
     tr_state r = TransferState.COMPLETED"
proof -
  obtain be' where "begin_transfer (Id 7) demo_authority (Some (synthetic_vtable, default_SyntheticBackend))
      demo_planned = (ok demo_attempt, demo_begun, be')"
    using demo_begin_attempt demo_begin_state unfolding demo_backend_def by (metis prod.collapse)
  from synthetic_transfer_outcome [OF demo_lengths(6) demo_runs(1) [symmetric] this]
  show ?thesis by (auto simp: default_SyntheticBackend_def)
qed

end
