(* ===== verification/Guarantees_Fencing.thy ===== *)
theory Guarantees_Fencing
  imports Guarantees
begin

text \<open>
  Fencing: what a coordinator restart (epoch advance) and a worker's death take away for good, who may
  change a worker-owned record, and how repeated or stale (de)registrations are treated.
\<close>

section \<open>Epochs\<close>

text \<open>
  C5: Advancing the epoch fences everything that came before: no registration stays REGISTERED and
  no worker authority is live any more; and whatever operations follow, no plan made before can be
  begun, and no transfer still in flight against such a plan can be completed.
\<close>

theorem epoch_advance_fences:
  assumes "length ops + 1 + length later \<le> op_limit" and "s = run ops (make_coordinator epoch)"
    and "advance_epoch s = (res, s')" and "t = run later s'"
    and "umap_find (st_plans s) k = Some p"
  shows "list_all (\<lambda>r. r_state r \<noteq> RegistrationState.REGISTERED) (umap_values (st_registrations s')) \<and>
    (\<forall>a. worker_owned a \<longrightarrow> \<not> worker_live_locked a s') \<and>
    begin_transfer (Id k) au be t = (err ErrorCode.STALE_GENERATION ''transfer plan is superseded'', t, be) \<and>
    (\<forall>i a. umap_find (st_attempts t) (id_value i) = Some a \<longrightarrow> ta_plan_id a = Id k \<longrightarrow>
       ta_state a = TransferState.IN_FLIGHT \<longrightarrow> complete_transfer i au t \<noteq> (ok x, y))"
proof -
  have wf: "state_wf (length ops) s" using run_wf [of ops epoch] assms(1,2) by simp
  have s': "s' = snd (advance_epoch s)" using assms(3) by simp
  have wf': "state_wf (Suc (length ops)) s'" using advance_epoch_wf [OF wf] assms(1) s' by simp
  then have prog: "progress s' t" using run_progress [of "Suc (length ops)" s' later] assms(1,4) by simp
  have wft: "state_wf (Suc (length ops) + length later) t"
    using run_progress [OF wf', of later] assms(1,4) by simp
  have "umap_find (st_plans s') k = Some (p\<lparr>tp_authoritative := False\<rparr>)"
    using assms(5) by (simp add: s' advance_epoch_def)
  from progress_superseded [OF prog this] obtain p' where
    p': "umap_find (st_plans t) k = Some p'" "\<not> tp_authoritative p'" by auto
  have 1: "begin_transfer (Id k) au be t = (err ErrorCode.STALE_GENERATION ''transfer plan is superseded'', t, be)"
    using p' by (simp add: begin_transfer_def begin_guards_def err_def)
  have 2: "complete_transfer i au t \<noteq> (ok x, y)"
    if "umap_find (st_attempts t) (id_value i) = Some a" "ta_plan_id a = Id k"
      "ta_state a = TransferState.IN_FLIGHT" for i a
  proof -
    have "\<not> ta_completion_committed a"
      using state_wf_attempt(1) [OF wft that(1)] that(3) by (auto simp: attempt_wf_def)
    with that p' show ?thesis by (simp add: complete_transfer_def Let_def)
  qed
  have 3: "list_all (\<lambda>r. r_state r \<noteq> RegistrationState.REGISTERED) (umap_values (st_registrations s'))"
    by (auto simp: s' advance_epoch_def list_all_iff umap_map_def split: if_splits)
  have 4: "\<not> worker_live_locked a s'" if "worker_owned a" for a
    using that by (simp add: s' advance_epoch_def worker_live_locked_def)
  show ?thesis using 1 2 3 4 by blast
qed

theorem epoch_advance_fences_witness:
  "begin_transfer (Id 7) demo_authority (None :: SyntheticBackend Backend_ptr) (snd (advance_epoch demo_planned)) =
     (err ErrorCode.STALE_GENERATION ''transfer plan is superseded'', snd (advance_epoch demo_planned), None)"
proof -
  have len: "length demo_plan_ops + 1 + length ([] :: SyntheticBackend coord_op list) \<le> op_limit"
    by (simp add: demo_plan_ops_def demo_ops_def op_limit_def)
  have plan: "umap_find (st_plans demo_planned) 7 = Some demo_plan" by (simp add: demo_planned_def)
  have adv: "advance_epoch demo_planned = (fst (advance_epoch demo_planned), snd (advance_epoch demo_planned))" by simp
  from epoch_advance_fences [OF len demo_runs(1) [symmetric] adv refl plan,
      of demo_authority "None :: SyntheticBackend Backend_ptr"]
  show ?thesis by (simp add: run_def)
qed

section \<open>Workers\<close>

text \<open>A worker that is not live, or live at a boot id above a bound that its fence has reached.\<close>

definition fenced :: "WorkerId \<Rightarrow> u64 \<Rightarrow> State \<Rightarrow> bool" where
  "fenced w b s \<longleftrightarrow> b \<le> prev_max_boot w s \<and>
     (case umap_find (st_workers s) (id_value w) of None \<Rightarrow> True | Some x \<Rightarrow> b < gen_value (snd x))"

lemma fenced_frame:
  "fenced w b s \<Longrightarrow> st_workers s' = st_workers s \<Longrightarrow> st_worker_max_boot s' = st_worker_max_boot s \<Longrightarrow>
   fenced w b s'"
  by (simp add: fenced_def prev_max_boot_def)

lemma fenced_register_worker:
  assumes "fenced w b s" and "b \<noteq> 0" and ws: "workers_wf (st_workers s) (st_worker_max_boot s)"
  shows "fenced w b (snd (register_worker w' b' e s))"
proof (cases rule: register_worker_cases [of w' b' e s])
  case (accepted x)
  show ?thesis
  proof (cases "w' = w")
    case True
    have "b < gen_value b'"
    proof (cases "umap_find (st_workers s) (id_value w)")
      case None
      then have "prev_max_boot w s = 0 \<or> prev_max_boot w s < gen_value b'" using accepted(5) True by simp
      moreover have "b \<le> prev_max_boot w s" using assms(1) by (simp add: fenced_def)
      ultimately show ?thesis using assms(2) by auto
    next
      case (Some y)
      have "prev_max_boot w s = gen_value (snd y)"
        using workers_wf_find(3) [OF ws Some] by (simp add: prev_max_boot_def)
      moreover have "b < gen_value (snd y)" using assms(1) Some by (simp add: fenced_def)
      ultimately show ?thesis using accepted(4) True by simp
    qed
    then show ?thesis by (simp add: fenced_def prev_max_boot_def accepted(1) [unfolded True] True)
  next
    case False
    then show ?thesis
      using assms(1) by (simp add: fenced_def prev_max_boot_def accepted(1) id_value_eq_iff)
  qed
qed (use assms in simp_all)

lemma workers_frame:
  "st_workers (set_limits a b c d e s) = st_workers s" "st_workers (snd (create_buffer cb s)) = st_workers s"
  "st_workers (snd (advance_buffer_generation bi au s)) = st_workers s"
  "st_workers (snd (retire_buffer bi au s)) = st_workers s" "st_workers (snd (add_device dp s)) = st_workers s"
  "st_workers (snd (add_endpoint ep s)) = st_workers s"
  "st_workers (snd (advance_endpoint_generation ei au s)) = st_workers s"
  "st_workers (snd (set_endpoint_health ei h au s)) = st_workers s" "st_workers (snd (add_nic nr s)) = st_workers s"
  "st_workers (snd (add_storage_endpoint sr s)) = st_workers s" "st_workers (snd (add_provider pp s)) = st_workers s"
  "st_workers (snd (publish_capability cp s)) = st_workers s"
  "st_workers (snd (revoke_capability pr ca au s)) = st_workers s"
  "st_workers (snd (deregister_buffer ri au s)) = st_workers s"
  "st_workers (snd (complete_transfer ti au s)) = st_workers s"
  "st_workers (snd (cancel_transfer ti au s)) = st_workers s"
  "st_workers (snd (verify_transfer ti v n s)) = st_workers s"
  by (auto simp: set_limits_def create_buffer_def advance_buffer_generation_def retire_buffer_def
      invalidate_buffer_dependents_locked_def add_device_def add_endpoint_def
      advance_endpoint_generation_def invalidate_endpoint_dependents_locked_def set_endpoint_health_def
      add_nic_def add_storage_endpoint_def add_provider_def publish_capability_def revoke_capability_def
      deregister_buffer_def deregister_commit_def complete_transfer_def complete_commit_def
      record_verification_frame cancel_transfer_def verify_transfer_def counter_defs split: option.splits)

lemma workers_frame_calls:
  "st_workers (fst (snd (register_buffer p be s))) = st_workers s"
  "st_workers (snd (plan_transfer q snap s)) = st_workers s"
  "st_workers (fst (snd (begin_transfer i au be s))) = st_workers s"
proof -
  show "st_workers (fst (snd (register_buffer p be s))) = st_workers s"
    by (cases rule: register_buffer_cases [of p be s])
       (auto simp: Let_def case_prod_beta register_commit_def counter_defs retire_deregistering_def
          split: option.splits)
  show "st_workers (fst (snd (begin_transfer i au be s))) = st_workers s"
    by (cases rule: begin_transfer_cases [of i au be s]) auto
  have "st_workers (snd (plan_build q d src dst reg s)) = st_workers s" for d src dst reg
    by (cases rule: plan_build_cases [of d q s src dst reg]) auto
  then show "st_workers (snd (plan_transfer q snap s)) = st_workers s"
    by (auto simp: plan_transfer_def plan_commit_def case_prod_beta split: sum.splits)
qed

lemmas workers_frames = workers_frame workers_frame_calls

lemma fenced_step:
  assumes wf: "state_wf n s" and n: "n < op_limit" and f: "fenced w b s" and "b \<noteq> 0"
  shows "fenced w b (step x s)"
proof -
  have ws: "workers_wf (st_workers s) (st_worker_max_boot s)" using wf by (simp add: state_wf_def)
  have "prev_max_boot w s \<le> prev_max_boot w (step x s)"
    by (rule progress_max_boot [OF step_progress [OF wf n]])
  then have up: "b \<le> prev_max_boot w (step x s)" using f by (auto simp: fenced_def intro: order_trans)
  have same: ?thesis if "st_workers (step x s) = st_workers s"
    using that up f by (simp add: fenced_def)
  show ?thesis
  proof (cases x)
    case (Register_worker w' b' e)
    then show ?thesis using fenced_register_worker [OF f assms(4) ws, of w' b' e] by simp
  next
    case (Mark_worker_dead w')
    then show ?thesis
      using up f by (auto simp: fenced_def mark_worker_dead_def split: option.splits)
  next
    case Advance_epoch
    then show ?thesis using up by (simp add: fenced_def advance_epoch_def)
  qed (rule same, simp add: workers_frames)+
qed

lemma fenced_run:
  "state_wf n s \<Longrightarrow> n + length ops \<le> op_limit \<Longrightarrow> fenced w b s \<Longrightarrow> b \<noteq> 0 \<Longrightarrow> fenced w b (run ops s)"
proof (induction ops arbitrary: n s)
  case Nil
  then show ?case by (simp add: run_def)
next
  case (Cons x ops)
  then have "state_wf (Suc n) (step x s)" "fenced w b (step x s)"
    using step_wf [of n s x] fenced_step [of n s w b x] by simp_all
  with Cons.IH [of "Suc n" "step x s"] Cons.prems show ?case by (simp add: run_def)
qed

text \<open>
  C15: A worker's death is final for that incarnation: once a worker that was live at a (nonzero) boot
  id is marked dead, none of its registrations stays REGISTERED, and whatever operations follow, no
  authority of that boot id or an earlier one is ever live again, in no epoch; the worker returns only
  under a strictly newer boot id.
\<close>

theorem dead_worker_stays_fenced:
  assumes "length ops + 1 + length later \<le> op_limit" and "s = run ops (make_coordinator epoch)"
    and "umap_find (st_workers s) (id_value w) = Some (w', b)" and "gen_value b \<noteq> 0"
    and "mark_worker_dead w s = (res, s')" and "t = run later s'"
    and "au_worker a = w" and "au_boot a \<le> b"
  shows "list_all (\<lambda>r. au_worker (r_authority r) = w \<longrightarrow> r_state r \<noteq> RegistrationState.REGISTERED)
      (umap_values (st_registrations s')) \<and> \<not> worker_live_locked a t"
proof -
  have wf: "state_wf (length ops) s" using run_wf [of ops epoch] assms(1,2) by simp
  then have ws: "workers_wf (st_workers s) (st_worker_max_boot s)" by (simp add: state_wf_def)
  note live = workers_wf_find [OF ws assms(3)]
  have s': "s' = snd (mark_worker_dead w s)" using assms(5) by simp
  have valid: "id_valid w" using live(2) by (simp add: id_valid_def)
  have "fenced w (gen_value b) s'"
    using live(3) by (simp add: fenced_def s' mark_worker_dead_def prev_max_boot_def)
  moreover have "state_wf (Suc (length ops)) s'"
    using mark_worker_dead_wf [OF wf] assms(1) s' by simp
  ultimately have "fenced w (gen_value b) t"
    using fenced_run [of "Suc (length ops)" s' later w] assms(1,4,6) by simp
  then have "\<not> worker_live_locked a t"
    using assms(7,8) valid
    by (auto simp: worker_live_locked_def fenced_def worker_owned_def less_eq_Generation_def
        split: option.splits)
  moreover have "list_all (\<lambda>r. au_worker (r_authority r) = w \<longrightarrow> r_state r \<noteq> RegistrationState.REGISTERED)
      (umap_values (st_registrations s'))"
    using valid by (auto simp: s' mark_worker_dead_def list_all_iff umap_map_def worker_owned_def split: if_splits)
  ultimately show ?thesis by blast
qed

theorem dead_worker_stays_fenced_witness:
  "\<not> worker_live_locked demo_authority
     (snd (register_worker (Id 7) (Generation 2) demo_epoch (snd (mark_worker_dead (Id 7) demo_state))))"
proof -
  let ?later = "[Register_worker (Id 7) (Generation 2) demo_epoch] :: SyntheticBackend coord_op list"
  have len: "length demo_ops + 1 + length ?later \<le> op_limit" by (simp add: demo_ops_def op_limit_def)
  have live: "umap_find (st_workers demo_state) (id_value (Id 7 :: WorkerId)) = Some (Id 7, Generation 1)"
    by (simp add: demo_state_def)
  have dead: "mark_worker_dead (Id 7) demo_state =
      (fst (mark_worker_dead (Id 7) demo_state), snd (mark_worker_dead (Id 7) demo_state))" by simp
  from dead_worker_stays_fenced [OF len demo_run [symmetric] live _ dead refl, of demo_authority]
  show ?thesis by (simp add: run_def demo_authority_def)
qed

section \<open>Registrations\<close>

text \<open>
  What a successful registration leaves behind: the returned registration is stored and REGISTERED
  (up to the duplicate mark) and the guards would pass again.
\<close>

lemma register_buffer_ok:
  assumes "register_buffer p be s = (ok r, s', be')"
  obtains (duplicate) b e l where "register_guards p s = ok (b, e)"
      "latest_registration (rp_buffer p) (rp_endpoint p) s = Some l"
      "register_existing p b e l = Some (ok r)" "s' = s"
  | (created) b e i supp prov h where "register_guards p s = ok (b, e)"
      "register_commit p b e (latest_registration (rp_buffer p) (rp_endpoint p) s) i supp prov h
        (retire_deregistering (latest_registration (rp_buffer p) (rp_endpoint p) s) s) = (ok r, s')"
proof (cases "register_guards p s")
  case (Inl er)
  then show ?thesis using assms by (simp add: register_buffer_def ok_def)
next
  case (Inr x)
  obtain b e where x: "x = (b, e)" by (cases x)
  have g: "register_guards p s = ok (b, e)" by (simp add: Inr x ok_def)
  let ?l = "latest_registration (rp_buffer p) (rp_endpoint p) s"
  show ?thesis
  proof (cases "Option.bind ?l (register_existing p b e)")
    case None
    then have "\<exists>i supp prov h. register_commit p b e ?l i supp prov h (retire_deregistering ?l s) = (ok r, s')"
      using assms Inr x
      by (auto simp: register_buffer_def Let_def split: option.splits prod.splits sum.splits)
    then show ?thesis using created [OF g] by blast
  next
    case (Some q)
    then have "q = ok r \<and> s' = s" using assms Inr x by (simp add: register_buffer_def Let_def)
    with Some show ?thesis by (cases ?l) (auto intro: duplicate [OF g])
  qed
qed

lemma register_existing_again:
  "register_existing p b e l = Some (ok r) \<Longrightarrow> r\<lparr>r_duplicated := True\<rparr> = r"
  by (auto simp: register_existing_def split: if_splits)

lemma register_guards_again:
  assumes "register_guards p s = ok (b, e)"
    and "umap_find (st_buffers s') (id_value (rp_buffer p)) = Some b'"
    and "b_authority b' = b_authority b" "b_lifecycle b' = b_lifecycle b"
    and "st_endpoints s' = st_endpoints s" "st_epoch s' = st_epoch s" "st_workers s' = st_workers s"
    and "length (st_registrations s') < unat (st_max_registrations s')"
  shows "register_guards p s' = ok (b', e)"
  using assms by (auto simp: register_guards_def worker_live_locked_def split: option.splits if_splits)

text \<open>
  Registration is idempotent: repeating a successful registration request, with whatever backend,
  returns the same registration marked as a duplicate, calls no backend and changes nothing, as long
  as the registration limit is not reached.
\<close>

lemma register_buffer_idempotent:
  assumes "length ops < op_limit" and "s = run ops (make_coordinator epoch)"
    and "register_buffer p be s = (ok r, s', be')"
    and "length (st_registrations s') < unat (st_max_registrations s')"
  shows "register_buffer p other s' = (ok (r\<lparr>r_duplicated := True\<rparr>), s', other)"
proof -
  have wf: "state_wf (length ops) s" using run_wf [of ops epoch] assms(1,2) by simp
  have wf': "state_wf (Suc (length ops)) s'" using register_buffer_wf [OF wf assms(1), of p be] assms(3) by simp
  from assms(3) show ?thesis
  proof (cases rule: register_buffer_ok)
    case (duplicate b e l)
    then show ?thesis
      by (simp add: register_buffer_def ok_def [symmetric] register_existing_again) (simp add: ok_def)
  next
    case (created b e i supp prov h)
    let ?l = "latest_registration (rp_buffer p) (rp_endpoint p) s"
    note g = register_guards_ok [OF created(1)]
    have ids: "b_id b = rp_buffer p" "e_id e = rp_endpoint p"
      using buffers_wf_find(1) [OF _ g(1)] endpoints_wf_find(1) [OF _ g(2)] wf
      by (auto simp: state_wf_def id_value_eq_iff)
    note frame = retire_deregistering_frame
    show ?thesis
    proof (cases rule: register_commit_cases [of p b e ?l i supp prov h "retire_deregistering ?l s"])
      case (1 reg b' c')
      then have reg: "reg = r" and s': "s' = retire_deregistering ?l s\<lparr>st_next_id := c',
          st_freshness := st_freshness (retire_deregistering ?l s) + 2,
          st_registrations := umap_put (id_value (r_id r)) r (st_registrations (retire_deregistering ?l s)),
          st_buffers := umap_put (id_value (rp_buffer p)) b' (st_buffers (retire_deregistering ?l s))\<rparr>"
        using created(2) by simp_all
      have "latest_registration (r_buffer r) (r_endpoint r) s' = Some r"
        by (rule registered_latest [OF wf', of "id_value (r_id r)"]) (use 1 reg in \<open>simp_all add: s'\<close>)
      then have "latest_registration (rp_buffer p) (rp_endpoint p) s' = Some r" using 1 reg ids by simp
      moreover have "register_guards p s' = ok (b', e)"
        by (rule register_guards_again [OF created(1)]) (use 1 frame assms(4) in \<open>simp_all add: s'\<close>)
      moreover have "register_existing p b' e r = Some (ok (r\<lparr>r_duplicated := True\<rparr>))"
        using 1 reg by (simp add: register_existing_def)
      ultimately show ?thesis by (simp add: register_buffer_def ok_def)
    qed
  qed
qed

text \<open>
  A deregistration touches nothing but the registration it names: every other registration, and
  every buffer that does not point at it, stays as it is. And a stale deregistration is refused: when
  the pair has a registration of a newer generation, a deregistration of the older one (not yet
  retired, its owner still live) fails and leaves the state alone.
\<close>

lemma deregister_only_own_registration:
  assumes "length ops \<le> op_limit" and "s = run ops (make_coordinator epoch)"
    and "deregister_buffer i au s = (res, s')"
  shows "(\<forall>k. k \<noteq> id_value i \<longrightarrow> umap_find (st_registrations s') k = umap_find (st_registrations s) k) \<and>
    (\<forall>k b. umap_find (st_buffers s) k = Some b \<longrightarrow> b_registration_id b \<noteq> i \<longrightarrow>
       umap_find (st_buffers s') k = Some b) \<and>
    (\<forall>r k' r'. umap_find (st_registrations s) (id_value i) = Some r \<longrightarrow>
       umap_find (st_registrations s) k' = Some r' \<longrightarrow> same_pair r r' \<longrightarrow> r_generation r < r_generation r' \<longrightarrow>
       r_state r \<noteq> RegistrationState.RETIRED \<longrightarrow> r_state r \<noteq> RegistrationState.UNREGISTERED \<longrightarrow>
       (worker_owned (r_authority r) \<longrightarrow> worker_live_locked (r_authority r) s) \<longrightarrow>
       \<not> has_value res \<and> s' = s)"
proof -
  have wf: "state_wf (length ops) s" using run_wf [OF assms(1), of epoch] assms(2) by simp
  note facts = latest_registration_facts [OF state_wf_regs [OF wf]]
  have s': "s' = snd (deregister_buffer i au s)" "res = fst (deregister_buffer i au s)" using assms(3) by simp_all
  have own: "r_id r = i" if "umap_find (st_registrations s) (id_value i) = Some r" for r
    using registrations_wf_find(1) [OF state_wf_regs [OF wf] that] by (simp add: id_value_eq_iff)
  have 1: "umap_find (st_registrations s') k = umap_find (st_registrations s) k" if "k \<noteq> id_value i" for k
    using that by (auto simp: s' deregister_buffer_def deregister_commit_def counter_defs split: option.splits)
  have 2: "umap_find (st_buffers s') k = Some b"
    if "umap_find (st_buffers s) k = Some b" "b_registration_id b \<noteq> i" for k b
    using that own by (auto simp: s' deregister_buffer_def deregister_commit_def counter_defs split: option.splits)
  have 3: "\<not> has_value res \<and> s' = s"
    if r: "umap_find (st_registrations s) (id_value i) = Some r"
      and r': "umap_find (st_registrations s) k' = Some r'" "same_pair r r'" "r_generation r < r_generation r'"
      and live: "r_state r \<noteq> RegistrationState.RETIRED" "r_state r \<noteq> RegistrationState.UNREGISTERED"
        "worker_owned (r_authority r) \<longrightarrow> worker_live_locked (r_authority r) s" for r k' r'
  proof -
    obtain l where l: "latest_registration (r_buffer r) (r_endpoint r) s = Some l"
      using facts(3) [OF _ r] by (cases "latest_registration (r_buffer r) (r_endpoint r) s") auto
    have "r_generation r' \<le> r_generation l"
      using facts(2) [OF l r'(1)] r'(2) by (simp add: same_pair_def)
    then have "r_generation r < r_generation l" using r'(3) by simp
    moreover obtain j where "umap_find (st_registrations s) j = Some l" using facts(1) [OF l] by blast
    ultimately have "r_id l \<noteq> r_id r"
      using registrations_wf_find(1) [OF state_wf_regs [OF wf]] r own [OF r] by (metis option.inject order_less_irrefl)
    then show ?thesis using live r l by (auto simp: s' deregister_buffer_def)
  qed
  show ?thesis using 1 2 3 by blast
qed

end
