(* ===== verification/Guarantees_Operations.thy ===== *)
theory Guarantees_Operations
  imports Scenario
begin

text \<open>
  What holds of every single operation: an operation that reports an error has changed nothing (with
  the two exceptions the code has), the maps stay within their configured limits, and a worker-owned
  buffer is changed by its live owner only.
\<close>

section \<open>Errors\<close>

definition error_keeps :: "State \<Rightarrow> 'a Result \<times> State \<Rightarrow> bool" where
  "error_keeps s r \<longleftrightarrow> (case fst r of Inl _ \<Rightarrow> snd r = s | Inr _ \<Rightarrow> True)"

lemma error_keeps_simps [simp]:
  "error_keeps s (err c m, s') \<longleftrightarrow> s' = s" "error_keeps s (ok v, s')"
  by (simp_all add: error_keeps_def err_def ok_def)

lemma error_keeps_Inl [simp]: "error_keeps s (Inl e, s') \<longleftrightarrow> s' = s" "error_keeps s (Inr v, s')"
  by (simp_all add: error_keeps_def)

text \<open>A registration that fails: in its guards, against the latest registration, or in the backend.\<close>

definition backend_refused :: "RegisterParams \<Rightarrow> 'b Backend_ptr \<Rightarrow> State \<Rightarrow> Error \<Rightarrow> bool" where
  "backend_refused p be s er \<longleftrightarrow>
     (\<exists>vt b src dst e b'. be = Some (vt, b) \<and> register_guards p s = ok (src, dst) \<and>
        vt_register_buffer vt (registration_spec p src dst) b = (Inl e, b') \<and>
        er = make_error ErrorCode.REGISTRATION_FAILED (err_message e))"

lemma register_buffer_error:
  assumes "register_buffer p be s = (Inl er, s', be')"
  shows "s' = s \<or> (backend_refused p be s er \<and>
    (\<exists>old. latest_registration (rp_buffer p) (rp_endpoint p) s = Some old \<and> r_state old = RegistrationState.DEREGISTERING \<and>
       s' = s\<lparr>st_registrations := umap_map (\<lambda>v. if r_id v = r_id old
              then v\<lparr>r_state := RegistrationState.RETIRED\<rparr> else v) (st_registrations s)\<rparr>))"
proof (cases "register_guards p s")
  case (Inl e)
  with assms show ?thesis by (simp add: register_buffer_def)
next
  case (Inr x)
  obtain src dst where x: "x = (src, dst)" by (cases x)
  let ?l = "latest_registration (rp_buffer p) (rp_endpoint p) s"
  show ?thesis
  proof (cases "Option.bind ?l (register_existing p src dst)")
    case (Some r)
    with assms Inr x show ?thesis by (simp add: register_buffer_def Let_def)
  next
    case None
    have commits: "fst (register_commit p src dst ?l i supp prov h t) \<noteq> Inl e" for i supp prov h t e
      by (simp add: register_commit_def Let_def case_prod_beta ok_def)
    show ?thesis
    proof (cases be)
      case be: None
      obtain r t where c: "register_commit p src dst ?l (Id 0) (rp_support p) (rp_provenance p) None (retire_deregistering ?l s) = (r, t)"
        by (metis surj_pair)
      then have "r = Inl er" using assms Inr x None be by (simp add: register_buffer_def Let_def)
      with c show ?thesis using commits by (metis fst_conv)
    next
      case be: (Some vb)
      obtain vt b where vb: "vb = (vt, b)" by (cases vb)
      obtain res b' where run: "vt_register_buffer vt (registration_spec p src dst) b = (res, b')" by (metis surj_pair)
      show ?thesis
      proof (cases res)
        case (Inl e)
        then have "er = make_error ErrorCode.REGISTRATION_FAILED (err_message e)" and s': "s' = retire_deregistering ?l s"
          using assms Inr x None be vb run by (simp_all add: register_buffer_def Let_def err_def)
        then have "backend_refused p be s er"
          using be vb run Inl Inr x unfolding backend_refused_def ok_def by blast
        with s' show ?thesis by (auto simp: retire_deregistering_def split: option.splits if_splits)
      next
        case (Inr rr)
        obtain r t where c: "register_commit p src dst ?l (rr_id rr) (rr_support rr) (rr_provenance rr) (rr_handle rr)
            (retire_deregistering ?l s) = (r, t)"
          by (metis surj_pair)
        then have "r = Inl er"
          using assms Inr \<open>register_guards p s = Inr x\<close> x None be vb run by (simp add: register_buffer_def Let_def)
        with c show ?thesis using commits by (metis fst_conv)
      qed
    qed
  qed
qed

text \<open>A completion that fails the integrity check.\<close>

lemma complete_transfer_error:
  assumes "complete_transfer ti au s = (Inl er, s')"
  shows "s' = s \<or> (\<exists>a. umap_find (st_attempts s) (id_value ti) = Some a \<and> ta_integrity_checked a \<and>
    \<not> ta_integrity_passed a \<and> er = make_error ErrorCode.INTEGRITY_FAILURE ''data integrity verification failed'' \<and>
    (let k = id_value ti; i = st_next_id s + 1;
         a' = a\<lparr>ta_state := TransferState.FAILED, ta_completion_committed := True\<rparr> in
     s' = s\<lparr>st_next_id := i, st_attempts := umap_put k a' (st_attempts s),
       st_receipts := umap_put k (make_receipt a' TransferState.FAILED False (ta_method a)
         ''integrity verification failed'') (st_receipts s),
       st_verifications := umap_put i (attempt_verification a' False i) (st_verifications s)\<rparr>))"
  using assms
  by (auto simp: complete_transfer_def complete_commit_def record_verification_def counter_defs err_def ok_def Let_def
      split: option.splits if_splits)

text \<open>
  C27: An operation that fails leaves the state exactly as it was, for every operation of the
  coordinator, with two exceptions. A registration that has passed its checks and is refused by the
  backend has already retired the latest registration of the pair if that one was being deregistered,
  and has changed nothing else. A completion that finds a failed integrity check reports
  INTEGRITY_FAILURE and has recorded the attempt as failed and committed, a receipt that says so, and a
  failed verification, and has changed nothing else.
\<close>

theorem failed_operation_changes_nothing:
  "error_keeps s (register_worker w b e s) \<and> error_keeps s (create_buffer cb s) \<and>
   error_keeps s (advance_buffer_generation bi au s) \<and> error_keeps s (retire_buffer bi au s) \<and>
   error_keeps s (add_device dp s) \<and> error_keeps s (add_endpoint ep s) \<and>
   error_keeps s (advance_endpoint_generation ei au s) \<and> error_keeps s (set_endpoint_health ei h au s) \<and>
   error_keeps s (add_provider pp s) \<and> error_keeps s (publish_capability cp s) \<and>
   error_keeps s (revoke_capability pr ca au s) \<and> error_keeps s (deregister_buffer ri au s) \<and>
   error_keeps s (plan_transfer q snap s) \<and> error_keeps s (cancel_transfer ti au s) \<and>
   error_keeps s (verify_transfer ti v n s) \<and>
   error_keeps s (fst (begin_transfer pi au be s), fst (snd (begin_transfer pi au be s))) \<and>
   (case register_buffer p be s of (Inl er, s', _) \<Rightarrow>
      s' = s \<or> (backend_refused p be s er \<and>
        (\<exists>old. latest_registration (rp_buffer p) (rp_endpoint p) s = Some old \<and> r_state old = RegistrationState.DEREGISTERING \<and>
           s' = s\<lparr>st_registrations := umap_map (\<lambda>v. if r_id v = r_id old
                  then v\<lparr>r_state := RegistrationState.RETIRED\<rparr> else v) (st_registrations s)\<rparr>))
    | _ \<Rightarrow> True) \<and>
   (case complete_transfer ti au s of (Inl er, s') \<Rightarrow>
      s' = s \<or> (\<exists>a. umap_find (st_attempts s) (id_value ti) = Some a \<and> ta_integrity_checked a \<and>
        \<not> ta_integrity_passed a \<and> er = make_error ErrorCode.INTEGRITY_FAILURE ''data integrity verification failed'' \<and>
        (let k = id_value ti; i = st_next_id s + 1;
             a' = a\<lparr>ta_state := TransferState.FAILED, ta_completion_committed := True\<rparr> in
         s' = s\<lparr>st_next_id := i, st_attempts := umap_put k a' (st_attempts s),
           st_receipts := umap_put k (make_receipt a' TransferState.FAILED False (ta_method a)
             ''integrity verification failed'') (st_receipts s),
           st_verifications := umap_put i (attempt_verification a' False i) (st_verifications s)\<rparr>))
    | _ \<Rightarrow> True)"
proof (intro conjI)
  show "error_keeps s (register_worker w b e s)"
    by (cases rule: register_worker_cases [of w b e s]) simp_all
  show "error_keeps s (plan_transfer q snap s)"
    by (auto simp: plan_transfer_def plan_commit_def case_prod_beta split: sum.splits)
  show "error_keeps s (fst (begin_transfer pi au be s), fst (snd (begin_transfer pi au be s)))"
    by (cases rule: begin_transfer_cases [of pi au be s]) simp_all
qed (((split prod.split sum.split)+, use register_buffer_error complete_transfer_error in blast)
     | (auto simp: create_buffer_def advance_buffer_generation_def retire_buffer_def add_device_def
          add_endpoint_def advance_endpoint_generation_def set_endpoint_health_def add_provider_def
          publish_capability_def revoke_capability_def deregister_buffer_def cancel_transfer_def
          verify_transfer_def counter_defs split: option.splits) [1])+

section \<open>Limits\<close>

definition within_limits :: "State \<Rightarrow> bool" where
  "within_limits s \<longleftrightarrow>
     length (st_endpoints s) \<le> unat (st_max_endpoints s) \<and>
     length (st_registrations s) \<le> unat (st_max_registrations s) \<and>
     length (st_plans s) \<le> unat (st_max_plans s) \<and>
     length (st_attempts s) \<le> unat (st_max_attempts s) \<and>
     length (st_buffers s) \<le> unat (st_max_buffers s) + length (st_plans s)"

text \<open>Two states whose bounded maps and limits have the same sizes.\<close>

definition same_sizes :: "State \<Rightarrow> State \<Rightarrow> bool" where
  "same_sizes s s' \<longleftrightarrow>
     length (st_endpoints s') = length (st_endpoints s) \<and>
     length (st_registrations s') = length (st_registrations s) \<and>
     length (st_plans s') = length (st_plans s) \<and> length (st_attempts s') = length (st_attempts s) \<and>
     length (st_buffers s') = length (st_buffers s) \<and>
     st_max_endpoints s' = st_max_endpoints s \<and> st_max_registrations s' = st_max_registrations s \<and>
     st_max_plans s' = st_max_plans s \<and> st_max_attempts s' = st_max_attempts s \<and>
     st_max_buffers s' = st_max_buffers s"

lemma within_limits_same: "within_limits s \<Longrightarrow> same_sizes s s' \<Longrightarrow> within_limits s'"
  by (simp add: within_limits_def same_sizes_def)

lemma umap_put_length_le: "length (umap_put k v m) \<le> Suc (length m)"
  by (simp add: umap_put_length)

lemma umap_put_same_length: "umap_find m k \<noteq> None \<Longrightarrow> length (umap_put k v m) = length m"
  by (simp add: umap_put_length)

lemma same_sizes_ops:
  "same_sizes s (snd (register_worker w b e s))" "same_sizes s (snd (mark_worker_dead w s))"
  "same_sizes s (snd (advance_epoch s))" "same_sizes s (snd (advance_buffer_generation bi au s))"
  "same_sizes s (snd (retire_buffer bi au s))" "same_sizes s (snd (add_device dp s))"
  "same_sizes s (snd (advance_endpoint_generation ei au s))"
  "same_sizes s (snd (set_endpoint_health ei h au s))" "same_sizes s (snd (add_nic nr s))"
  "same_sizes s (snd (add_storage_endpoint sr s))" "same_sizes s (snd (add_provider pp s))"
  "same_sizes s (snd (publish_capability cp s))" "same_sizes s (snd (revoke_capability pr ca au s))"
  "same_sizes s (snd (deregister_buffer ri au s))" "same_sizes s (snd (complete_transfer ti au s))"
  "same_sizes s (snd (cancel_transfer ti au s))" "same_sizes s (snd (verify_transfer ti v n s))"
proof -
  show "same_sizes s (snd (register_worker w b e s))"
    by (cases rule: register_worker_cases [of w b e s]) (simp_all add: same_sizes_def)
qed (auto simp: same_sizes_def mark_worker_dead_def advance_epoch_def advance_buffer_generation_def
    retire_buffer_def invalidate_buffer_dependents_locked_def add_device_def
    advance_endpoint_generation_def invalidate_endpoint_dependents_locked_def set_endpoint_health_def
    add_nic_def add_storage_endpoint_def add_provider_def publish_capability_def revoke_capability_def
    deregister_buffer_def deregister_commit_def complete_transfer_def complete_commit_def
    record_verification_def cancel_transfer_def verify_transfer_def counter_defs umap_put_same_length
    split: option.splits)

lemma register_buffer_limits:
  assumes "within_limits s"
  shows "within_limits (fst (snd (register_buffer p be s)))"
proof (cases rule: register_buffer_cases [of p be s])
  case unchanged
  then show ?thesis using assms by simp
next
  case backend_failed
  then show ?thesis
    using assms
    by (auto intro!: within_limits_same [OF assms] simp: same_sizes_def retire_deregistering_def split: option.splits)
next
  case (committed b e i supp prov h be')
  let ?l = "latest_registration (rp_buffer p) (rp_endpoint p) s"
  note g = register_guards_ok [OF committed(1)]
  have same: "same_sizes s (retire_deregistering ?l s)" "st_buffers (retire_deregistering ?l s) = st_buffers s"
    by (auto simp: same_sizes_def retire_deregistering_def split: option.splits)
  show ?thesis
  proof (cases rule: register_commit_cases [of p b e ?l i supp prov h "retire_deregistering ?l s"])
    case (1 reg b' c')
    have "length (umap_put (id_value (r_id reg)) reg (st_registrations (retire_deregistering ?l s))) \<le>
        unat (st_max_registrations s)"
      using g(5) same(1) umap_put_length_le [of "id_value (r_id reg)" reg "st_registrations (retire_deregistering ?l s)"]
      by (simp add: same_sizes_def)
    then show ?thesis
      using assms g(1) same
      by (simp add: committed(3) 1(1) Let_def within_limits_def same_sizes_def umap_put_same_length)
  qed
qed

lemma plan_transfer_limits:
  assumes wf: "state_wf n s" and n: "n < op_limit" and "within_limits s"
  shows "within_limits (snd (plan_transfer p snap s))"
proof -
  have fresh: "umap_find (st_plans s) (st_next_id s + 1) = None"
    by (rule umap_fresh [of "st_next_id s"])
       (use wf counters_room(1) [OF state_wf_counters [OF wf] n] in
         \<open>auto simp: state_wf_def plans_wf_def elim!: umap_all_mono dest: id_in_use_le\<close>)
  have "within_limits (snd (plan_build p d src dst reg s))" if "plan_guards p d s = ok (src, dst, reg)"
    for d src dst reg
  proof -
    have room: "length (st_plans s) < unat (st_max_plans s)"
      using that by (auto simp: plan_guards_def split: if_splits)
    have "within_limits (s\<lparr>st_next_id := st_next_id s + 3, st_freshness := st_freshness s + 1,
         st_buffers := umap_put k tmp (st_buffers s),
         st_plans := umap_put (st_next_id s + 1) plan (st_plans s)\<rparr>)" for k tmp plan
      using assms(3) fresh room umap_put_length_le [of k tmp "st_buffers s"]
      by (simp add: within_limits_def umap_put_length)
    then show ?thesis
      using assms(3) fresh room
      by (cases rule: plan_build_cases [of d p s src dst reg])
         (simp_all add: within_limits_def umap_put_length)
  qed
  then show ?thesis
    using assms(3) by (auto simp: plan_transfer_def plan_commit_def ok_def case_prod_beta split: sum.splits)
qed

fun sets_limits :: "'b coord_op \<Rightarrow> bool" where
  "sets_limits (Set_limits _ _ _ _ _) = True"
| "sets_limits _ = False"

lemma within_limits_step:
  assumes wf: "state_wf n s" and n: "n < op_limit" and "within_limits s" and "\<not> sets_limits x"
  shows "within_limits (step x s)"
proof -
  note same = within_limits_same [OF assms(3)]
  have 1: "within_limits (snd (create_buffer cb s))" for cb
    using assms(3) umap_put_length_le [where m = "st_buffers s"]
    by (auto simp: within_limits_def create_buffer_def counter_defs umap_put_length)
  have 2: "within_limits (snd (add_endpoint ep s))" for ep
    using assms(3) by (auto simp: within_limits_def add_endpoint_def counter_defs umap_put_length)
  have 3: "within_limits (fst (snd (begin_transfer pi au be s)))" for pi au and be :: "'a Backend_ptr"
    by (cases rule: begin_transfer_cases [of pi au be s])
       (use assms(3) in \<open>auto simp: within_limits_def umap_put_length dest!: begin_guards_ok(6)\<close>)
  show ?thesis
    using assms(4) 1 2 3 register_buffer_limits [OF assms(3)] plan_transfer_limits [OF wf n assms(3)]
      same_sizes_ops [THEN same] by (cases x) simp_all
qed

text \<open>
  C30: The configured limits bound the state along every run that does not change them: endpoints,
  registrations, plans and attempts never exceed their limits, and buffers exceed theirs by at most one
  staging buffer per stored plan.
\<close>

theorem maps_stay_within_limits:
  assumes "length ops \<le> op_limit" and "s = run ops (make_coordinator epoch)"
    and "list_all (\<lambda>x. \<not> sets_limits x) ops"
  shows "length (st_endpoints s) \<le> unat (st_max_endpoints s) \<and>
    length (st_registrations s) \<le> unat (st_max_registrations s) \<and>
    length (st_plans s) \<le> unat (st_max_plans s) \<and> length (st_attempts s) \<le> unat (st_max_attempts s) \<and>
    length (st_buffers s) \<le> unat (st_max_buffers s) + length (st_plans s)"
proof -
  have "within_limits (run ops s0)" if "state_wf n s0" "n + length ops \<le> op_limit" "within_limits s0" for n s0
    using that assms(3)
  proof (induction ops arbitrary: n s0)
    case Nil
    then show ?case by (simp add: run_def)
  next
    case (Cons x ops)
    then have "state_wf (Suc n) (step x s0)" "within_limits (step x s0)"
      using step_wf [of n s0 x] within_limits_step [of n s0 x] by simp_all
    with Cons.IH [of "Suc n" "step x s0"] Cons.prems show ?case by (simp add: run_def)
  qed
  from this [OF state_wf_init, of epoch] assms(1,2) show ?thesis
    by (simp add: within_limits_def make_coordinator_def default_State_def)
qed

theorem maps_stay_within_limits_witness:
  "length (st_attempts demo_begun) \<le> unat (st_max_attempts demo_begun)"
  using maps_stay_within_limits [OF demo_lengths(3) demo_runs(2) [symmetric]]
  by (simp add: demo_begin_ops_def demo_plan_ops_def demo_ops_def)

section \<open>Ownership\<close>

text \<open>Generation and lifecycle of the buffer stored under a key.\<close>

definition buffer_status :: "State \<Rightarrow> u64 \<Rightarrow> (BufferGeneration \<times> BufferLifecycle) option" where
  "buffer_status s k = map_option (\<lambda>b. (b_generation b, b_lifecycle b)) (umap_find (st_buffers s) k)"

lemma buffer_status_frame:
  "buffer_status (set_limits a b' c d e s) k = buffer_status s k"
  "buffer_status (snd (register_worker w b e' s)) k = buffer_status s k"
  "buffer_status (snd (mark_worker_dead w s)) k = buffer_status s k"
  "buffer_status (snd (advance_epoch s)) k = buffer_status s k"
  "buffer_status (snd (add_device dp s)) k = buffer_status s k"
  "buffer_status (snd (add_endpoint ep s)) k = buffer_status s k"
  "buffer_status (snd (advance_endpoint_generation ei au s)) k = buffer_status s k"
  "buffer_status (snd (set_endpoint_health ei h au s)) k = buffer_status s k"
  "buffer_status (snd (add_nic nr s)) k = buffer_status s k"
  "buffer_status (snd (add_storage_endpoint sr s)) k = buffer_status s k"
  "buffer_status (snd (add_provider pp s)) k = buffer_status s k"
  "buffer_status (snd (publish_capability cp s)) k = buffer_status s k"
  "buffer_status (snd (revoke_capability pr ca au s)) k = buffer_status s k"
  "buffer_status (snd (deregister_buffer ri au s)) k = buffer_status s k"
  "buffer_status (snd (complete_transfer ti au s)) k = buffer_status s k"
  "buffer_status (snd (cancel_transfer ti au s)) k = buffer_status s k"
  "buffer_status (snd (verify_transfer ti v n s)) k = buffer_status s k"
proof -
  show "buffer_status (snd (register_worker w b e' s)) k = buffer_status s k"
    by (cases rule: register_worker_cases [of w b e' s]) (simp_all add: buffer_status_def)
qed (auto simp: buffer_status_def set_limits_def mark_worker_dead_def advance_epoch_def add_device_def
    add_endpoint_def advance_endpoint_generation_def invalidate_endpoint_dependents_locked_def
    set_endpoint_health_def add_nic_def add_storage_endpoint_def add_provider_def publish_capability_def
    revoke_capability_def deregister_buffer_def deregister_commit_def complete_transfer_def
    complete_commit_def record_verification_def cancel_transfer_def verify_transfer_def counter_defs
    split: option.splits)

lemma buffer_status_calls:
  assumes wf: "state_wf n s" and n: "n < op_limit" and k: "umap_find (st_buffers s) k \<noteq> None"
  shows "buffer_status (snd (create_buffer cb s)) k = buffer_status s k"
    and "buffer_status (fst (snd (register_buffer p be s))) k = buffer_status s k"
    and "buffer_status (snd (plan_transfer q snap s)) k = buffer_status s k"
    and "buffer_status (fst (snd (begin_transfer pi au be' s))) k = buffer_status s k"
proof -
  have fresh: "umap_find (st_buffers s) (st_next_id s + 1) = None" "umap_find (st_buffers s) (st_next_id s + 3) = None"
    using counters_room(1-3) [OF state_wf_counters [OF wf] n] buffers_wf_fresh [of n "st_next_id s" "st_buffers s"] wf
    by (auto simp: state_wf_def)
  with k have ne: "k \<noteq> st_next_id s + 1" "k \<noteq> st_next_id s + 3" by auto
  then show "buffer_status (snd (create_buffer cb s)) k = buffer_status s k"
    by (simp add: create_buffer_def counter_defs buffer_status_def)
  show "buffer_status (fst (snd (begin_transfer pi au be' s))) k = buffer_status s k"
    by (cases rule: begin_transfer_cases [of pi au be' s]) (simp_all add: buffer_status_def)
  have "buffer_status (snd (plan_build q d src dst reg s)) k = buffer_status s k" for d src dst reg
    using ne by (cases rule: plan_build_cases [of d q s src dst reg]) (simp_all add: buffer_status_def)
  then show "buffer_status (snd (plan_transfer q snap s)) k = buffer_status s k"
    by (auto simp: plan_transfer_def plan_commit_def case_prod_beta split: sum.splits)
  show "buffer_status (fst (snd (register_buffer p be s))) k = buffer_status s k"
  proof (cases rule: register_buffer_cases [of p be s])
    case unchanged
    then show ?thesis by simp
  next
    case backend_failed
    then show ?thesis by (auto simp: buffer_status_def retire_deregistering_def split: option.splits)
  next
    case (committed b e i supp prov h be')
    let ?l = "latest_registration (rp_buffer p) (rp_endpoint p) s"
    have same: "st_buffers (retire_deregistering ?l s) = st_buffers s"
      by (auto simp: retire_deregistering_def split: option.splits)
    show ?thesis
      by (cases rule: register_commit_cases [of p b e ?l i supp prov h "retire_deregistering ?l s"])
         (use same register_guards_ok(1) [OF committed(1)] in
           \<open>auto simp: committed(3) buffer_status_def Let_def\<close>)
  qed
qed

text \<open>
  C28: Only its live owner changes a worker-owned buffer: whenever an operation changes the
  generation or the lifecycle of a buffer that a worker owns, the operation is a generation advance or
  a retirement of that buffer, called with exactly the owner's authority, and that authority is live.
\<close>

theorem only_live_owner_changes_buffer:
  assumes "length ops < op_limit" and "s = run ops (make_coordinator epoch)"
    and "umap_find (st_buffers s) k = Some b" and "worker_owned (b_authority b)"
    and "buffer_status (step x s) k \<noteq> buffer_status s k"
  shows "(x = Advance_buffer_generation (Id k) (b_authority b) \<or> x = Retire_buffer (Id k) (b_authority b)) \<and>
    worker_live_locked (b_authority b) s"
proof -
  have wf: "state_wf (length ops) s" using run_wf [of ops epoch] assms(1,2) by simp
  have found: "umap_find (st_buffers s) k \<noteq> None" using assms(3) by simp
  have adv: "id_value i = k \<and> a = b_authority b \<and> worker_live_locked a s"
    if "buffer_status (snd (advance_buffer_generation i a s)) k \<noteq> buffer_status s k" for i a
    using that assms(3,4)
    by (auto simp: advance_buffer_generation_def counter_defs invalidate_buffer_dependents_locked_def
        buffer_status_def owner_rejects_def split: option.splits if_splits)
  have ret: "id_value i = k \<and> a = b_authority b \<and> worker_live_locked a s"
    if "buffer_status (snd (retire_buffer i a s)) k \<noteq> buffer_status s k" for i a
    using that assms(3,4)
    by (auto simp: retire_buffer_def counter_defs invalidate_buffer_dependents_locked_def
        buffer_status_def owner_rejects_def split: option.splits if_splits)
  show ?thesis
  proof (cases x)
    case (Advance_buffer_generation i a)
    with adv [of i a] assms(5) show ?thesis by auto
  next
    case (Retire_buffer i a)
    with ret [of i a] assms(5) show ?thesis by auto
  qed (use assms(5) in \<open>simp_all add: buffer_status_frame buffer_status_calls [OF wf assms(1) found]\<close>)
qed

theorem only_live_owner_changes_buffer_witness:
  "worker_live_locked demo_authority demo_state"
proof -
  let ?x = "Retire_buffer (Id 6) demo_authority :: SyntheticBackend coord_op"
  have b: "umap_find (st_buffers demo_state) 6 = Some demo_buffer_record" by (simp add: demo_state_def)
  have o: "worker_owned (b_authority demo_buffer_record)"
    by (simp add: demo_buffer_record_def worker_owned_def demo_authority_def)
  have "buffer_status (step ?x demo_state) 6 \<noteq> buffer_status demo_state 6" by code_simp
  from only_live_owner_changes_buffer [OF demo_lengths(5) demo_run [symmetric] b o this]
  show ?thesis by (simp add: demo_buffer_record_def)
qed

end
