(* ===== verification/Bytes.thy ===== *)
theory Bytes
  imports Prelude
begin

text \<open>
  Bytes and little-endian integers, as \<open>src/protocol.cpp\<close> and \<open>src/persistence.cpp\<close> write and read
  them: \<open>le_bytes n v\<close> is the loop that pushes \<open>v >> (8 * i)\<close> for \<open>i < n\<close>, \<open>le_word bs\<close> the loop (or
  its unrolled form) that ORs the bytes back at their positions. Vectors of bytes are lists; offsets
  and sizes are naturals, since every length the code compares is below \<open>2^32\<close> and no sum of two of
  them wraps a 64-bit \<open>size_t\<close>.
\<close>

unbundle bit_operations_syntax

type_synonym bytes = "u8 list"

section \<open>Little-endian integers\<close>

definition le_bytes :: "nat \<Rightarrow> 'a::len word \<Rightarrow> bytes" where
  "le_bytes n v = map (\<lambda>i. ucast (drop_bit (8 * i) v)) [0..<n]"

definition le_word :: "bytes \<Rightarrow> 'a::len word" where
  "le_word bs = fold (\<lambda>i v. v OR push_bit (8 * i) (ucast (bs ! i))) [0..<length bs] 0"

lemma length_le_bytes [simp]: "length (le_bytes n v) = n"
  by (simp add: le_bytes_def)

lemma bit_le_fold:
  fixes bs :: bytes
  assumes "k < LENGTH('a::len)"
  shows "bit (fold (\<lambda>i v. v OR push_bit (8 * i) (ucast (bs ! i))) [0..<m] (0 :: 'a word)) k \<longleftrightarrow>
    k div 8 < m \<and> bit (bs ! (k div 8)) (k mod 8)"
proof (induction m)
  case 0
  then show ?case by simp
next
  case (Suc m)
  have "bit (push_bit (8 * m) (ucast (bs ! m) :: 'a word)) k \<longleftrightarrow> k div 8 = m \<and> bit (bs ! m) (k mod 8)"
  proof (cases "k div 8 = m")
    case True
    then have "8 * m \<le> k" "k - 8 * m = k mod 8" by (auto simp: minus_mult_div_eq_mod)
    moreover have "k mod 8 < LENGTH('a)" using assms by (meson le_less_trans mod_less_eq_dividend)
    ultimately show ?thesis using True assms by (simp add: bit_push_bit_iff bit_ucast_iff)
  next
    case False
    then have "k < 8 * m \<or> 8 \<le> k - 8 * m" by (metis div_nat_eqI less_diff_conv2 mult.commute mult_Suc_right not_le add.commute)
    then show ?thesis
      using False by (auto simp: bit_push_bit_iff bit_ucast_iff dest: bit_imp_le_length)
  qed
  then show ?case
    using Suc by (auto simp: bit_or_iff less_Suc_eq)
qed

lemma bit_le_word:
  "bit (le_word bs :: 'a::len word) k \<longleftrightarrow>
     k < LENGTH('a) \<and> k div 8 < length bs \<and> bit (bs ! (k div 8)) (k mod 8)"
  using bit_le_fold [of k bs "length bs", where 'a = 'a]
  by (auto simp: le_word_def dest: bit_imp_le_length)

lemma bit_le_bytes:
  "i < n \<Longrightarrow> bit (le_bytes n v ! i) j \<longleftrightarrow> j < 8 \<and> bit v (8 * i + j)"
  by (auto simp: le_bytes_def bit_ucast_iff bit_drop_bit_eq add.commute dest: bit_imp_le_length)

lemma le_word_le_bytes [simp]:
  fixes v :: "'a::len word"
  assumes "LENGTH('a) = 8 * n"
  shows "le_word (le_bytes n v) = v"
proof (rule bit_word_eqI)
  fix k assume "k < LENGTH('a)"
  then have "k div 8 < n" using assms by simp
  with \<open>k < LENGTH('a)\<close> show "bit (le_word (le_bytes n v) :: 'a word) k \<longleftrightarrow> bit v k"
    by (simp add: bit_le_word bit_le_bytes)
qed

lemma le_bytes_le_word [simp]:
  assumes "length bs = n" and "8 * n \<le> LENGTH('a::len)"
  shows "le_bytes n (le_word bs :: 'a word) = bs"
proof (rule nth_equalityI)
  show "length (le_bytes n (le_word bs :: 'a word)) = length bs" using assms by simp
  fix i assume "i < length (le_bytes n (le_word bs :: 'a word))"
  then have i: "i < n" by simp
  show "le_bytes n (le_word bs :: 'a word) ! i = bs ! i"
  proof (rule bit_word_eqI)
    fix j assume j: "j < LENGTH(8)"
    then have "(8 * i + j) div 8 = i" "(8 * i + j) mod 8 = j" by simp_all
    with i j assms show "bit (le_bytes n (le_word bs :: 'a word) ! i) j \<longleftrightarrow> bit (bs ! i) j"
      by (simp add: bit_le_bytes bit_le_word)
  qed
qed

lemma le_word_inject:
  assumes "length bs = n" "length bs' = n" "8 * n \<le> LENGTH('a::len)"
  shows "(le_word bs :: 'a word) = le_word bs' \<longleftrightarrow> bs = bs'"
  using le_bytes_le_word [of bs n, where 'a = 'a] le_bytes_le_word [of bs' n, where 'a = 'a] assms by metis

lemma le_word_Nil [simp]: "le_word [] = 0"
  by (simp add: le_word_def)

lemma le_word_Cons: "(le_word (b # bs) :: 'a::len word) = ucast b XOR push_bit 8 (le_word bs)"
proof (rule bit_word_eqI)
  fix k assume k: "k < LENGTH('a)"
  show "bit (le_word (b # bs) :: 'a word) k \<longleftrightarrow> bit (ucast b XOR push_bit 8 (le_word bs) :: 'a word) k"
  proof (cases "k < 8")
    case True
    with k show ?thesis
      by (simp add: bit_le_word bit_xor_iff bit_push_bit_iff bit_ucast_iff)
  next
    case False
    then have "k div 8 = Suc ((k - 8) div 8)" "(k - 8) mod 8 = k mod 8" "\<not> bit b k"
      by (auto simp: le_div_geq le_mod_geq dest: bit_imp_le_length)
    with k False show ?thesis
      by (auto simp: bit_le_word bit_xor_iff bit_push_bit_iff bit_ucast_iff)
  qed
qed

section \<open>Strings as bytes\<close>

definition byte_of_char :: "char \<Rightarrow> u8" where
  "byte_of_char c = word_of_nat (of_char c)"

definition char_of_byte :: "u8 \<Rightarrow> char" where
  "char_of_byte b = char_of (unat b)"

lemma char_byte_char [simp]: "char_of_byte (byte_of_char c) = c"
  by (simp add: char_of_byte_def byte_of_char_def unat_of_nat)

lemma char_byte_comp [simp]: "char_of_byte \<circ> byte_of_char = id"
  by (simp add: fun_eq_iff)

end
