(* ===== verification/State_Codec.thy ===== *)
theory State_Codec
  imports Bytes Records
begin

text \<open>
  The field encoders and the bounded \<open>Reader\<close> of \<open>src/persistence.cpp\<close>. An encoder appends to the
  body; here it gives the bytes it appends. A reader method that returns \<open>false\<close> gives \<open>None\<close>.
  \<open>field_codec\<close> is the contract between an encoder and its reader on which every record's round trip
  rests, and that a successful read moves forward inside the buffer, on which the termination of the
  recovery loops rests.
\<close>

named_theorems file_codec \<open>what a read finds at the bytes of the matching write\<close>

section \<open>Writers and the reader\<close>

definition put_u32 :: "u32 \<Rightarrow> bytes" where "put_u32 v = le_bytes 4 v"
definition put_u64 :: "u64 \<Rightarrow> bytes" where "put_u64 v = le_bytes 8 v"
definition put_str :: "string \<Rightarrow> bytes" where
  "put_str s = put_u32 (word_of_nat (length s)) @ map byte_of_char s"

record Reader =
  rd_p :: bytes
  rd_off :: nat
  rd_fail :: bool

definition make_reader :: "bytes \<Rightarrow> Reader" where
  "make_reader p = \<lparr>rd_p = p, rd_off = 0, rd_fail = False\<rparr>"

definition reader_u32 :: "Reader \<Rightarrow> u32 option \<times> Reader" where
  "reader_u32 r = (if rd_off r + 4 > length (rd_p r) then (None, r\<lparr>rd_fail := True\<rparr>)
     else (Some (le_word (take 4 (drop (rd_off r) (rd_p r)))), r\<lparr>rd_off := rd_off r + 4\<rparr>))"

definition reader_u64 :: "Reader \<Rightarrow> u64 option \<times> Reader" where
  "reader_u64 r = (if rd_off r + 8 > length (rd_p r) then (None, r\<lparr>rd_fail := True\<rparr>)
     else (Some (le_word (take 8 (drop (rd_off r) (rd_p r)))), r\<lparr>rd_off := rd_off r + 8\<rparr>))"

definition reader_i32 :: "Reader \<Rightarrow> int option \<times> Reader" where
  "reader_i32 r = (let (u, r') = reader_u32 r in (map_option sint u, r'))"

definition reader_boolv :: "Reader \<Rightarrow> bool option \<times> Reader" where
  "reader_boolv r =
     (case reader_u32 r of
        (None, r') \<Rightarrow> (None, r')
      | (Some u, r') \<Rightarrow> if u > 1 then (None, r'\<lparr>rd_fail := True\<rparr>) else (Some (u = 1), r'))"

definition reader_str :: "Reader \<Rightarrow> string option \<times> Reader" where
  "reader_str r =
     (case reader_u32 r of
        (None, r') \<Rightarrow> (None, r')
      | (Some len, r') \<Rightarrow>
          if len > push_bit 20 1 then (None, r'\<lparr>rd_fail := True\<rparr>)
          else if rd_off r' + unat len > length (rd_p r') then (None, r'\<lparr>rd_fail := True\<rparr>)
          else (Some (map char_of_byte (take (unat len) (drop (rd_off r') (rd_p r')))),
                r'\<lparr>rd_off := rd_off r' + unat len\<rparr>))"

text \<open>The template over the enumerations takes their conversions as arguments.\<close>

definition read_enum ::
    "(int \<Rightarrow> 'e) \<Rightarrow> ('e \<Rightarrow> string) \<Rightarrow> (string \<Rightarrow> 'e option) \<Rightarrow> Reader \<Rightarrow> 'e option \<times> Reader" where
  "read_enum cast to_str from_str r =
     (case reader_i32 r of
        (None, r') \<Rightarrow> (None, r')
      | (Some v, r') \<Rightarrow>
          let e = cast v in
          if from_str (to_str e) = Some e then (Some e, r') else (None, r'))"

definition encode_enum :: "int \<Rightarrow> bytes" where
  "encode_enum v = put_u32 (word_of_int v)"

definition put_MemoryDomain :: "MemoryDomain \<Rightarrow> bytes" where
  "put_MemoryDomain e = encode_enum (MemoryDomain_to_int e)"

definition read_MemoryDomain :: "Reader \<Rightarrow> MemoryDomain option \<times> Reader" where
  "read_MemoryDomain = read_enum MemoryDomain_of_int MemoryDomain_to_string MemoryDomain_from_string"

definition put_Locality :: "Locality \<Rightarrow> bytes" where
  "put_Locality e = encode_enum (Locality_to_int e)"

definition read_Locality :: "Reader \<Rightarrow> Locality option \<times> Reader" where
  "read_Locality = read_enum Locality_of_int Locality_to_string Locality_from_string"

definition put_Support :: "Support \<Rightarrow> bytes" where
  "put_Support e = encode_enum (Support_to_int e)"

definition read_Support :: "Reader \<Rightarrow> Support option \<times> Reader" where
  "read_Support = read_enum Support_of_int Support_to_string Support_from_string"

definition put_Provenance :: "Provenance \<Rightarrow> bytes" where
  "put_Provenance e = encode_enum (Provenance_to_int e)"

definition read_Provenance :: "Reader \<Rightarrow> Provenance option \<times> Reader" where
  "read_Provenance = read_enum Provenance_of_int Provenance_to_string Provenance_from_string"

definition put_BufferLifecycle :: "BufferLifecycle \<Rightarrow> bytes" where
  "put_BufferLifecycle e = encode_enum (BufferLifecycle_to_int e)"

definition read_BufferLifecycle :: "Reader \<Rightarrow> BufferLifecycle option \<times> Reader" where
  "read_BufferLifecycle = read_enum BufferLifecycle_of_int BufferLifecycle_to_string BufferLifecycle_from_string"

definition put_EndpointClass :: "EndpointClass \<Rightarrow> bytes" where
  "put_EndpointClass e = encode_enum (EndpointClass_to_int e)"

definition read_EndpointClass :: "Reader \<Rightarrow> EndpointClass option \<times> Reader" where
  "read_EndpointClass = read_enum EndpointClass_of_int EndpointClass_to_string EndpointClass_from_string"

definition put_RegistrationState :: "RegistrationState \<Rightarrow> bytes" where
  "put_RegistrationState e = encode_enum (RegistrationState_to_int e)"

definition read_RegistrationState :: "Reader \<Rightarrow> RegistrationState option \<times> Reader" where
  "read_RegistrationState = read_enum RegistrationState_of_int RegistrationState_to_string RegistrationState_from_string"

definition put_PathPolicy :: "PathPolicy \<Rightarrow> bytes" where
  "put_PathPolicy e = encode_enum (PathPolicy_to_int e)"

definition read_PathPolicy :: "Reader \<Rightarrow> PathPolicy option \<times> Reader" where
  "read_PathPolicy = read_enum PathPolicy_of_int PathPolicy_to_string PathPolicy_from_string"

definition put_PathEligibility :: "PathEligibility \<Rightarrow> bytes" where
  "put_PathEligibility e = encode_enum (PathEligibility_to_int e)"

definition read_PathEligibility :: "Reader \<Rightarrow> PathEligibility option \<times> Reader" where
  "read_PathEligibility = read_enum PathEligibility_of_int PathEligibility_to_string PathEligibility_from_string"

section \<open>Required fields\<close>

text \<open>\<open>if (!read(v)) return err(PERSISTENCE_ERROR, msg);\<close> and then the rest of the function.\<close>

definition expect ::
    "(Reader \<Rightarrow> 'a option \<times> Reader) \<Rightarrow> string \<Rightarrow> Reader \<Rightarrow> ('a \<Rightarrow> Reader \<Rightarrow> 'b Result) \<Rightarrow> 'b Result" where
  "expect get msg r k =
     (case get r of
        (None, r') \<Rightarrow> err ErrorCode.PERSISTENCE_ERROR msg
      | (Some v, r') \<Rightarrow> k v r')"

text \<open>\<open>if (!r.u32(u) || u > 1) return err(...);\<close> with the flag \<open>u == 1\<close>.\<close>

definition expect_flag :: "string \<Rightarrow> Reader \<Rightarrow> (bool \<Rightarrow> Reader \<Rightarrow> 'b Result) \<Rightarrow> 'b Result" where
  "expect_flag msg r k =
     expect reader_u32 msg r (\<lambda>u r. if u > 1 then err ErrorCode.PERSISTENCE_ERROR msg else k (u = 1) r)"

section \<open>Reading what was written\<close>

definition reader_at :: "bytes \<Rightarrow> bytes \<Rightarrow> Reader" where
  "reader_at pre xs = \<lparr>rd_p = pre @ xs, rd_off = length pre, rd_fail = False\<rparr>"

lemma make_reader_at: "make_reader xs = reader_at [] xs"
  by (simp add: make_reader_def reader_at_def)

definition moves :: "Reader \<Rightarrow> Reader \<Rightarrow> bool" where
  "moves r r' \<longleftrightarrow> rd_p r' = rd_p r \<and> rd_off r < rd_off r' \<and> rd_off r' \<le> length (rd_p r)"

lemma moves_trans: "moves r r' \<Longrightarrow> moves r' r'' \<Longrightarrow> moves r r''"
  by (simp add: moves_def)

locale field_codec =
  fixes put :: "'a \<Rightarrow> bytes"
    and get :: "Reader \<Rightarrow> 'a option \<times> Reader"
    and valid :: "'a \<Rightarrow> bool"
  assumes get_put: "valid v \<Longrightarrow> get (reader_at pre (put v @ xs)) = (Some v, reader_at (pre @ put v) xs)"
    and get_moves: "get r = (Some v, r') \<Longrightarrow> moves r r'"
begin

lemma expect_put:
  "valid v \<Longrightarrow> expect get msg (reader_at pre (put v @ xs)) k = k v (reader_at (pre @ put v) xs)"
  by (simp add: expect_def get_put)

lemma expect_ok:
  assumes "expect get msg r k = Inr x"
  obtains v r' where "moves r r'" "k v r' = Inr x"
proof (cases "fst (get r)")
  case None
  then show thesis using assms by (auto simp: expect_def err_def split: prod.splits)
next
  case (Some v)
  then have "get r = (Some v, snd (get r))" by (metis prod.collapse)
  from get_moves [OF this] show thesis
    by (rule that [of _ v]) (use assms Some in \<open>auto simp: expect_def split: prod.splits\<close>)
qed

end

lemma reader_u32_at: "reader_u32 (reader_at pre (put_u32 v @ xs)) = (Some v, reader_at (pre @ put_u32 v) xs)"
  by (simp add: reader_u32_def put_u32_def reader_at_def)

lemma reader_u32_moves: "reader_u32 r = (Some v, r') \<Longrightarrow> moves r r'"
  by (auto simp: reader_u32_def moves_def split: if_splits)

interpretation u32_field: field_codec put_u32 reader_u32 "\<lambda>v. True"
  by unfold_locales (simp_all add: reader_u32_at reader_u32_moves)

interpretation u64_field: field_codec put_u64 reader_u64 "\<lambda>v. True"
  by unfold_locales (auto simp: reader_u64_def put_u64_def reader_at_def moves_def split: if_splits)

definition str_ok :: "string \<Rightarrow> bool" where
  "str_ok s \<longleftrightarrow> length s \<le> 2 ^ 20"

lemma reader_str_at:
  assumes "str_ok s"
  shows "reader_str (reader_at pre (put_str s @ xs)) = (Some s, reader_at (pre @ put_str s) xs)"
proof -
  let ?len = "word_of_nat (length s) :: u32"
  have len: "unat ?len = length s" using assms by (simp add: str_ok_def unat_of_nat)
  then have "\<not> ?len > push_bit 20 1" using assms by (simp add: str_ok_def word_less_nat_alt)
  then show ?thesis
    using reader_u32_at [of pre ?len "map byte_of_char s @ xs"]
    by (simp add: put_str_def reader_str_def len) (simp add: reader_at_def put_u32_def)
qed

interpretation str_field: field_codec put_str reader_str str_ok
  by unfold_locales
     (simp add: reader_str_at,
      auto simp: reader_str_def moves_def dest: reader_u32_moves split: if_splits option.splits prod.splits)

context enum_table
begin

lemma read_enum_put:
  assumes "e \<in> set es"
  shows "read_enum (enum_of_int es raw) (enum_to_string X) (enum_from_string X)
      (reader_at pre (encode_enum (enum_to_int es unraw e) @ xs)) =
      (Some e, reader_at (pre @ encode_enum (enum_to_int es unraw e)) xs)"
proof -
  have "0 \<le> enum_to_int es unraw e" "enum_to_int es unraw e < 2 ^ 31"
    using to_int_bound [OF assms] int_sized by simp_all
  then have "sint (word_of_int (enum_to_int es unraw e) :: u32) = enum_to_int es unraw e"
    by (simp add: signed_of_int signed_take_bit_int_eq_self)
  then show ?thesis
    using reader_u32_at [of pre "word_of_int (enum_to_int es unraw e)" xs] of_to_int [OF assms] accepted_iff assms
    by (simp add: read_enum_def reader_i32_def encode_enum_def Let_def)
qed

end

lemma read_enum_moves: "read_enum cast to_str from_str r = (Some e, r') \<Longrightarrow> moves r r'"
  by (auto simp: read_enum_def reader_i32_def Let_def dest: reader_u32_moves split: prod.splits option.splits if_splits)

interpretation md_field: field_codec put_MemoryDomain read_MemoryDomain "\<lambda>e. e \<in> set MemoryDomain_values"
proof -
  have eqs: "MemoryDomain_of_int = enum_of_int MemoryDomain_values MemoryDomain_raw" "MemoryDomain_to_string = enum_to_string MemoryDomain_X"
      "MemoryDomain_from_string = enum_from_string MemoryDomain_X"
    by (simp_all add: fun_eq_iff MemoryDomain_of_int_def MemoryDomain_to_string_def MemoryDomain_from_string_def)
  show "field_codec put_MemoryDomain read_MemoryDomain (\<lambda>e. e \<in> set MemoryDomain_values)"
    unfolding put_MemoryDomain_def read_MemoryDomain_def MemoryDomain_to_int_def eqs
    by unfold_locales (simp_all add: md.read_enum_put read_enum_moves)
qed

interpretation loc_field: field_codec put_Locality read_Locality "\<lambda>e. e \<in> set Locality_values"
proof -
  have eqs: "Locality_of_int = enum_of_int Locality_values Locality_raw" "Locality_to_string = enum_to_string Locality_X"
      "Locality_from_string = enum_from_string Locality_X"
    by (simp_all add: fun_eq_iff Locality_of_int_def Locality_to_string_def Locality_from_string_def)
  show "field_codec put_Locality read_Locality (\<lambda>e. e \<in> set Locality_values)"
    unfolding put_Locality_def read_Locality_def Locality_to_int_def eqs
    by unfold_locales (simp_all add: loc.read_enum_put read_enum_moves)
qed

interpretation sp_field: field_codec put_Support read_Support "\<lambda>e. e \<in> set Support_values"
proof -
  have eqs: "Support_of_int = enum_of_int Support_values Support_raw" "Support_to_string = enum_to_string Support_X"
      "Support_from_string = enum_from_string Support_X"
    by (simp_all add: fun_eq_iff Support_of_int_def Support_to_string_def Support_from_string_def)
  show "field_codec put_Support read_Support (\<lambda>e. e \<in> set Support_values)"
    unfolding put_Support_def read_Support_def Support_to_int_def eqs
    by unfold_locales (simp_all add: sp.read_enum_put read_enum_moves)
qed

interpretation pv_field: field_codec put_Provenance read_Provenance "\<lambda>e. e \<in> set Provenance_values"
proof -
  have eqs: "Provenance_of_int = enum_of_int Provenance_values Provenance_raw" "Provenance_to_string = enum_to_string Provenance_X"
      "Provenance_from_string = enum_from_string Provenance_X"
    by (simp_all add: fun_eq_iff Provenance_of_int_def Provenance_to_string_def Provenance_from_string_def)
  show "field_codec put_Provenance read_Provenance (\<lambda>e. e \<in> set Provenance_values)"
    unfolding put_Provenance_def read_Provenance_def Provenance_to_int_def eqs
    by unfold_locales (simp_all add: pv.read_enum_put read_enum_moves)
qed

interpretation bl_field: field_codec put_BufferLifecycle read_BufferLifecycle "\<lambda>e. e \<in> set BufferLifecycle_values"
proof -
  have eqs: "BufferLifecycle_of_int = enum_of_int BufferLifecycle_values BufferLifecycle_raw" "BufferLifecycle_to_string = enum_to_string BufferLifecycle_X"
      "BufferLifecycle_from_string = enum_from_string BufferLifecycle_X"
    by (simp_all add: fun_eq_iff BufferLifecycle_of_int_def BufferLifecycle_to_string_def BufferLifecycle_from_string_def)
  show "field_codec put_BufferLifecycle read_BufferLifecycle (\<lambda>e. e \<in> set BufferLifecycle_values)"
    unfolding put_BufferLifecycle_def read_BufferLifecycle_def BufferLifecycle_to_int_def eqs
    by unfold_locales (simp_all add: bl.read_enum_put read_enum_moves)
qed

interpretation ec_field: field_codec put_EndpointClass read_EndpointClass "\<lambda>e. e \<in> set EndpointClass_values"
proof -
  have eqs: "EndpointClass_of_int = enum_of_int EndpointClass_values EndpointClass_raw" "EndpointClass_to_string = enum_to_string EndpointClass_X"
      "EndpointClass_from_string = enum_from_string EndpointClass_X"
    by (simp_all add: fun_eq_iff EndpointClass_of_int_def EndpointClass_to_string_def EndpointClass_from_string_def)
  show "field_codec put_EndpointClass read_EndpointClass (\<lambda>e. e \<in> set EndpointClass_values)"
    unfolding put_EndpointClass_def read_EndpointClass_def EndpointClass_to_int_def eqs
    by unfold_locales (simp_all add: ec.read_enum_put read_enum_moves)
qed

interpretation rs_field: field_codec put_RegistrationState read_RegistrationState "\<lambda>e. e \<in> set RegistrationState_values"
proof -
  have eqs: "RegistrationState_of_int = enum_of_int RegistrationState_values RegistrationState_raw" "RegistrationState_to_string = enum_to_string RegistrationState_X"
      "RegistrationState_from_string = enum_from_string RegistrationState_X"
    by (simp_all add: fun_eq_iff RegistrationState_of_int_def RegistrationState_to_string_def RegistrationState_from_string_def)
  show "field_codec put_RegistrationState read_RegistrationState (\<lambda>e. e \<in> set RegistrationState_values)"
    unfolding put_RegistrationState_def read_RegistrationState_def RegistrationState_to_int_def eqs
    by unfold_locales (simp_all add: rs.read_enum_put read_enum_moves)
qed

interpretation pp_field: field_codec put_PathPolicy read_PathPolicy "\<lambda>e. e \<in> set PathPolicy_values"
proof -
  have eqs: "PathPolicy_of_int = enum_of_int PathPolicy_values PathPolicy_raw" "PathPolicy_to_string = enum_to_string PathPolicy_X"
      "PathPolicy_from_string = enum_from_string PathPolicy_X"
    by (simp_all add: fun_eq_iff PathPolicy_of_int_def PathPolicy_to_string_def PathPolicy_from_string_def)
  show "field_codec put_PathPolicy read_PathPolicy (\<lambda>e. e \<in> set PathPolicy_values)"
    unfolding put_PathPolicy_def read_PathPolicy_def PathPolicy_to_int_def eqs
    by unfold_locales (simp_all add: pp.read_enum_put read_enum_moves)
qed

interpretation pe_field: field_codec put_PathEligibility read_PathEligibility "\<lambda>e. e \<in> set PathEligibility_values"
proof -
  have eqs: "PathEligibility_of_int = enum_of_int PathEligibility_values PathEligibility_raw" "PathEligibility_to_string = enum_to_string PathEligibility_X"
      "PathEligibility_from_string = enum_from_string PathEligibility_X"
    by (simp_all add: fun_eq_iff PathEligibility_of_int_def PathEligibility_to_string_def PathEligibility_from_string_def)
  show "field_codec put_PathEligibility read_PathEligibility (\<lambda>e. e \<in> set PathEligibility_values)"
    unfolding put_PathEligibility_def read_PathEligibility_def PathEligibility_to_int_def eqs
    by unfold_locales (simp_all add: pe.read_enum_put read_enum_moves)
qed

end
