(* ===== verification/Crc32.thy ===== *)
theory Crc32
  imports Bytes
begin

text \<open>
  The table-driven CRC-32 of \<open>src/protocol.cpp\<close> (and, identically, \<open>src/persistence.cpp\<close>): the table
  is filled by eight shift steps per entry, and one lookup processes a byte. It is shown to compute
  the bit-serial division by the reflected polynomial, and to detect every error that is confined to
  four consecutive bytes.
\<close>

section \<open>The code\<close>

definition crc_step :: "u32 \<Rightarrow> u32" where
  "crc_step c = (if c AND 1 \<noteq> 0 then 0xEDB88320 XOR drop_bit 1 c else drop_bit 1 c)"

definition crc_table :: "u32 list" where
  "crc_table = map (\<lambda>i. (crc_step ^^ 8) (word_of_nat i)) [0..<256]"

definition crc_update :: "u32 \<Rightarrow> u8 \<Rightarrow> u32" where
  "crc_update crc b = crc_table ! unat ((crc XOR ucast b) AND 0xFF) XOR drop_bit 8 crc"

definition crc32 :: "bytes \<Rightarrow> u32" where
  "crc32 data = foldl crc_update 0xFFFFFFFF data XOR 0xFFFFFFFF"

section \<open>The shift step is linear and invertible\<close>

lemma crc_step_alt: "crc_step c = (if odd c then 0xEDB88320 XOR drop_bit 1 c else drop_bit 1 c)"
  by (simp add: crc_step_def and_one_eq odd_iff_mod_2_eq_one)

lemma crc_step_xor: "crc_step (a XOR b) = crc_step a XOR crc_step b"
proof -
  have "odd (a XOR b) \<longleftrightarrow> odd a \<noteq> odd b"
    using bit_xor_iff [of a b 0] by (simp add: bit_0)
  then show ?thesis by (auto simp: crc_step_alt drop_bit_xor xor.assoc xor.left_commute)
qed

lemma crc_steps_xor: "(crc_step ^^ n) (a XOR b) = (crc_step ^^ n) a XOR (crc_step ^^ n) b"
  by (induction n) (simp_all add: crc_step_xor)

lemma crc_step_top: "bit (crc_step c) 31 \<longleftrightarrow> odd c"
proof -
  have "\<not> bit (drop_bit 1 c) 31" by (simp add: bit_drop_bit_eq bit_word_iff_drop_bit_and [symmetric] impossible_bit)
  moreover have "bit (0xEDB88320 :: u32) 31" by simp
  ultimately show ?thesis by (simp add: crc_step_alt bit_xor_iff)
qed

lemma word_xor_cancel [simp]:
  fixes a :: "'a::len word"
  shows "a XOR b = a XOR c \<longleftrightarrow> b = c" and "b XOR a = c XOR a \<longleftrightarrow> b = c"
  by (metis xor.assoc xor.left_neutral xor_self_eq) (metis xor.assoc xor.right_neutral xor_self_eq)

lemma word_xor_eq_iff:
  fixes a :: "'a::len word"
  shows "a XOR b = c \<longleftrightarrow> b = a XOR c"
  using word_xor_cancel(1) [of a b "a XOR c"] by (simp add: xor.assoc [symmetric])

lemma crc_step_inject: "crc_step a = crc_step b \<longleftrightarrow> a = b"
proof
  assume eq: "crc_step a = crc_step b"
  then have "odd a \<longleftrightarrow> odd b" using crc_step_top by metis
  then have "drop_bit 1 a = drop_bit 1 b" using eq by (auto simp: crc_step_alt split: if_splits)
  from arg_cong [OF this, of bit] have "bit a (Suc k) \<longleftrightarrow> bit b (Suc k)" for k
    by (simp add: fun_eq_iff bit_drop_bit_eq)
  with \<open>odd a \<longleftrightarrow> odd b\<close> have "bit a k \<longleftrightarrow> bit b k" for k by (cases k) (simp_all add: bit_0)
  then show "a = b" by (simp add: bit_eq_iff)
qed simp

lemma crc_steps_inject: "(crc_step ^^ n) a = (crc_step ^^ n) b \<longleftrightarrow> a = b"
  by (induction n) (simp_all add: crc_step_inject)

text \<open>On a word whose low bits are clear, the steps only shift.\<close>

lemma crc_steps_shift: "take_bit n c = 0 \<Longrightarrow> (crc_step ^^ n) c = drop_bit n c"
proof (induction n)
  case 0
  then show ?case by simp
next
  case (Suc n)
  have low: "take_bit n c = 0"
    using arg_cong [OF Suc.prems, of "take_bit n"] by simp
  have "\<not> bit c n"
    using arg_cong [OF Suc.prems, of "\<lambda>w. bit w n"] by (simp add: bit_take_bit_iff)
  then have "even (drop_bit n c)" by (simp add: bit_iff_odd_drop_bit)
  with Suc.IH [OF low] show ?case by (simp add: crc_step_alt)
qed

lemma crc_steps_push:
  assumes "drop_bit n (push_bit n w) = w"
  shows "(crc_step ^^ n) (a XOR push_bit n w) = (crc_step ^^ n) a XOR w"
proof -
  have "(crc_step ^^ n) (push_bit n w) = w"
    using crc_steps_shift [of n "push_bit n w"] assms by (simp add: take_bit_push_bit)
  then show ?thesis by (simp add: crc_steps_xor)
qed

section \<open>One table lookup is eight shift steps\<close>

lemma crc_table_nth: "i < 256 \<Longrightarrow> crc_table ! i = (crc_step ^^ 8) (word_of_nat i)"
  by (simp add: crc_table_def del: upt_rec_numeral)

lemma low_byte_split: "c = take_bit 8 c XOR push_bit 8 (drop_bit 8 c)" for c :: u32
  by (rule bit_word_eqI) (auto simp: bit_xor_iff bit_take_bit_iff bit_push_bit_iff bit_drop_bit_eq)

lemma crc_table_steps: "crc_table ! unat (c AND 0xFF) XOR drop_bit 8 c = (crc_step ^^ 8) c"
proof -
  have low: "c AND 0xFF = take_bit 8 c" by (simp add: take_bit_eq_mask mask_eq_exp_minus_1)
  have "unat (take_bit 8 c) < 256"
    using take_bit_nat_less_exp [of 8 "unat c"] by (simp add: unsigned_take_bit_eq)
  then have "crc_table ! unat (c AND 0xFF) = (crc_step ^^ 8) (take_bit 8 c)"
    by (simp add: low crc_table_nth)
  moreover have "drop_bit 8 (push_bit 8 (drop_bit 8 c)) = drop_bit 8 c"
    by (rule bit_word_eqI) (auto simp: bit_push_bit_iff bit_drop_bit_eq dest: bit_imp_le_length)
  ultimately show ?thesis
    using crc_steps_push [of 8 "drop_bit 8 c" "take_bit 8 c"] low_byte_split [of c] by simp
qed

lemma crc_update_steps: "crc_update crc b = (crc_step ^^ 8) (crc XOR ucast b)"
proof -
  have "drop_bit 8 (ucast b :: u32) = 0"
    by (rule bit_word_eqI) (auto simp: bit_drop_bit_eq bit_ucast_iff dest: bit_imp_le_length)
  then have "drop_bit 8 crc = drop_bit 8 (crc XOR ucast b)" by (simp add: drop_bit_xor)
  then show ?thesis using crc_table_steps [of "crc XOR ucast b"] by (simp add: crc_update_def)
qed

text \<open>Up to four bytes at once: the register takes them as one little-endian word.\<close>

lemma crc_update_bytes:
  "length bs \<le> 4 \<Longrightarrow> foldl crc_update c bs = (crc_step ^^ (8 * length bs)) (c XOR le_word bs)"
proof (induction bs arbitrary: c)
  case Nil
  then show ?case by simp
next
  case (Cons b bs)
  have "drop_bit 8 (push_bit 8 (le_word bs)) = (le_word bs :: u32)"
    using Cons.prems
    by (intro bit_word_eqI) (auto simp: bit_push_bit_iff bit_drop_bit_eq bit_le_word)
  from crc_steps_push [OF this, of "c XOR ucast b"]
  have "(crc_step ^^ 8) (c XOR ucast b) XOR le_word bs = (crc_step ^^ 8) (c XOR le_word (b # bs))"
    by (simp add: le_word_Cons xor.assoc)
  then have "foldl crc_update c (b # bs) = (crc_step ^^ (8 * length bs)) ((crc_step ^^ 8) (c XOR le_word (b # bs)))"
    using Cons.IH [of "crc_update c b"] Cons.prems by (simp add: crc_update_steps [of c b])
  also have "\<dots> = (crc_step ^^ (8 * length bs + 8)) (c XOR le_word (b # bs))"
    by (simp only: funpow_add comp_apply)
  finally show ?case by (simp add: add.commute)
qed

section \<open>Error detection\<close>

lemma crc_register_inject: "foldl crc_update c xs = foldl crc_update d xs \<longleftrightarrow> c = d"
  by (induction xs arbitrary: c d) (simp_all add: crc_update_steps crc_steps_inject)

lemma crc_burst_inject:
  assumes "length bs = length bs'" and "length bs \<le> 4"
  shows "foldl crc_update c (xs @ bs @ ys) = foldl crc_update c (xs @ bs' @ ys) \<longleftrightarrow> bs = bs'"
proof -
  let ?c = "foldl crc_update c xs"
  have "foldl crc_update ?c bs = foldl crc_update ?c bs' \<longleftrightarrow> (le_word bs :: u32) = le_word bs'"
    unfolding crc_update_bytes [OF assms(2)] crc_update_bytes [OF assms(2) [unfolded assms(1)]] assms(1)
    by (simp add: crc_steps_inject)
  also have "\<dots> \<longleftrightarrow> bs = bs'" by (rule le_word_inject [OF refl]) (use assms in simp_all)
  finally show ?thesis by (simp add: crc_register_inject)
qed

text \<open>A message followed by its CRC in little-endian order leaves the register at one constant.\<close>

definition crc_residue :: u32 where
  "crc_residue = (crc_step ^^ 32) 0xFFFFFFFF"

lemma crc_residue_iff:
  assumes "length stored = 4"
  shows "foldl crc_update 0xFFFFFFFF (xs @ stored) = crc_residue \<longleftrightarrow> le_word stored = crc32 xs"
proof -
  let ?c = "foldl crc_update 0xFFFFFFFF xs"
  have "foldl crc_update 0xFFFFFFFF (xs @ stored) = crc_residue \<longleftrightarrow> ?c XOR le_word stored = 0xFFFFFFFF"
    using assms crc_update_bytes [of stored ?c] by (simp add: crc_residue_def crc_steps_inject)
  also have "\<dots> \<longleftrightarrow> le_word stored = ?c XOR 0xFFFFFFFF"
    by (rule word_xor_eq_iff)
  finally show ?thesis by (simp add: crc32_def)
qed

section \<open>The bit-serial reference\<close>

text \<open>
  Division by the reflected IEEE polynomial, one message bit at a time, least significant bit first:
  the bit shifted out of the register, added to the message bit, decides whether the polynomial is
  subtracted.
\<close>

definition crc_bit :: "u32 \<Rightarrow> bool \<Rightarrow> u32" where
  "crc_bit c b = (if odd c \<noteq> b then drop_bit 1 c XOR 0xEDB88320 else drop_bit 1 c)"

definition byte_bits :: "u8 \<Rightarrow> bool list" where
  "byte_bits b = map (bit b) [0..<8]"

definition crc32_serial :: "bytes \<Rightarrow> u32" where
  "crc32_serial data = foldl crc_bit 0xFFFFFFFF (concat (map byte_bits data)) XOR 0xFFFFFFFF"

lemma crc_bit_step: "crc_bit c b = crc_step (c XOR of_bool b)"
proof -
  have "odd (c XOR of_bool b) \<longleftrightarrow> odd c \<noteq> b"
    using bit_xor_iff [of c "of_bool b" 0] by (simp add: bit_0)
  moreover have "drop_bit 1 (of_bool b :: u32) = 0"
    by (rule bit_word_eqI) (simp add: bit_drop_bit_eq bit_of_bool_iff)
  ultimately show ?thesis by (auto simp: crc_bit_def crc_step_alt drop_bit_xor xor.commute)
qed

lemma horner_Cons:
  "horner_sum of_bool 2 (b # bs) = (of_bool b XOR push_bit 1 (horner_sum of_bool 2 bs) :: u32)"
  by (rule bit_word_eqI)
     (auto simp: bit_horner_sum_bit_iff bit_xor_iff bit_push_bit_iff bit_of_bool_iff nth_Cons'
       simp del: horner_sum_simps push_bit_Suc One_nat_def)

lemma crc_bits_steps:
  "length bs \<le> 32 \<Longrightarrow> foldl crc_bit c bs = (crc_step ^^ length bs) (c XOR horner_sum of_bool 2 bs)"
proof (induction bs arbitrary: c)
  case Nil
  then show ?case by simp
next
  case (Cons b bs)
  have "drop_bit 1 (push_bit 1 (horner_sum of_bool 2 bs)) = (horner_sum of_bool 2 bs :: u32)"
    using Cons.prems
    by (intro bit_word_eqI) (auto simp: bit_push_bit_iff bit_drop_bit_eq bit_horner_sum_bit_iff
        simp del: push_bit_Suc One_nat_def)
  from crc_steps_push [OF this, of "c XOR of_bool b"]
  have "crc_step (c XOR of_bool b) XOR horner_sum of_bool 2 bs = crc_step (c XOR horner_sum of_bool 2 (b # bs))"
    by (simp add: horner_Cons xor.assoc del: horner_sum_simps)
  with Cons.IH [of "crc_bit c b"] Cons.prems show ?case
    by (simp add: crc_bit_step [of c b] funpow_swap1 del: horner_sum_simps)
qed

lemma crc_update_serial: "foldl crc_bit c (byte_bits b) = crc_update c b"
proof -
  have "horner_sum of_bool 2 (byte_bits b) = (ucast b :: u32)"
  proof (rule bit_word_eqI)
    fix k assume "k < LENGTH(32)"
    moreover have "k < 8" if "bit b k" using bit_imp_le_length [OF that] by simp
    ultimately show "bit (horner_sum of_bool 2 (byte_bits b) :: u32) k \<longleftrightarrow> bit (ucast b :: u32) k"
      by (auto simp: byte_bits_def bit_horner_sum_bit_iff bit_ucast_iff simp del: upt_rec_numeral)
  qed
  moreover have "length (byte_bits b) = 8" by (simp add: byte_bits_def)
  ultimately show ?thesis using crc_bits_steps [of "byte_bits b" c] by (simp add: crc_update_steps)
qed

text \<open>
  C31: The table-driven CRC-32 computes the bit-serial division by the polynomial on every message.
\<close>

theorem crc32_table_is_bit_serial: "crc32 data = crc32_serial data"
proof -
  have "foldl crc_bit c (concat (map byte_bits data)) = foldl crc_update c data" for c
    by (induction data arbitrary: c) (simp_all add: crc_update_serial)
  then show ?thesis by (simp add: crc32_def crc32_serial_def)
qed

text \<open>
  The CRC detects every error confined to four consecutive bytes, wherever it is in the message.
\<close>

lemma crc32_detects_bursts:
  assumes "length bs = length bs'" and "length bs \<le> 4" and "bs \<noteq> bs'"
  shows "crc32 (xs @ bs @ ys) \<noteq> crc32 (xs @ bs' @ ys)"
  using crc_burst_inject [OF assms(1,2)] assms(3) by (simp add: crc32_def)

end
