(* ===== verification/Persistence.thy ===== *)
theory Persistence
  imports State_Codec Crc32 Coordinator
begin

text \<open>
  The state file of \<open>src/persistence.cpp\<close>: \<open>Coordinator::persist_to_file\<close> writes the registries,
  \<open>Coordinator::recover_from_file\<close> reads them back into a coordinator. Writing is given as the bytes
  appended to the body, section by section. Reading follows the code: each record is decoded field by
  field with the code's error messages and stored under its identity; an error leaves the output
  coordinator as far as it has been filled. The loop over the plans keeps its loop bound as a variable
  of the model, since the code overwrites it. The file system is a map from paths to contents, with
  the outcome of each call into the operating system as an argument.
\<close>

section \<open>Writing records\<close>

definition encode_buffer :: "BufferRecord \<Rightarrow> bytes" where
  "encode_buffer b =
     put_u64 (id_value (b_id b)) @ put_u64 (gen_value (b_generation b)) @
     put_MemoryDomain (b_domain b) @ put_u64 (b_size b) @ put_u64 (b_alignment b) @
     put_u64 (id_value (b_device b)) @ put_u64 (gen_value (b_device_generation b)) @
     put_Locality (b_locality b) @ put_Support (b_support b) @ put_Provenance (b_provenance b) @
     put_BufferLifecycle (b_lifecycle b) @ put_str (b_name b)"

definition encode_device :: "DeviceRecord \<Rightarrow> bytes" where
  "encode_device d =
     put_u64 (id_value (d_id d)) @ put_u64 (gen_value (d_generation d)) @ put_str (d_name d) @
     put_str (d_compute_capability d) @ put_u32 (if d_peer_memory_supported d then 1 else 0) @
     put_Support (d_support d) @ put_Provenance (d_provenance d)"

definition encode_endpoint :: "EndpointRecord \<Rightarrow> bytes" where
  "encode_endpoint e =
     put_u64 (id_value (e_id e)) @ put_u64 (gen_value (e_generation e)) @
     put_EndpointClass (e_endpoint_class e) @ put_str (e_name e) @ put_str (e_topology_hint e) @
     put_u32 (if e_healthy e then 1 else 0) @ put_u64 (id_value (e_provider e)) @
     put_Support (e_support e) @ put_Provenance (e_provenance e)"

definition encode_nic :: "NicRecord \<Rightarrow> bytes" where
  "encode_nic n =
     put_u64 (id_value (n_id n)) @ put_u64 (gen_value (n_generation n)) @ put_str (n_name n) @
     put_str (n_locator n) @ put_u32 (if n_rdma_capable n then 1 else 0) @
     put_u32 (if n_direct_path_capable n then 1 else 0) @ put_u64 (id_value (n_provider n)) @
     put_Support (n_support n) @ put_Provenance (n_provenance n)"

definition encode_storage :: "StorageEndpointRecord \<Rightarrow> bytes" where
  "encode_storage se =
     put_u64 (id_value (se_id se)) @ put_u64 (gen_value (se_generation se)) @ put_str (se_name se) @
     put_str (se_backend_name se) @ put_str (se_path se) @
     put_u32 (if se_direct_path_capable se then 1 else 0) @ put_u64 (id_value (se_provider se)) @
     put_Support (se_support se) @ put_Provenance (se_provenance se)"

definition encode_provider :: "ProviderInfo \<Rightarrow> bytes" where
  "encode_provider p =
     put_u64 (id_value (p_id p)) @ put_str (p_name p) @ put_u32 (if p_available p then 1 else 0) @
     put_Support (p_support p) @ put_Provenance (p_provenance p)"

definition encode_capability :: "CapabilityObservation \<Rightarrow> bytes" where
  "encode_capability c =
     put_u64 (id_value (c_id c)) @ put_str (c_provider c) @ put_str (c_capability c) @
     put_str (c_value c) @ put_Support (c_support c) @ put_Provenance (c_provenance c) @
     put_u64 (id_value (au_worker (c_authority c))) @
     put_u64 (gen_value (au_boot (c_authority c))) @
     put_u64 (gen_value (au_epoch (c_authority c))) @ put_u64 (c_freshness c)"

definition encode_registration :: "Registration \<Rightarrow> bytes" where
  "encode_registration reg =
     put_u64 (id_value (r_id reg)) @ put_u64 (gen_value (r_generation reg)) @
     put_u64 (id_value (r_buffer reg)) @ put_u64 (gen_value (r_buffer_generation reg)) @
     put_u64 (id_value (r_endpoint reg)) @ put_u64 (gen_value (r_endpoint_generation reg)) @
     put_u64 (id_value (r_provider reg)) @ put_u64 (id_value (au_worker (r_authority reg))) @
     put_u64 (gen_value (au_boot (r_authority reg))) @
     put_u64 (gen_value (au_epoch (r_authority reg))) @ put_RegistrationState (r_state reg) @
     put_Support (r_support reg) @ put_Provenance (r_provenance reg) @
     put_u32 (if r_duplicated reg then 1 else 0) @ put_u64 (r_freshness reg) @
     put_u32 (word_of_nat (length (r_required_capabilities reg))) @
     concat (map put_str (r_required_capabilities reg))"

definition encode_plan :: "TransferPlan \<Rightarrow> bytes" where
  "encode_plan pl =
     put_u64 (id_value (tp_id pl)) @ put_u64 (gen_value (tp_path_generation pl)) @
     put_u64 (gen_value (tp_generation pl)) @ put_u64 (id_value (tp_source pl)) @
     put_u64 (gen_value (tp_source_generation pl)) @ put_u64 (id_value (tp_destination pl)) @
     put_u64 (gen_value (tp_destination_generation pl)) @
     put_u64 (id_value (tp_registration_id pl)) @
     put_u64 (gen_value (tp_registration_generation pl)) @
     put_u64 (gen_value (tp_registration_buffer_generation pl)) @ put_PathPolicy (tp_policy pl) @
     put_u64 (tp_expected_bytes pl) @ put_PathEligibility (tp_eligibility pl) @
     put_Support (tp_support pl) @ put_Provenance (tp_provenance pl) @ put_u32 (tp_copy_count pl) @
     put_str (tp_explanation pl) @ put_u64 (gen_value (tp_epoch pl)) @
     put_u64 (id_value (au_worker (tp_authority pl))) @
     put_u64 (gen_value (au_boot (tp_authority pl))) @
     put_u64 (gen_value (au_epoch (tp_authority pl)))"

text \<open>A section: the number of records, then the records in the order of their identities.\<close>

definition encode_section :: "('v \<Rightarrow> u64) \<Rightarrow> ('v \<Rightarrow> bytes) \<Rightarrow> 'v umap \<Rightarrow> bytes" where
  "encode_section key encode m =
     (let vec = sort_key key (umap_values m)
      in put_u32 (word_of_nat (length vec)) @ concat (map encode vec))"

definition persist_body :: "State \<Rightarrow> bytes" where
  "persist_body s =
     put_u64 (gen_value (st_epoch s)) @ put_u64 (st_next_id s) @ put_u64 (st_freshness s) @
     encode_section (\<lambda>b. id_value (b_id b)) encode_buffer (st_buffers s) @
     encode_section (\<lambda>d. id_value (d_id d)) encode_device (st_devices s) @
     encode_section (\<lambda>e. id_value (e_id e)) encode_endpoint (st_endpoints s) @
     encode_section (\<lambda>n. id_value (n_id n)) encode_nic (st_nics s) @
     encode_section (\<lambda>e. id_value (se_id e)) encode_storage (st_storage s) @
     encode_section (\<lambda>p. id_value (p_id p)) encode_provider (st_providers s) @
     encode_section (\<lambda>c. id_value (c_id c)) encode_capability (st_capabilities s) @
     encode_section (\<lambda>r. id_value (r_id r)) encode_registration (st_registrations s) @
     encode_section (\<lambda>p. id_value (tp_id p)) encode_plan (st_plans s)"

definition kVersion :: u32 where "kVersion = 1"
definition kMaxPayload :: u64 where "kMaxPayload = push_bit 28 1"

definition state_magic :: bytes where
  "state_magic = map byte_of_char ''GDFSTATE''"

definition state_file :: "State \<Rightarrow> bytes" where
  "state_file s =
     (let body = persist_body s;
          file = state_magic @ put_u32 kVersion @ put_u64 (word_of_nat (length body)) @ body
      in file @ put_u32 (crc32 file))"

section \<open>The file system\<close>

type_synonym files = "string \<rightharpoonup> bytes"

text \<open>
  Outcomes of the calls into the operating system: whether the temporary file opens, how much of the data
  is in it once the stream has been destroyed, and whether \<open>os.write\<close> leaves the stream good. The stream
  is buffered: the last of the data is flushed, and the file closed, by its destructor, which reports
  nothing. So a good write does not mean that all the data is in the file.
\<close>

record file_io =
  io_open :: bool
  io_written :: nat
  io_write :: bool

text \<open>
  \<open>detail::atomic_replace_file\<close> outside Windows: the destination is removed, then the source renamed;
  the flag says whether \<open>std::rename\<close> succeeds. On Windows it is one call of \<open>MoveFileExA\<close>, a parameter
  that takes the paths and the flags \<open>MOVEFILE_REPLACE_EXISTING\<close> (1) and \<open>MOVEFILE_WRITE_THROUGH\<close> (8). The
  persisting code takes the replacement as an argument.
\<close>

definition atomic_replace_file :: "bool \<Rightarrow> string \<Rightarrow> string \<Rightarrow> files \<Rightarrow> bool \<times> files" where
  "atomic_replace_file rename_ok src dst fs =
     (let fs1 = fs(dst := None) in
      case fs1 src of
        Some c \<Rightarrow> if rename_ok then (True, fs1(dst := Some c, src := None)) else (False, fs1)
      | None \<Rightarrow> (False, fs1))"

definition atomic_replace_file_windows ::
    "(string \<Rightarrow> string \<Rightarrow> u32 \<Rightarrow> files \<Rightarrow> int \<times> files) \<Rightarrow> string \<Rightarrow> string \<Rightarrow> files \<Rightarrow> bool \<times> files" where
  "atomic_replace_file_windows MoveFileExA src dst fs =
     (let (r, fs') = MoveFileExA src dst (0x1 OR 0x8) fs in (r \<noteq> 0, fs'))"

definition persist_to_file ::
    "(string \<Rightarrow> string \<Rightarrow> files \<Rightarrow> bool \<times> files) \<Rightarrow> file_io \<Rightarrow> string \<Rightarrow> State \<Rightarrow> files \<Rightarrow> unit Result \<times> files" where
  "persist_to_file replace io path s fs =
     (let file = state_file s;
          tmp = path @ ''.gdfstate.tmp''
      in if \<not> io_open io then
           (err ErrorCode.PERSISTENCE_ERROR ''cannot open temp state file for write'', fs)
         else if \<not> io_write io then
           (err ErrorCode.PERSISTENCE_ERROR ''failed writing state file'', fs(tmp \<mapsto> take (io_written io) file))
         else
           let (replaced, fs') = replace tmp path (fs(tmp \<mapsto> take (io_written io) file))
           in if \<not> replaced then
                (err ErrorCode.PERSISTENCE_ERROR ''atomic replace of state file failed'', fs')
              else (ok (), fs'))"

section \<open>Reading records\<close>

definition decode_buffer :: "Reader \<Rightarrow> (BufferRecord \<times> Reader) Result" where
  "decode_buffer r =
     expect reader_u64 ''truncated buffer'' r (\<lambda>id_v r.
     expect reader_u64 ''truncated buffer gen'' r (\<lambda>generation_v r.
     expect read_MemoryDomain ''invalid buffer domain'' r (\<lambda>domain_v r.
     expect reader_u64 ''truncated buffer size'' r (\<lambda>size_v r.
     expect reader_u64 ''truncated buffer alignment'' r (\<lambda>alignment_v r.
     expect reader_u64 ''truncated buffer device'' r (\<lambda>device_v r.
     expect reader_u64 ''truncated buffer device gen'' r (\<lambda>device_generation_v r.
     expect read_Locality ''invalid buffer enum'' r (\<lambda>locality_v r.
     expect read_Support ''invalid buffer enum'' r (\<lambda>support_v r.
     expect read_Provenance ''invalid buffer enum'' r (\<lambda>provenance_v r.
     expect read_BufferLifecycle ''invalid buffer enum'' r (\<lambda>lifecycle_v r.
     expect reader_str ''truncated buffer name'' r (\<lambda>name_v r.
     ok (default_BufferRecord\<lparr>b_id := Id id_v, b_generation := Generation generation_v, b_domain := domain_v,
        b_size := size_v, b_alignment := alignment_v, b_device := Id device_v,
        b_device_generation := Generation device_generation_v, b_locality := locality_v,
        b_support := support_v, b_provenance := provenance_v, b_lifecycle := lifecycle_v,
        b_name := name_v, b_registration_state := RegistrationState.UNREGISTERED, b_handle := None\<rparr>, r)))))))))))))"

definition decode_device :: "Reader \<Rightarrow> (DeviceRecord \<times> Reader) Result" where
  "decode_device r =
     expect reader_u64 ''truncated device'' r (\<lambda>id_v r.
     expect reader_u64 ''truncated device gen'' r (\<lambda>generation_v r.
     expect reader_str ''device strings'' r (\<lambda>name_v r.
     expect reader_str ''device strings'' r (\<lambda>compute_capability_v r.
     expect_flag ''device bool'' r (\<lambda>peer_memory_supported_v r.
     expect read_Support ''device enum'' r (\<lambda>support_v r.
     expect read_Provenance ''device enum'' r (\<lambda>provenance_v r.
     ok (default_DeviceRecord\<lparr>d_id := Id id_v, d_generation := Generation generation_v, d_name := name_v,
        d_compute_capability := compute_capability_v,
        d_peer_memory_supported := peer_memory_supported_v, d_support := support_v,
        d_provenance := provenance_v\<rparr>, r))))))))"

definition decode_endpoint :: "Reader \<Rightarrow> (EndpointRecord \<times> Reader) Result" where
  "decode_endpoint r =
     expect reader_u64 ''truncated endpoint'' r (\<lambda>id_v r.
     expect reader_u64 ''truncated endpoint gen'' r (\<lambda>generation_v r.
     expect read_EndpointClass ''endpoint class'' r (\<lambda>endpoint_class_v r.
     expect reader_str ''endpoint strings'' r (\<lambda>name_v r.
     expect reader_str ''endpoint strings'' r (\<lambda>topology_hint_v r.
     expect_flag ''endpoint health'' r (\<lambda>healthy_v r.
     expect reader_u64 ''endpoint provider'' r (\<lambda>provider_v r.
     expect read_Support ''endpoint enum'' r (\<lambda>support_v r.
     expect read_Provenance ''endpoint enum'' r (\<lambda>provenance_v r.
     ok (default_EndpointRecord\<lparr>e_id := Id id_v, e_generation := Generation generation_v,
        e_endpoint_class := endpoint_class_v, e_name := name_v, e_topology_hint := topology_hint_v,
        e_healthy := healthy_v, e_provider := Id provider_v, e_support := support_v,
        e_provenance := provenance_v, e_handle := None\<rparr>, r))))))))))"

definition decode_nic :: "Reader \<Rightarrow> (NicRecord \<times> Reader) Result" where
  "decode_nic r =
     expect reader_u64 ''truncated nic'' r (\<lambda>id_v r.
     expect reader_u64 ''truncated nic gen'' r (\<lambda>generation_v r.
     expect reader_str ''nic strings'' r (\<lambda>name_v r.
     expect reader_str ''nic strings'' r (\<lambda>locator_v r.
     expect_flag ''nic bool'' r (\<lambda>rdma_capable_v r.
     expect_flag ''nic bool'' r (\<lambda>direct_path_capable_v r.
     expect reader_u64 ''nic provider'' r (\<lambda>provider_v r.
     expect read_Support ''nic enum'' r (\<lambda>support_v r.
     expect read_Provenance ''nic enum'' r (\<lambda>provenance_v r.
     ok (default_NicRecord\<lparr>n_id := Id id_v, n_generation := Generation generation_v, n_name := name_v,
        n_locator := locator_v, n_rdma_capable := rdma_capable_v,
        n_direct_path_capable := direct_path_capable_v, n_provider := Id provider_v,
        n_support := support_v, n_provenance := provenance_v\<rparr>, r))))))))))"

definition decode_storage :: "Reader \<Rightarrow> (StorageEndpointRecord \<times> Reader) Result" where
  "decode_storage r =
     expect reader_u64 ''truncated storage'' r (\<lambda>id_v r.
     expect reader_u64 ''truncated storage gen'' r (\<lambda>generation_v r.
     expect reader_str ''storage strings'' r (\<lambda>name_v r.
     expect reader_str ''storage strings'' r (\<lambda>backend_name_v r.
     expect reader_str ''storage strings'' r (\<lambda>path_v r.
     expect_flag ''storage bool'' r (\<lambda>direct_path_capable_v r.
     expect reader_u64 ''storage provider'' r (\<lambda>provider_v r.
     expect read_Support ''storage enum'' r (\<lambda>support_v r.
     expect read_Provenance ''storage enum'' r (\<lambda>provenance_v r.
     ok (default_StorageEndpointRecord\<lparr>se_id := Id id_v, se_generation := Generation generation_v, se_name := name_v,
        se_backend_name := backend_name_v, se_path := path_v,
        se_direct_path_capable := direct_path_capable_v, se_provider := Id provider_v,
        se_support := support_v, se_provenance := provenance_v\<rparr>, r))))))))))"

definition decode_provider :: "Reader \<Rightarrow> (ProviderInfo \<times> Reader) Result" where
  "decode_provider r =
     expect reader_u64 ''truncated provider'' r (\<lambda>id_v r.
     expect reader_str ''provider name'' r (\<lambda>name_v r.
     expect_flag ''provider bool'' r (\<lambda>available_v r.
     expect read_Support ''provider enum'' r (\<lambda>support_v r.
     expect read_Provenance ''provider enum'' r (\<lambda>provenance_v r.
     ok (default_ProviderInfo\<lparr>p_id := Id id_v, p_name := name_v, p_available := available_v, p_support := support_v,
        p_provenance := provenance_v\<rparr>, r))))))"

definition decode_capability :: "Reader \<Rightarrow> (CapabilityObservation \<times> Reader) Result" where
  "decode_capability r =
     expect reader_u64 ''truncated cap id'' r (\<lambda>id_v r.
     expect reader_str ''cap strings'' r (\<lambda>provider_v r.
     expect reader_str ''cap strings'' r (\<lambda>capability_v r.
     expect reader_str ''cap strings'' r (\<lambda>value_v r.
     expect read_Support ''cap enum'' r (\<lambda>support_v r.
     expect read_Provenance ''cap enum'' r (\<lambda>provenance_v r.
     expect reader_u64 ''cap worker'' r (\<lambda>au_worker_v r.
     expect reader_u64 ''cap boot'' r (\<lambda>au_boot_v r.
     expect reader_u64 ''cap epoch'' r (\<lambda>au_epoch_v r.
     expect reader_u64 ''cap freshness'' r (\<lambda>freshness_v r.
     ok (default_CapabilityObservation\<lparr>c_id := Id id_v, c_provider := provider_v, c_capability := capability_v, c_value := value_v,
        c_support := support_v, c_provenance := provenance_v,
        c_authority := \<lparr>au_worker = Id au_worker_v, au_boot = Generation au_boot_v, au_epoch = Generation au_epoch_v\<rparr>,
        c_freshness := freshness_v\<rparr>, r)))))))))))"

fun read_caps :: "nat \<Rightarrow> string list \<Rightarrow> Reader \<Rightarrow> (string list \<times> Reader) Result" where
  "read_caps 0 caps r = ok (caps, r)"
| "read_caps (Suc n) caps r = expect reader_str ''reg cap str'' r (\<lambda>s r. read_caps n (caps @ [s]) r)"

definition decode_registration :: "Reader \<Rightarrow> (Registration \<times> Reader) Result" where
  "decode_registration r =
     expect reader_u64 ''truncated reg id'' r (\<lambda>id_v r.
     expect reader_u64 ''reg gen'' r (\<lambda>generation_v r.
     expect reader_u64 ''reg buffer'' r (\<lambda>buffer_v r.
     expect reader_u64 ''reg buffer gen'' r (\<lambda>buffer_generation_v r.
     expect reader_u64 ''reg endpoint'' r (\<lambda>endpoint_v r.
     expect reader_u64 ''reg endpoint gen'' r (\<lambda>endpoint_generation_v r.
     expect reader_u64 ''reg provider'' r (\<lambda>provider_v r.
     expect reader_u64 ''reg worker'' r (\<lambda>au_worker_v r.
     expect reader_u64 ''reg boot'' r (\<lambda>au_boot_v r.
     expect reader_u64 ''reg epoch'' r (\<lambda>au_epoch_v r.
     expect read_RegistrationState ''reg state'' r (\<lambda>state_v r.
     expect read_Support ''reg enum'' r (\<lambda>support_v r.
     expect read_Provenance ''reg enum'' r (\<lambda>provenance_v r.
     expect_flag ''reg dup'' r (\<lambda>duplicated_v r.
     expect reader_u64 ''reg freshness'' r (\<lambda>freshness_v r.
     expect reader_u32 ''reg caps'' r (\<lambda>ncap r.
     if ncap > 4096 then err ErrorCode.PERSISTENCE_ERROR ''reg caps'' else
     (case read_caps (unat ncap) [] r of
        Inl e \<Rightarrow> Inl e
      | Inr (caps, r) \<Rightarrow>
          let reg = default_Registration\<lparr>r_id := Id id_v, r_generation := Generation generation_v, r_buffer := Id buffer_v,
                      r_buffer_generation := Generation buffer_generation_v, r_endpoint := Id endpoint_v,
                      r_endpoint_generation := Generation endpoint_generation_v, r_provider := Id provider_v,
                      r_authority := \<lparr>au_worker = Id au_worker_v, au_boot = Generation au_boot_v, au_epoch = Generation au_epoch_v\<rparr>,
                      r_state := state_v, r_support := support_v, r_provenance := provenance_v,
                      r_duplicated := duplicated_v, r_freshness := freshness_v\<rparr>;
              reg = reg\<lparr>r_required_capabilities := caps, r_handle := None\<rparr>;
              reg = (if r_state reg = RegistrationState.REGISTERED
                     then reg\<lparr>r_state := RegistrationState.REVALIDATION_REQUIRED\<rparr> else reg)
          in ok (reg, r))))))))))))))))))"

text \<open>
  The read of a plan also gives the loop bound it leaves behind: the copy count is read into the
  variable that holds the number of plans.
\<close>

definition decode_plan :: "Reader \<Rightarrow> ((TransferPlan \<times> u32) \<times> Reader) Result" where
  "decode_plan r =
     expect reader_u64 ''truncated plan id'' r (\<lambda>id_v r.
     expect reader_u64 ''plan path gen'' r (\<lambda>path_generation_v r.
     expect reader_u64 ''plan gen'' r (\<lambda>generation_v r.
     expect reader_u64 ''plan source'' r (\<lambda>source_v r.
     expect reader_u64 ''plan source gen'' r (\<lambda>source_generation_v r.
     expect reader_u64 ''plan dest'' r (\<lambda>destination_v r.
     expect reader_u64 ''plan dest gen'' r (\<lambda>destination_generation_v r.
     expect reader_u64 ''plan reg id'' r (\<lambda>registration_id_v r.
     expect reader_u64 ''plan reg gen'' r (\<lambda>registration_generation_v r.
     expect reader_u64 ''plan reg buf gen'' r (\<lambda>registration_buffer_generation_v r.
     expect read_PathPolicy ''plan policy'' r (\<lambda>policy_v r.
     expect reader_u64 ''plan expected'' r (\<lambda>expected_bytes_v r.
     expect read_PathEligibility ''plan enum'' r (\<lambda>eligibility_v r.
     expect read_Support ''plan enum'' r (\<lambda>support_v r.
     expect read_Provenance ''plan enum'' r (\<lambda>provenance_v r.
     expect reader_u32 ''plan copy count'' r (\<lambda>copy_count_v r.
     expect reader_str ''plan explanation'' r (\<lambda>explanation_v r.
     expect reader_u64 ''plan epoch'' r (\<lambda>epoch_v r.
     expect reader_u64 ''plan worker'' r (\<lambda>au_worker_v r.
     expect reader_u64 ''plan boot'' r (\<lambda>au_boot_v r.
     expect reader_u64 ''plan auth epoch'' r (\<lambda>au_epoch_v r.
     ok ((default_TransferPlan\<lparr>tp_id := Id id_v, tp_path_generation := Generation path_generation_v,
        tp_generation := Generation generation_v, tp_source := Id source_v,
        tp_source_generation := Generation source_generation_v, tp_destination := Id destination_v,
        tp_destination_generation := Generation destination_generation_v,
        tp_registration_id := Id registration_id_v,
        tp_registration_generation := Generation registration_generation_v,
        tp_registration_buffer_generation := Generation registration_buffer_generation_v,
        tp_policy := policy_v, tp_expected_bytes := expected_bytes_v,
        tp_eligibility := eligibility_v, tp_support := support_v, tp_provenance := provenance_v,
        tp_copy_count := copy_count_v, tp_explanation := explanation_v,
        tp_epoch := Generation epoch_v,
        tp_authority := \<lparr>au_worker = Id au_worker_v, au_boot = Generation au_boot_v, au_epoch = Generation au_epoch_v\<rparr>,
        tp_authoritative := False\<rparr>, copy_count_v), r))))))))))))))))))))))"

section \<open>Recovery\<close>

text \<open>The loop over the records of a section, storing each in the output coordinator.\<close>

fun read_records ::
    "(Reader \<Rightarrow> ('v \<times> Reader) Result) \<Rightarrow> ('v \<Rightarrow> State \<Rightarrow> State) \<Rightarrow> nat \<Rightarrow> Reader \<Rightarrow> State \<Rightarrow>
     Reader Result \<times> State" where
  "read_records decode store 0 r s = (ok r, s)"
| "read_records decode store (Suc n) r s =
     (case decode r of
        Inl e \<Rightarrow> (Inl e, s)
      | Inr (v, r') \<Rightarrow> read_records decode store n r' (store v s))"

definition read_section ::
    "string \<Rightarrow> (State \<Rightarrow> State) \<Rightarrow> (Reader \<Rightarrow> ('v \<times> Reader) Result) \<Rightarrow> ('v \<Rightarrow> State \<Rightarrow> State) \<Rightarrow>
     Reader \<Rightarrow> State \<Rightarrow> Reader Result \<times> State" where
  "read_section msg clear decode store r s =
     (case reader_u32 r of
        (None, r') \<Rightarrow> (err ErrorCode.PERSISTENCE_ERROR msg, s)
      | (Some cnt, r') \<Rightarrow>
          if cnt > push_bit 20 1 then (err ErrorCode.PERSISTENCE_ERROR msg, s)
          else read_records decode store (unat cnt) r' (clear s))"

definition recover_buffers :: "Reader \<Rightarrow> State \<Rightarrow> Reader Result \<times> State" where
  "recover_buffers =
     read_section ''invalid buffer count'' (\<lambda>s. s\<lparr>st_buffers := []\<rparr>) decode_buffer
       (\<lambda>v s. s\<lparr>st_buffers := umap_put (id_value (b_id v)) v (st_buffers s)\<rparr>)"

definition recover_devices :: "Reader \<Rightarrow> State \<Rightarrow> Reader Result \<times> State" where
  "recover_devices =
     read_section ''invalid device count'' (\<lambda>s. s\<lparr>st_devices := []\<rparr>) decode_device
       (\<lambda>v s. s\<lparr>st_devices := umap_put (id_value (d_id v)) v (st_devices s)\<rparr>)"

definition recover_endpoints :: "Reader \<Rightarrow> State \<Rightarrow> Reader Result \<times> State" where
  "recover_endpoints =
     read_section ''invalid endpoint count'' (\<lambda>s. s\<lparr>st_endpoints := []\<rparr>) decode_endpoint
       (\<lambda>v s. s\<lparr>st_endpoints := umap_put (id_value (e_id v)) v (st_endpoints s)\<rparr>)"

definition recover_nics :: "Reader \<Rightarrow> State \<Rightarrow> Reader Result \<times> State" where
  "recover_nics =
     read_section ''invalid nic count'' (\<lambda>s. s\<lparr>st_nics := []\<rparr>) decode_nic
       (\<lambda>v s. s\<lparr>st_nics := umap_put (id_value (n_id v)) v (st_nics s)\<rparr>)"

definition recover_storage :: "Reader \<Rightarrow> State \<Rightarrow> Reader Result \<times> State" where
  "recover_storage =
     read_section ''invalid storage count'' (\<lambda>s. s\<lparr>st_storage := []\<rparr>) decode_storage
       (\<lambda>v s. s\<lparr>st_storage := umap_put (id_value (se_id v)) v (st_storage s)\<rparr>)"

definition recover_providers :: "Reader \<Rightarrow> State \<Rightarrow> Reader Result \<times> State" where
  "recover_providers =
     read_section ''invalid provider count'' (\<lambda>s. s\<lparr>st_providers := []\<rparr>) decode_provider
       (\<lambda>v s. s\<lparr>st_providers := umap_put (id_value (p_id v)) v (st_providers s)\<rparr>)"

definition recover_capabilities :: "Reader \<Rightarrow> State \<Rightarrow> Reader Result \<times> State" where
  "recover_capabilities =
     read_section ''invalid capability count'' (\<lambda>s. s\<lparr>st_capabilities := []\<rparr>) decode_capability
       (\<lambda>v s. s\<lparr>st_capabilities := umap_put (id_value (c_id v)) v (st_capabilities s)\<rparr>)"

definition recover_registrations :: "Reader \<Rightarrow> State \<Rightarrow> Reader Result \<times> State" where
  "recover_registrations =
     read_section ''invalid registration count'' (\<lambda>s. s\<lparr>st_registrations := []\<rparr>) decode_registration
       (\<lambda>v s. s\<lparr>st_registrations := umap_put (id_value (r_id v)) v (st_registrations s)\<rparr>)"

text \<open>Every read that succeeds has moved forward inside the buffer.\<close>

lemmas expect_elims =
  u32_field.expect_ok u64_field.expect_ok str_field.expect_ok pp_field.expect_ok pe_field.expect_ok
  sp_field.expect_ok pv_field.expect_ok

lemma decode_plan_moves: "decode_plan r = Inr (x, r') \<Longrightarrow> moves r r'"
  unfolding decode_plan_def by (elim expect_elims) (auto simp: ok_def elim!: moves_trans)

text \<open>
  The loop over the plans, with its counter and its bound: each round that continues has read a plan,
  so the bytes left bound the number of rounds.
\<close>

function read_plans :: "u32 \<Rightarrow> u32 \<Rightarrow> Reader \<Rightarrow> State \<Rightarrow> Reader Result \<times> State" where
  "read_plans v8 cnt r s =
     (if v8 < cnt then
        (case decode_plan r of
           Inl e \<Rightarrow> (Inl e, s)
         | Inr ((pl, cnt'), r') \<Rightarrow>
             read_plans (v8 + 1) cnt' r'
               (s\<lparr>st_plans := umap_put (id_value (tp_id pl)) pl (st_plans s)\<rparr>))
      else (ok r, s))"
  by pat_completeness auto

termination
  by (relation "measure (\<lambda>(v8, cnt, r, s). length (rd_p r) - rd_off r)")
     (auto simp: moves_def dest!: decode_plan_moves)

declare read_plans.simps [simp del]

definition recover_plans :: "Reader \<Rightarrow> State \<Rightarrow> Reader Result \<times> State" where
  "recover_plans r s =
     (case reader_u32 r of
        (None, r') \<Rightarrow> (err ErrorCode.PERSISTENCE_ERROR ''invalid plan count'', s)
      | (Some cnt, r') \<Rightarrow>
          if cnt > push_bit 20 1 then (err ErrorCode.PERSISTENCE_ERROR ''invalid plan count'', s)
          else read_plans 0 cnt r' (s\<lparr>st_plans := []\<rparr>))"

text \<open>One part of the recovery after another; the first error ends it.\<close>

definition and_then ::
    "Reader Result \<times> State \<Rightarrow> (Reader \<Rightarrow> State \<Rightarrow> Reader Result \<times> State) \<Rightarrow> Reader Result \<times> State" where
  "and_then x f = (case x of (Inl e, s) \<Rightarrow> (Inl e, s) | (Inr r, s) \<Rightarrow> f r s)"

definition recover_sections :: "Reader \<Rightarrow> State \<Rightarrow> Reader Result \<times> State" where
  "recover_sections r s =
     and_then (and_then (and_then (and_then (and_then (and_then (and_then (and_then
       (recover_buffers r s) recover_devices) recover_endpoints) recover_nics) recover_storage)
       recover_providers) recover_capabilities) recover_registrations) recover_plans"

definition recover_body :: "bytes \<Rightarrow> State \<Rightarrow> unit Result \<times> State" where
  "recover_body body out =
     (let header = expect reader_u64 ''truncated header record'' (make_reader body) (\<lambda>epoch r.
                   expect reader_u64 ''truncated header record'' r (\<lambda>next_id r.
                   expect reader_u64 ''truncated header record'' r (\<lambda>freshness r.
                   ok (epoch, next_id, freshness, r))))
      in case header of
           Inl e \<Rightarrow> (Inl e, out)
         | Inr (epoch, next_id, freshness, r) \<Rightarrow>
             let s = default_State\<lparr>st_epoch := Generation epoch, st_next_id := next_id,
                       st_freshness := freshness\<rparr>;
                 (res, s') = recover_sections r s
             in (map_sum id (\<lambda>_. ()) res, s'))"

definition recover_from_file :: "bytes option \<Rightarrow> State \<Rightarrow> unit Result \<times> State" where
  "recover_from_file content out =
     (case content of
        None \<Rightarrow> (err ErrorCode.PERSISTENCE_ERROR ''cannot open state file'', out)
      | Some file \<Rightarrow>
          if length file < 24 then
            (err ErrorCode.PERSISTENCE_ERROR ''state file too short (truncated)'', out)
          else if take 8 file \<noteq> state_magic then (err ErrorCode.PERSISTENCE_ERROR ''bad magic'', out)
          else case reader_u32 (make_reader (drop 8 file)) of
            (None, _) \<Rightarrow> (err ErrorCode.PERSISTENCE_ERROR ''truncated header'', out)
          | (Some ver, hdr) \<Rightarrow>
          if ver > kVersion then (err ErrorCode.UNSUPPORTED ''unsupported future state version'', out)
          else if ver < kVersion then
            (err ErrorCode.PERSISTENCE_ERROR ''unsupported old state version'', out)
          else case reader_u64 hdr of
            (None, _) \<Rightarrow> (err ErrorCode.PERSISTENCE_ERROR ''truncated length'', out)
          | (Some payload_len, _) \<Rightarrow>
          if payload_len > kMaxPayload then
            (err ErrorCode.PERSISTENCE_ERROR ''absurd payload length'', out)
          else
            let n = unat payload_len; expected = 20 + n + 4 in
            if length file < expected then (err ErrorCode.PERSISTENCE_ERROR ''state file truncated'', out)
            else if length file > expected then
              (err ErrorCode.PERSISTENCE_ERROR ''trailing garbage after state'', out)
            else if length file \<noteq> expected then
              (err ErrorCode.PERSISTENCE_ERROR ''state length mismatch'', out)
            else case reader_u32 (make_reader (take 4 (drop (20 + n) file))) of
              (None, _) \<Rightarrow> (err ErrorCode.PERSISTENCE_ERROR ''truncated crc'', out)
            | (Some read_crc, _) \<Rightarrow>
            if read_crc \<noteq> crc32 (take (20 + n) file) then
              (err ErrorCode.PERSISTENCE_ERROR ''state CRC mismatch (corrupt)'', out)
            else recover_body (take n (drop 20 file)) out)"

end
