(* ===== verification/Recovery.thy ===== *)
theory Recovery
  imports Persistence
begin

text \<open>
  What recovery makes of a persisted state. \<open>recovered_*\<close> is what is left of a record: the fields that
  are persisted, with the rest at its default, a REGISTERED registration degraded to
  REVALIDATION_REQUIRED, a plan no longer authoritative. \<open>record_codec\<close> is the contract between the
  encoder and the decoder of a record; it carries the loops over whole sections.
\<close>

section \<open>What is kept of a record\<close>

definition recovered_buffer :: "BufferRecord \<Rightarrow> BufferRecord" where
  "recovered_buffer b = default_BufferRecord\<lparr>b_id := b_id b, b_generation := b_generation b, b_domain := b_domain b, b_size := b_size b,
     b_alignment := b_alignment b, b_device := b_device b,
     b_device_generation := b_device_generation b, b_locality := b_locality b,
     b_support := b_support b, b_provenance := b_provenance b, b_lifecycle := b_lifecycle b,
     b_name := b_name b\<rparr>"

definition recovered_device :: "DeviceRecord \<Rightarrow> DeviceRecord" where
  "recovered_device d = default_DeviceRecord\<lparr>d_id := d_id d, d_generation := d_generation d, d_name := d_name d,
     d_compute_capability := d_compute_capability d,
     d_peer_memory_supported := d_peer_memory_supported d, d_support := d_support d,
     d_provenance := d_provenance d\<rparr>"

definition recovered_endpoint :: "EndpointRecord \<Rightarrow> EndpointRecord" where
  "recovered_endpoint e = default_EndpointRecord\<lparr>e_id := e_id e, e_generation := e_generation e, e_endpoint_class := e_endpoint_class e,
     e_name := e_name e, e_topology_hint := e_topology_hint e, e_healthy := e_healthy e,
     e_provider := e_provider e, e_support := e_support e, e_provenance := e_provenance e\<rparr>"

definition recovered_nic :: "NicRecord \<Rightarrow> NicRecord" where
  "recovered_nic n = default_NicRecord\<lparr>n_id := n_id n, n_generation := n_generation n, n_name := n_name n, n_locator := n_locator n,
     n_rdma_capable := n_rdma_capable n, n_direct_path_capable := n_direct_path_capable n,
     n_provider := n_provider n, n_support := n_support n, n_provenance := n_provenance n\<rparr>"

definition recovered_storage :: "StorageEndpointRecord \<Rightarrow> StorageEndpointRecord" where
  "recovered_storage se = default_StorageEndpointRecord\<lparr>se_id := se_id se, se_generation := se_generation se, se_name := se_name se,
     se_backend_name := se_backend_name se, se_path := se_path se,
     se_direct_path_capable := se_direct_path_capable se, se_provider := se_provider se,
     se_support := se_support se, se_provenance := se_provenance se\<rparr>"

definition recovered_provider :: "ProviderInfo \<Rightarrow> ProviderInfo" where
  "recovered_provider p = default_ProviderInfo\<lparr>p_id := p_id p, p_name := p_name p, p_available := p_available p, p_support := p_support p,
     p_provenance := p_provenance p\<rparr>"

definition recovered_capability :: "CapabilityObservation \<Rightarrow> CapabilityObservation" where
  "recovered_capability c = default_CapabilityObservation\<lparr>c_id := c_id c, c_provider := c_provider c, c_capability := c_capability c,
     c_value := c_value c, c_support := c_support c, c_provenance := c_provenance c,
     c_authority := c_authority c, c_freshness := c_freshness c\<rparr>"

definition recovered_registration :: "Registration \<Rightarrow> Registration" where
  "recovered_registration reg = default_Registration\<lparr>r_id := r_id reg, r_generation := r_generation reg, r_buffer := r_buffer reg,
     r_buffer_generation := r_buffer_generation reg, r_endpoint := r_endpoint reg,
     r_endpoint_generation := r_endpoint_generation reg, r_provider := r_provider reg,
     r_authority := r_authority reg,
     r_state := (if r_state reg = RegistrationState.REGISTERED then RegistrationState.REVALIDATION_REQUIRED else r_state reg),
     r_support := r_support reg, r_provenance := r_provenance reg, r_duplicated := r_duplicated reg,
     r_freshness := r_freshness reg, r_required_capabilities := r_required_capabilities reg\<rparr>"

definition recovered_plan :: "TransferPlan \<Rightarrow> TransferPlan" where
  "recovered_plan pl = default_TransferPlan\<lparr>tp_id := tp_id pl, tp_path_generation := tp_path_generation pl,
     tp_generation := tp_generation pl, tp_source := tp_source pl,
     tp_source_generation := tp_source_generation pl, tp_destination := tp_destination pl,
     tp_destination_generation := tp_destination_generation pl,
     tp_registration_id := tp_registration_id pl,
     tp_registration_generation := tp_registration_generation pl,
     tp_registration_buffer_generation := tp_registration_buffer_generation pl,
     tp_policy := tp_policy pl, tp_expected_bytes := tp_expected_bytes pl,
     tp_eligibility := tp_eligibility pl, tp_support := tp_support pl,
     tp_provenance := tp_provenance pl, tp_copy_count := tp_copy_count pl,
     tp_explanation := tp_explanation pl, tp_epoch := tp_epoch pl, tp_authority := tp_authority pl,
     tp_authoritative := False\<rparr>"

text \<open>
  What can be persisted and read back: named enumerators only, strings of at most 1 MiB, at most 4096
  required capabilities.
\<close>

definition buffer_ok :: "BufferRecord \<Rightarrow> bool" where
  "buffer_ok b \<longleftrightarrow>
     b_domain b \<in> set MemoryDomain_values \<and> b_locality b \<in> set Locality_values \<and>
     b_support b \<in> set Support_values \<and> b_provenance b \<in> set Provenance_values \<and>
     b_lifecycle b \<in> set BufferLifecycle_values \<and> str_ok (b_name b)"

definition device_ok :: "DeviceRecord \<Rightarrow> bool" where
  "device_ok d \<longleftrightarrow>
     str_ok (d_name d) \<and> str_ok (d_compute_capability d) \<and>
     d_support d \<in> set Support_values \<and> d_provenance d \<in> set Provenance_values"

definition endpoint_ok :: "EndpointRecord \<Rightarrow> bool" where
  "endpoint_ok e \<longleftrightarrow>
     e_endpoint_class e \<in> set EndpointClass_values \<and> str_ok (e_name e) \<and>
     str_ok (e_topology_hint e) \<and> e_support e \<in> set Support_values \<and>
     e_provenance e \<in> set Provenance_values"

definition nic_ok :: "NicRecord \<Rightarrow> bool" where
  "nic_ok n \<longleftrightarrow>
     str_ok (n_name n) \<and> str_ok (n_locator n) \<and>
     n_support n \<in> set Support_values \<and> n_provenance n \<in> set Provenance_values"

definition storage_ok :: "StorageEndpointRecord \<Rightarrow> bool" where
  "storage_ok se \<longleftrightarrow>
     str_ok (se_name se) \<and> str_ok (se_backend_name se) \<and> str_ok (se_path se) \<and>
     se_support se \<in> set Support_values \<and> se_provenance se \<in> set Provenance_values"

definition provider_ok :: "ProviderInfo \<Rightarrow> bool" where
  "provider_ok p \<longleftrightarrow>
     str_ok (p_name p) \<and> p_support p \<in> set Support_values \<and>
     p_provenance p \<in> set Provenance_values"

definition capability_ok :: "CapabilityObservation \<Rightarrow> bool" where
  "capability_ok c \<longleftrightarrow>
     str_ok (c_provider c) \<and> str_ok (c_capability c) \<and> str_ok (c_value c) \<and>
     c_support c \<in> set Support_values \<and> c_provenance c \<in> set Provenance_values"

definition registration_ok :: "Registration \<Rightarrow> bool" where
  "registration_ok reg \<longleftrightarrow>
     r_state reg \<in> set RegistrationState_values \<and>
     r_support reg \<in> set Support_values \<and>
     r_provenance reg \<in> set Provenance_values \<and>
     length (r_required_capabilities reg) \<le> 4096 \<and>
     list_all str_ok (r_required_capabilities reg)"

definition plan_ok :: "TransferPlan \<Rightarrow> bool" where
  "plan_ok pl \<longleftrightarrow>
     tp_policy pl \<in> set PathPolicy_values \<and>
     tp_eligibility pl \<in> set PathEligibility_values \<and>
     tp_support pl \<in> set Support_values \<and>
     tp_provenance pl \<in> set Provenance_values \<and> str_ok (tp_explanation pl)"

section \<open>Records and sections\<close>

locale record_codec =
  fixes encode :: "'v \<Rightarrow> bytes"
    and decode :: "Reader \<Rightarrow> ('w \<times> Reader) Result"
    and recovered :: "'v \<Rightarrow> 'w"
    and valid :: "'v \<Rightarrow> bool"
  assumes decode_encode:
    "valid v \<Longrightarrow> decode (reader_at pre (encode v @ xs)) = ok (recovered v, reader_at (pre @ encode v) xs)"
begin

lemma read_records_encode:
  "list_all valid vs \<Longrightarrow>
   read_records decode store (length vs) (reader_at pre (concat (map encode vs) @ xs)) s =
     (ok (reader_at (pre @ concat (map encode vs)) xs), fold store (map recovered vs) s)"
  by (induction vs arbitrary: pre s) (simp_all add: decode_encode ok_def)

lemma read_section_encode:
  assumes "list_all valid (umap_values m)" and "length m \<le> 2 ^ 20"
  shows "read_section msg clear decode store (reader_at pre (encode_section key encode m @ xs)) s =
    (ok (reader_at (pre @ encode_section key encode m) xs),
     fold store (map recovered (sort_key key (umap_values m))) (clear s))"
proof -
  let ?vs = "sort_key key (umap_values m)"
  let ?len = "word_of_nat (length m) :: u32"
  have len: "unat ?len = length m" using assms(2) by (simp add: unat_of_nat)
  then have "\<not> ?len > push_bit 20 1" using assms(2) by (simp add: word_less_nat_alt)
  moreover have "list_all valid ?vs" using assms(1) by (simp add: list_all_iff)
  ultimately show ?thesis
    using read_records_encode [of ?vs store "pre @ put_u32 ?len" xs "clear s"]
    by (simp add: read_section_def encode_section_def Let_def reader_u32_at len)
qed

end

lemma expect_flag_put [file_codec]:
  "expect_flag msg (reader_at pre (put_u32 (if b then 1 else 0) @ xs)) k =
     k b (reader_at (pre @ put_u32 (if b then 1 else 0)) xs)"
  by (simp add: expect_flag_def u32_field.expect_put)

lemmas expect_puts [file_codec] =
  u32_field.expect_put [OF TrueI] u64_field.expect_put [OF TrueI] str_field.expect_put md_field.expect_put
  loc_field.expect_put sp_field.expect_put pv_field.expect_put bl_field.expect_put ec_field.expect_put
  rs_field.expect_put pp_field.expect_put pe_field.expect_put

lemma read_caps_put:
  "list_all str_ok caps \<Longrightarrow>
   read_caps (length caps) acc (reader_at pre (concat (map put_str caps) @ xs)) =
     ok (acc @ caps, reader_at (pre @ concat (map put_str caps)) xs)"
  by (induction caps arbitrary: acc pre) (simp_all add: file_codec)

interpretation buffer_codec: record_codec encode_buffer decode_buffer recovered_buffer buffer_ok
  by unfold_locales
     (simp add: buffer_ok_def encode_buffer_def decode_buffer_def recovered_buffer_def file_codec default_BufferRecord_def)

interpretation device_codec: record_codec encode_device decode_device recovered_device device_ok
  by unfold_locales
     (simp add: device_ok_def encode_device_def decode_device_def recovered_device_def file_codec default_DeviceRecord_def)

interpretation endpoint_codec: record_codec encode_endpoint decode_endpoint recovered_endpoint endpoint_ok
  by unfold_locales
     (simp add: endpoint_ok_def encode_endpoint_def decode_endpoint_def recovered_endpoint_def file_codec default_EndpointRecord_def)

interpretation nic_codec: record_codec encode_nic decode_nic recovered_nic nic_ok
  by unfold_locales
     (simp add: nic_ok_def encode_nic_def decode_nic_def recovered_nic_def file_codec default_NicRecord_def)

interpretation storage_codec: record_codec encode_storage decode_storage recovered_storage storage_ok
  by unfold_locales
     (simp add: storage_ok_def encode_storage_def decode_storage_def recovered_storage_def file_codec default_StorageEndpointRecord_def)

interpretation provider_codec: record_codec encode_provider decode_provider recovered_provider provider_ok
  by unfold_locales
     (simp add: provider_ok_def encode_provider_def decode_provider_def recovered_provider_def file_codec default_ProviderInfo_def)

interpretation capability_codec: record_codec encode_capability decode_capability recovered_capability capability_ok
  by unfold_locales
     (simp add: capability_ok_def encode_capability_def decode_capability_def recovered_capability_def file_codec default_CapabilityObservation_def)

interpretation registration_codec: record_codec encode_registration decode_registration recovered_registration
  registration_ok
proof
  fix v pre xs assume v: "registration_ok v"
  let ?n = "word_of_nat (length (r_required_capabilities v)) :: u32"
  have n: "unat ?n = length (r_required_capabilities v)"
    using v by (simp add: registration_ok_def unat_of_nat)
  then have "\<not> ?n > 4096" using v by (simp add: registration_ok_def word_less_nat_alt)
  with v n show "decode_registration (reader_at pre (encode_registration v @ xs)) =
      ok (recovered_registration v, reader_at (pre @ encode_registration v) xs)"
    using read_caps_put [of "r_required_capabilities v"]
    by (simp add: registration_ok_def encode_registration_def decode_registration_def recovered_registration_def
        file_codec default_Registration_def ok_def)
qed

interpretation plan_codec: record_codec encode_plan decode_plan "\<lambda>p. (recovered_plan p, tp_copy_count p)" plan_ok
  by unfold_locales
     (simp add: plan_ok_def encode_plan_def decode_plan_def recovered_plan_def file_codec default_TransferPlan_def)

section \<open>The recovered state\<close>

definition put_all :: "('v \<Rightarrow> u64) \<Rightarrow> 'v list \<Rightarrow> 'v umap" where
  "put_all key vs = fold (\<lambda>v. umap_put (key v) v) vs []"

definition recover_map :: "('v \<Rightarrow> u64) \<Rightarrow> ('v \<Rightarrow> 'v) \<Rightarrow> 'v umap \<Rightarrow> 'v umap" where
  "recover_map key recovered m = put_all key (map recovered (sort_key key (umap_values m)))"

text \<open>
  The plans that the loop reads back, in file order, and whether it ends before the plans run out: the
  bound is the stored number of plans at first, then the copy count of the plan just read.
\<close>

fun plan_scan :: "u32 \<Rightarrow> u32 \<Rightarrow> TransferPlan list \<Rightarrow> bool \<times> TransferPlan list" where
  "plan_scan v8 cnt [] = (\<not> v8 < cnt, [])"
| "plan_scan v8 cnt (p # ps) =
     (if v8 < cnt then let (fin, qs) = plan_scan (v8 + 1) (tp_copy_count p) ps in (fin, p # qs)
      else (True, []))"

abbreviation sorted_plans :: "State \<Rightarrow> TransferPlan list" where
  "sorted_plans s \<equiv> sort_key (\<lambda>p. id_value (tp_id p)) (umap_values (st_plans s))"

definition scanned_plans :: "State \<Rightarrow> bool \<times> TransferPlan list" where
  "scanned_plans s = plan_scan 0 (word_of_nat (length (st_plans s))) (sorted_plans s)"

definition recovered_state :: "State \<Rightarrow> State" where
  "recovered_state s = default_State\<lparr>
     st_epoch := st_epoch s, st_next_id := st_next_id s, st_freshness := st_freshness s,
     st_buffers := recover_map (\<lambda>v. id_value (b_id v)) recovered_buffer (st_buffers s),
     st_devices := recover_map (\<lambda>v. id_value (d_id v)) recovered_device (st_devices s),
     st_endpoints := recover_map (\<lambda>v. id_value (e_id v)) recovered_endpoint (st_endpoints s),
     st_nics := recover_map (\<lambda>v. id_value (n_id v)) recovered_nic (st_nics s),
     st_storage := recover_map (\<lambda>v. id_value (se_id v)) recovered_storage (st_storage s),
     st_providers := recover_map (\<lambda>v. id_value (p_id v)) recovered_provider (st_providers s),
     st_capabilities := recover_map (\<lambda>v. id_value (c_id v)) recovered_capability (st_capabilities s),
     st_registrations := recover_map (\<lambda>v. id_value (r_id v)) recovered_registration (st_registrations s),
     st_plans := put_all (\<lambda>v. id_value (tp_id v)) (map recovered_plan (snd (scanned_plans s)))\<rparr>"

definition persistable :: "State \<Rightarrow> bool" where
  "persistable s \<longleftrightarrow> length (persist_body s) \<le> 2 ^ 28 \<and>
     list_all buffer_ok (umap_values (st_buffers s)) \<and> length (st_buffers s) \<le> 2 ^ 20 \<and>
     list_all device_ok (umap_values (st_devices s)) \<and> length (st_devices s) \<le> 2 ^ 20 \<and>
     list_all endpoint_ok (umap_values (st_endpoints s)) \<and> length (st_endpoints s) \<le> 2 ^ 20 \<and>
     list_all nic_ok (umap_values (st_nics s)) \<and> length (st_nics s) \<le> 2 ^ 20 \<and>
     list_all storage_ok (umap_values (st_storage s)) \<and> length (st_storage s) \<le> 2 ^ 20 \<and>
     list_all provider_ok (umap_values (st_providers s)) \<and> length (st_providers s) \<le> 2 ^ 20 \<and>
     list_all capability_ok (umap_values (st_capabilities s)) \<and> length (st_capabilities s) \<le> 2 ^ 20 \<and>
     list_all registration_ok (umap_values (st_registrations s)) \<and> length (st_registrations s) \<le> 2 ^ 20 \<and>
     list_all plan_ok (umap_values (st_plans s)) \<and> length (st_plans s) \<le> 2 ^ 20"

lemma fold_store:
  "fold (\<lambda>v s. s\<lparr>st_buffers := umap_put (id_value (b_id v)) v (st_buffers s)\<rparr>) bs s =
     s\<lparr>st_buffers := fold (\<lambda>v. umap_put (id_value (b_id v)) v) bs (st_buffers s)\<rparr>"
  "fold (\<lambda>v s. s\<lparr>st_devices := umap_put (id_value (d_id v)) v (st_devices s)\<rparr>) ds s =
     s\<lparr>st_devices := fold (\<lambda>v. umap_put (id_value (d_id v)) v) ds (st_devices s)\<rparr>"
  "fold (\<lambda>v s. s\<lparr>st_endpoints := umap_put (id_value (e_id v)) v (st_endpoints s)\<rparr>) es s =
     s\<lparr>st_endpoints := fold (\<lambda>v. umap_put (id_value (e_id v)) v) es (st_endpoints s)\<rparr>"
  "fold (\<lambda>v s. s\<lparr>st_nics := umap_put (id_value (n_id v)) v (st_nics s)\<rparr>) ns s =
     s\<lparr>st_nics := fold (\<lambda>v. umap_put (id_value (n_id v)) v) ns (st_nics s)\<rparr>"
  "fold (\<lambda>v s. s\<lparr>st_storage := umap_put (id_value (se_id v)) v (st_storage s)\<rparr>) ses s =
     s\<lparr>st_storage := fold (\<lambda>v. umap_put (id_value (se_id v)) v) ses (st_storage s)\<rparr>"
  "fold (\<lambda>v s. s\<lparr>st_providers := umap_put (id_value (p_id v)) v (st_providers s)\<rparr>) ps s =
     s\<lparr>st_providers := fold (\<lambda>v. umap_put (id_value (p_id v)) v) ps (st_providers s)\<rparr>"
  "fold (\<lambda>v s. s\<lparr>st_capabilities := umap_put (id_value (c_id v)) v (st_capabilities s)\<rparr>) cs s =
     s\<lparr>st_capabilities := fold (\<lambda>v. umap_put (id_value (c_id v)) v) cs (st_capabilities s)\<rparr>"
  "fold (\<lambda>v s. s\<lparr>st_registrations := umap_put (id_value (r_id v)) v (st_registrations s)\<rparr>) rs s =
     s\<lparr>st_registrations := fold (\<lambda>v. umap_put (id_value (r_id v)) v) rs (st_registrations s)\<rparr>"
  subgoal by (induction bs arbitrary: s) simp_all
  subgoal by (induction ds arbitrary: s) simp_all
  subgoal by (induction es arbitrary: s) simp_all
  subgoal by (induction ns arbitrary: s) simp_all
  subgoal by (induction ses arbitrary: s) simp_all
  subgoal by (induction ps arbitrary: s) simp_all
  subgoal by (induction cs arbitrary: s) simp_all
  subgoal by (induction rs arbitrary: s) simp_all
  done

lemma recover_section_encode:
  assumes "persistable s"
  shows
    "recover_buffers (reader_at pre (encode_section (\<lambda>v. id_value (b_id v)) encode_buffer (st_buffers s) @ xs)) t =
      (ok (reader_at (pre @ encode_section (\<lambda>v. id_value (b_id v)) encode_buffer (st_buffers s)) xs),
       t\<lparr>st_buffers := recover_map (\<lambda>v. id_value (b_id v)) recovered_buffer (st_buffers s)\<rparr>)"
    "recover_devices (reader_at pre (encode_section (\<lambda>v. id_value (d_id v)) encode_device (st_devices s) @ xs)) t =
      (ok (reader_at (pre @ encode_section (\<lambda>v. id_value (d_id v)) encode_device (st_devices s)) xs),
       t\<lparr>st_devices := recover_map (\<lambda>v. id_value (d_id v)) recovered_device (st_devices s)\<rparr>)"
    "recover_endpoints (reader_at pre (encode_section (\<lambda>v. id_value (e_id v)) encode_endpoint (st_endpoints s) @ xs)) t =
      (ok (reader_at (pre @ encode_section (\<lambda>v. id_value (e_id v)) encode_endpoint (st_endpoints s)) xs),
       t\<lparr>st_endpoints := recover_map (\<lambda>v. id_value (e_id v)) recovered_endpoint (st_endpoints s)\<rparr>)"
    "recover_nics (reader_at pre (encode_section (\<lambda>v. id_value (n_id v)) encode_nic (st_nics s) @ xs)) t =
      (ok (reader_at (pre @ encode_section (\<lambda>v. id_value (n_id v)) encode_nic (st_nics s)) xs),
       t\<lparr>st_nics := recover_map (\<lambda>v. id_value (n_id v)) recovered_nic (st_nics s)\<rparr>)"
    "recover_storage (reader_at pre (encode_section (\<lambda>v. id_value (se_id v)) encode_storage (st_storage s) @ xs)) t =
      (ok (reader_at (pre @ encode_section (\<lambda>v. id_value (se_id v)) encode_storage (st_storage s)) xs),
       t\<lparr>st_storage := recover_map (\<lambda>v. id_value (se_id v)) recovered_storage (st_storage s)\<rparr>)"
    "recover_providers (reader_at pre (encode_section (\<lambda>v. id_value (p_id v)) encode_provider (st_providers s) @ xs)) t =
      (ok (reader_at (pre @ encode_section (\<lambda>v. id_value (p_id v)) encode_provider (st_providers s)) xs),
       t\<lparr>st_providers := recover_map (\<lambda>v. id_value (p_id v)) recovered_provider (st_providers s)\<rparr>)"
    "recover_capabilities (reader_at pre (encode_section (\<lambda>v. id_value (c_id v)) encode_capability (st_capabilities s) @ xs)) t =
      (ok (reader_at (pre @ encode_section (\<lambda>v. id_value (c_id v)) encode_capability (st_capabilities s)) xs),
       t\<lparr>st_capabilities := recover_map (\<lambda>v. id_value (c_id v)) recovered_capability (st_capabilities s)\<rparr>)"
    "recover_registrations (reader_at pre (encode_section (\<lambda>v. id_value (r_id v)) encode_registration (st_registrations s) @ xs)) t =
      (ok (reader_at (pre @ encode_section (\<lambda>v. id_value (r_id v)) encode_registration (st_registrations s)) xs),
       t\<lparr>st_registrations := recover_map (\<lambda>v. id_value (r_id v)) recovered_registration (st_registrations s)\<rparr>)"
  using assms
  by (simp_all add: persistable_def fold_store recover_map_def put_all_def
      recover_buffers_def recover_devices_def recover_endpoints_def recover_nics_def recover_storage_def recover_providers_def recover_capabilities_def recover_registrations_def
      buffer_codec.read_section_encode device_codec.read_section_encode endpoint_codec.read_section_encode nic_codec.read_section_encode storage_codec.read_section_encode provider_codec.read_section_encode capability_codec.read_section_encode registration_codec.read_section_encode)

lemma decode_plan_end: "decode_plan (reader_at pre []) = err ErrorCode.PERSISTENCE_ERROR ''truncated plan id''"
  by (simp add: decode_plan_def expect_def reader_u64_def reader_at_def)

lemma read_plans_encode:
  assumes "list_all plan_ok ps"
  shows "\<exists>r'. read_plans v8 cnt (reader_at pre (concat (map encode_plan ps))) t =
    (if fst (plan_scan v8 cnt ps) then ok r' else err ErrorCode.PERSISTENCE_ERROR ''truncated plan id'',
     t\<lparr>st_plans := fold (\<lambda>v. umap_put (id_value (tp_id v)) v) (map recovered_plan (snd (plan_scan v8 cnt ps)))
        (st_plans t)\<rparr>)"
  using assms
proof (induction ps arbitrary: v8 cnt pre t)
  case Nil
  then show ?case by (subst read_plans.simps) (simp add: decode_plan_end err_def)
next
  case (Cons p ps)
  show ?case
  proof (cases "v8 < cnt")
    case True
    let ?t = "t\<lparr>st_plans := umap_put (id_value (tp_id (recovered_plan p))) (recovered_plan p) (st_plans t)\<rparr>"
    have "read_plans v8 cnt (reader_at pre (concat (map encode_plan (p # ps)))) t =
        read_plans (v8 + 1) (tp_copy_count p) (reader_at (pre @ encode_plan p) (concat (map encode_plan ps))) ?t"
      using True Cons.prems plan_codec.decode_encode [of p pre "concat (map encode_plan ps)"]
      by (subst read_plans.simps) (simp add: ok_def)
    with Cons.IH [of "v8 + 1" "tp_copy_count p" "pre @ encode_plan p" ?t] Cons.prems True show ?thesis
      by (simp add: case_prod_beta)
  next
    case False
    then show ?thesis by (subst read_plans.simps) auto
  qed
qed

lemma recover_plans_encode:
  assumes "persistable s"
  shows "\<exists>r'. recover_plans (reader_at pre (encode_section (\<lambda>v. id_value (tp_id v)) encode_plan (st_plans s))) t =
    (if fst (scanned_plans s) then ok r' else err ErrorCode.PERSISTENCE_ERROR ''truncated plan id'',
     t\<lparr>st_plans := put_all (\<lambda>v. id_value (tp_id v)) (map recovered_plan (snd (scanned_plans s)))\<rparr>)"
proof -
  let ?len = "word_of_nat (length (st_plans s)) :: u32"
  have small: "length (st_plans s) \<le> 2 ^ 20" "list_all plan_ok (sorted_plans s)"
    using assms by (simp_all add: persistable_def list_all_iff)
  then have "unat ?len = length (st_plans s)" by (simp add: unat_of_nat)
  then have "\<not> ?len > push_bit 20 1" using small by (simp add: word_less_nat_alt)
  then show ?thesis
    using read_plans_encode [OF small(2), of 0 ?len "pre @ put_u32 ?len" "t\<lparr>st_plans := []\<rparr>"]
    by (simp add: recover_plans_def encode_section_def Let_def reader_u32_at scanned_plans_def put_all_def)
qed

lemma recover_body_persist:
  assumes "persistable s"
  shows "recover_body (persist_body s) out =
    (if fst (scanned_plans s) then ok () else err ErrorCode.PERSISTENCE_ERROR ''truncated plan id'',
     recovered_state s)"
proof -
  note secs = recover_section_encode [OF assms]
  let ?plans = "encode_section (\<lambda>v. id_value (tp_id v)) encode_plan (st_plans s)"
  let ?hdr = "put_u64 (gen_value (st_epoch s)) @ put_u64 (st_next_id s) @ put_u64 (st_freshness s)"
  obtain rest where body: "persist_body s = ?hdr @ rest" by (simp add: persist_body_def)
  let ?t = "default_State\<lparr>st_epoch := st_epoch s, st_next_id := st_next_id s, st_freshness := st_freshness s\<rparr>"
  have "\<exists>r'. recover_sections (reader_at ?hdr rest) ?t =
      (if fst (scanned_plans s) then ok r' else err ErrorCode.PERSISTENCE_ERROR ''truncated plan id'',
       recovered_state s)"
  proof -
    have rest: "rest =
     encode_section (\<lambda>b. id_value (b_id b)) encode_buffer (st_buffers s) @
     encode_section (\<lambda>d. id_value (d_id d)) encode_device (st_devices s) @
     encode_section (\<lambda>e. id_value (e_id e)) encode_endpoint (st_endpoints s) @
     encode_section (\<lambda>n. id_value (n_id n)) encode_nic (st_nics s) @
     encode_section (\<lambda>e. id_value (se_id e)) encode_storage (st_storage s) @
     encode_section (\<lambda>p. id_value (p_id p)) encode_provider (st_providers s) @
     encode_section (\<lambda>c. id_value (c_id c)) encode_capability (st_capabilities s) @
     encode_section (\<lambda>r. id_value (r_id r)) encode_registration (st_registrations s) @ ?plans"
      using body by (simp add: persist_body_def)
    define ps where "ps = ?plans"
    have "\<exists>r'. recover_plans (reader_at pre ps) t =
      (if fst (scanned_plans s) then ok r' else err ErrorCode.PERSISTENCE_ERROR ''truncated plan id'',
       t\<lparr>st_plans := put_all (\<lambda>v. id_value (tp_id v)) (map recovered_plan (snd (scanned_plans s)))\<rparr>)" for pre t
      unfolding ps_def by (rule recover_plans_encode [OF assms])
    then show ?thesis
      unfolding rest recover_sections_def ps_def [symmetric] recovered_state_def
      by (simp add: and_then_def secs ok_def)
  qed
  then obtain r' where "recover_sections (reader_at ?hdr rest) ?t =
      (if fst (scanned_plans s) then ok r' else err ErrorCode.PERSISTENCE_ERROR ''truncated plan id'',
       recovered_state s)" ..
  then show ?thesis
    using file_codec
    by (simp add: recover_body_def body make_reader_at file_codec) (simp add: ok_def err_def)
qed

section \<open>The file frame\<close>

lemma state_magic_length [simp]: "length state_magic = 8"
  by (simp add: state_magic_def)

lemma put_lengths [simp]: "length (put_u32 v) = 4" "length (put_u64 w) = 8"
  by (simp_all add: put_u32_def put_u64_def)

lemma recover_state_file:
  assumes "persistable s"
  shows "recover_from_file (Some (state_file s)) out =
    (if fst (scanned_plans s) then ok () else err ErrorCode.PERSISTENCE_ERROR ''truncated plan id'',
     recovered_state s)"
proof -
  let ?len = "word_of_nat (length (persist_body s)) :: u64"
  have len: "unat ?len = length (persist_body s)"
    using assms by (simp add: persistable_def unat_of_nat)
  then have small: "\<not> ?len > kMaxPayload"
    using assms by (simp add: persistable_def kMaxPayload_def word_less_nat_alt)
  define fb where "fb = state_magic @ put_u32 kVersion @ put_u64 ?len @ persist_body s"
  have eq: "state_file s = fb @ put_u32 (crc32 fb)" by (simp add: state_file_def fb_def Let_def)
  define w where "w = state_file s"
  have parts: "length w = 24 + length (persist_body s)" "take 8 w = state_magic"
      "drop 8 w = put_u32 kVersion @ put_u64 ?len @ persist_body s @ put_u32 (crc32 fb)"
      "take (20 + length (persist_body s)) w = fb" "drop (20 + length (persist_body s)) w = put_u32 (crc32 fb)"
      "take (length (persist_body s)) (drop 20 w) = persist_body s"
    unfolding w_def eq fb_def by simp_all
  have crc: "reader_u32 (make_reader (put_u32 (crc32 fb))) = (Some (crc32 fb), reader_at (put_u32 (crc32 fb)) [])"
    using reader_u32_at [of "[]" "crc32 fb" "[]"] by (simp add: make_reader_at)
  have "recover_from_file (Some w) out = recover_body (persist_body s) out"
    using parts len small crc
    by (simp add: recover_from_file_def make_reader_at reader_u32_at u64_field.get_put Let_def)
  then show ?thesis using recover_body_persist [OF assms] by (simp add: w_def)
qed

text \<open>A state file cut short is refused, wherever it is cut.\<close>

lemma truncated_file_refused:
  assumes "persistable s" and "n < length (state_file s)"
  shows "\<exists>e. recover_from_file (Some (take n (state_file s))) out = (Inl e, out)"
proof (cases "n < 24")
  case True
  then have "length (take n (state_file s)) < 24" by simp
  then show ?thesis by (simp add: recover_from_file_def err_def del: length_take)
next
  case False
  let ?len = "word_of_nat (length (persist_body s)) :: u64"
  have len: "unat ?len = length (persist_body s)"
    using assms(1) by (simp add: persistable_def unat_of_nat)
  then have small: "\<not> ?len > kMaxPayload"
    using assms(1) by (simp add: persistable_def kMaxPayload_def word_less_nat_alt)
  obtain rest where rest: "state_file s = (state_magic @ put_u32 kVersion @ put_u64 ?len) @ rest"
      "length rest = length (persist_body s) + 4"
    by (simp add: state_file_def Let_def)
  define w where "w = take n (state_file s)"
  have n: "24 \<le> n" "n < 24 + length (persist_body s)" using False assms(2) rest by simp_all
  then have parts: "length w = n" "take 8 w = state_magic" "drop 8 w = put_u32 kVersion @ put_u64 ?len @ take (n - 20) rest"
    using rest by (simp_all add: w_def)
  have "recover_from_file (Some w) out = (err ErrorCode.PERSISTENCE_ERROR ''state file truncated'', out)"
    using parts n len small
    by (simp add: recover_from_file_def make_reader_at reader_u32_at u64_field.get_put Let_def)
  then show ?thesis by (simp add: w_def err_def)
qed

text \<open>A file that passes the frame checks ends in the CRC of the rest.\<close>

lemma recover_frame:
  assumes "recover_from_file (Some file) out = (res, s')" and "s' \<noteq> out \<or> has_value res"
  shows "foldl crc_update 0xFFFFFFFF file = crc_residue"
proof -
  have frame: "24 \<le> length file \<and> (\<exists>n. length file = 24 + n \<and> le_word (drop (20 + n) file) = crc32 (take (20 + n) file))"
    using assms
    by (auto simp: recover_from_file_def err_def has_value_def make_reader_def reader_u32_def Let_def not_less
        split: if_splits option.splits prod.splits) (metis)+
  then obtain n where n: "length file = 24 + n" "le_word (drop (20 + n) file) = crc32 (take (20 + n) file)" by blast
  then show ?thesis
    using crc_residue_iff [of "drop (20 + n) file" "take (20 + n) file"] by simp
qed

end
