(* ===== verification/Restart.thy ===== *)
theory Restart
  imports Recovery Guarantees
begin

text \<open>
  Restarting a coordinator from its state file: what survives, what never does, which files are
  accepted, and that the coordinator's invariant holds again afterwards, so that its guarantees go on.
\<close>

section \<open>Maps rebuilt from lists\<close>

lemma put_all_snoc: "put_all key (vs @ [v]) = umap_put (key v) v (put_all key vs)"
  by (simp add: put_all_def)

lemma put_all_ok [simp]: "umap_ok (put_all key vs)"
  by (induction vs rule: rev_induct) (simp_all add: put_all_snoc, simp add: put_all_def)

lemma put_all_find: "umap_find (put_all key vs) k = Some v \<Longrightarrow> v \<in> set vs \<and> key v = k"
  by (induction vs rule: rev_induct) (auto simp: put_all_snoc put_all_def split: if_splits)

lemma put_all_find_inj:
  "inj_on key (set vs) \<Longrightarrow> v \<in> set vs \<Longrightarrow> umap_find (put_all key vs) (key v) = Some v"
proof (induction vs rule: rev_induct)
  case (snoc x vs)
  then have "inj_on key (set vs)" "key v = key x \<Longrightarrow> v = x" by (auto simp: inj_on_def)
  with snoc show ?case by (auto simp: put_all_snoc)
qed simp

lemma put_all_values:
  "inj_on key (set vs) \<Longrightarrow> set (umap_values (put_all key vs)) = set vs"
  using put_all_find [of key vs] put_all_find_inj [of key vs] umap_values_iff [OF put_all_ok, of _ key vs]
  by (auto simp del: set_map) blast+

lemma put_all_all: "(\<And>v. v \<in> set vs \<Longrightarrow> P (key v) v) \<Longrightarrow> umap_all P (put_all key vs)"
  by (auto simp: umap_all_def dest!: put_all_find)

lemma recover_map_find:
  assumes m: "umap.keyed key m" and key: "\<And>v. key (f v) = key v"
  shows "umap_find (recover_map key f m) k = map_option f (umap_find m k)"
proof -
  let ?vs = "map f (sort_key key (umap_values m))"
  have ok: "umap_ok m" using m by (rule keyed_ok)
  have "map (key \<circ> snd) m = map fst m"
    using m ok by (auto simp: umap.keyed_def map_of_eq_Some_iff)
  then have "distinct (map key (umap_values m))" using ok by (metis map_map)
  moreover have "mset (map key ?vs) = mset (map key (umap_values m))" by (simp add: key comp_def multiset.map_comp)
  ultimately have dist: "distinct (map key ?vs)" using mset_eq_imp_distinct_iff by blast
  show ?thesis
  proof (cases "umap_find m k")
    case None
    have "umap_find (recover_map key f m) k = None"
    proof (rule ccontr)
      assume "umap_find (recover_map key f m) k \<noteq> None"
      then obtain w where "umap_find (put_all key ?vs) k = Some w" by (auto simp: recover_map_def)
      from put_all_find [OF this] have "w \<in> f ` set (umap_values m)" "key w = k" by auto
      then obtain v where "v \<in> set (umap_values m)" "key v = k" by (metis imageE key)
      then obtain j where "umap_find m j = Some v" using umap_values_iff [OF ok] by blast
      with m \<open>key v = k\<close> None show False by (auto simp: umap.keyed_def)
    qed
    with None show ?thesis by simp
  next
    case (Some v)
    then have "v \<in> set (umap_values m)" by (rule umap_values_find)
    then have "f v \<in> set ?vs" by simp
    moreover have "inj_on key (set ?vs)" using dist unfolding distinct_map by blast
    ultimately have "umap_find (put_all key ?vs) (key (f v)) = Some (f v)" by (intro put_all_find_inj)
    with Some m show ?thesis
      by (simp add: recover_map_def key umap.keyed_def)
  qed
qed

lemma recover_map_ok [simp]: "umap_ok (recover_map key f m)"
  by (simp add: recover_map_def)

lemma recover_map_all:
  assumes "umap_ok m" and "umap_all (\<lambda>k v. P (key v) (f v)) m" and "\<And>v. key (f v) = key v"
  shows "umap_all P (recover_map key f m)"
  unfolding recover_map_def
proof (rule put_all_all)
  fix w assume "w \<in> set (map f (sort_key key (umap_values m)))"
  then obtain v where "w = f v" "v \<in> set (umap_values m)" by auto
  moreover from this obtain k where "umap_find m k = Some v" using umap_values_iff [OF assms(1)] by blast
  ultimately show "P (key w) w" using umap_allD [OF assms(2)] assms(3) by simp
qed

lemma recover_map_unique:
  assumes "umap_ok m" and "umap_unique attr m" and "\<And>v. attr (f v) = attr v" and key: "\<And>v. key (f v) = key v"
  shows "umap_unique attr (recover_map key f m)"
  unfolding umap_unique_def umap_all_def
proof (intro allI impI)
  fix k v k' v'
  assume "umap_find (recover_map key f m) k = Some v" "umap_find (recover_map key f m) k' = Some v'" and eq: "attr v = attr v'"
  then have "v \<in> f ` set (umap_values m)" "key v = k" "v' \<in> f ` set (umap_values m)" "key v' = k'"
    unfolding recover_map_def by (auto dest!: put_all_find)
  then obtain u u' where u: "v = f u" "u \<in> set (umap_values m)" "key v = k" "v' = f u'" "u' \<in> set (umap_values m)" "key v' = k'"
    by blast
  then have "u = u'" using umap_unique_values [OF assms(1,2), of u u'] eq assms(3) by simp
  with u show "k = k'" by simp
qed

section \<open>The invariant after a restart\<close>

lemma recovered_sel [simp]:
  "b_id (recovered_buffer b) = b_id b" "b_generation (recovered_buffer b) = b_generation b"
  "d_id (recovered_device d) = d_id d" "d_generation (recovered_device d) = d_generation d"
  "e_id (recovered_endpoint e) = e_id e" "e_generation (recovered_endpoint e) = e_generation e"
  "n_id (recovered_nic n) = n_id n" "se_id (recovered_storage x) = se_id x"
  "recovered_provider p = p" "recovered_capability c = c"
  "r_id (recovered_registration r) = r_id r" "r_generation (recovered_registration r) = r_generation r"
  "r_buffer (recovered_registration r) = r_buffer r" "r_endpoint (recovered_registration r) = r_endpoint r"
  "r_state (recovered_registration r) \<noteq> RegistrationState.REGISTERED"
  "tp_id (recovered_plan pl) = tp_id pl" "\<not> tp_authoritative (recovered_plan pl)"
  "plan_shape (recovered_plan pl) = plan_shape pl"
  by (simp_all add: recovered_buffer_def recovered_device_def recovered_endpoint_def recovered_nic_def
      recovered_storage_def recovered_provider_def recovered_capability_def recovered_registration_def
      recovered_plan_def plan_shape_def default_ProviderInfo_def default_CapabilityObservation_def)

lemma recovered_provider_ident [simp]: "recovered_provider = (\<lambda>p. p)"
  by (simp add: fun_eq_iff)

lemma state_wf_keyed:
  assumes "state_wf n s"
  shows "umap.keyed (\<lambda>v. id_value (b_id v)) (st_buffers s)" "umap.keyed (\<lambda>v. id_value (d_id v)) (st_devices s)"
    "umap.keyed (\<lambda>v. id_value (e_id v)) (st_endpoints s)" "umap.keyed (\<lambda>v. id_value (n_id v)) (st_nics s)"
    "umap.keyed (\<lambda>v. id_value (se_id v)) (st_storage s)" "umap.keyed (\<lambda>v. id_value (p_id v)) (st_providers s)"
    "umap.keyed (\<lambda>v. id_value (r_id v)) (st_registrations s)" "umap.keyed (\<lambda>v. id_value (tp_id v)) (st_plans s)"
  using assms
  by (auto simp: state_wf_def umap.keyed_def buffers_wf_def devices_wf_def endpoints_wf_def inventory_wf_def
      providers_wf_def registrations_wf_def plans_wf_def id_in_use_def dest: umap_allD)

lemma plan_scan_subset: "set (snd (plan_scan v8 cnt ps)) \<subseteq> set ps"
  by (induction v8 cnt ps rule: plan_scan.induct) (auto simp: case_prod_beta split: if_splits)

lemma scanned_plans_subset: "set (snd (scanned_plans s)) \<subseteq> set (umap_values (st_plans s))"
  using plan_scan_subset [of 0 _ "sorted_plans s"] by (simp add: scanned_plans_def)

lemma recovered_dormant:
  "registered_fresh (recovered_state s)" "plans_fresh (recovered_state s)"
  unfolding registered_fresh_def plans_fresh_def recovered_state_def
  by (auto simp: recover_map_def intro!: put_all_all)

lemma recovered_state_wf:
  assumes wf: "state_wf n s"
  shows "state_wf n (recovered_state s)"
proof -
  note parts = wf [unfolded state_wf_def]
  let ?c = "st_next_id s"
  have "buffers_wf n ?c (recover_map (\<lambda>v. id_value (b_id v)) recovered_buffer (st_buffers s))"
    using parts unfolding buffers_wf_def by (auto intro!: recover_map_all elim!: umap_all_mono simp: id_in_use_def)
  moreover have "devices_wf ?c (recover_map (\<lambda>v. id_value (d_id v)) recovered_device (st_devices s))"
    using parts unfolding devices_wf_def by (auto intro!: recover_map_all elim!: umap_all_mono simp: id_in_use_def)
  moreover have "endpoints_wf n ?c (recover_map (\<lambda>v. id_value (e_id v)) recovered_endpoint (st_endpoints s))"
    using parts unfolding endpoints_wf_def by (auto intro!: recover_map_all elim!: umap_all_mono simp: id_in_use_def)
  moreover have "inventory_wf (recover_map (\<lambda>v. id_value (n_id v)) recovered_nic (st_nics s))
      (recover_map (\<lambda>v. id_value (se_id v)) recovered_storage (st_storage s))"
    unfolding inventory_wf_def umap.keyed_def recover_map_def by (auto dest!: put_all_find)
  moreover have "providers_wf ?c (recover_map (\<lambda>v. id_value (p_id v)) recovered_provider (st_providers s))"
    using parts unfolding providers_wf_def
    by (auto intro!: recover_map_all recover_map_unique elim!: umap_all_mono simp: id_in_use_def)
  moreover have "capabilities_wf ?c (recover_map (\<lambda>v. id_value (c_id v)) recovered_capability (st_capabilities s))"
    using parts unfolding capabilities_wf_def
    by (auto intro!: recover_map_all recover_map_unique elim!: umap_all_mono)
  moreover have "registrations_wf n (recover_map (\<lambda>v. id_value (r_id v)) recovered_registration (st_registrations s))"
    using parts unfolding registrations_wf_def
    by (auto intro!: recover_map_all recover_map_unique elim!: umap_all_mono)
  moreover have "plans_wf ?c (st_plans (recovered_state s))"
  proof -
    have "umap_all (\<lambda>k p. id_in_use ?c (id_value (tp_id p)) k \<and> plan_shape p)
        (put_all (\<lambda>v. id_value (tp_id v)) (map recovered_plan (snd (scanned_plans s))))"
    proof (rule put_all_all)
      fix w assume "w \<in> set (map recovered_plan (snd (scanned_plans s)))"
      then obtain p where p: "w = recovered_plan p" "p \<in> set (umap_values (st_plans s))"
        using scanned_plans_subset [of s] by (metis (no_types, lifting) image_iff list.set_map subsetD)
      then obtain k where "umap_find (st_plans s) k = Some p"
        using umap_values_iff [of "st_plans s"] parts by (auto simp: plans_wf_def)
      then show "id_in_use ?c (id_value (tp_id w)) (id_value (tp_id w)) \<and> plan_shape w"
        using parts p(1) by (auto simp: plans_wf_def id_in_use_def dest: umap_allD)
    qed
    then show ?thesis by (simp add: plans_wf_def recovered_state_def)
  qed
  ultimately show ?thesis
    using parts recovered_dormant [of s]
    by (simp add: state_wf_def) (simp add: recovered_state_def default_State_def workers_wf_def transfers_wf_def verifications_wf_def)
qed

section \<open>Every file\<close>

text \<open>Nothing in the state is live: whatever was in the file, no authority comes back with it.\<close>

definition dormant :: "State \<Rightarrow> bool" where
  "dormant s \<longleftrightarrow>
     umap_all (\<lambda>k r. r_state r \<noteq> RegistrationState.REGISTERED) (st_registrations s) \<and>
     umap_all (\<lambda>k p. \<not> tp_authoritative p) (st_plans s) \<and>
     st_workers s = [] \<and> st_attempts s = [] \<and> st_receipts s = []"

lemma expect_Inr: "expect get msg r k = Inr x \<Longrightarrow> \<exists>v r'. k v r' = Inr x"
  by (auto simp: expect_def err_def split: prod.splits option.splits)

lemma expect_flag_Inr: "expect_flag msg r k = Inr x \<Longrightarrow> \<exists>v r'. k v r' = Inr x"
  by (auto simp: expect_flag_def err_def dest!: expect_Inr split: if_splits) blast

lemma decode_registration_state:
  "decode_registration r = Inr (v, r') \<Longrightarrow> r_state v \<noteq> RegistrationState.REGISTERED"
  unfolding decode_registration_def
  by (drule expect_Inr expect_flag_Inr, elim exE)+
     (auto simp: err_def ok_def Let_def split: if_splits sum.splits)

lemma decode_plan_state: "decode_plan r = Inr ((pl, cnt), r') \<Longrightarrow> \<not> tp_authoritative pl"
  unfolding decode_plan_def by (drule expect_Inr, elim exE)+ (auto simp: ok_def)

lemma read_records_keeps:
  assumes "\<And>v r r' s. decode r = Inr (v, r') \<Longrightarrow> I s \<Longrightarrow> I (store v s)" and "I s"
  shows "I (snd (read_records decode store n r s))"
  using assms(2) by (induction n arbitrary: r s) (auto dest: assms(1) split: sum.splits prod.splits)

lemma read_section_keeps:
  assumes "\<And>v r r' s. decode r = Inr (v, r') \<Longrightarrow> I s \<Longrightarrow> I (store v s)" and "\<And>s. I s \<Longrightarrow> I (clear s)" and "I s"
  shows "I (snd (read_section msg clear decode store r s))"
  using assms read_records_keeps [of decode I store]
  by (auto simp: read_section_def split: prod.splits option.splits)

lemma and_then_keeps:
  "I (snd x) \<Longrightarrow> (\<And>r s. I s \<Longrightarrow> I (snd (f r s))) \<Longrightarrow> I (snd (and_then x f))"
  by (auto simp: and_then_def split: prod.splits sum.splits)

lemma recover_sections_dormant:
  assumes "dormant s"
  shows "dormant (snd (recover_sections r s))"
proof -
  have regs: "dormant (snd (recover_registrations r s))" if "dormant s" for r s
    unfolding recover_registrations_def
    by (rule read_section_keeps [where I = dormant])
       (use that decode_registration_state in \<open>auto simp: dormant_def intro!: umap_all_put\<close>)
  have plans: "dormant (snd (read_plans v8 cnt r s))" if "dormant s" for v8 cnt r s
    using that
  proof (induction v8 cnt r s rule: read_plans.induct)
    case (1 v8 cnt r s)
    have "dormant (s\<lparr>st_plans := umap_put k pl (st_plans s)\<rparr>)" if "\<not> tp_authoritative pl" for k pl
      using that 1(2) by (auto simp: dormant_def intro!: umap_all_put)
    with 1 decode_plan_state [of r] show ?case
      by (subst read_plans.simps) (auto split: sum.splits)
  qed
  then have "dormant (snd (recover_plans r s))" if "dormant s" for r s
    using that by (auto simp: recover_plans_def dormant_def split: prod.splits option.splits)
  with regs show ?thesis
    unfolding recover_sections_def recover_buffers_def recover_devices_def recover_endpoints_def recover_nics_def
      recover_storage_def recover_providers_def recover_capabilities_def
    by (intro and_then_keeps [where I = dormant] read_section_keeps [where I = dormant] assms)
       (auto simp: dormant_def)
qed

text \<open>
  C8: A restart never revives authority, whatever the state file contains, valid or hostile: the
  recovery either fails before it touches the coordinator, or leaves it with no REGISTERED
  registration, no authoritative plan, no live worker and no transfer attempt or receipt, also when it
  fails half way.
\<close>

theorem recovery_revives_no_authority:
  assumes "recover_from_file content out = (res, s')"
  shows "(\<exists>e. res = Inl e) \<and> s' = out \<or>
    (umap_all (\<lambda>k r. r_state r \<noteq> RegistrationState.REGISTERED) (st_registrations s') \<and>
     umap_all (\<lambda>k p. \<not> tp_authoritative p) (st_plans s') \<and>
     st_workers s' = [] \<and> st_attempts s' = [] \<and> st_receipts s' = [])"
proof -
  have "(\<exists>e. res = Inl e) \<and> s' = out \<or> dormant s'" if "recover_body body out = (res, s')" for body
  proof -
    have "dormant (default_State\<lparr>st_epoch := e, st_next_id := i, st_freshness := f\<rparr>)" for e i f
      by (simp add: dormant_def default_State_def)
    from recover_sections_dormant [OF this] that show ?thesis
      by (auto simp: recover_body_def case_prod_beta Let_def split: sum.splits)
  qed
  with assms have "(\<exists>e. res = Inl e) \<and> s' = out \<or> dormant s'"
    by (auto simp: recover_from_file_def err_def Let_def split: option.splits prod.splits if_splits)
  then show ?thesis by (simp add: dormant_def)
qed

section \<open>The demonstration state\<close>

lemma put_str_length [simp]: "length (put_str s) = 4 + length s"
  by (simp add: put_str_def)

lemma put_enum_lengths [simp]:
  "length (put_MemoryDomain a) = 4" "length (put_Locality b) = 4" "length (put_Support c) = 4"
  "length (put_Provenance d) = 4" "length (put_BufferLifecycle e) = 4" "length (put_EndpointClass f) = 4"
  "length (put_RegistrationState g) = 4" "length (put_PathPolicy h) = 4" "length (put_PathEligibility i) = 4"
  by (simp_all add: put_MemoryDomain_def put_Locality_def put_Support_def put_Provenance_def
      put_BufferLifecycle_def put_EndpointClass_def put_RegistrationState_def put_PathPolicy_def
      put_PathEligibility_def encode_enum_def)

lemma demo_persistable: "persistable demo_state" "persistable demo_planned"
  by (simp_all add: persistable_def persist_body_def encode_section_def encode_buffer_def encode_device_def
      encode_endpoint_def encode_provider_def encode_capability_def encode_registration_def encode_plan_def
      demo_state_def demo_planned_def demo_plan_def demo_buffer_record_def demo_endpoint_record_def demo_registration_def
      buffer_ok_def device_ok_def endpoint_ok_def provider_ok_def capability_ok_def registration_ok_def
      plan_ok_def str_ok_def MemoryDomain_values_def Locality_values_def Support_values_def Provenance_values_def
      BufferLifecycle_values_def EndpointClass_values_def RegistrationState_values_def PathPolicy_values_def
      PathEligibility_values_def default_TransferPlan_def)

lemma demo_scanned: "scanned_plans demo_state = (True, [])" "scanned_plans demo_planned = (True, [demo_plan])"
  by (simp_all add: scanned_plans_def demo_state_def demo_planned_def demo_plan_def)

lemma demo_recover:
  "recover_from_file (Some (state_file demo_state)) out = (ok (), recovered_state demo_state)"
  "recover_from_file (Some (state_file demo_planned)) out = (ok (), recovered_state demo_planned)"
  using recover_state_file [OF demo_persistable(1), of out] recover_state_file [OF demo_persistable(2), of out]
  by (simp_all add: demo_scanned)

theorem recovery_revives_no_authority_witness:
  "umap_all (\<lambda>k r. r_state r \<noteq> RegistrationState.REGISTERED) (st_registrations (recovered_state demo_state))"
proof -
  have "recovered_state demo_state \<noteq> default_State"
    by (simp add: recovered_state_def default_State_def demo_state_def)
  with recovery_revives_no_authority [OF demo_recover(1) [of default_State]] show ?thesis by simp
qed

section \<open>What survives\<close>

text \<open>
  C7: Persisting and recovering is a round trip for the registries: from the state file of any
  reachable state that can be written (named enumerators, bounded strings and counts), recovery
  restores the epoch and the counters and, under the same keys, every buffer, device, endpoint, NIC,
  storage endpoint, provider and registration with its persisted fields, and every capability; only a
  registration that was REGISTERED comes back as REVALIDATION_REQUIRED. Recovery
  succeeds whenever the loop over the plans does not run past the last plan.
\<close>

theorem recovery_roundtrip:
  assumes "length ops \<le> op_limit" and "s = run ops (make_coordinator epoch)" and "persistable s"
    and "fst (scanned_plans s)"
  shows "\<exists>s'. recover_from_file (Some (state_file s)) out = (ok (), s') \<and>
    st_epoch s' = st_epoch s \<and> st_next_id s' = st_next_id s \<and> st_freshness s' = st_freshness s \<and>
    (\<forall>k. umap_find (st_buffers s') k = map_option recovered_buffer (umap_find (st_buffers s) k) \<and>
       umap_find (st_devices s') k = map_option recovered_device (umap_find (st_devices s) k) \<and>
       umap_find (st_endpoints s') k = map_option recovered_endpoint (umap_find (st_endpoints s) k) \<and>
       umap_find (st_nics s') k = map_option recovered_nic (umap_find (st_nics s) k) \<and>
       umap_find (st_storage s') k = map_option recovered_storage (umap_find (st_storage s) k) \<and>
       umap_find (st_providers s') k = umap_find (st_providers s) k \<and>
       umap_find (st_registrations s') k = map_option recovered_registration (umap_find (st_registrations s) k)) \<and>
    set (umap_values (st_capabilities s')) = set (umap_values (st_capabilities s))"
proof -
  have wf: "state_wf (length ops) s" using run_wf [OF assms(1), of epoch] assms(2) by simp
  note keyed = state_wf_keyed [OF wf]
  have caps: "umap_ok (st_capabilities s)" "umap_unique c_id (st_capabilities s)"
    using wf by (simp_all add: state_wf_def capabilities_wf_def)
  let ?key = "\<lambda>v. id_value (c_id v)"
  have "inj_on ?key (set (sort_key ?key (umap_values (st_capabilities s))))"
    using umap_unique_values [OF caps] by (auto simp: inj_on_def id_value_eq_iff)
  from put_all_values [OF this]
  have "set (umap_values (recover_map ?key recovered_capability (st_capabilities s))) =
      set (umap_values (st_capabilities s))"
    by (simp add: recover_map_def map_idI)
  moreover have "recover_from_file (Some (state_file s)) out = (ok (), recovered_state s)"
    using recover_state_file [OF assms(3), of out] assms(4) by simp
  ultimately show ?thesis
    using recover_map_find [OF keyed(1), of recovered_buffer] recover_map_find [OF keyed(2), of recovered_device]
      recover_map_find [OF keyed(3), of recovered_endpoint] recover_map_find [OF keyed(4), of recovered_nic]
      recover_map_find [OF keyed(5), of recovered_storage] recover_map_find [OF keyed(6), of recovered_provider]
      recover_map_find [OF keyed(7), of recovered_registration]
    by (intro exI [of _ "recovered_state s"]) (simp add: recovered_state_def option.map_ident)
qed

theorem recovery_roundtrip_witness:
  "\<exists>s'. recover_from_file (Some (state_file demo_state)) default_State = (ok (), s') \<and>
     umap_find (st_buffers s') 6 = Some (recovered_buffer demo_buffer_record)"
proof -
  have "fst (scanned_plans demo_state)" by (simp add: demo_scanned)
  from recovery_roundtrip [OF demo_lengths(1) demo_run [symmetric] demo_persistable(1) this, of default_State]
  obtain s' where s': "recover_from_file (Some (state_file demo_state)) default_State = (ok (), s')"
      "umap_find (st_buffers s') 6 = map_option recovered_buffer (umap_find (st_buffers demo_state) 6)"
    by blast
  then show ?thesis by (intro exI [of _ s']) (simp add: demo_state_def)
qed

text \<open>
  C24: The coordinator's guarantees survive a restart: take any reachable state that can be persisted,
  recover it into a new coordinator (also when the recovery stops at the plans) and run any further
  operations; then still every REGISTERED registration is backed by an active buffer and an endpoint
  at the registered generations and by a live owner of the current epoch, and every authoritative plan
  is of the current epoch and describes the current generations.
\<close>

theorem guarantees_survive_restart:
  assumes "length ops + length later \<le> op_limit" and "s = run ops (make_coordinator epoch)" and "persistable s"
    and "recover_from_file (Some (state_file s)) out = (res, s')" and "t = run later s'"
  shows "(\<forall>k r. umap_find (st_registrations t) k = Some r \<longrightarrow> r_state r = RegistrationState.REGISTERED \<longrightarrow>
      au_epoch (r_authority r) = st_epoch t \<and>
      (\<exists>b e. umap_find (st_buffers t) (id_value (r_buffer r)) = Some b \<and>
         b_lifecycle b = BufferLifecycle.ACTIVE \<and> b_generation b = r_buffer_generation r \<and>
         umap_find (st_endpoints t) (id_value (r_endpoint r)) = Some e \<and>
         e_generation e = r_endpoint_generation r) \<and>
      (worker_owned (r_authority r) \<longrightarrow> umap_find (st_workers t) (id_value (au_worker (r_authority r))) \<noteq> None)) \<and>
    (\<forall>k p. umap_find (st_plans t) k = Some p \<longrightarrow> tp_authoritative p \<longrightarrow> tp_epoch p = st_epoch t \<and>
      (\<exists>b e. umap_find (st_buffers t) (id_value (tp_source p)) = Some b \<and> b_generation b = tp_source_generation p \<and>
         umap_find (st_endpoints t) (id_value (tp_destination p)) = Some e \<and>
         e_generation e = tp_destination_generation p))"
proof -
  have "state_wf (length ops) s" using run_wf [of ops epoch] assms(1,2) by simp
  moreover have "s' = recovered_state s" using recover_state_file [OF assms(3), of out] assms(4) by simp
  ultimately have "state_wf (length ops) s'" using recovered_state_wf by simp
  then have wf: "state_wf (length ops + length later) t"
    using run_progress [of "length ops" s' later] assms(1,5) by simp
  show ?thesis
  proof (intro conjI allI impI)
    fix k r assume "umap_find (st_registrations t) k = Some r" "r_state r = RegistrationState.REGISTERED"
    note fresh = state_wf_registered [OF wf this, unfolded registration_fresh_def]
    from fresh show "au_epoch (r_authority r) = st_epoch t" by simp
    from fresh show "\<exists>b e. umap_find (st_buffers t) (id_value (r_buffer r)) = Some b \<and>
         b_lifecycle b = BufferLifecycle.ACTIVE \<and> b_generation b = r_buffer_generation r \<and>
         umap_find (st_endpoints t) (id_value (r_endpoint r)) = Some e \<and>
         e_generation e = r_endpoint_generation r"
      by (simp split: option.splits)
    assume "worker_owned (r_authority r)"
    with fresh show "umap_find (st_workers t) (id_value (au_worker (r_authority r))) \<noteq> None"
      by (simp split: option.splits)
  next
    fix k p assume "umap_find (st_plans t) k = Some p" "tp_authoritative p"
    note fresh = state_wf_plan(3) [OF wf this, unfolded plan_fresh_def]
    from fresh show "tp_epoch p = st_epoch t" by simp
    from fresh show "\<exists>b e. umap_find (st_buffers t) (id_value (tp_source p)) = Some b \<and>
         b_generation b = tp_source_generation p \<and>
         umap_find (st_endpoints t) (id_value (tp_destination p)) = Some e \<and>
         e_generation e = tp_destination_generation p"
      by (simp split: option.splits)
  qed
qed

text \<open>After the restart the worker comes back under a new boot id and registers a new buffer.\<close>

definition demo_authority2 :: Authority where
  "demo_authority2 = demo_authority\<lparr>au_boot := Generation 2\<rparr>"

definition demo_later :: "SyntheticBackend coord_op list" where
  "demo_later =
     [Register_worker (Id 7) (Generation 2) demo_epoch,
      Create_buffer (demo_buffer\<lparr>cbp_authority := demo_authority2\<rparr>),
      Register_buffer (demo_register\<lparr>rp_buffer := Id 7, rp_authority := demo_authority2\<rparr>) None]"

theorem guarantees_survive_restart_witness:
  "\<exists>b. umap_find (st_buffers (run demo_later (recovered_state demo_state))) 7 = Some b \<and>
     b_lifecycle b = BufferLifecycle.ACTIVE"
proof -
  let ?t = "run demo_later (recovered_state demo_state)"
  have len: "length demo_ops + length demo_later \<le> op_limit" by (simp add: demo_ops_def demo_later_def op_limit_def)
  have "map_option (\<lambda>r. (r_state r, r_buffer r)) (umap_find (st_registrations ?t) 8) =
      Some (RegistrationState.REGISTERED, Id 7)"
    by code_simp
  then obtain r where r: "umap_find (st_registrations ?t) 8 = Some r" "r_state r = RegistrationState.REGISTERED"
      "r_buffer r = Id 7" by auto
  from guarantees_survive_restart [OF len demo_run [symmetric] demo_persistable(1) demo_recover(1) [of default_State] refl] r
  show ?thesis by fastforce
qed

text \<open>
  C32: A damaged state file is refused: if a file is recovered, then no file that differs from it in a
  window of at most four consecutive bytes is; its recovery fails and does not touch the coordinator.
\<close>

theorem damaged_state_file_refused:
  assumes "recover_from_file (Some (xs @ bs @ ys)) out = (ok (), s')"
    and "length bs' = length bs" and "length bs \<le> 4" and "bs' \<noteq> bs"
  shows "\<exists>e. recover_from_file (Some (xs @ bs' @ ys)) out' = (Inl e, out')"
proof -
  obtain res s'' where r: "recover_from_file (Some (xs @ bs' @ ys)) out' = (res, s'')" by fastforce
  have "foldl crc_update 0xFFFFFFFF (xs @ bs @ ys) = crc_residue"
    by (rule recover_frame [OF assms(1)]) simp
  moreover have "foldl crc_update 0xFFFFFFFF (xs @ bs' @ ys) \<noteq> foldl crc_update 0xFFFFFFFF (xs @ bs @ ys)"
    using crc_burst_inject [OF assms(2)] assms(2-4) by simp
  ultimately have "\<not> (s'' \<noteq> out' \<or> has_value res)" using recover_frame [OF r] by metis
  with r show ?thesis by (cases res) (auto simp: has_value_def)
qed

theorem damaged_state_file_refused_witness:
  "\<exists>e. recover_from_file (Some ([] @ [0] @ tl (state_file demo_state))) default_State = (Inl e, default_State)"
proof -
  let ?f = "state_file demo_state"
  have "?f = 71 # tl ?f" by (simp add: state_file_def state_magic_def Let_def byte_of_char_def)
  then have "recover_from_file (Some ([] @ [71] @ tl ?f)) default_State = (ok (), recovered_state demo_state)"
    using demo_recover(1) [of default_State] by simp
  from damaged_state_file_refused [OF this, of "[0]"] show ?thesis by simp
qed

section \<open>Plans\<close>

lemma put_all_length: "length (put_all key vs) \<le> length vs"
  by (induction vs rule: rev_induct) (auto simp: put_all_snoc umap_put_length le_Suc_eq, simp add: put_all_def)

lemma plan_scan_two:
  assumes "list_all (\<lambda>p. tp_copy_count p = (if is_direct (tp_eligibility p) then 1 else 2)) ps" and "length ps \<le> 2 ^ 20"
  shows "fst (plan_scan 0 (word_of_nat (length ps)) ps) \<longleftrightarrow>
      \<not> (length ps = 1 \<and> list_all (\<lambda>p. \<not> is_direct (tp_eligibility p)) ps)"
    and "length (snd (plan_scan 0 (word_of_nat (length ps)) ps)) \<le> 2"
proof -
  have pos: "0 < (word_of_nat (length ps) :: u32)" if "ps \<noteq> []"
    using that assms(2) by (simp add: word_less_nat_alt unat_of_nat)
  have one: "plan_scan 1 1 qs = (True, [])" for qs by (cases qs) simp_all
  have two: "plan_scan 2 c qs = (True, [])" if "c = 1 \<or> c = 2" for c qs
    using that by (cases qs) auto
  have "plan_scan 0 (word_of_nat (length ps)) ps =
      (case ps of [] \<Rightarrow> (True, [])
       | p # qs \<Rightarrow> if is_direct (tp_eligibility p) then (True, [p])
           else (case qs of [] \<Rightarrow> (False, [p]) | q # _ \<Rightarrow> (True, [p, q])))"
  proof (cases ps)
    case (Cons p qs)
    have scan: "plan_scan 0 (word_of_nat (length ps)) ps =
        (fst (plan_scan 1 (tp_copy_count p) qs), p # snd (plan_scan 1 (tp_copy_count p) qs))"
      using pos Cons by (simp add: case_prod_beta)
    show ?thesis
    proof (cases qs)
      case Nil
      then show ?thesis unfolding scan using Cons assms(1) by auto
    next
      case (Cons q rs)
      have "tp_copy_count q = 1 \<or> tp_copy_count q = 2" using assms(1) Cons \<open>ps = p # qs\<close> by auto
      then show ?thesis unfolding scan using Cons \<open>ps = p # qs\<close> assms(1) one two [of "tp_copy_count q" rs] by auto
    qed
  qed simp
  then show "fst (plan_scan 0 (word_of_nat (length ps)) ps) \<longleftrightarrow>
      \<not> (length ps = 1 \<and> list_all (\<lambda>p. \<not> is_direct (tp_eligibility p)) ps)"
    and "length (snd (plan_scan 0 (word_of_nat (length ps)) ps)) \<le> 2"
    by (auto split: list.splits)
qed

text \<open>
  Recovery does not restore the plans it was given: the copy count of a plan overwrites the number
  of plans left to read, so at most two plans come back however many were stored, and a state whose
  only plan is a staged fallback cannot be recovered at all, although its file is intact.
\<close>

lemma recovery_loses_plans:
  assumes "length ops \<le> op_limit" and "s = run ops (make_coordinator epoch)" and "persistable s"
  shows "fst (recover_from_file (Some (state_file s)) out) =
      (if length (st_plans s) = 1 \<and> list_all (\<lambda>p. \<not> is_direct (tp_eligibility p)) (umap_values (st_plans s))
       then err ErrorCode.PERSISTENCE_ERROR ''truncated plan id'' else ok ()) \<and>
    length (st_plans (snd (recover_from_file (Some (state_file s)) out))) \<le> 2"
proof -
  have wf: "state_wf (length ops) s" using run_wf [OF assms(1), of epoch] assms(2) by simp
  have shape: "tp_copy_count p = (if is_direct (tp_eligibility p) then 1 else 2)" if "p \<in> set (sorted_plans s)" for p
  proof -
    from that obtain k where "umap_find (st_plans s) k = Some p"
      using umap_values_iff [of "st_plans s" p] wf by (auto simp: state_wf_def plans_wf_def)
    from state_wf_plan(2) [OF wf this] show ?thesis by (simp add: plan_shape_def)
  qed
  have "list_all (\<lambda>p. tp_copy_count p = (if is_direct (tp_eligibility p) then 1 else 2)) (sorted_plans s)"
    using shape by (simp add: list_all_iff)
  moreover have "length (sorted_plans s) \<le> 2 ^ 20" using assms(3) by (simp add: persistable_def)
  ultimately have "fst (scanned_plans s) \<longleftrightarrow> \<not> (length (st_plans s) = 1 \<and>
        list_all (\<lambda>p. \<not> is_direct (tp_eligibility p)) (umap_values (st_plans s)))"
      "length (snd (scanned_plans s)) \<le> 2"
    using plan_scan_two [of "sorted_plans s"] by (simp_all add: scanned_plans_def list_all_iff)
  then show ?thesis
    using recover_state_file [OF assms(3), of out]
      put_all_length [of "\<lambda>v. id_value (tp_id v)" "map recovered_plan (snd (scanned_plans s))"]
    by (auto simp: recovered_state_def)
qed

section \<open>Replacing the state file\<close>

text \<open>The contract of an atomic replacement: it happens completely or not at all.\<close>

definition replaces_atomically :: "(string \<Rightarrow> string \<Rightarrow> files \<Rightarrow> bool \<times> files) \<Rightarrow> bool" where
  "replaces_atomically replace \<longleftrightarrow>
     (\<forall>src dst fs. replace src dst fs = (False, fs) \<or>
        (\<exists>c. fs src = Some c \<and> replace src dst fs = (True, fs(src := None, dst := Some c))))"

lemma persist_atomic:
  assumes "replaces_atomically replace" and "persist_to_file replace io path s fs = (res, fs')"
  shows "fs' path = (if has_value res then Some (take (io_written io) (state_file s)) else fs path)"
    and "f \<noteq> path \<Longrightarrow> f \<noteq> path @ ''.gdfstate.tmp'' \<Longrightarrow> fs' f = fs f"
proof -
  let ?tmp = "path @ ''.gdfstate.tmp''" and ?c = "take (io_written io) (state_file s)"
  let ?fs = "fs(?tmp \<mapsto> ?c)"
  have "replace ?tmp path ?fs = (False, ?fs) \<or> replace ?tmp path ?fs = (True, ?fs(?tmp := None, path := Some ?c))"
    using assms(1) [unfolded replaces_atomically_def, rule_format, of ?tmp path ?fs] by auto
  then show "fs' path = (if has_value res then Some ?c else fs path)"
      "f \<noteq> path \<Longrightarrow> f \<noteq> ?tmp \<Longrightarrow> fs' f = fs f"
    using assms(2) by (auto simp: persist_to_file_def Let_def split: if_splits)
qed

text \<open>
  What \<open>MoveFileExA\<close> promises: it returns zero and does nothing, or something else after it has moved the
  file; an existing destination is replaced only when bit 0 of the flags asks for it, and refused otherwise.
\<close>

definition moves_or_fails :: "(string \<Rightarrow> string \<Rightarrow> u32 \<Rightarrow> files \<Rightarrow> int \<times> files) \<Rightarrow> bool" where
  "moves_or_fails MoveFileExA \<longleftrightarrow>
     (\<forall>src dst flags fs. MoveFileExA src dst flags fs = (0, fs) \<or>
        (\<exists>c r. r \<noteq> 0 \<and> fs src = Some c \<and> (bit flags 0 \<or> fs dst = None) \<and>
           MoveFileExA src dst flags fs = (r, fs(src := None, dst := Some c))))"

lemma windows_replaces_atomically:
  assumes "moves_or_fails MoveFileExA"
  shows "replaces_atomically (atomic_replace_file_windows MoveFileExA)"
  unfolding replaces_atomically_def
proof (intro allI)
  fix src dst fs
  have "MoveFileExA src dst (0x1 OR 0x8) fs = (0, fs) \<or>
      (\<exists>c r. r \<noteq> 0 \<and> fs src = Some c \<and> MoveFileExA src dst (0x1 OR 0x8) fs = (r, fs(src := None, dst := Some c)))"
    using assms unfolding moves_or_fails_def by blast
  then show "atomic_replace_file_windows MoveFileExA src dst fs = (False, fs) \<or>
      (\<exists>c. fs src = Some c \<and> atomic_replace_file_windows MoveFileExA src dst fs = (True, fs(src := None, dst := Some c)))"
    unfolding atomic_replace_file_windows_def Let_def by auto
qed

text \<open>
  C33: With the replacement used on Windows, a persist that fails, at whatever call, leaves the state file
  as it was, and one that reports success has put there what of the encoding of the state reached the
  disk: all of it if the stream's destructor could flush it, and otherwise a part, which, for a state
  whose file can be read back at all (named enumerators, bounded strings and counts), every later
  recovery refuses without touching its coordinator. No other file but the temporary one changes.
\<close>

theorem persist_all_or_nothing:
  assumes "moves_or_fails MoveFileExA"
    and "persist_to_file (atomic_replace_file_windows MoveFileExA) io path s fs = (res, fs')"
  shows "fs' path = (if has_value res then Some (take (io_written io) (state_file s)) else fs path) \<and>
    (has_value res \<and> length (state_file s) \<le> io_written io \<longrightarrow> fs' path = Some (state_file s)) \<and>
    (has_value res \<and> io_written io < length (state_file s) \<and> persistable s \<longrightarrow>
      (\<exists>e. recover_from_file (fs' path) out = (Inl e, out))) \<and>
    (\<forall>f. f \<noteq> path \<and> f \<noteq> path @ ''.gdfstate.tmp'' \<longrightarrow> fs' f = fs f)"
proof -
  note p = persist_atomic [OF windows_replaces_atomically [OF assms(1)] assms(2)]
  show ?thesis using p(1) p(2) truncated_file_refused [of s "io_written io" out] by simp
qed

text \<open>A \<open>MoveFileExA\<close> that works, or that always fails.\<close>

definition move_or_fail :: "bool \<Rightarrow> string \<Rightarrow> string \<Rightarrow> u32 \<Rightarrow> files \<Rightarrow> int \<times> files" where
  "move_or_fail works src dst flags fs =
     (case fs src of
        Some c \<Rightarrow> if works \<and> (bit flags 0 \<or> fs dst = None) then (1, fs(src := None, dst := Some c)) else (0, fs)
      | None \<Rightarrow> (0, fs))"

theorem persist_all_or_nothing_witness:
  "let io = \<lparr>io_open = True, io_written = length (state_file demo_state), io_write = True\<rparr>; fs = [''s'' \<mapsto> [1, 2, 3]] in
   snd (persist_to_file (atomic_replace_file_windows (move_or_fail False)) io ''s'' demo_state fs) ''s'' = Some [1, 2, 3] \<and>
   snd (persist_to_file (atomic_replace_file_windows (move_or_fail True)) io ''s'' demo_state fs) ''s'' = Some (state_file demo_state)"
proof -
  let ?io = "\<lparr>io_open = True, io_written = length (state_file demo_state), io_write = True\<rparr>" and ?fs = "[''s'' \<mapsto> [1, 2, 3]]"
  let ?run = "\<lambda>works. persist_to_file (atomic_replace_file_windows (move_or_fail works)) ?io ''s'' demo_state ?fs"
  have moves: "moves_or_fails (move_or_fail works)" for works
    by (auto simp: moves_or_fails_def move_or_fail_def split: option.splits)
  have "?run False = (err ErrorCode.PERSISTENCE_ERROR ''atomic replace of state file failed'', snd (?run False))"
      "?run True = (ok (), snd (?run True))"
    by (simp_all add: persist_to_file_def atomic_replace_file_windows_def move_or_fail_def Let_def bit_simps)
  from persist_all_or_nothing [OF moves this(1)] persist_all_or_nothing [OF moves this(2)] show ?thesis by simp
qed

text \<open>
  The result of flushing and closing the temporary file is not looked at: when the disk is full and the
  last of the data is lost in the destructor, the truncated file replaces the good one and the call
  reports success. What was persisted before is gone.
\<close>

lemma persist_loses_state_silently:
  assumes "n < length (state_file s)" and "persistable s"
  shows "fst (persist_to_file (atomic_replace_file_windows (move_or_fail True))
        \<lparr>io_open = True, io_written = n, io_write = True\<rparr> path s fs) = ok () \<and>
    (\<exists>e. recover_from_file (snd (persist_to_file (atomic_replace_file_windows (move_or_fail True))
        \<lparr>io_open = True, io_written = n, io_write = True\<rparr> path s fs) path) out = (Inl e, out))"
  using truncated_file_refused [OF assms(2,1), of out]
  by (simp add: persist_to_file_def atomic_replace_file_windows_def move_or_fail_def Let_def bit_simps)

text \<open>
  The replacement used outside Windows is not atomic: it removes the destination before it renames
  the new file, so when the rename fails the previous state file is gone.
\<close>

lemma posix_replace_loses_state:
  "fst (persist_to_file (atomic_replace_file False) \<lparr>io_open = True, io_written = 0, io_write = True\<rparr> path s fs) =
     err ErrorCode.PERSISTENCE_ERROR ''atomic replace of state file failed'' \<and>
   snd (persist_to_file (atomic_replace_file False) \<lparr>io_open = True, io_written = 0, io_write = True\<rparr> path s fs) path =
     None"
  by (simp add: persist_to_file_def atomic_replace_file_def Let_def)

end
