(* ===== verification/Protocol.thy ===== *)
theory Protocol
  imports Crc32
begin

text \<open>
  The framed wire protocol of \<open>src/protocol.cpp\<close>: message types, the encoder and the validating
  decoder of frames, the payload writers \<open>pw_*\<close> and the bounded \<open>PayloadReader\<close>. A writer appends
  to a vector; here it gives the bytes it appends. The reader keeps its buffer, offset and sticky
  failure flag as in the code: a read past the end sets the flag, returns zero and does not move.
\<close>

section \<open>Frames\<close>

definition kProtoVersion :: u16 where "kProtoVersion = 1"
definition kProtoMaxPayload :: u32 where "kProtoMaxPayload = push_bit 20 1"
definition kProtoHeaderSize :: nat where "kProtoHeaderSize = 16"

datatype MessageType =
    HELLO | REGISTER_WORKER | PUBLISH_DEVICE | PUBLISH_ENDPOINT | PUBLISH_CAPABILITY |
    REGISTER_BUFFER | READY | CREATE_BUFFER | ACK | NACK | QUERY_STATE

fun MessageType_value :: "MessageType \<Rightarrow> u8" where
  "MessageType_value MessageType.HELLO = 1"
| "MessageType_value MessageType.REGISTER_WORKER = 2"
| "MessageType_value MessageType.PUBLISH_DEVICE = 3"
| "MessageType_value MessageType.PUBLISH_ENDPOINT = 4"
| "MessageType_value MessageType.PUBLISH_CAPABILITY = 5"
| "MessageType_value MessageType.REGISTER_BUFFER = 6"
| "MessageType_value MessageType.READY = 7"
| "MessageType_value MessageType.CREATE_BUFFER = 9"
| "MessageType_value MessageType.ACK = 40"
| "MessageType_value MessageType.NACK = 41"
| "MessageType_value MessageType.QUERY_STATE = 8"

fun MessageType_to_string :: "MessageType \<Rightarrow> string" where
  "MessageType_to_string MessageType.HELLO = ''HELLO''"
| "MessageType_to_string MessageType.REGISTER_WORKER = ''REGISTER_WORKER''"
| "MessageType_to_string MessageType.PUBLISH_DEVICE = ''PUBLISH_DEVICE''"
| "MessageType_to_string MessageType.PUBLISH_ENDPOINT = ''PUBLISH_ENDPOINT''"
| "MessageType_to_string MessageType.PUBLISH_CAPABILITY = ''PUBLISH_CAPABILITY''"
| "MessageType_to_string MessageType.REGISTER_BUFFER = ''REGISTER_BUFFER''"
| "MessageType_to_string MessageType.READY = ''READY''"
| "MessageType_to_string MessageType.CREATE_BUFFER = ''CREATE_BUFFER''"
| "MessageType_to_string MessageType.ACK = ''ACK''"
| "MessageType_to_string MessageType.NACK = ''NACK''"
| "MessageType_to_string MessageType.QUERY_STATE = ''QUERY_STATE''"

record Frame =
  fr_type :: MessageType
  fr_flags :: u8
  fr_payload :: bytes

definition default_Frame :: Frame where
  "default_Frame = \<lparr>fr_type = MessageType.HELLO, fr_flags = 0, fr_payload = []\<rparr>"

record DecodeResult =
  dr_ok :: bool
  dr_frame :: Frame
  dr_error :: string

definition frame_magic :: bytes where
  "frame_magic = map byte_of_char ''GDF1''"

definition encode_frame :: "Frame \<Rightarrow> bytes" where
  "encode_frame frame =
     (let b = frame_magic @ le_bytes 2 kProtoVersion @ [MessageType_value (fr_type frame)] @ [fr_flags frame] @
              le_bytes 4 (word_of_nat (length (fr_payload frame)) :: u32) @ fr_payload frame
      in b @ le_bytes 4 (crc32 b))"

text \<open>The switch over the type byte of a decoded frame.\<close>

definition decode_type :: "u8 \<Rightarrow> MessageType option" where
  "decode_type typeval =
     (if typeval = 1 then Some MessageType.HELLO
      else if typeval = 2 then Some MessageType.REGISTER_WORKER
      else if typeval = 3 then Some MessageType.PUBLISH_DEVICE
      else if typeval = 4 then Some MessageType.PUBLISH_ENDPOINT
      else if typeval = 5 then Some MessageType.PUBLISH_CAPABILITY
      else if typeval = 6 then Some MessageType.REGISTER_BUFFER
      else if typeval = 7 then Some MessageType.READY
      else if typeval = 9 then Some MessageType.CREATE_BUFFER
      else if typeval = 40 then Some MessageType.ACK
      else if typeval = 41 then Some MessageType.NACK
      else if typeval = 8 then Some MessageType.QUERY_STATE
      else None)"

definition decode_error :: "string \<Rightarrow> DecodeResult" where
  "decode_error e = \<lparr>dr_ok = False, dr_frame = default_Frame, dr_error = e\<rparr>"

definition decode_frame :: "bytes \<Rightarrow> DecodeResult" where
  "decode_frame wire =
     (if length wire < kProtoHeaderSize then decode_error ''frame too short (truncated)''
      else if take 4 wire \<noteq> frame_magic then decode_error ''bad magic''
      else if (le_word (take 2 (drop 4 wire)) :: u16) \<noteq> kProtoVersion then
        decode_error ''unsupported protocol version''
      else
        let payload_len = (le_word (take 4 (drop 8 wire)) :: u32) in
        if payload_len > kProtoMaxPayload then decode_error ''absurd payload length''
        else if length wire \<noteq> kProtoHeaderSize + unat payload_len then
          decode_error ''frame length mismatch''
        else
          let crc_off = length wire - 4;
              stored_crc = (le_word (drop crc_off wire) :: u32);
              calc = crc32 (take crc_off wire)
          in if stored_crc \<noteq> calc then decode_error ''invalid checksum''
             else
               let frame = default_Frame\<lparr>fr_flags := wire ! 7,
                             fr_payload := take (length wire - 16) (drop 12 wire)\<rparr>
               in case decode_type (wire ! 6) of
                    None \<Rightarrow> \<lparr>dr_ok = False, dr_frame = frame, dr_error = ''malformed message type''\<rparr>
                  | Some t \<Rightarrow> \<lparr>dr_ok = True, dr_frame = frame\<lparr>fr_type := t\<rparr>, dr_error = []\<rparr>)"

section \<open>Frames: round trips and error detection\<close>

lemma decode_type_value [simp]: "decode_type (MessageType_value t) = Some t"
  by (cases t) (simp_all add: decode_type_def)

lemma decode_type_Some: "decode_type v = Some t \<Longrightarrow> MessageType_value t = v"
  by (auto simp: decode_type_def split: if_splits)

lemma frame_magic_length [simp]: "length frame_magic = 4"
  by (simp add: frame_magic_def)

lemma max_payload: "unat kProtoMaxPayload = 2 ^ 20"
  by (simp add: kProtoMaxPayload_def)

lemma unat_payload_length:
  "n \<le> 2 ^ 20 \<Longrightarrow> unat (word_of_nat n :: u32) = n"
  by (simp add: unat_of_nat)

text \<open>The layout of a wire frame: the header, the payload and the trailer.\<close>

definition frame_body :: "u8 \<Rightarrow> u8 \<Rightarrow> u32 \<Rightarrow> bytes \<Rightarrow> bytes" where
  "frame_body ty fl len payload =
     frame_magic @ le_bytes 2 kProtoVersion @ [ty] @ [fl] @ le_bytes 4 len @ payload"

lemma frame_body_parts:
  shows "length (frame_body ty fl len payload) = 12 + length payload"
    and "take 4 (frame_body ty fl len payload @ crc) = frame_magic"
    and "take 2 (drop 4 (frame_body ty fl len payload @ crc)) = le_bytes 2 kProtoVersion"
    and "take 4 (drop 8 (frame_body ty fl len payload @ crc)) = le_bytes 4 len"
    and "drop 12 (frame_body ty fl len payload @ crc) = payload @ crc"
    and "(frame_body ty fl len payload @ crc) ! 6 = ty" "(frame_body ty fl len payload @ crc) ! 7 = fl"
  by (simp_all add: frame_body_def nth_append)

lemma encode_frame_body:
  "encode_frame f = (let b = frame_body (MessageType_value (fr_type f)) (fr_flags f)
       (word_of_nat (length (fr_payload f))) (fr_payload f) in b @ le_bytes 4 (crc32 b))"
  by (simp add: encode_frame_def frame_body_def Let_def)

lemma wire_split:
  assumes "12 \<le> length wire"
  shows "wire = take 4 wire @ take 2 (drop 4 wire) @ [wire ! 6] @ [wire ! 7] @ take 4 (drop 8 wire) @ drop 12 wire"
proof -
  have "drop 6 wire = wire ! 6 # drop 7 wire" "drop 7 wire = wire ! 7 # drop 8 wire"
    using assms by (simp_all add: Cons_nth_drop_Suc [symmetric])
  moreover have "wire = take 4 wire @ drop 4 wire" "drop 4 wire = take 2 (drop 4 wire) @ drop 6 wire"
      "drop 8 wire = take 4 (drop 8 wire) @ drop 12 wire"
    using append_take_drop_id [of 2 "drop 4 wire"] append_take_drop_id [of 4 "drop 8 wire"] by simp_all
  ultimately show ?thesis by (metis append_Cons append_Nil)
qed

lemma decode_encode_frame:
  assumes "length (fr_payload f) \<le> 2 ^ 20"
  shows "decode_frame (encode_frame f) = \<lparr>dr_ok = True, dr_frame = f, dr_error = []\<rparr>"
proof -
  let ?len = "word_of_nat (length (fr_payload f)) :: u32"
  let ?b = "frame_body (MessageType_value (fr_type f)) (fr_flags f) ?len (fr_payload f)"
  have len: "unat ?len = length (fr_payload f)" by (rule unat_payload_length [OF assms])
  then have small: "\<not> ?len > kProtoMaxPayload" using assms by (simp add: word_less_nat_alt max_payload)
  define w where "w = ?b @ le_bytes 4 (crc32 ?b)"
  have parts: "length w = 16 + length (fr_payload f)" "take 4 w = frame_magic"
      "take 2 (drop 4 w) = le_bytes 2 kProtoVersion" "take 4 (drop 8 w) = le_bytes 4 ?len"
      "drop 12 w = fr_payload f @ le_bytes 4 (crc32 ?b)" "w ! 6 = MessageType_value (fr_type f)"
      "w ! 7 = fr_flags f" "take (length w - 4) w = ?b" "drop (length w - 4) w = le_bytes 4 (crc32 ?b)"
    unfolding w_def frame_body_parts(2-7) by (simp_all add: frame_body_parts(1))
  have "decode_frame w = \<lparr>dr_ok = True, dr_frame = f, dr_error = []\<rparr>"
    using parts small len
    by (simp add: decode_frame_def kProtoHeaderSize_def Let_def default_Frame_def)
  then show ?thesis by (simp add: encode_frame_body Let_def w_def)
qed

lemma decode_frame_ok:
  assumes "dr_ok (decode_frame wire)"
  obtains f where "decode_frame wire = \<lparr>dr_ok = True, dr_frame = f, dr_error = []\<rparr>"
    "length (fr_payload f) \<le> 2 ^ 20" "encode_frame f = wire"
    "le_word (drop (length wire - 4) wire) = crc32 (take (length wire - 4) wire)" "16 \<le> length wire"
proof -
  let ?len = "le_word (take 4 (drop 8 wire)) :: u32"
  let ?payload = "take (length wire - 16) (drop 12 wire)"
  note dec_def = decode_frame_def kProtoHeaderSize_def decode_error_def Let_def
  have c1: "16 \<le> length wire" by (rule ccontr) (use assms in \<open>simp add: dec_def\<close>)
  have c2: "take 4 wire = frame_magic" by (rule ccontr) (use assms c1 in \<open>simp add: dec_def\<close>)
  have c3: "(le_word (take 2 (drop 4 wire)) :: u16) = kProtoVersion"
    by (rule ccontr) (use assms c1 c2 in \<open>simp add: dec_def\<close>)
  have c4: "\<not> ?len > kProtoMaxPayload" by (rule notI) (use assms c1 c2 c3 in \<open>simp add: dec_def\<close>)
  have c5: "length wire = 16 + unat ?len" by (rule ccontr) (use assms c1 c2 c3 c4 in \<open>simp add: dec_def\<close>)
  have c6: "le_word (drop (length wire - 4) wire) = crc32 (take (length wire - 4) wire)"
    by (rule ccontr) (use assms c1 c2 c3 c4 in \<open>simp add: dec_def eqTrueI [OF c5]\<close>)
  have dec: "decode_frame wire = (case decode_type (wire ! 6) of
        None \<Rightarrow> \<lparr>dr_ok = False, dr_frame = default_Frame\<lparr>fr_flags := wire ! 7, fr_payload := ?payload\<rparr>,
                 dr_error = ''malformed message type''\<rparr>
      | Some t \<Rightarrow> \<lparr>dr_ok = True, dr_frame = \<lparr>fr_type = t, fr_flags = wire ! 7, fr_payload = ?payload\<rparr>,
                   dr_error = []\<rparr>)"
    using c1 c2 c3 c4 by (simp add: dec_def default_Frame_def eqTrueI [OF c5] eqTrueI [OF c6] split: option.split)
  with assms obtain t where t: "decode_type (wire ! 6) = Some t" by (cases "decode_type (wire ! 6)") simp_all
  let ?f = "\<lparr>fr_type = t, fr_flags = wire ! 7, fr_payload = ?payload\<rparr>"
  have dec: "decode_frame wire = \<lparr>dr_ok = True, dr_frame = ?f, dr_error = []\<rparr>"
    unfolding dec t by simp
  define n where "n = unat ?len"
  have n: "length wire = 16 + n" using c5 unfolding n_def .
  then have plen: "length ?payload = unat ?len" unfolding n_def [symmetric] by simp
  then have max: "length ?payload \<le> 2 ^ 20"
    using c4 by (simp only: word_less_nat_alt max_payload not_less)
  have "word_of_nat (length ?payload) = ?len" unfolding plen by simp
  moreover have "le_bytes 2 kProtoVersion = take 2 (drop 4 wire)" unfolding c3 [symmetric] using c1 by simp
  ultimately have body: "frame_body (MessageType_value t) (wire ! 7) (word_of_nat (length ?payload)) ?payload =
      take (length wire - 4) wire"
  proof -
    assume a: "word_of_nat (length ?payload) = ?len" "le_bytes 2 kProtoVersion = take 2 (drop 4 wire)"
    have "le_bytes 4 ?len = take 4 (drop 8 wire)" using c1 by simp
    then have "frame_body (MessageType_value t) (wire ! 7) (word_of_nat (length ?payload)) ?payload =
        take 4 wire @ take 2 (drop 4 wire) @ [wire ! 6] @ [wire ! 7] @ take 4 (drop 8 wire) @ ?payload"
      by (simp add: frame_body_def a(2) c2 decode_type_Some [OF t] del: length_take) (simp only: a(1))
    moreover have "take (length wire - 4) wire = take (length wire - 4)
        (take 4 wire @ take 2 (drop 4 wire) @ [wire ! 6] @ [wire ! 7] @ take 4 (drop 8 wire) @ drop 12 wire)"
      using wire_split [of wire] c1 by simp
    ultimately show ?thesis using n by (simp add: take_Cons')
  qed
  have "le_bytes 4 (crc32 (take (length wire - 4) wire)) = drop (length wire - 4) wire"
    unfolding c6 [symmetric] using c1 by simp
  with body have "encode_frame ?f = wire" by (simp add: encode_frame_body Let_def del: length_take)
  with dec max c1 c6 show thesis by (intro that [of ?f]) simp_all
qed

lemma wire_burst_rejected:
  assumes "dr_ok (decode_frame (xs @ bs @ ys))" and "length bs' = length bs" "length bs \<le> 4" "bs' \<noteq> bs"
  shows "\<not> dr_ok (decode_frame (xs @ bs' @ ys))"
proof
  have residue: "foldl crc_update 0xFFFFFFFF wire = crc_residue" if "dr_ok (decode_frame wire)" for wire
  proof -
    from that obtain f where "le_word (drop (length wire - 4) wire) = crc32 (take (length wire - 4) wire)"
        "16 \<le> length wire" by (rule decode_frame_ok)
    then show ?thesis
      using crc_residue_iff [of "drop (length wire - 4) wire" "take (length wire - 4) wire"] by simp
  qed
  assume "dr_ok (decode_frame (xs @ bs' @ ys))"
  from residue [OF this] residue [OF assms(1)]
  have "foldl crc_update 0xFFFFFFFF (xs @ bs' @ ys) = foldl crc_update 0xFFFFFFFF (xs @ bs @ ys)" by simp
  then show False using assms(2-4) crc_burst_inject [OF assms(2)] by simp
qed

text \<open>
  C25: Frames round trip, and the decoder accepts nothing else: every frame with a payload of at most
  1 MiB decodes to itself after encoding, and whatever byte string the decoder accepts is exactly the
  encoding of the frame it returns.
\<close>

theorem frame_roundtrip:
  "(length (fr_payload f) \<le> 2 ^ 20 \<longrightarrow>
      decode_frame (encode_frame f) = \<lparr>dr_ok = True, dr_frame = f, dr_error = []\<rparr>) \<and>
   (dr_ok (decode_frame wire) \<longrightarrow>
      encode_frame (dr_frame (decode_frame wire)) = wire \<and>
      length (fr_payload (dr_frame (decode_frame wire))) \<le> 2 ^ 20)"
  using decode_encode_frame [of f] decode_frame_ok [of wire] by fastforce

theorem frame_roundtrip_witness:
  "decode_frame (encode_frame \<lparr>fr_type = MessageType.READY, fr_flags = 3, fr_payload = [1, 2]\<rparr>) =
     \<lparr>dr_ok = True, dr_frame = \<lparr>fr_type = MessageType.READY, fr_flags = 3, fr_payload = [1, 2]\<rparr>, dr_error = []\<rparr>"
  using frame_roundtrip [of "\<lparr>fr_type = MessageType.READY, fr_flags = 3, fr_payload = [1, 2]\<rparr>" "[]"] by simp

text \<open>
  C26: Transmission errors are caught: if a byte string is accepted, then no byte string that differs
  from it in a window of at most four consecutive bytes, wherever the window lies (magic, version,
  type, flags, length, payload or checksum), is accepted as well.
\<close>

theorem decode_rejects_bursts:
  assumes "dr_ok (decode_frame (xs @ bs @ ys))" and "length bs' = length bs" and "length bs \<le> 4" and "bs' \<noteq> bs"
  shows "\<not> dr_ok (decode_frame (xs @ bs' @ ys))"
  using assms by (rule wire_burst_rejected)

theorem decode_rejects_bursts_witness:
  "\<not> dr_ok (decode_frame (take 12 (encode_frame (default_Frame\<lparr>fr_payload := [5, 6]\<rparr>)) @ [9] @
     drop 13 (encode_frame (default_Frame\<lparr>fr_payload := [5, 6]\<rparr>))))"
proof -
  let ?w = "encode_frame (default_Frame\<lparr>fr_payload := [5, 6]\<rparr>)"
  have w: "take 12 ?w @ [5] @ drop 13 ?w = ?w"
    by (simp add: encode_frame_def frame_magic_def Let_def)
  have "dr_ok (decode_frame (take 12 ?w @ [5] @ drop 13 ?w))"
    unfolding w using decode_encode_frame [of "default_Frame\<lparr>fr_payload := [5, 6]\<rparr>"] by simp
  from decode_rejects_bursts [OF this, of "[9]"] show ?thesis by simp
qed

end
