(* ===== verification/Payload.thy ===== *)
theory Payload
  imports Bytes
begin

text \<open>
  The payload writers \<open>pw_*\<close> and the bounded \<open>PayloadReader\<close> of \<open>src/protocol.cpp\<close>. A writer appends
  to a vector; here it gives the bytes it appends. The reader keeps its buffer, offset and sticky
  failure flag as in the code: a read past the end sets the flag, gives zero and does not move, and
  the reads after it go on from where they are.
\<close>

named_theorems payload_codec \<open>what a read finds at the bytes of the matching write\<close>

section \<open>Writers and the reader\<close>

definition pw_u8 :: "u8 \<Rightarrow> bytes" where "pw_u8 v = [v]"
definition pw_u16 :: "u16 \<Rightarrow> bytes" where "pw_u16 v = le_bytes 2 v"
definition pw_u32 :: "u32 \<Rightarrow> bytes" where "pw_u32 v = le_bytes 4 v"
definition pw_u64 :: "u64 \<Rightarrow> bytes" where "pw_u64 v = le_bytes 8 v"
definition pw_str :: "string \<Rightarrow> bytes" where
  "pw_str s = le_bytes 4 (word_of_nat (length s) :: u32) @ map byte_of_char s"

record PayloadReader =
  pr_p :: bytes
  pr_off :: nat
  pr_fail :: bool

definition payload_reader :: "bytes \<Rightarrow> PayloadReader" where
  "payload_reader payload = \<lparr>pr_p = payload, pr_off = 0, pr_fail = False\<rparr>"

definition pr_u8 :: "PayloadReader \<Rightarrow> u8 \<times> PayloadReader" where
  "pr_u8 r = (if pr_off r + 1 > length (pr_p r) then (0, r\<lparr>pr_fail := True\<rparr>)
              else (pr_p r ! pr_off r, r\<lparr>pr_off := pr_off r + 1\<rparr>))"

definition pr_u16 :: "PayloadReader \<Rightarrow> u16 \<times> PayloadReader" where
  "pr_u16 r = (if pr_off r + 2 > length (pr_p r) then (0, r\<lparr>pr_fail := True\<rparr>)
               else (le_word (take 2 (drop (pr_off r) (pr_p r))), r\<lparr>pr_off := pr_off r + 2\<rparr>))"

definition pr_u32 :: "PayloadReader \<Rightarrow> u32 \<times> PayloadReader" where
  "pr_u32 r = (if pr_off r + 4 > length (pr_p r) then (0, r\<lparr>pr_fail := True\<rparr>)
               else (le_word (take 4 (drop (pr_off r) (pr_p r))), r\<lparr>pr_off := pr_off r + 4\<rparr>))"

definition pr_u64 :: "PayloadReader \<Rightarrow> u64 \<times> PayloadReader" where
  "pr_u64 r = (if pr_off r + 8 > length (pr_p r) then (0, r\<lparr>pr_fail := True\<rparr>)
               else (le_word (take 8 (drop (pr_off r) (pr_p r))), r\<lparr>pr_off := pr_off r + 8\<rparr>))"

text \<open>\<open>None\<close> is the return value \<open>false\<close>, which leaves the output string alone.\<close>

definition pr_str :: "PayloadReader \<Rightarrow> string option \<times> PayloadReader" where
  "pr_str r =
     (let (len, r1) = pr_u32 r in
      if pr_fail r1 \<or> len > push_bit 20 1 \<or> pr_off r1 + unat len > length (pr_p r1) then
        (None, r1\<lparr>pr_fail := True\<rparr>)
      else (Some (map char_of_byte (take (unat len) (drop (pr_off r1) (pr_p r1)))),
            r1\<lparr>pr_off := pr_off r1 + unat len\<rparr>))"

definition pr_read_bytes :: "nat \<Rightarrow> PayloadReader \<Rightarrow> bytes option \<times> PayloadReader" where
  "pr_read_bytes len r =
     (if pr_off r + len > length (pr_p r) then (None, r\<lparr>pr_fail := True\<rparr>)
      else (Some (take len (drop (pr_off r) (pr_p r))), r\<lparr>pr_off := pr_off r + len\<rparr>))"

section \<open>Reading what was written\<close>

text \<open>A reader that has consumed \<open>pre\<close> and has \<open>xs\<close> before it.\<close>

definition payload_at :: "bytes \<Rightarrow> bytes \<Rightarrow> PayloadReader" where
  "payload_at pre xs = \<lparr>pr_p = pre @ xs, pr_off = length pre, pr_fail = False\<rparr>"

lemma payload_reader_at: "payload_reader xs = payload_at [] xs"
  by (simp add: payload_reader_def payload_at_def)

lemma payload_at_sel [simp]:
  "pr_fail (payload_at pre xs) = False" "pr_off (payload_at pre xs) = length pre"
  "pr_p (payload_at pre xs) = pre @ xs"
  by (simp_all add: payload_at_def)

lemma pr_u8_at [payload_codec]: "pr_u8 (payload_at pre (pw_u8 v @ xs)) = (v, payload_at (pre @ pw_u8 v) xs)"
  by (simp add: pr_u8_def pw_u8_def payload_at_def nth_append)

lemma pr_u16_at [payload_codec]: "pr_u16 (payload_at pre (pw_u16 v @ xs)) = (v, payload_at (pre @ pw_u16 v) xs)"
  by (simp add: pr_u16_def pw_u16_def payload_at_def)

lemma pr_u32_at [payload_codec]: "pr_u32 (payload_at pre (pw_u32 v @ xs)) = (v, payload_at (pre @ pw_u32 v) xs)"
  by (simp add: pr_u32_def pw_u32_def payload_at_def)

lemma pr_u64_at [payload_codec]: "pr_u64 (payload_at pre (pw_u64 v @ xs)) = (v, payload_at (pre @ pw_u64 v) xs)"
  by (simp add: pr_u64_def pw_u64_def payload_at_def)

lemma pr_str_at [payload_codec]:
  assumes "length s \<le> 2 ^ 20"
  shows "pr_str (payload_at pre (pw_str s @ xs)) = (Some s, payload_at (pre @ pw_str s) xs)"
proof -
  let ?len = "word_of_nat (length s) :: u32"
  have len: "unat ?len = length s" using assms by (simp add: unat_of_nat)
  then have "\<not> ?len > push_bit 20 1" using assms by (simp add: word_less_nat_alt)
  moreover have "pr_u32 (payload_at pre (pw_str s @ xs)) =
      (?len, payload_at (pre @ pw_u32 ?len) (map byte_of_char s @ xs))"
    using pr_u32_at [of pre ?len "map byte_of_char s @ xs"] by (simp add: pw_str_def pw_u32_def)
  ultimately show ?thesis
    by (simp add: pr_str_def len) (simp add: payload_at_def pw_str_def pw_u32_def)
qed

lemma pr_u8_end [payload_codec]: "pr_u8 (payload_at pre [v]) = (v, payload_at (pre @ [v]) [])"
  using pr_u8_at [of pre v "[]"] by (simp add: pw_u8_def)

lemma pr_u64_end [payload_codec]: "pr_u64 (payload_at pre (pw_u64 v)) = (v, payload_at (pre @ pw_u64 v) [])"
  using pr_u64_at [of pre v "[]"] by simp

section \<open>Bounds\<close>

text \<open>One step of a reader: same buffer, offset moved forward but not past the end, failure kept.\<close>

definition reader_moves :: "PayloadReader \<Rightarrow> PayloadReader \<Rightarrow> bool" where
  "reader_moves r r' \<longleftrightarrow> pr_p r' = pr_p r \<and> pr_off r \<le> pr_off r' \<and> pr_off r' \<le> length (pr_p r) \<and>
     (pr_fail r \<longrightarrow> pr_fail r')"

text \<open>
  No read ever looks outside the payload: from an offset inside the buffer every read keeps the
  buffer, moves the offset forward by at most what is left and keeps a failure once set; and a fixed
  width read succeeds exactly when enough bytes are left, otherwise it gives zero, sets the failure
  flag and does not move.
\<close>

lemma payload_reads_stay_inside:
  assumes "pr_off r \<le> length (pr_p r)"
  shows "reader_moves r (snd (pr_u8 r)) \<and> reader_moves r (snd (pr_u16 r)) \<and>
    reader_moves r (snd (pr_u32 r)) \<and> reader_moves r (snd (pr_u64 r)) \<and>
    reader_moves r (snd (pr_str r)) \<and> reader_moves r (snd (pr_read_bytes n r)) \<and>
    (length (pr_p r) < pr_off r + 1 \<longrightarrow> pr_u8 r = (0, r\<lparr>pr_fail := True\<rparr>)) \<and>
    (length (pr_p r) < pr_off r + 2 \<longrightarrow> pr_u16 r = (0, r\<lparr>pr_fail := True\<rparr>)) \<and>
    (length (pr_p r) < pr_off r + 4 \<longrightarrow> pr_u32 r = (0, r\<lparr>pr_fail := True\<rparr>)) \<and>
    (length (pr_p r) < pr_off r + 8 \<longrightarrow> pr_u64 r = (0, r\<lparr>pr_fail := True\<rparr>)) \<and>
    (pr_fail r \<longrightarrow> fst (pr_str r) = None)"
  using assms
  by (auto simp: reader_moves_def pr_u8_def pr_u16_def pr_u32_def pr_u64_def pr_str_def pr_read_bytes_def Let_def)

end
