(* ===== verification/Server.thy ===== *)
theory Server
  imports Protocol Payload Machine
begin

text \<open>
  The coordinator server of \<open>src/coordinator_server.cpp\<close>: the handshake of \<open>run\<close>, the messages of a
  worker connection, the state report, and the teardown when a connection ends. A message is parsed
  into the parameters of the one coordinator operation it stands for (every read of the payload in the
  order of the code, failed reads giving zero where the code does not check), the operation is run and
  its result becomes an ACK or NACK frame; \<open>None\<close> as reply is the handler's return value \<open>false\<close>. Each
  connection has its own thread, and the coordinator's methods are atomic, so the server is a state
  machine over the events of its connections in any interleaving.
\<close>

section \<open>Replies\<close>

definition support8 :: "u8 \<Rightarrow> Support" where "support8 v = Support_of_int (uint v)"
definition provenance8 :: "u8 \<Rightarrow> Provenance" where "provenance8 v = Provenance_of_int (uint v)"
definition endpoint8 :: "u8 \<Rightarrow> EndpointClass" where "endpoint8 v = EndpointClass_of_int (uint v)"
definition domain8 :: "u8 \<Rightarrow> MemoryDomain" where "domain8 v = MemoryDomain_of_int (uint v)"

text \<open>The overloads of \<open>enum8\<close>, which nothing in the file calls.\<close>

definition support_enum8 :: "Support \<Rightarrow> u8" where "support_enum8 s = word_of_int (Support_to_int s)"
definition provenance_enum8 :: "Provenance \<Rightarrow> u8" where "provenance_enum8 p = word_of_int (Provenance_to_int p)"
definition endpoint_enum8 :: "EndpointClass \<Rightarrow> u8" where "endpoint_enum8 e = word_of_int (EndpointClass_to_int e)"
definition domain_enum8 :: "MemoryDomain \<Rightarrow> u8" where "domain_enum8 d = word_of_int (MemoryDomain_to_int d)"

definition read_worker :: "PayloadReader \<Rightarrow> (u64 \<times> u64 \<times> u64) \<times> PayloadReader" where
  "read_worker r = (let (w, r) = pr_u64 r; (b, r) = pr_u64 r; (e, r) = pr_u64 r in ((w, b, e), r))"

definition send_ack :: "u64 \<Rightarrow> u64 \<Rightarrow> u64 \<Rightarrow> Frame" where
  "send_ack id1 id2 id3 =
     \<lparr>fr_type = MessageType.ACK, fr_flags = 0,
      fr_payload = pw_u8 0 @ pw_u64 id1 @ pw_u64 id2 @ pw_u64 id3\<rparr>"

definition send_nack :: "ErrorCode \<Rightarrow> string \<Rightarrow> Frame" where
  "send_nack code msg =
     \<lparr>fr_type = MessageType.NACK, fr_flags = 0,
      fr_payload = pw_u8 1 @ pw_u32 (word_of_int (ErrorCode_to_int code)) @ pw_u32 (word_of_nat (length msg)) @
        concat (map (\<lambda>c. pw_u8 (byte_of_char c)) msg)\<rparr>"

text \<open>\<open>res ? send_ack(...) : send_nack(res.error().code, res.error().message)\<close>\<close>

definition reply :: "'a Result \<Rightarrow> ('a \<Rightarrow> Frame) \<Rightarrow> Frame" where
  "reply res ack = (case res of Inl e \<Rightarrow> send_nack (err_code e) (err_message e) | Inr v \<Rightarrow> ack v)"

section \<open>Worker messages\<close>

definition session_authority :: "u64 \<Rightarrow> u64 \<Rightarrow> u64 \<Rightarrow> Authority" where
  "session_authority worker boot epoch =
     \<lparr>au_worker = Id worker, au_boot = Generation boot, au_epoch = Generation epoch\<rparr>"

definition parse_device :: "Authority \<Rightarrow> PayloadReader \<Rightarrow> DeviceAddParams option" where
  "parse_device auth r =
     (case pr_str r of (None, _) \<Rightarrow> None | (Some name, r) \<Rightarrow>
     (case pr_str r of (None, _) \<Rightarrow> None | (Some cc, r) \<Rightarrow>
      let (peer, r) = pr_u8 r; (ssup, r) = pr_u8 r; (prov, r) = pr_u8 r
      in Some \<lparr>dap_name = name, dap_compute_capability = cc, dap_peer_memory_supported = (peer \<noteq> 0),
               dap_support = support8 ssup, dap_provenance = provenance8 prov, dap_authority = auth\<rparr>))"

definition parse_endpoint :: "Authority \<Rightarrow> PayloadReader \<Rightarrow> EndpointAddParams option" where
  "parse_endpoint auth r =
     (let (cls, r) = pr_u8 r in
      case pr_str r of (None, _) \<Rightarrow> None | (Some nm, r) \<Rightarrow>
     (case pr_str r of (None, _) \<Rightarrow> None | (Some topo, r) \<Rightarrow>
      let (healthy, r) = pr_u8 r; (ssup, r) = pr_u8 r; (prov, r) = pr_u8 r
      in Some \<lparr>eap_endpoint_class = endpoint8 cls, eap_name = nm, eap_topology_hint = topo,
               eap_healthy = (healthy \<noteq> 0), eap_provider = Id 0, eap_support = support8 ssup,
               eap_provenance = provenance8 prov, eap_authority = auth\<rparr>))"

definition parse_capability :: "Authority \<Rightarrow> PayloadReader \<Rightarrow> CapabilityPublishParams option" where
  "parse_capability auth r =
     (case pr_str r of (None, _) \<Rightarrow> None | (Some prov, r) \<Rightarrow>
     (case pr_str r of (None, _) \<Rightarrow> None | (Some cap, r) \<Rightarrow>
     (case pr_str r of (None, _) \<Rightarrow> None | (Some val, r) \<Rightarrow>
      let (ssup, r) = pr_u8 r; (pr, r) = pr_u8 r
      in Some \<lparr>cpp_provider = prov, cpp_capability = cap, cpp_value = val, cpp_support = support8 ssup,
               cpp_provenance = provenance8 pr, cpp_authority = auth\<rparr>)))"

definition parse_create :: "Authority \<Rightarrow> PayloadReader \<Rightarrow> CreateBufferParams" where
  "parse_create auth r =
     (let (dm, r) = pr_u8 r; (bsize, r) = pr_u64 r; (balign, r) = pr_u64 r; (dev, r) = pr_u64 r;
          (ssup, r) = pr_u8 r; (prov, r) = pr_u8 r
      in \<lparr>cbp_domain = domain8 dm, cbp_size = bsize, cbp_alignment = balign, cbp_device = Id dev,
          cbp_locality = Locality.LOCAL, cbp_support = support8 ssup,
          cbp_provenance = provenance8 prov, cbp_authority = auth, cbp_name = ''worker_buffer''\<rparr>)"

definition parse_register :: "Authority \<Rightarrow> PayloadReader \<Rightarrow> RegisterParams" where
  "parse_register auth r =
     (let (bid, r) = pr_u64 r; (eid, r) = pr_u64 r; (ssup, r) = pr_u8 r; (prov, r) = pr_u8 r
      in \<lparr>rp_buffer = Id bid, rp_endpoint = Id eid, rp_provider = Id 0, rp_authority = auth,
          rp_support = support8 ssup, rp_provenance = provenance8 prov, rp_required_capabilities = []\<rparr>)"

definition handle_worker_message :: "Frame \<Rightarrow> u64 \<Rightarrow> u64 \<Rightarrow> u64 \<Rightarrow> State \<Rightarrow> Frame option \<times> State" where
  "handle_worker_message f worker boot epoch s =
     (let r = payload_reader (fr_payload f); auth = session_authority worker boot epoch in
      case fr_type f of
        MessageType.PUBLISH_DEVICE \<Rightarrow>
          (case parse_device auth r of
             None \<Rightarrow> (None, s)
           | Some p \<Rightarrow> let (res, s') = add_device p s
               in (Some (reply res (\<lambda>d. send_ack (id_value (d_id d)) 0 0)), s'))
      | MessageType.PUBLISH_ENDPOINT \<Rightarrow>
          (case parse_endpoint auth r of
             None \<Rightarrow> (None, s)
           | Some p \<Rightarrow> let (res, s') = add_endpoint p s
               in (Some (reply res (\<lambda>e. send_ack (id_value (e_id e)) 0 0)), s'))
      | MessageType.PUBLISH_CAPABILITY \<Rightarrow>
          (case parse_capability auth r of
             None \<Rightarrow> (None, s)
           | Some p \<Rightarrow> let (res, s') = publish_capability p s
               in (Some (reply res (\<lambda>c. send_ack (id_value (c_id c)) 0 0)), s'))
      | MessageType.CREATE_BUFFER \<Rightarrow>
          let (res, s') = create_buffer (parse_create auth r) s
          in (Some (reply res (\<lambda>b. send_ack (id_value (b_id b)) (gen_value (b_generation b)) 0)), s')
      | MessageType.REGISTER_BUFFER \<Rightarrow>
          let (res, s', _) = register_buffer (parse_register auth r) (None :: unit Backend_ptr) s
          in (Some (reply res (\<lambda>g. send_ack (id_value (r_id g)) (gen_value (r_generation g)) 0)), s')
      | MessageType.READY \<Rightarrow> (Some (send_ack 0 0 0), s)
      | _ \<Rightarrow> (Some (send_nack ErrorCode.UNSUPPORTED ''unsupported worker message''), s))"

section \<open>State reports\<close>

definition send_state :: "State \<Rightarrow> Frame" where
  "send_state s =
     (let regs = (case registrations s of Inl _ \<Rightarrow> [] | Inr rs \<Rightarrow> rs);
          workers = (case live_workers s of Inl _ \<Rightarrow> [] | Inr ws \<Rightarrow> ws)
      in \<lparr>fr_type = MessageType.ACK, fr_flags = 0, fr_payload =
           pw_u8 0 @ pw_u32 (word_of_nat (length regs)) @
           concat (map (\<lambda>r. pw_u64 (id_value (r_id r)) @ pw_u64 (id_value (r_buffer r)) @
             pw_u64 (id_value (r_endpoint r)) @ pw_u8 (word_of_int (RegistrationState_to_int (r_state r))) @
             pw_u8 (if worker_owned (r_authority r) then 1 else 0)) regs) @
           pw_u32 (word_of_nat (length workers)) @
           concat (map (\<lambda>(w, b). pw_u64 (id_value w) @ pw_u64 (gen_value b)) workers)\<rparr>)"

text \<open>\<open>handle_query\<close> ignores the frame; the connection's thread calls \<open>send_state\<close> itself.\<close>

definition handle_query :: "Frame \<Rightarrow> State \<Rightarrow> Frame" where
  "handle_query f s = send_state s"

section \<open>Connections\<close>

datatype connection = Worker_conn u64 u64 u64 | Query_conn

record Server =
  sv_coord :: State
  sv_conns :: "(nat \<times> connection) list"

definition make_server :: "CoordinatorEpoch \<Rightarrow> Server" where
  "make_server epoch = \<lparr>sv_coord = make_coordinator epoch, sv_conns = []\<rparr>"

text \<open>
  The events: a connection is accepted and its first frame received; a frame is received on an open
  connection, with the outcome of sending the reply; receiving on a connection fails.
\<close>

datatype server_event = Accept nat Frame | Receive nat Frame bool | Closed nat

definition end_connection :: "nat \<Rightarrow> connection \<Rightarrow> Server \<Rightarrow> Server" where
  "end_connection c conn sv =
     (let sv' = sv\<lparr>sv_conns := AList.delete c (sv_conns sv)\<rparr> in
      case conn of
        Worker_conn worker boot epoch \<Rightarrow> sv'\<lparr>sv_coord := snd (mark_worker_dead (Id worker) (sv_coord sv))\<rparr>
      | Query_conn \<Rightarrow> sv')"

fun server_step :: "server_event \<Rightarrow> Server \<Rightarrow> Frame option \<times> Server" where
  "server_step (Accept c hf) sv =
     (if fr_type hf \<noteq> MessageType.HELLO \<and> fr_type hf \<noteq> MessageType.REGISTER_WORKER then (None, sv)
      else
        let ((worker, boot, epoch), r) = read_worker (payload_reader (fr_payload hf)) in
        if worker \<noteq> 0 then
          let (rw, s') = register_worker (Id worker) (Generation boot) (Generation epoch) (sv_coord sv) in
          case rw of
            Inl e \<Rightarrow> (Some (send_nack (err_code e) (err_message e)), sv\<lparr>sv_coord := s'\<rparr>)
          | Inr _ \<Rightarrow> (Some (send_ack 0 0 0),
              sv\<lparr>sv_coord := s', sv_conns := AList.update c (Worker_conn worker boot epoch) (sv_conns sv)\<rparr>)
        else (None, sv\<lparr>sv_conns := AList.update c Query_conn (sv_conns sv)\<rparr>))"
| "server_step (Receive c f sent) sv =
     (case map_of (sv_conns sv) c of
        None \<Rightarrow> (None, sv)
      | Some (Worker_conn worker boot epoch) \<Rightarrow>
          let (rep, s') = handle_worker_message f worker boot epoch (sv_coord sv);
              sv' = sv\<lparr>sv_coord := s'\<rparr>
          in if rep \<noteq> None \<and> sent then (rep, sv')
             else (rep, end_connection c (Worker_conn worker boot epoch) sv')
      | Some Query_conn \<Rightarrow>
          if fr_type f = MessageType.QUERY_STATE then
            (Some (send_state (sv_coord sv)), if sent then sv else end_connection c Query_conn sv)
          else (Some (send_nack ErrorCode.UNSUPPORTED ''query connection only supports QUERY_STATE''), sv))"
| "server_step (Closed c) sv =
     (case map_of (sv_conns sv) c of
        None \<Rightarrow> (None, sv)
      | Some conn \<Rightarrow> (None, end_connection c conn sv))"

definition server_run :: "server_event list \<Rightarrow> Server \<Rightarrow> Server" where
  "server_run evs sv = fold (\<lambda>ev sv. snd (server_step ev sv)) evs sv"

end
