(* ===== verification/Transport.thy ===== *)
theory Transport
  imports Protocol
begin

text \<open>
  Sending and receiving frames over a stream socket (\<open>src/transport.cpp\<close>). The calls \<open>::send\<close> and
  \<open>::recv\<close> of the operating system are arguments: \<open>recv m\<close> gives the bytes received, at most \<open>m\<close>, and
  the empty list for a return value of zero or less; \<open>send bs\<close> gives the number of bytes taken, zero
  for a return value of zero or less. \<open>delivers\<close> states what a connected stream socket promises.
\<close>

section \<open>The code\<close>

record 's TcpConn =
  tc_socket :: 's
  tc_invalid :: bool
  tc_listener :: bool

function recv_all :: "(nat \<Rightarrow> 's \<Rightarrow> bytes \<times> 's) \<Rightarrow> nat \<Rightarrow> bytes \<Rightarrow> 's \<Rightarrow> bytes option \<times> 's" where
  "recv_all recv n got s =
     (if length got < n then
        let (d, s') = recv (n - length got) s
        in if d = [] then (None, s') else recv_all recv n (got @ d) s'
      else (Some got, s))"
  by pat_completeness auto

termination
  by (relation "measure (\<lambda>(recv, n, got, s). n - length got)")
     (auto simp: length_greater_0_conv [symmetric] simp del: length_greater_0_conv)

declare recv_all.simps [simp del]

function send_all :: "(bytes \<Rightarrow> 's \<Rightarrow> nat \<times> 's) \<Rightarrow> bytes \<Rightarrow> nat \<Rightarrow> 's \<Rightarrow> bool \<times> 's" where
  "send_all send wire sent s =
     (if sent < length wire then
        let (r, s') = send (drop sent wire) s
        in if r = 0 then (False, s') else send_all send wire (sent + r) s'
      else (True, s))"
  by pat_completeness auto

termination
  by (relation "measure (\<lambda>(send, wire, sent, s). length wire - sent)") auto

declare send_all.simps [simp del]

definition send_frame :: "(bytes \<Rightarrow> 's \<Rightarrow> nat \<times> 's) \<Rightarrow> Frame \<Rightarrow> 's TcpConn \<Rightarrow> bool \<times> 's TcpConn" where
  "send_frame send frame c =
     (if tc_invalid c \<or> tc_listener c then (False, c)
      else let (sent, s') = send_all send (encode_frame frame) 0 (tc_socket c)
           in (sent, c\<lparr>tc_socket := s'\<rparr>))"

text \<open>\<open>Inl\<close> is the error text of a return value \<open>false\<close>.\<close>

definition recv_frame :: "(nat \<Rightarrow> 's \<Rightarrow> bytes \<times> 's) \<Rightarrow> 's TcpConn \<Rightarrow> (string + Frame) \<times> 's TcpConn" where
  "recv_frame recv c =
     (if tc_invalid c \<or> tc_listener c then (Inl ''not a connected socket'', c)
      else case recv_all recv kProtoHeaderSize [] (tc_socket c) of
        (None, s1) \<Rightarrow> (Inl ''connection closed / truncated header'', c\<lparr>tc_socket := s1\<rparr>)
      | (Some header, s1) \<Rightarrow>
          let c1 = c\<lparr>tc_socket := s1\<rparr> in
          if take 4 header \<noteq> frame_magic then (Inl ''bad magic'', c1)
          else if (le_word (take 2 (drop 4 header)) :: u16) \<noteq> kProtoVersion then
            (Inl ''unsupported protocol version'', c1)
          else
            let payload_len = (le_word (take 4 (drop 8 header)) :: u32) in
            if payload_len > kProtoMaxPayload then (Inl ''absurd payload length'', c1)
            else
              case (if payload_len > 0 then recv_all recv (unat payload_len) [] s1 else (Some [], s1)) of
                (None, s2) \<Rightarrow> (Inl ''connection closed / truncated payload'', c\<lparr>tc_socket := s2\<rparr>)
              | (Some payload, s2) \<Rightarrow>
                  let dr = decode_frame (header @ payload); c2 = c\<lparr>tc_socket := s2\<rparr> in
                  if \<not> dr_ok dr then (Inl (dr_error dr), c2) else (Inr (dr_frame dr), c2))"

section \<open>Streams\<close>

text \<open>
  A receiving stream with the bytes \<open>pending\<close>: a call takes some of them from the front, at most as
  many as asked for, and at least one unless there are none.
\<close>

definition delivers :: "(nat \<Rightarrow> 's \<Rightarrow> bytes \<times> 's) \<Rightarrow> ('s \<Rightarrow> bytes) \<Rightarrow> bool" where
  "delivers recv pending \<longleftrightarrow>
     (\<forall>m s d s'. 0 < m \<longrightarrow> recv m s = (d, s') \<longrightarrow>
        pending s = d @ pending s' \<and> length d \<le> m \<and> (pending s \<noteq> [] \<longrightarrow> d \<noteq> []))"

lemma deliversD:
  "delivers recv pending \<Longrightarrow> 0 < m \<Longrightarrow> recv m s = (d, s') \<Longrightarrow>
   pending s = d @ pending s' \<and> length d \<le> m \<and> (pending s \<noteq> [] \<longrightarrow> d \<noteq> [])"
  unfolding delivers_def by blast

text \<open>However the stream is cut up, reading \<open>n\<close> bytes gives the first \<open>n\<close> bytes of it.\<close>

lemma recv_all_enough:
  assumes del: "delivers recv pending"
  shows "n \<le> length got + length (pending s) \<Longrightarrow> length got \<le> n \<Longrightarrow>
    \<exists>s'. recv_all recv n got s = (Some (got @ take (n - length got) (pending s)), s') \<and>
      pending s' = drop (n - length got) (pending s)"
  using del
proof (induction recv n got s rule: recv_all.induct)
  case (1 recv n got s)
  show ?case
  proof (cases "length got < n")
    case True
    obtain d s1 where r: "recv (n - length got) s = (d, s1)" by fastforce
    have "0 < n - length got" "pending s \<noteq> []" using True 1(2) by auto
    with deliversD [OF 1(4) _ r] have d: "pending s = d @ pending s1" "length d \<le> n - length got" "d \<noteq> []"
      by blast+
    then have "\<exists>s'. recv_all recv n (got @ d) s1 = (Some ((got @ d) @ take (n - length (got @ d)) (pending s1)), s') \<and>
        pending s' = drop (n - length (got @ d)) (pending s1)"
      using True r 1(2) by (intro 1(1) [OF True r [symmetric] refl _ _ _ 1(4)]) auto
    moreover have "recv_all recv n got s = recv_all recv n (got @ d) s1"
      using True r d(3) by (subst recv_all.simps) simp
    moreover have "take (n - length got) (pending s) = d @ take (n - length (got @ d)) (pending s1)"
        "drop (n - length got) (pending s) = drop (n - length (got @ d)) (pending s1)"
      unfolding d(1) using d(2) by simp_all
    ultimately show ?thesis by simp
  next
    case False
    with 1 show ?thesis by (subst recv_all.simps) simp
  qed
qed

text \<open>Whatever is read was at the front of the stream.\<close>

lemma recv_all_front:
  assumes del: "delivers recv pending"
  shows "recv_all recv n got s = (Some bs, s') \<Longrightarrow> length got \<le> n \<Longrightarrow>
    length bs = n \<and> (\<exists>d. bs = got @ d \<and> pending s = d @ pending s')"
  using del
proof (induction recv n got s rule: recv_all.induct)
  case (1 recv n got s)
  show ?case
  proof (cases "length got < n")
    case True
    obtain d s1 where r: "recv (n - length got) s = (d, s1)" by fastforce
    have "0 < n - length got" using True by simp
    with deliversD [OF 1(4) _ r] have d: "pending s = d @ pending s1" "length d \<le> n - length got" by blast+
    have rec: "recv_all recv n (got @ d) s1 = (Some bs, s')" "d \<noteq> []"
      using 1(2) True r by (subst (asm) recv_all.simps, auto split: if_splits)+
    then have "length bs = n \<and> (\<exists>e. bs = (got @ d) @ e \<and> pending s1 = e @ pending s')"
      using True d by (intro 1(1) [OF True r [symmetric] refl _ _ _ 1(4)]) auto
    with d show ?thesis by auto
  next
    case False
    with 1 show ?thesis by (subst (asm) recv_all.simps) auto
  qed
qed

text \<open>A sending stream with the bytes already \<open>sent\<close>: a call appends a prefix of what it is given.\<close>

definition takes :: "(bytes \<Rightarrow> 's \<Rightarrow> nat \<times> 's) \<Rightarrow> ('s \<Rightarrow> bytes) \<Rightarrow> bool" where
  "takes send sent \<longleftrightarrow>
     (\<forall>bs s r s'. send bs s = (r, s') \<longrightarrow> r \<le> length bs \<and> sent s' = sent s @ take r bs)"

lemma send_all_sent:
  assumes "takes send log"
  shows "send_all send wire n s = (True, s') \<Longrightarrow> n \<le> length wire \<Longrightarrow> log s' = log s @ drop n wire"
  using assms
proof (induction send wire n s rule: send_all.induct)
  case (1 send wire n s)
  show ?case
  proof (cases "n < length wire")
    case True
    obtain r s1 where r: "send (drop n wire) s = (r, s1)" by fastforce
    then have s1: "r \<le> length wire - n" "log s1 = log s @ take r (drop n wire)"
      using 1(4) unfolding takes_def by fastforce+
    have rec: "send_all send wire (n + r) s1 = (True, s')" "r \<noteq> 0"
      using 1(2) True r by (subst (asm) send_all.simps, auto split: if_splits)+
    then have "log s' = log s1 @ drop (n + r) wire"
      using True s1(1) by (intro 1(1) [OF True r [symmetric] refl _ _ _ 1(4)]) auto
    also have "\<dots> = log s @ drop n wire"
      unfolding s1(2) using append_take_drop_id [of r "drop n wire"] by (simp add: add.commute)
    finally show ?thesis .
  next
    case False
    with 1(2,3) show ?thesis by (subst (asm) send_all.simps) auto
  qed
qed

section \<open>Frames over a stream\<close>

lemma wire_header:
  assumes "length (fr_payload f) \<le> 2 ^ 20"
  shows "length (encode_frame f) = 16 + length (fr_payload f)" "take 4 (encode_frame f) = frame_magic"
    "(le_word (take 2 (drop 4 (encode_frame f))) :: u16) = kProtoVersion"
    "unat (le_word (take 4 (drop 8 (encode_frame f))) :: u32) = length (fr_payload f)"
  unfolding encode_frame_body Let_def frame_body_parts(2-4)
  by (simp_all add: frame_body_parts(1) unat_payload_length [OF assms])

lemma recv_frame_encoded:
  assumes del: "delivers recv pending" and conn: "\<not> tc_invalid c" "\<not> tc_listener c"
    and pend: "pending (tc_socket c) = encode_frame f @ rest" and small: "length (fr_payload f) \<le> 2 ^ 20"
  shows "\<exists>c'. recv_frame recv c = (Inr f, c') \<and> pending (tc_socket c') = rest"
proof -
  define w where "w = encode_frame f"
  note parts = wire_header [OF small, folded w_def]
  have head: "take 16 (pending (tc_socket c)) = take 16 w" "drop 16 (pending (tc_socket c)) = drop 16 w @ rest"
    using pend parts(1) by (simp_all add: w_def)
  obtain s1 where s1: "recv_all recv kProtoHeaderSize [] (tc_socket c) = (Some (take 16 w), s1)"
      "pending s1 = drop 16 w @ rest"
    using recv_all_enough [OF del, of 16 "[]" "tc_socket c"] head pend parts(1)
    by (auto simp: kProtoHeaderSize_def w_def)
  have fields: "take 4 (take 16 w) = frame_magic" "(le_word (take 2 (drop 4 (take 16 w))) :: u16) = kProtoVersion"
      "take 4 (drop 8 (take 16 w)) = take 4 (drop 8 w)"
    using parts(2,3) by (simp_all add: drop_take min_def)
  let ?len = "le_word (take 4 (drop 8 w)) :: u32"
  have le: "\<not> ?len > kProtoMaxPayload" using parts(4) small by (simp add: word_less_nat_alt max_payload)
  have "\<exists>s2. (if ?len > 0 then recv_all recv (unat ?len) [] s1 else (Some [], s1)) = (Some (drop 16 w), s2) \<and>
      pending s2 = rest"
  proof (cases "length (fr_payload f) = 0")
    case True
    then show ?thesis using parts(1,4) s1(2) by (auto simp: word_less_nat_alt)
  next
    case False
    have "unat ?len = length (drop 16 w)" using parts(1,4) by simp
    then show ?thesis
      using recv_all_enough [OF del, of "unat ?len" "[]" s1] s1(2) False parts(4) by (simp add: word_less_nat_alt)
  qed
  then obtain s2 where s2: "(if ?len > 0 then recv_all recv (unat ?len) [] s1 else (Some [], s1)) = (Some (drop 16 w), s2)"
      "pending s2 = rest" by blast
  have "decode_frame (take 16 w @ drop 16 w) = \<lparr>dr_ok = True, dr_frame = f, dr_error = []\<rparr>"
    using decode_encode_frame [OF small] by (simp add: w_def)
  then show ?thesis
    using conn s1(1) fields le s2 by (auto simp: recv_frame_def Let_def simp del: append_take_drop_id)
qed

lemma recv_frame_front:
  assumes del: "delivers recv pending" and r: "recv_frame recv c = (Inr f, c')"
  shows "pending (tc_socket c) = encode_frame f @ pending (tc_socket c')"
proof -
  obtain h s1 where h: "recv_all recv kProtoHeaderSize [] (tc_socket c) = (Some h, s1)"
    using r by (auto simp: recv_frame_def split: if_splits option.splits prod.splits)
  let ?len = "le_word (take 4 (drop 8 h)) :: u32"
  from r h obtain b s2 where b: "(if ?len > 0 then recv_all recv (unat ?len) [] s1 else (Some [], s1)) = (Some b, s2)"
      "dr_ok (decode_frame (h @ b))" "f = dr_frame (decode_frame (h @ b))" "tc_socket c' = s2"
    by (auto simp: recv_frame_def Let_def split: if_splits option.splits prod.splits)
  have "pending (tc_socket c) = h @ pending s1" using recv_all_front [OF del h] by simp
  moreover have "pending s1 = b @ pending s2"
    using b(1) recv_all_front [OF del, of "unat ?len" "[]" s1 b s2] by (auto split: if_splits)
  moreover from b(2) obtain g where "decode_frame (h @ b) = \<lparr>dr_ok = True, dr_frame = g, dr_error = []\<rparr>" "encode_frame g = h @ b"
    by (rule decode_frame_ok)
  ultimately show ?thesis using b(3,4) by simp
qed

text \<open>
  C23: Frames are delivered over a stream however it fragments them: if sending a frame of at most
  1 MiB payload reports success, the bytes it put on the stream are the frame's encoding, and a
  receiver that finds those bytes before it, in whatever pieces the socket hands them out, receives
  exactly that frame and leaves the stream at the byte after it; and any frame that is received was on
  the stream in its encoding.
\<close>

theorem frame_delivery:
  assumes "takes send log" and "send_frame send f c = (True, c')" and "length (fr_payload f) \<le> 2 ^ 20"
    and "delivers recv pending" and "\<not> tc_invalid d" and "\<not> tc_listener d"
    and "log (tc_socket c) @ pending (tc_socket d) = log (tc_socket c') @ rest"
  shows "(\<exists>d'. recv_frame recv d = (Inr f, d') \<and> pending (tc_socket d') = rest) \<and>
    (recv_frame recv e = (Inr g, e') \<longrightarrow> pending (tc_socket e) = encode_frame g @ pending (tc_socket e'))"
proof -
  have "log (tc_socket c') = log (tc_socket c) @ encode_frame f"
    using assms(2) send_all_sent [OF assms(1), of "encode_frame f" 0 "tc_socket c" "tc_socket c'"]
    by (auto simp: send_frame_def split: if_splits prod.splits)
  with assms(7) have "pending (tc_socket d) = encode_frame f @ rest" by simp
  then show ?thesis
    using recv_frame_encoded [OF assms(4-6) _ assms(3)] recv_frame_front [OF assms(4), of e g e'] by blast
qed

text \<open>A stream that hands out at most three bytes per call, and one that takes everything.\<close>

definition trickle :: "nat \<Rightarrow> bytes \<Rightarrow> bytes \<times> bytes" where
  "trickle m s = (take (min m 3) s, drop (min m 3) s)"

definition gulp :: "bytes \<Rightarrow> bytes \<Rightarrow> nat \<times> bytes" where
  "gulp bs s = (length bs, s @ bs)"

theorem frame_delivery_witness:
  "\<exists>d'. recv_frame trickle \<lparr>tc_socket = encode_frame default_Frame @ [1], tc_invalid = False, tc_listener = False\<rparr> =
     (Inr default_Frame, d') \<and> tc_socket d' = [1]"
proof -
  let ?c = "\<lparr>tc_socket = [], tc_invalid = False, tc_listener = False\<rparr>"
  let ?d = "\<lparr>tc_socket = encode_frame default_Frame @ [1], tc_invalid = False, tc_listener = False\<rparr>"
  have len: "length (encode_frame default_Frame) = 16"
    using wire_header(1) [of default_Frame] by (simp add: default_Frame_def)
  have takes: "takes gulp (\<lambda>s. s)" by (simp add: takes_def gulp_def)
  have del: "delivers trickle (\<lambda>s. s)" by (auto simp: delivers_def trickle_def)
  have sent: "send_frame gulp default_Frame ?c = (True, ?c\<lparr>tc_socket := encode_frame default_Frame\<rparr>)"
    using len by (simp add: send_frame_def send_all.simps gulp_def)
  have small: "length (fr_payload default_Frame) \<le> 2 ^ 20" by (simp add: default_Frame_def)
  from frame_delivery [OF takes sent small del, of ?d "[1]" ?d default_Frame ?d] show ?thesis by simp
qed

end
