(* ===== verification/Client.thy ===== *)
theory Client
  imports Server Transport
begin

text \<open>
  The worker's side of the protocol (\<open>src/worker_client.cpp\<close>): every method builds one frame, sends it
  over the connection and waits for the answer. The socket calls are arguments as in \<open>Transport\<close>;
  \<open>None\<close> is the return value \<open>false\<close>, and the identity a method hands back through its reference
  parameter is its result.
\<close>

section \<open>The client\<close>

record 's WorkerClient =
  wc_conn :: "'s TcpConn"
  wc_worker :: u64
  wc_boot :: u64
  wc_epoch :: u64

type_synonym 's sender = "bytes \<Rightarrow> 's \<Rightarrow> nat \<times> 's"
type_synonym 's receiver = "nat \<Rightarrow> 's \<Rightarrow> bytes \<times> 's"

definition recv_ack :: "'s receiver \<Rightarrow> 's WorkerClient \<Rightarrow> (u64 \<times> u64) option \<times> 's WorkerClient" where
  "recv_ack recv c =
     (let (rf, conn) = recv_frame recv (wc_conn c); c = c\<lparr>wc_conn := conn\<rparr> in
      case rf of
        Inl _ \<Rightarrow> (None, c)
      | Inr f \<Rightarrow>
          if fr_type f = MessageType.NACK then (None, c)
          else if fr_type f \<noteq> MessageType.ACK then (None, c)
          else
            let (status, r) = pr_u8 (payload_reader (fr_payload f)) in
            if pr_fail r then (None, c)
            else if status \<noteq> 0 then (None, c)
            else
              let (id1, r) = pr_u64 r; (id2, r) = pr_u64 r
              in if pr_fail r then (None, c) else (Some (id1, id2), c))"

text \<open>The common end of all methods: send the frame, give up if that fails, and wait for the answer.\<close>

definition request :: "'s sender \<Rightarrow> 's receiver \<Rightarrow> Frame \<Rightarrow> 's WorkerClient \<Rightarrow>
    (u64 \<times> u64) option \<times> 's WorkerClient" where
  "request send recv f c =
     (let (sent, conn) = send_frame send f (wc_conn c); c = c\<lparr>wc_conn := conn\<rparr>
      in if \<not> sent then (None, c) else recv_ack recv c)"

definition request_id :: "'s sender \<Rightarrow> 's receiver \<Rightarrow> Frame \<Rightarrow> 's WorkerClient \<Rightarrow>
    u64 option \<times> 's WorkerClient" where
  "request_id send recv f c = (let (res, c) = request send recv f c in (map_option fst res, c))"

definition request_ok :: "'s sender \<Rightarrow> 's receiver \<Rightarrow> Frame \<Rightarrow> 's WorkerClient \<Rightarrow>
    bool \<times> 's WorkerClient" where
  "request_ok send recv f c = (let (res, c) = request send recv f c in (res \<noteq> None, c))"

definition identity_bytes :: "'s WorkerClient \<Rightarrow> bytes" where
  "identity_bytes c = pw_u64 (wc_worker c) @ pw_u64 (wc_boot c) @ pw_u64 (wc_epoch c)"

definition support_byte :: "Support \<Rightarrow> bytes" where
  "support_byte s = pw_u8 (word_of_int (Support_to_int s))"

definition provenance_byte :: "Provenance \<Rightarrow> bytes" where
  "provenance_byte p = pw_u8 (word_of_int (Provenance_to_int p))"

definition flag_byte :: "bool \<Rightarrow> bytes" where
  "flag_byte b = pw_u8 (if b then 1 else 0)"

section \<open>Frames\<close>

definition hello_frame :: "'s WorkerClient \<Rightarrow> Frame" where
  "hello_frame c = \<lparr>fr_type = MessageType.HELLO, fr_flags = 0, fr_payload = identity_bytes c\<rparr>"

definition device_frame :: "string \<Rightarrow> string \<Rightarrow> bool \<Rightarrow> Support \<Rightarrow> Provenance \<Rightarrow> 's WorkerClient \<Rightarrow> Frame" where
  "device_frame name cc peer s p c =
     \<lparr>fr_type = MessageType.PUBLISH_DEVICE, fr_flags = 0, fr_payload =
        pw_str name @ pw_str cc @ flag_byte peer @ support_byte s @ provenance_byte p @ identity_bytes c\<rparr>"

definition endpoint_frame ::
    "EndpointClass \<Rightarrow> string \<Rightarrow> string \<Rightarrow> bool \<Rightarrow> Support \<Rightarrow> Provenance \<Rightarrow> 's WorkerClient \<Rightarrow> Frame" where
  "endpoint_frame cls name topo healthy s p c =
     \<lparr>fr_type = MessageType.PUBLISH_ENDPOINT, fr_flags = 0, fr_payload =
        pw_u8 (word_of_int (EndpointClass_to_int cls)) @ pw_str name @ pw_str topo @ flag_byte healthy @
        support_byte s @ provenance_byte p @ identity_bytes c\<rparr>"

definition capability_frame ::
    "string \<Rightarrow> string \<Rightarrow> string \<Rightarrow> Support \<Rightarrow> Provenance \<Rightarrow> 's WorkerClient \<Rightarrow> Frame" where
  "capability_frame provider cap val s p c =
     \<lparr>fr_type = MessageType.PUBLISH_CAPABILITY, fr_flags = 0, fr_payload =
        pw_str provider @ pw_str cap @ pw_str val @ support_byte s @ provenance_byte p @ identity_bytes c\<rparr>"

definition create_frame ::
    "MemoryDomain \<Rightarrow> u64 \<Rightarrow> u64 \<Rightarrow> u64 \<Rightarrow> Support \<Rightarrow> Provenance \<Rightarrow> 's WorkerClient \<Rightarrow> Frame" where
  "create_frame domn bsize align device s p c =
     \<lparr>fr_type = MessageType.CREATE_BUFFER, fr_flags = 0, fr_payload =
        pw_u8 (word_of_int (MemoryDomain_to_int domn)) @ pw_u64 bsize @ pw_u64 align @ pw_u64 device @
        support_byte s @ provenance_byte p @ identity_bytes c\<rparr>"

definition register_frame :: "u64 \<Rightarrow> u64 \<Rightarrow> Support \<Rightarrow> Provenance \<Rightarrow> 's WorkerClient \<Rightarrow> Frame" where
  "register_frame buffer endpoint s p c =
     \<lparr>fr_type = MessageType.REGISTER_BUFFER, fr_flags = 0, fr_payload =
        pw_u64 buffer @ pw_u64 endpoint @ support_byte s @ provenance_byte p @ identity_bytes c\<rparr>"

definition ready_frame :: "'s WorkerClient \<Rightarrow> Frame" where
  "ready_frame c = \<lparr>fr_type = MessageType.READY, fr_flags = 0, fr_payload = identity_bytes c\<rparr>"

section \<open>Methods\<close>

definition client_hello :: "'s sender \<Rightarrow> 's receiver \<Rightarrow> u64 \<Rightarrow> u64 \<Rightarrow> u64 \<Rightarrow> 's WorkerClient \<Rightarrow>
    bool \<times> 's WorkerClient" where
  "client_hello send recv worker boot epoch c =
     (let c = c\<lparr>wc_worker := worker, wc_boot := boot, wc_epoch := epoch\<rparr>
      in request_ok send recv (hello_frame c) c)"

definition client_publish_device :: "'s sender \<Rightarrow> 's receiver \<Rightarrow> string \<Rightarrow> string \<Rightarrow> bool \<Rightarrow> Support \<Rightarrow>
    Provenance \<Rightarrow> 's WorkerClient \<Rightarrow> u64 option \<times> 's WorkerClient" where
  "client_publish_device send recv name cc peer s p c =
     request_id send recv (device_frame name cc peer s p c) c"

definition client_publish_endpoint :: "'s sender \<Rightarrow> 's receiver \<Rightarrow> EndpointClass \<Rightarrow> string \<Rightarrow> string \<Rightarrow> bool \<Rightarrow>
    Support \<Rightarrow> Provenance \<Rightarrow> 's WorkerClient \<Rightarrow> u64 option \<times> 's WorkerClient" where
  "client_publish_endpoint send recv cls name topo healthy s p c =
     request_id send recv (endpoint_frame cls name topo healthy s p c) c"

definition client_publish_capability :: "'s sender \<Rightarrow> 's receiver \<Rightarrow> string \<Rightarrow> string \<Rightarrow> string \<Rightarrow> Support \<Rightarrow>
    Provenance \<Rightarrow> 's WorkerClient \<Rightarrow> bool \<times> 's WorkerClient" where
  "client_publish_capability send recv provider cap val s p c =
     request_ok send recv (capability_frame provider cap val s p c) c"

definition client_create_buffer :: "'s sender \<Rightarrow> 's receiver \<Rightarrow> MemoryDomain \<Rightarrow> u64 \<Rightarrow> u64 \<Rightarrow> u64 \<Rightarrow>
    Support \<Rightarrow> Provenance \<Rightarrow> 's WorkerClient \<Rightarrow> u64 option \<times> 's WorkerClient" where
  "client_create_buffer send recv domn bsize align device s p c =
     request_id send recv (create_frame domn bsize align device s p c) c"

definition client_register_buffer :: "'s sender \<Rightarrow> 's receiver \<Rightarrow> u64 \<Rightarrow> u64 \<Rightarrow> Support \<Rightarrow> Provenance \<Rightarrow>
    's WorkerClient \<Rightarrow> u64 option \<times> 's WorkerClient" where
  "client_register_buffer send recv buffer endpoint s p c =
     request_id send recv (register_frame buffer endpoint s p c) c"

definition client_ready :: "'s sender \<Rightarrow> 's receiver \<Rightarrow> 's WorkerClient \<Rightarrow> bool \<times> 's WorkerClient" where
  "client_ready send recv c = request_ok send recv (ready_frame c) c"

section \<open>The server reads what the client wrote\<close>

lemma enum_byte:
  assumes "0 \<le> v" and "v < 256"
  shows "uint (word_of_int v :: u8) = v"
  using assms by (simp add: uint_word_of_int)

lemma enum8_roundtrip:
  "s \<in> set Support_values \<Longrightarrow> support8 (word_of_int (Support_to_int s)) = s"
  "p \<in> set Provenance_values \<Longrightarrow> provenance8 (word_of_int (Provenance_to_int p)) = p"
  "k \<in> set EndpointClass_values \<Longrightarrow> endpoint8 (word_of_int (EndpointClass_to_int k)) = k"
  "d \<in> set MemoryDomain_values \<Longrightarrow> domain8 (word_of_int (MemoryDomain_to_int d)) = d"
  by (auto simp: support8_def provenance8_def endpoint8_def domain8_def Support_values_def Provenance_values_def
      EndpointClass_values_def MemoryDomain_values_def Support_to_int_def Provenance_to_int_def
      EndpointClass_to_int_def MemoryDomain_to_int_def Support_of_int_def Provenance_of_int_def
      EndpointClass_of_int_def MemoryDomain_of_int_def enum_to_int_def enum_of_int_def)

lemma enum8_inverse:
  "s \<in> set Support_values \<Longrightarrow> support8 (support_enum8 s) = s"
  "p \<in> set Provenance_values \<Longrightarrow> provenance8 (provenance_enum8 p) = p"
  "k \<in> set EndpointClass_values \<Longrightarrow> endpoint8 (endpoint_enum8 k) = k"
  "d \<in> set MemoryDomain_values \<Longrightarrow> domain8 (domain_enum8 d) = d"
  by (simp_all add: enum8_roundtrip support_enum8_def provenance_enum8_def endpoint_enum8_def domain_enum8_def)

lemmas frame_codec = payload_reader_at payload_codec Let_def
  support_byte_def provenance_byte_def flag_byte_def identity_bytes_def

lemma parse_device_frame:
  assumes "length name \<le> 2 ^ 20" and "length cc \<le> 2 ^ 20"
    and "s \<in> set Support_values" and "p \<in> set Provenance_values"
  shows "parse_device auth (payload_reader (fr_payload (device_frame name cc peer s p c))) =
    Some \<lparr>dap_name = name, dap_compute_capability = cc, dap_peer_memory_supported = peer, dap_support = s,
          dap_provenance = p, dap_authority = auth\<rparr>"
  using assms by (simp add: parse_device_def device_frame_def frame_codec enum8_roundtrip)

lemma parse_endpoint_frame:
  assumes "length name \<le> 2 ^ 20" and "length topo \<le> 2 ^ 20" and "cls \<in> set EndpointClass_values"
    and "s \<in> set Support_values" and "p \<in> set Provenance_values"
  shows "parse_endpoint auth (payload_reader (fr_payload (endpoint_frame cls name topo healthy s p c))) =
    Some \<lparr>eap_endpoint_class = cls, eap_name = name, eap_topology_hint = topo, eap_healthy = healthy,
          eap_provider = Id 0, eap_support = s, eap_provenance = p, eap_authority = auth\<rparr>"
  using assms by (simp add: parse_endpoint_def endpoint_frame_def frame_codec enum8_roundtrip)

lemma parse_capability_frame:
  assumes "length provider \<le> 2 ^ 20" and "length cap \<le> 2 ^ 20" and "length val \<le> 2 ^ 20"
    and "s \<in> set Support_values" and "p \<in> set Provenance_values"
  shows "parse_capability auth (payload_reader (fr_payload (capability_frame provider cap val s p c))) =
    Some \<lparr>cpp_provider = provider, cpp_capability = cap, cpp_value = val, cpp_support = s,
          cpp_provenance = p, cpp_authority = auth\<rparr>"
  using assms by (simp add: parse_capability_def capability_frame_def frame_codec enum8_roundtrip)

lemma parse_create_frame:
  assumes "d \<in> set MemoryDomain_values" and "s \<in> set Support_values" and "p \<in> set Provenance_values"
  shows "parse_create auth (payload_reader (fr_payload (create_frame d bsize align device s p c))) =
    \<lparr>cbp_domain = d, cbp_size = bsize, cbp_alignment = align, cbp_device = Id device,
     cbp_locality = Locality.LOCAL, cbp_support = s, cbp_provenance = p, cbp_authority = auth,
     cbp_name = ''worker_buffer''\<rparr>"
  using assms by (simp add: parse_create_def create_frame_def frame_codec enum8_roundtrip)

lemma parse_register_frame:
  assumes "s \<in> set Support_values" and "p \<in> set Provenance_values"
  shows "parse_register auth (payload_reader (fr_payload (register_frame b e s p c))) =
    \<lparr>rp_buffer = Id b, rp_endpoint = Id e, rp_provider = Id 0, rp_authority = auth, rp_support = s,
     rp_provenance = p, rp_required_capabilities = []\<rparr>"
  using assms by (simp add: parse_register_def register_frame_def frame_codec enum8_roundtrip)

lemma read_worker_hello:
  "\<exists>r. read_worker (payload_reader (fr_payload (hello_frame c))) = ((wc_worker c, wc_boot c, wc_epoch c), r)"
  by (simp add: read_worker_def hello_frame_def frame_codec)

end
