(* ===== verification/Session.thy ===== *)
theory Session
  imports Client
begin

text \<open>
  A worker's calls, from the client through the server to the coordinator and back: what a method of
  the client returns is what the coordinator's operation returned for the client's identity.
\<close>

section \<open>Replies\<close>

lemma send_nack_type [simp]: "fr_type (send_nack code msg) = MessageType.NACK"
  by (simp add: send_nack_def)

lemma send_nack_length: "length (fr_payload (send_nack code msg)) = 9 + length msg"
proof -
  have "length (concat (map (\<lambda>c. pw_u8 (byte_of_char c)) msg)) = length msg"
    by (induction msg) (simp_all add: pw_u8_def)
  then show ?thesis by (simp add: send_nack_def pw_u8_def pw_u32_def)
qed

lemma recv_ack_of_ack:
  "recv_frame recv (wc_conn c) = (Inr (send_ack a b d), conn) \<Longrightarrow>
   recv_ack recv c = (Some (a, b), c\<lparr>wc_conn := conn\<rparr>)"
  by (simp add: recv_ack_def send_ack_def frame_codec)

lemma recv_ack_of_nack:
  "recv_frame recv (wc_conn c) = (Inr (send_nack code msg), conn) \<Longrightarrow>
   recv_ack recv c = (None, c\<lparr>wc_conn := conn\<rparr>)"
  by (simp add: recv_ack_def)

text \<open>The error messages of the operations a worker can call fit a frame.\<close>

definition short_error :: "'a Result \<Rightarrow> bool" where
  "short_error res \<longleftrightarrow> (case res of Inl e \<Rightarrow> length (err_message e) \<le> 100 | Inr _ \<Rightarrow> True)"

lemma short_error_simps [simp]: "short_error (ok v)" "short_error (err code msg) \<longleftrightarrow> length msg \<le> 100"
  by (simp_all add: short_error_def ok_def err_def make_error_def)

lemma short_errors:
  "short_error (fst (add_device dp s))" "short_error (fst (add_endpoint ep s))"
  "short_error (fst (publish_capability cp s))" "short_error (fst (create_buffer bp s))"
  "short_error (fst (register_worker w b e s))"
  by (simp_all add: add_device_def add_endpoint_def publish_capability_def create_buffer_def register_worker_def
      Let_def split: prod.splits option.splits)

lemma short_error_register: "short_error (fst (register_buffer p (None :: unit Backend_ptr) s))"
proof -
  have "short_error (register_guards p s)"
    by (simp add: register_guards_def split: option.splits)
  then have "short_error (Inl x)" if "register_guards p s = Inl x" for x :: Error
    using that by (simp add: short_error_def)
  moreover have "short_error r" if "register_existing p b e l = Some r" for b e l r
    using that by (auto simp: register_existing_def split: if_splits)
  moreover have "short_error (fst (register_commit p b e l i su pv h t))" for b e l i su pv h t
    by (simp add: register_commit_def Let_def split: prod.splits)
  ultimately show ?thesis
    by (auto simp: register_buffer_def Let_def bind_eq_Some_conv case_prod_unfold split: sum.splits option.splits)
qed

section \<open>A call and its answer\<close>

text \<open>
  The frame was sent and handled by the server for this client's session, and the server's reply is
  what comes next on the client's connection.
\<close>

definition answered :: "'s sender \<Rightarrow> ('s \<Rightarrow> bytes) \<Rightarrow> 's WorkerClient \<Rightarrow> Frame \<Rightarrow> Frame \<Rightarrow> bool" where
  "answered send pending c f rep \<longleftrightarrow>
     (case send_frame send f (wc_conn c) of
        (sent, conn) \<Rightarrow> sent \<and> \<not> tc_invalid conn \<and> \<not> tc_listener conn \<and>
          take (length (encode_frame rep)) (pending (tc_socket conn)) = encode_frame rep)"

definition ack_of :: "Frame \<Rightarrow> (u64 \<times> u64) option \<Rightarrow> bool" where
  "ack_of rep res \<longleftrightarrow> length (fr_payload rep) \<le> 2 ^ 20 \<and>
     (case res of
        None \<Rightarrow> \<exists>code msg. rep = send_nack code msg
      | Some (a, b) \<Rightarrow> \<exists>d. rep = send_ack a b d)"

lemma ack_of_reply:
  "short_error res \<Longrightarrow> ack_of (reply res (\<lambda>v. send_ack (f v) (g v) 0))
     (case res of Inl _ \<Rightarrow> None | Inr v \<Rightarrow> Some (f v, g v))"
  by (auto simp: ack_of_def reply_def send_nack_length short_error_def send_ack_def pw_u8_def pw_u64_def
      split: sum.splits)

lemma request_answered:
  assumes del: "delivers recv pending" and ans: "answered send pending c f rep" and ack: "ack_of rep res"
  shows "fst (request send recv f c) = res"
proof -
  obtain conn where conn: "send_frame send f (wc_conn c) = (True, conn)" "\<not> tc_invalid conn" "\<not> tc_listener conn"
      "take (length (encode_frame rep)) (pending (tc_socket conn)) = encode_frame rep"
    using ans by (auto simp: answered_def split: prod.splits)
  define rest where "rest = drop (length (encode_frame rep)) (pending (tc_socket conn))"
  have "pending (tc_socket conn) = encode_frame rep @ rest"
    using conn(4) unfolding rest_def by (metis append_take_drop_id)
  then obtain conn' where "recv_frame recv conn = (Inr rep, conn')"
    using recv_frame_encoded [OF del conn(2,3), of rep rest] ack unfolding ack_of_def by blast
  then have "fst (recv_ack recv (c\<lparr>wc_conn := conn\<rparr>)) = res"
    using ack recv_ack_of_ack [of recv "c\<lparr>wc_conn := conn\<rparr>"] recv_ack_of_nack [of recv "c\<lparr>wc_conn := conn\<rparr>"]
    by (auto simp: ack_of_def split: option.splits)
  then show ?thesis using conn(1) by (simp add: request_def)
qed

text \<open>
  A frame gets through a receiving stream: where its encoding is next, \<open>recv_frame\<close> gives that frame and
  leaves the stream behind it.
\<close>

definition gets_through :: "'t receiver \<Rightarrow> ('t \<Rightarrow> bytes) \<Rightarrow> Frame \<Rightarrow> bool" where
  "gets_through recv pending f \<longleftrightarrow>
     (\<forall>d rest. \<not> tc_invalid d \<and> \<not> tc_listener d \<and> pending (tc_socket d) = encode_frame f @ rest \<longrightarrow>
        (\<exists>d'. recv_frame recv d = (Inr f, d') \<and> pending (tc_socket d') = rest))"

lemma gets_throughI: "delivers recv pending \<Longrightarrow> length (fr_payload f) \<le> 2 ^ 20 \<Longrightarrow> gets_through recv pending f"
  unfolding gets_through_def using recv_frame_encoded by blast

text \<open>The payloads a client makes are within the limit of a frame.\<close>

lemma frame_lengths:
  "length x + length y + 38 \<le> 2 ^ 20 \<Longrightarrow> length (fr_payload (device_frame x y h sp pv c)) \<le> 2 ^ 20"
  "length x + length y + 38 \<le> 2 ^ 20 \<Longrightarrow> length (fr_payload (endpoint_frame k x y h sp pv c)) \<le> 2 ^ 20"
  "length x + length y + length z + 38 \<le> 2 ^ 20 \<Longrightarrow> length (fr_payload (capability_frame x y z sp pv c)) \<le> 2 ^ 20"
  "length (fr_payload (create_frame d n al dv sp pv c)) \<le> 2 ^ 20"
  "length (fr_payload (register_frame i j sp pv c)) \<le> 2 ^ 20"
  "length (fr_payload (ready_frame c)) \<le> 2 ^ 20" "length (fr_payload (hello_frame c)) \<le> 2 ^ 20"
  by (simp_all add: pw_u8_def pw_u32_def pw_u64_def pw_str_def support_byte_def provenance_byte_def flag_byte_def
      identity_bytes_def device_frame_def endpoint_frame_def capability_frame_def create_frame_def register_frame_def
      ready_frame_def hello_frame_def)

text \<open>
  The frame gets through to the server, which handles it for the client's session, leaving the state
  \<open>s'\<close>; its answer gets through to the client, which then has \<open>result\<close>.
\<close>

definition served ::
    "'t receiver \<Rightarrow> ('t \<Rightarrow> bytes) \<Rightarrow> 's sender \<Rightarrow> ('s \<Rightarrow> bytes) \<Rightarrow> 's WorkerClient \<Rightarrow> Frame \<Rightarrow> State \<Rightarrow> State \<Rightarrow> bool \<Rightarrow> bool" where
  "served server_recv server_pending send pending c f s s' result \<longleftrightarrow> gets_through server_recv server_pending f \<and>
     (\<exists>rep. handle_worker_message f (wc_worker c) (wc_boot c) (wc_epoch c) s = (Some rep, s') \<and>
        (answered send pending c f rep \<longrightarrow> result))"

lemma served_request:
  assumes "delivers recv pending" and "delivers sr sp"
    and "handle_worker_message f (wc_worker c) (wc_boot c) (wc_epoch c) s =
      (Some (reply res (\<lambda>v. send_ack (g v) (h v) 0)), s')" and "short_error res"
    and "length (fr_payload f) \<le> 2 ^ 20"
  shows "served sr sp send pending c f s s'
    (fst (request send recv f c) = (case res of Inl _ \<Rightarrow> None | Inr v \<Rightarrow> Some (g v, h v)))"
  unfolding served_def
  using assms(3) request_answered [OF assms(1) _ ack_of_reply [OF assms(4)]] gets_throughI [OF assms(2,5)] by blast

lemma served_id:
  assumes "served sr sp send pending c f s s' (fst (request send recv f c) = (case res of Inl _ \<Rightarrow> None | Inr v \<Rightarrow> Some (g v, h v)))"
  shows "served sr sp send pending c f s s' (fst (request_id send recv f c) = (case res of Inl _ \<Rightarrow> None | Inr v \<Rightarrow> Some (g v)))"
    and "served sr sp send pending c f s s' (fst (request_ok send recv f c) \<longleftrightarrow> \<not> isl res)"
  using assms unfolding served_def request_id_def request_ok_def
  by (auto simp: case_prod_unfold Let_def split: sum.splits)

text \<open>The coordinator's answer as the client sees it: the identity of the new record, or nothing.\<close>

definition seen_id :: "('a \<Rightarrow> 'tag Id) \<Rightarrow> 'a Result \<Rightarrow> u64 option" where
  "seen_id i res = (case res of Inl _ \<Rightarrow> None | Inr v \<Rightarrow> Some (id_value (i v)))"

lemma handle_frames:
  fixes c :: "'s WorkerClient"
  defines "w \<equiv> wc_worker c" and "b \<equiv> wc_boot c" and "e \<equiv> wc_epoch c"
  shows
    "parse_device (session_authority w b e) (payload_reader (fr_payload (device_frame x y h sp pv c))) = Some dp \<Longrightarrow>
       handle_worker_message (device_frame x y h sp pv c) w b e s =
       (Some (reply (fst (add_device dp s)) (\<lambda>d. send_ack (id_value (d_id d)) 0 0)), snd (add_device dp s))"
    "parse_endpoint (session_authority w b e) (payload_reader (fr_payload (endpoint_frame k x y h sp pv c))) = Some ep \<Longrightarrow>
       handle_worker_message (endpoint_frame k x y h sp pv c) w b e s =
       (Some (reply (fst (add_endpoint ep s)) (\<lambda>d. send_ack (id_value (e_id d)) 0 0)), snd (add_endpoint ep s))"
    "parse_capability (session_authority w b e) (payload_reader (fr_payload (capability_frame x y z sp pv c))) = Some cp \<Longrightarrow>
       handle_worker_message (capability_frame x y z sp pv c) w b e s =
       (Some (reply (fst (publish_capability cp s)) (\<lambda>d. send_ack (id_value (c_id d)) 0 0)), snd (publish_capability cp s))"
    "parse_create (session_authority w b e) (payload_reader (fr_payload (create_frame dm n al dv sp pv c))) = bp \<Longrightarrow>
       handle_worker_message (create_frame dm n al dv sp pv c) w b e s =
       (Some (reply (fst (create_buffer bp s)) (\<lambda>d. send_ack (id_value (b_id d)) (gen_value (b_generation d)) 0)),
        snd (create_buffer bp s))"
    "parse_register (session_authority w b e) (payload_reader (fr_payload (register_frame i j sp pv c))) = rp \<Longrightarrow>
       handle_worker_message (register_frame i j sp pv c) w b e s =
       (Some (reply (fst (register_buffer rp (None :: unit Backend_ptr) s))
          (\<lambda>d. send_ack (id_value (r_id d)) (gen_value (r_generation d)) 0)),
        fst (snd (register_buffer rp (None :: unit Backend_ptr) s)))"
  by (simp_all add: handle_worker_message_def device_frame_def endpoint_frame_def capability_frame_def
      create_frame_def register_frame_def case_prod_unfold Let_def)

text \<open>
  C10: A worker's call is the coordinator's operation. For declared enumerators, and strings that
  together leave room for the other fields in the 1 MiB a frame may carry, the frame of each call gets
  through to the server however the connection cuts it up; the server reads back from it exactly the
  arguments the client was called with, runs the corresponding coordinator operation with them under
  the identity of the session, and replies; and when that reply reaches the client, the client's method
  returns the identity of the record the coordinator made, or reports failure exactly when the
  coordinator did.
\<close>

theorem worker_calls_reach_coordinator:
  fixes c :: "'s WorkerClient" and recv :: "'s receiver" and sr :: "'t receiver"
  assumes "delivers recv pending" and "delivers sr spending"
    and "length x + length y + length z + 38 \<le> 2 ^ 20"
    and "sp \<in> set Support_values" and "pv \<in> set Provenance_values"
    and "k \<in> set EndpointClass_values" and "dm \<in> set MemoryDomain_values"
    and auth: "auth = session_authority (wc_worker c) (wc_boot c) (wc_epoch c)"
    and dev: "(res_d, s_d) = add_device \<lparr>dap_name = x, dap_compute_capability = y, dap_peer_memory_supported = h,
      dap_support = sp, dap_provenance = pv, dap_authority = auth\<rparr> s"
    and endp: "(res_e, s_e) = add_endpoint \<lparr>eap_endpoint_class = k, eap_name = x, eap_topology_hint = y, eap_healthy = h,
      eap_provider = Id 0, eap_support = sp, eap_provenance = pv, eap_authority = auth\<rparr> s"
    and capa: "(res_c, s_c) = publish_capability \<lparr>cpp_provider = x, cpp_capability = y, cpp_value = z,
      cpp_support = sp, cpp_provenance = pv, cpp_authority = auth\<rparr> s"
    and buf: "(res_b, s_b) = create_buffer \<lparr>cbp_domain = dm, cbp_size = n, cbp_alignment = al, cbp_device = Id dv,
      cbp_locality = Locality.LOCAL, cbp_support = sp, cbp_provenance = pv, cbp_authority = auth,
      cbp_name = ''worker_buffer''\<rparr> s"
    and reg: "(res_r, s_r, be) = register_buffer \<lparr>rp_buffer = Id i, rp_endpoint = Id j, rp_provider = Id 0,
      rp_authority = auth, rp_support = sp, rp_provenance = pv, rp_required_capabilities = []\<rparr>
      (None :: unit Backend_ptr) s"
  shows "served sr spending send pending c (device_frame x y h sp pv c) s s_d
      (fst (client_publish_device send recv x y h sp pv c) = seen_id d_id res_d) \<and>
    served sr spending send pending c (endpoint_frame k x y h sp pv c) s s_e
      (fst (client_publish_endpoint send recv k x y h sp pv c) = seen_id e_id res_e) \<and>
    served sr spending send pending c (capability_frame x y z sp pv c) s s_c
      (fst (client_publish_capability send recv x y z sp pv c) \<longleftrightarrow> \<not> isl res_c) \<and>
    served sr spending send pending c (create_frame dm n al dv sp pv c) s s_b
      (fst (client_create_buffer send recv dm n al dv sp pv c) = seen_id b_id res_b) \<and>
    served sr spending send pending c (register_frame i j sp pv c) s s_r
      (fst (client_register_buffer send recv i j sp pv c) = seen_id r_id res_r) \<and>
    served sr spending send pending c (ready_frame c) s s (fst (client_ready send recv c))"
proof -
  note handle = handle_frames [where c = c and s = s, folded auth]
  note serve = served_request [OF assms(1,2), where s = s and send = send]
  have "served sr spending send pending c (device_frame x y h sp pv c) s s_d
      (fst (client_publish_device send recv x y h sp pv c) = seen_id d_id res_d)"
    unfolding client_publish_device_def seen_id_def
    by (rule served_id(1), rule serve, subst handle(1))
       (use assms(3-7) short_errors(1) dev in \<open>simp_all add: parse_device_frame frame_lengths [simplified] prod_eq_iff\<close>)
  moreover have "served sr spending send pending c (endpoint_frame k x y h sp pv c) s s_e
      (fst (client_publish_endpoint send recv k x y h sp pv c) = seen_id e_id res_e)"
    unfolding client_publish_endpoint_def seen_id_def
    by (rule served_id(1), rule serve, subst handle(2))
       (use assms(3-7) short_errors(2) endp in \<open>simp_all add: parse_endpoint_frame frame_lengths [simplified] prod_eq_iff\<close>)
  moreover have "served sr spending send pending c (capability_frame x y z sp pv c) s s_c
      (fst (client_publish_capability send recv x y z sp pv c) \<longleftrightarrow> \<not> isl res_c)"
    unfolding client_publish_capability_def
    by (rule served_id(2), rule serve, subst handle(3))
       (use assms(3-7) short_errors(3) capa in \<open>simp_all add: parse_capability_frame frame_lengths [simplified] prod_eq_iff\<close>)
  moreover have "served sr spending send pending c (create_frame dm n al dv sp pv c) s s_b
      (fst (client_create_buffer send recv dm n al dv sp pv c) = seen_id b_id res_b)"
    unfolding client_create_buffer_def seen_id_def
    by (rule served_id(1), rule serve, subst handle(4))
       (use assms(4-7) short_errors(4) buf in \<open>simp_all add: parse_create_frame frame_lengths [simplified] prod_eq_iff\<close>)
  moreover have "served sr spending send pending c (register_frame i j sp pv c) s s_r
      (fst (client_register_buffer send recv i j sp pv c) = seen_id r_id res_r)"
    unfolding client_register_buffer_def seen_id_def
    by (rule served_id(1), rule serve, subst handle(5))
       (use assms(4,5) short_error_register reg in \<open>simp_all add: parse_register_frame frame_lengths [simplified] prod_eq_iff\<close>)
  moreover have "served sr spending send pending c (ready_frame c) s s (fst (client_ready send recv c))"
    using served_id(2) [OF served_request [OF assms(1,2) _ _ frame_lengths(6), where c = c and res = "ok ()"
        and g = "\<lambda>_. 0" and h = "\<lambda>_. 0" and s = s and s' = s and send = send]]
    by (simp add: client_ready_def handle_worker_message_def ready_frame_def reply_def ok_def short_error_def Let_def)
  ultimately show ?thesis by blast
qed

text \<open>A connection whose other end handles every frame sent over it for worker 7, boot 1, epoch 1.\<close>

definition loopback :: "State \<Rightarrow> bytes sender" where
  "loopback s bs pend =
     (length bs,
      case fst (handle_worker_message (dr_frame (decode_frame bs)) 7 1 1 s) of
        None \<Rightarrow> pend | Some rep \<Rightarrow> pend @ encode_frame rep)"

definition live_worker_state :: State where
  "live_worker_state = snd (register_worker (Id 7) (Generation 1) (Generation 1) (make_coordinator (Generation 1)))"

definition demo_client :: "bytes WorkerClient" where
  "demo_client = \<lparr>wc_conn = \<lparr>tc_socket = [], tc_invalid = False, tc_listener = False\<rparr>,
     wc_worker = 7, wc_boot = 1, wc_epoch = 1\<rparr>"

lemma loopback_answers:
  assumes "length (fr_payload f) \<le> 2 ^ 20" and "handle_worker_message f 7 1 1 s = (Some rep, s')"
  shows "answered (loopback s) (\<lambda>pend. pend) demo_client f rep"
proof -
  have "0 < length (encode_frame f)" using wire_header(1) [OF assms(1)] by simp
  then have "send_all (loopback s) (encode_frame f) 0 [] = (True, encode_frame rep)"
    using assms by (simp add: send_all.simps loopback_def decode_encode_frame)
  then show ?thesis
    by (simp add: answered_def send_frame_def demo_client_def)
qed

lemma create_in_live_state:
  "seen_id b_id (fst (create_buffer \<lparr>cbp_domain = MemoryDomain.CUDA_DEVICE, cbp_size = 4096, cbp_alignment = 64,
     cbp_device = Id 0, cbp_locality = Locality.LOCAL, cbp_support = Support.SYNTHETIC, cbp_provenance = Provenance.SYNTHETIC_FIXTURE,
     cbp_authority = session_authority 7 1 1, cbp_name = ''worker_buffer''\<rparr> live_worker_state)) = Some 2"
  by code_simp

theorem worker_calls_reach_coordinator_witness:
  "fst (client_create_buffer (loopback live_worker_state) trickle MemoryDomain.CUDA_DEVICE 4096 64 0
     Support.SYNTHETIC Provenance.SYNTHETIC_FIXTURE demo_client) = Some 2"
proof -
  have del: "delivers trickle (\<lambda>s. s)" by (auto simp: delivers_def trickle_def)
  have declared: "Support.SYNTHETIC \<in> set Support_values" "Provenance.SYNTHETIC_FIXTURE \<in> set Provenance_values"
    "EndpointClass.STORAGE \<in> set EndpointClass_values" "MemoryDomain.CUDA_DEVICE \<in> set MemoryDomain_values"
    by (simp_all add: Support_values_def Provenance_values_def EndpointClass_values_def MemoryDomain_values_def)
  let ?f = "create_frame MemoryDomain.CUDA_DEVICE 4096 64 0 Support.SYNTHETIC Provenance.SYNTHETIC_FIXTURE demo_client"
  have small: "length (fr_payload ?f) \<le> 2 ^ 20"
    by (simp add: create_frame_def pw_u8_def pw_u64_def support_byte_def provenance_byte_def identity_bytes_def)
  have session: "wc_worker demo_client = 7" "wc_boot demo_client = 1" "wc_epoch demo_client = 1"
    by (simp_all add: demo_client_def)
  have returned: "served trickle (\<lambda>s. s) (loopback live_worker_state) (\<lambda>s. s) demo_client ?f live_worker_state s' result \<Longrightarrow> result" for s' result
    unfolding served_def session using loopback_answers [OF small] by blast
  obtain rr sr be where reg: "(rr, sr, be) = register_buffer \<lparr>rp_buffer = Id 0, rp_endpoint = Id 0,
      rp_provider = Id 0, rp_authority = session_authority 7 1 1, rp_support = Support.SYNTHETIC,
      rp_provenance = Provenance.SYNTHETIC_FIXTURE, rp_required_capabilities = []\<rparr> (None :: unit Backend_ptr)
      live_worker_state"
    by (metis prod_cases3)
  note calls = worker_calls_reach_coordinator [OF del del _ declared _ surjective_pairing [symmetric]
      surjective_pairing [symmetric] surjective_pairing [symmetric] surjective_pairing [symmetric] reg,
      where c = demo_client and x = "[]" and y = "[]" and z = "[]" and h = True and n = 4096 and al = 64 and dv = 0
        and send = "loopback live_worker_state", unfolded session]
  show ?thesis
    by (rule returned, rule calls [THEN conjunct2, THEN conjunct2, THEN conjunct2, THEN conjunct1,
          unfolded create_in_live_state]) simp_all
qed

end
