(* ===== verification/Server_Guarantees.thy ===== *)
theory Server_Guarantees
  imports Server Guarantees
begin

text \<open>
  What the server adds to the coordinator: every interleaving of its connections is a sequence of
  coordinator operations, so the coordinator's guarantees hold behind the server; a session whose
  identity is no longer live can change nothing; and two places where it does not do what its
  comments say.
\<close>

section \<open>Every run of the server is a run of the coordinator\<close>

text \<open>The operations a remote peer can cause, all in the name of a valid worker.\<close>

fun remote_op :: "unit coord_op \<Rightarrow> bool" where
  "remote_op (Register_worker w b e) \<longleftrightarrow> id_valid w"
| "remote_op (Mark_worker_dead w) \<longleftrightarrow> id_valid w"
| "remote_op (Create_buffer p) \<longleftrightarrow> worker_owned (cbp_authority p)"
| "remote_op (Add_device p) \<longleftrightarrow> worker_owned (dap_authority p)"
| "remote_op (Add_endpoint p) \<longleftrightarrow> worker_owned (eap_authority p)"
| "remote_op (Publish_capability p) \<longleftrightarrow> worker_owned (cpp_authority p)"
| "remote_op (Register_buffer p be) \<longleftrightarrow> worker_owned (rp_authority p) \<and> be = None"
| "remote_op _ \<longleftrightarrow> False"

text \<open>The coordinator operation a worker message stands for, if it stands for one.\<close>

definition message_op :: "Frame \<Rightarrow> Authority \<Rightarrow> unit coord_op option" where
  "message_op f auth =
     (let r = payload_reader (fr_payload f) in
      case fr_type f of
        MessageType.PUBLISH_DEVICE \<Rightarrow> map_option Add_device (parse_device auth r)
      | MessageType.PUBLISH_ENDPOINT \<Rightarrow> map_option Add_endpoint (parse_endpoint auth r)
      | MessageType.PUBLISH_CAPABILITY \<Rightarrow> map_option Publish_capability (parse_capability auth r)
      | MessageType.CREATE_BUFFER \<Rightarrow> Some (Create_buffer (parse_create auth r))
      | MessageType.REGISTER_BUFFER \<Rightarrow> Some (Register_buffer (parse_register auth r) None)
      | _ \<Rightarrow> None)"

lemma handle_worker_message_op:
  "snd (handle_worker_message f worker boot epoch s) =
     (case message_op f (session_authority worker boot epoch) of None \<Rightarrow> s | Some x \<Rightarrow> step x s)"
  by (auto simp: handle_worker_message_def message_op_def Let_def case_prod_unfold
      split: MessageType.splits option.splits)

lemma parsed_authority:
  "parse_device auth r = Some dp \<Longrightarrow> dap_authority dp = auth"
  "parse_endpoint auth r = Some ep \<Longrightarrow> eap_authority ep = auth"
  "parse_capability auth r = Some cp \<Longrightarrow> cpp_authority cp = auth"
  "cbp_authority (parse_create auth r) = auth" "rp_authority (parse_register auth r) = auth"
  by (auto simp: parse_device_def parse_endpoint_def parse_capability_def parse_create_def parse_register_def
      Let_def split: prod.splits option.splits)

lemma message_op_remote: "message_op f auth = Some x \<Longrightarrow> worker_owned auth \<Longrightarrow> remote_op x"
  by (auto simp: message_op_def Let_def parsed_authority split: MessageType.splits)

lemma session_owned [simp]: "worker_owned (session_authority worker boot epoch) \<longleftrightarrow> worker \<noteq> 0"
  by (simp add: worker_owned_def session_authority_def id_valid_def)

definition valid_sessions :: "Server \<Rightarrow> bool" where
  "valid_sessions sv \<longleftrightarrow> (\<forall>c worker boot epoch.
     map_of (sv_conns sv) c = Some (Worker_conn worker boot epoch) \<longrightarrow> worker \<noteq> 0)"

definition emulated :: "nat \<Rightarrow> State \<Rightarrow> State \<Rightarrow> bool" where
  "emulated n s s' \<longleftrightarrow> (\<exists>ops. list_all remote_op ops \<and> length ops \<le> n \<and> s' = run ops s)"

lemma emulated_refl [simp]: "emulated n s s"
  unfolding emulated_def by (rule exI [of _ "[]"]) (simp add: run_def)

lemma emulated_step: "remote_op x \<Longrightarrow> 0 < n \<Longrightarrow> emulated n s (step x s)"
  unfolding emulated_def by (rule exI [of _ "[x]"]) (simp add: run_def)

lemma emulated_trans: "emulated n s t \<Longrightarrow> emulated m t u \<Longrightarrow> emulated (n + m) s u"
  unfolding emulated_def
proof (elim exE conjE)
  fix xs ys
  assume "list_all remote_op xs" "length xs \<le> n" "t = run xs s" "list_all remote_op ys" "length ys \<le> m" "u = run ys t"
  then show "\<exists>zs. list_all remote_op zs \<and> length zs \<le> n + m \<and> u = run zs s"
    by (intro exI [of _ "xs @ ys"]) (simp add: run_def)
qed

lemma end_connection_emulated:
  "map_of (sv_conns sv) c = Some conn \<Longrightarrow> valid_sessions sv \<Longrightarrow>
   emulated 1 (sv_coord sv) (sv_coord (end_connection c conn sv)) \<and> valid_sessions (end_connection c conn sv)"
proof (cases conn)
  case (Worker_conn worker boot epoch)
  assume *: "map_of (sv_conns sv) c = Some conn" "valid_sessions sv"
  then have "worker \<noteq> 0" using Worker_conn by (auto simp: valid_sessions_def)
  then have "emulated 1 s (step (Mark_worker_dead (Id worker) :: unit coord_op) s)" for s
    by (intro emulated_step) (simp_all add: id_valid_def)
  then show ?thesis
    using * Worker_conn by (auto simp: end_connection_def valid_sessions_def delete_conv' Let_def)
qed (auto simp: end_connection_def valid_sessions_def delete_conv' Let_def)

lemma server_step_emulated:
  assumes "valid_sessions sv"
  shows "emulated 2 (sv_coord sv) (sv_coord (snd (server_step ev sv))) \<and> valid_sessions (snd (server_step ev sv))"
proof (cases ev)
  case (Accept c hf)
  have "emulated 2 s (snd (register_worker (Id w) b e s))" if "w \<noteq> 0" for w b e s
    using emulated_step [of "Register_worker (Id w) b e" 2 s] that by (simp add: id_valid_def)
  then show ?thesis using assms Accept
    by (auto simp: Let_def valid_sessions_def update_conv' split: prod.splits sum.splits) (metis snd_conv)+
next
  case (Receive c f sent)
  show ?thesis
  proof (cases "map_of (sv_conns sv) c")
    case (Some conn)
    show ?thesis
    proof (cases conn)
      case (Worker_conn worker boot epoch)
      define sv' where "sv' = sv\<lparr>sv_coord := snd (handle_worker_message f worker boot epoch (sv_coord sv))\<rparr>"
      have "worker \<noteq> 0" using assms Some Worker_conn by (auto simp: valid_sessions_def)
      then have *: "emulated 1 (sv_coord sv) (sv_coord sv')"
        unfolding sv'_def handle_worker_message_op
        by (auto split: option.splits intro!: emulated_step message_op_remote)
      have sv': "map_of (sv_conns sv') c = Some conn" "valid_sessions sv'"
        using assms Some by (simp_all add: sv'_def valid_sessions_def)
      then have "emulated 2 (sv_coord sv) (sv_coord (end_connection c conn sv'))"
        using emulated_trans [OF *, of 1] end_connection_emulated by (simp add: numeral_2_eq_2)
      moreover have "emulated 2 (sv_coord sv) (sv_coord sv')"
        using emulated_trans [OF * emulated_refl [of 1]] by (simp add: numeral_2_eq_2)
      ultimately show ?thesis
        using Receive Some Worker_conn sv' end_connection_emulated [OF sv']
        by (auto simp: Let_def case_prod_unfold sv'_def)
    next
      case Query_conn
      then show ?thesis using Receive Some assms end_connection_emulated [OF Some assms]
        by (auto simp: end_connection_def)
    qed
  qed (use assms Receive in simp)
next
  case (Closed c)
  then show ?thesis
    using assms end_connection_emulated [of sv c] emulated_trans [OF _ emulated_refl [of 1], of 1]
    by (auto split: option.splits simp: numeral_2_eq_2)
qed

lemma server_run_emulated:
  "valid_sessions sv \<Longrightarrow> emulated (2 * length evs) (sv_coord sv) (sv_coord (server_run evs sv))"
proof (induction evs arbitrary: sv)
  case Nil
  then show ?case by (simp add: server_run_def)
next
  case (Cons ev evs)
  from server_step_emulated [OF Cons.prems, of ev] emulated_trans Cons.IH
  show ?case by (fastforce simp: server_run_def)
qed

lemma make_server_sessions: "valid_sessions (make_server epoch)"
  by (simp add: valid_sessions_def make_server_def)

text \<open>
  C9: However the events of its connections interleave - connections accepted, frames of any content
  received, replies that fail to be sent, connections lost - the state behind the server is one the
  coordinator reaches by a sequence of its own operations, at most two per event, all of them
  registrations of valid workers, deaths of such workers, or publications, creations and
  registrations in the name of a valid worker without a backend. Whatever holds of every run of the
  coordinator therefore holds behind the server, and no peer can change limits, advance the epoch,
  plan or run a transfer.
\<close>

theorem server_refines_coordinator:
  "\<exists>ops. list_all remote_op ops \<and> length ops \<le> 2 * length evs \<and>
     sv_coord (server_run evs (make_server epoch)) = run ops (make_coordinator epoch)"
  using server_run_emulated [OF make_server_sessions, of evs epoch] by (simp add: emulated_def make_server_def)

section \<open>What a remote peer cannot change\<close>

text \<open>The epoch and the limits stay; and no registration names a buffer that is still to come.\<close>

definition fixed_for_peers :: "State \<Rightarrow> CoordinatorEpoch \<times> u32 \<times> u32 \<times> u32" where
  "fixed_for_peers s = (st_epoch s, st_max_endpoints s, st_max_buffers s, st_max_registrations s)"

definition buffers_precede :: "State \<Rightarrow> bool" where
  "buffers_precede s \<longleftrightarrow> umap_all (\<lambda>k r. id_value (r_buffer r) \<le> st_next_id s) (st_registrations s)"

lemma buffers_precede_mono:
  "buffers_precede s \<Longrightarrow> st_registrations s' = st_registrations s \<Longrightarrow> st_next_id s \<le> st_next_id s' \<Longrightarrow> buffers_precede s'"
  unfolding buffers_precede_def by (auto elim!: umap_all_mono)

lemma next_id_room: "state_wf n s \<Longrightarrow> n < op_limit \<Longrightarrow> st_next_id s \<le> st_next_id s + 1"
  using counters_room(1) [OF state_wf_counters] by fastforce

lemma register_buffer_precede:
  assumes wf: "state_wf n s" "n < op_limit" and "buffers_precede s"
  shows "buffers_precede (fst (snd (register_buffer p be s)))"
proof (cases rule: register_buffer_cases [of p be s])
  case unchanged
  then show ?thesis using assms(3) by simp
next
  case backend_failed
  then show ?thesis using assms(3)
    by (auto simp: buffers_precede_def retire_deregistering_def umap_all_def split: option.splits)
next
  case (committed b e i supp prov h be')
  let ?s = "retire_deregistering (latest_registration (rp_buffer p) (rp_endpoint p) s) s"
  have s: "buffers_precede ?s" "st_next_id ?s = st_next_id s"
    using assms(3) by (auto simp: buffers_precede_def retire_deregistering_def umap_all_def split: option.splits)
  have b: "id_value (b_id b) \<le> st_next_id s"
    using buffers_wf_find [OF _ register_guards_ok(1) [OF committed(1)]] wf(1) id_in_use_le
    by (auto simp: state_wf_def id_in_use_def)
  have later: "k \<le> st_next_id s + 1" if "k \<le> st_next_id s" for k :: u64
    using that next_id_room [OF wf] by (rule order_trans)
  have "buffers_precede (snd (register_commit p b e l i supp prov h ?s))" for l
    using s(1) b later s(2) unfolding buffers_precede_def
    by (auto simp: register_commit_def counter_defs umap_all_def)
  then show ?thesis by (simp add: committed(3) Let_def case_prod_beta)
qed

lemma remote_ops_frame:
  "remote_op x \<Longrightarrow> \<not> (\<exists>p be. x = Register_buffer p be) \<Longrightarrow>
   fixed_for_peers (step x s) = fixed_for_peers s \<and> st_next_id (step x s) \<in> {st_next_id s, st_next_id s + 1} \<and>
   (st_registrations (step x s) = st_registrations s \<or>
    (\<exists>f. st_registrations (step x s) = umap_map f (st_registrations s) \<and> (\<forall>r. r_buffer (f r) = r_buffer r)))"
proof (cases x)
  case (Register_worker w b e)
  then show ?thesis by (cases rule: register_worker_cases [of w b e s]) (auto simp: fixed_for_peers_def)
next
  case (Mark_worker_dead w)
  then show ?thesis by (auto simp: fixed_for_peers_def mark_worker_dead_def)
qed (auto simp: fixed_for_peers_def add_device_def add_endpoint_def publish_capability_def create_buffer_def
    counter_defs split: option.splits)

lemma register_buffer_fixed: "fixed_for_peers (fst (snd (register_buffer p be s))) = fixed_for_peers s"
  by (cases rule: register_buffer_cases [of p be s])
    (auto simp: fixed_for_peers_def retire_deregistering_def register_commit_def counter_defs case_prod_beta
      split: option.splits)

lemma remote_step_fixed: "remote_op x \<Longrightarrow> fixed_for_peers (step x s) = fixed_for_peers s"
  using remote_ops_frame [of x s] register_buffer_fixed by (cases x) auto

lemma remote_step_precede:
  assumes "remote_op x" and wf: "state_wf n s" "n < op_limit" and pre: "buffers_precede s"
  shows "buffers_precede (step x s)"
proof (cases "\<exists>p be. x = Register_buffer p be")
  case True
  then show ?thesis using register_buffer_precede [OF wf pre] by auto
next
  case False
  note frame = remote_ops_frame [OF assms(1) False, of s, THEN conjunct2]
  then have "st_next_id s \<le> st_next_id (step x s)" using next_id_room [OF wf] by auto
  then have later: "k \<le> st_next_id (step x s)" if "k \<le> st_next_id s" for k :: u64
    using that by (rule order_trans [rotated])
  from frame [THEN conjunct2] pre show ?thesis
    unfolding buffers_precede_def umap_all_def by (auto intro!: later)
qed

text \<open>The state behind the server after any events.\<close>

lemma server_run_bounds:
  assumes "2 * length evs \<le> op_limit" and "s = sv_coord (server_run evs (make_server epoch))"
  obtains n where "n \<le> 2 * length evs" "state_wf n s" "fixed_for_peers s = fixed_for_peers (make_coordinator epoch)"
    "buffers_precede s"
proof -
  obtain ops where ops: "list_all remote_op ops" "length ops \<le> 2 * length evs" "s = run ops (make_coordinator epoch)"
    using server_run_emulated [OF make_server_sessions, of evs epoch] assms(2) by (auto simp: emulated_def make_server_def)
  have "fixed_for_peers (run ops (make_coordinator epoch)) = fixed_for_peers (make_coordinator epoch) \<and>
      buffers_precede (run ops (make_coordinator epoch))"
    if "length ops \<le> op_limit" "list_all remote_op ops" for ops
    using that
  proof (induction ops rule: rev_induct)
    case (snoc x ops)
    let ?s = "run ops (make_coordinator epoch)"
    have "state_wf (length ops) ?s" "length ops < op_limit" using snoc.prems(1) by (simp_all add: run_wf)
    moreover have "run (ops @ [x]) (make_coordinator epoch) = step x ?s" by (simp add: run_def)
    ultimately show ?case
      using snoc remote_step_fixed [of x ?s] remote_step_precede [of x "length ops" ?s] by simp
  qed (simp add: run_def buffers_precede_def make_coordinator_def default_State_def)
  with ops assms(1) run_wf [of ops epoch] that show ?thesis by (meson order_trans)
qed

section \<open>Sessions that are no longer live\<close>

lemma dead_authority_refused:
  assumes "worker_owned au" and "\<not> worker_live_locked au s"
  shows "dap_authority dp = au \<Longrightarrow> \<exists>e. add_device dp s = (Inl e, s)"
    "eap_authority ep = au \<Longrightarrow> \<exists>e. add_endpoint ep s = (Inl e, s)"
    "cpp_authority cp = au \<Longrightarrow> \<exists>e. publish_capability cp s = (Inl e, s)"
    "cbp_authority bp = au \<Longrightarrow> \<exists>e. create_buffer bp s = (Inl e, s)"
    "rp_authority rp = au \<Longrightarrow> \<exists>e. register_buffer rp be s = (Inl e, s, be)"
  using assms
  by (auto simp: add_device_def add_endpoint_def publish_capability_def create_buffer_def register_buffer_def
      register_guards_def err_def split: option.splits)

text \<open>A message of such a session is refused: the coordinator's state stays, and the answer is no ACK.\<close>

lemma stale_message_refused:
  assumes "worker \<noteq> 0" and "\<not> worker_live_locked (session_authority worker boot epoch) s"
  shows "snd (handle_worker_message f worker boot epoch s) = s \<and>
    (case fst (handle_worker_message f worker boot epoch s) of
       None \<Rightarrow> fr_type f \<in> {MessageType.PUBLISH_DEVICE, MessageType.PUBLISH_ENDPOINT, MessageType.PUBLISH_CAPABILITY}
     | Some rep \<Rightarrow> fr_type f = MessageType.READY \<or> fr_type rep = MessageType.NACK)"
proof -
  have owned: "worker_owned (session_authority worker boot epoch)" using assms(1) by simp
  note refused = dead_authority_refused [OF owned assms(2)]
  show ?thesis
  proof (cases "fr_type f")
    case PUBLISH_DEVICE
    then show ?thesis using refused(1)
      by (fastforce simp: handle_worker_message_def Let_def reply_def send_nack_def dest: parsed_authority(1-3) split: option.splits)
  next
    case PUBLISH_ENDPOINT
    then show ?thesis using refused(2)
      by (fastforce simp: handle_worker_message_def Let_def reply_def send_nack_def dest: parsed_authority(1-3) split: option.splits)
  next
    case PUBLISH_CAPABILITY
    then show ?thesis using refused(3)
      by (fastforce simp: handle_worker_message_def Let_def reply_def send_nack_def dest: parsed_authority(1-3) split: option.splits)
  next
    case CREATE_BUFFER
    then show ?thesis using refused(4) [OF parsed_authority(4), of "payload_reader (fr_payload f)"]
      by (auto simp: handle_worker_message_def Let_def reply_def send_nack_def)
  next
    case REGISTER_BUFFER
    then show ?thesis
      using refused(5) [OF parsed_authority(5), of "payload_reader (fr_payload f)" "None :: unit Backend_ptr"]
      by (auto simp: handle_worker_message_def Let_def reply_def send_nack_def)
  qed (simp_all add: handle_worker_message_def Let_def send_nack_def)
qed

text \<open>
  C29: A session whose identity is not live any more - its worker was marked dead, was registered again
  with a newer boot, or the epoch advanced - can get nothing done: whatever frame arrives on its
  connection, the coordinator's state stays as it is and the connection open when the server's answer
  gets through, and the answer is a NACK, but for the ACK of a READY. When there is no answer, because
  the strings of a publication cannot be read, or it cannot be sent, the server ends the connection,
  and that is all that happens: the teardown marks the worker dead. It does so whatever the worker's
  boot, so it can fence a newer incarnation that is live (lemma \<open>teardown_fences_newer_connection\<close>).
\<close>

theorem stale_session_powerless:
  assumes "map_of (sv_conns sv) c = Some (Worker_conn worker boot epoch)" and "worker \<noteq> 0"
    and "\<not> worker_live_locked (session_authority worker boot epoch) (sv_coord sv)"
    and "server_step (Receive c f sent) sv = (rep, sv')"
  shows "(if rep \<noteq> None \<and> sent then sv' = sv
      else sv' = sv\<lparr>sv_conns := AList.delete c (sv_conns sv),
             sv_coord := snd (mark_worker_dead (Id worker) (sv_coord sv))\<rparr>) \<and>
    (case rep of
       None \<Rightarrow> fr_type f \<in> {MessageType.PUBLISH_DEVICE, MessageType.PUBLISH_ENDPOINT, MessageType.PUBLISH_CAPABILITY}
     | Some r \<Rightarrow> fr_type f = MessageType.READY \<or> fr_type r = MessageType.NACK)"
proof -
  obtain res s where h: "handle_worker_message f worker boot epoch (sv_coord sv) = (res, s)" by (metis surj_pair)
  have "s = sv_coord sv" and "case res of
      None \<Rightarrow> fr_type f \<in> {MessageType.PUBLISH_DEVICE, MessageType.PUBLISH_ENDPOINT, MessageType.PUBLISH_CAPABILITY}
    | Some r \<Rightarrow> fr_type f = MessageType.READY \<or> fr_type r = MessageType.NACK"
    using stale_message_refused [OF assms(2,3), of f] unfolding h by simp_all
  moreover from this(1) have "rep = res" "sv' = (if rep \<noteq> None \<and> sent then sv else end_connection c (Worker_conn worker boot epoch) sv)"
    using assms(1,4) by (auto simp: h split: if_splits)
  ultimately show ?thesis by (simp add: end_connection_def Let_def)
qed

definition worker_hello :: "u64 \<Rightarrow> u64 \<Rightarrow> Frame" where
  "worker_hello worker boot =
     \<lparr>fr_type = MessageType.HELLO, fr_flags = 0, fr_payload = pw_u64 worker @ pw_u64 boot @ pw_u64 1\<rparr>"

definition create_message :: Frame where
  "create_message = \<lparr>fr_type = MessageType.CREATE_BUFFER, fr_flags = 0, fr_payload = []\<rparr>"

definition restarted_server :: Server where
  "restarted_server = server_run [Accept 1 (worker_hello 7 1), Accept 2 (worker_hello 7 2)] (make_server (Generation 1))"

lemma restarted_server_state:
  "restarted_server = \<lparr>sv_coord = (make_coordinator (Generation 1))
       \<lparr>st_workers := [(7, (Id 7, Generation 2))], st_worker_max_boot := [(7, 2)]\<rparr>,
     sv_conns = [(1, Worker_conn 7 1 1), (2, Worker_conn 7 2 1)]\<rparr>"
  by (simp add: restarted_server_def server_run_def make_server_def worker_hello_def read_worker_def payload_reader_at
      payload_codec Let_def register_worker_def make_coordinator_def default_State_def id_valid_def
      ok_def)

lemmas restarted_facts = restarted_server_state make_coordinator_def default_State_def worker_live_locked_def
  session_authority_def worker_owned_def id_valid_def

theorem stale_session_powerless_witness:
  "snd (server_step (Receive 1 create_message True) restarted_server) = restarted_server"
proof -
  obtain rep sv' where step: "server_step (Receive 1 create_message True) restarted_server = (rep, sv')" by (metis surj_pair)
  have "map_of (sv_conns restarted_server) 1 = Some (Worker_conn 7 1 1)" "(7 :: u64) \<noteq> 0"
    "\<not> worker_live_locked (session_authority 7 1 1) (sv_coord restarted_server)"
    by (simp_all add: restarted_facts)
  from stale_session_powerless [OF this step] step show ?thesis
    by (auto simp: create_message_def split: option.splits)
qed

section \<open>Where the server differs from its comments\<close>

text \<open>
  When the connection of an older incarnation of a worker ends while a newer incarnation is already
  connected, the teardown marks the worker dead as a whole: the newer connection stays open, but its
  identity is no longer live, so every change it asks for is refused from then on.
\<close>

lemma teardown_fences_newer_connection:
  assumes "map_of (sv_conns sv) old = Some (Worker_conn worker boot epoch)"
    and "map_of (sv_conns sv) new = Some (Worker_conn worker boot' epoch')" and "old \<noteq> new" and "worker \<noteq> 0"
  shows "map_of (sv_conns (snd (server_step (Closed old) sv))) new = Some (Worker_conn worker boot' epoch') \<and>
    \<not> worker_live_locked (session_authority worker boot' epoch') (sv_coord (snd (server_step (Closed old) sv)))"
  using assms
  by (simp add: end_connection_def Let_def delete_conv' worker_live_locked_def mark_worker_dead_def session_authority_def
      worker_owned_def id_valid_def)

text \<open>
  A truncated request is carried out: a CREATE_BUFFER frame with an empty payload, sent over a live
  session while there is room, is acknowledged and creates a buffer of size zero, because only the
  string reads of a handler are checked for failure.
\<close>

lemma truncated_create_accepted:
  assumes "worker_live_locked (session_authority worker boot epoch) s"
    and "length (st_buffers s) < unat (st_max_buffers s)"
    and "fr_type f = MessageType.CREATE_BUFFER" and "fr_payload f = []"
  shows "fst (handle_worker_message f worker boot epoch s) = Some (send_ack (st_next_id s + 1) 1 0) \<and>
    (\<exists>b. umap_find (st_buffers (snd (handle_worker_message f worker boot epoch s))) (st_next_id s + 1) = Some b \<and>
       b_size b = 0 \<and> b_lifecycle b = BufferLifecycle.ACTIVE)"
  using assms
  by (simp add: handle_worker_message_def parse_create_def payload_reader_def pr_u8_def pr_u64_def create_buffer_def
      next_id_locked_def next_freshness_locked_def reply_def ok_def Let_def)

end
