(* ===== verification/Cuda_Self_Test.thy ===== *)
theory Cuda_Self_Test
  imports Backends
begin

unbundle bit_operations_syntax

text \<open>
  The proof run of \<open>CudaBackend::self_test\<close> (\<open>src/backends/cuda_backend.cpp\<close>): allocate, copy a pattern
  to the device, invert it there, copy it back and compare. The calls into the CUDA runtime are a
  parameter, as in the discovery of \<open>Backends\<close>: every call is made at most once (the memory query
  twice), so the parameter holds what each of them answers, and the model gives the calls made beside
  the report. What the copy back leaves in the pinned host buffer is part of the answers.
\<close>

section \<open>The code\<close>

record cuda_session = cuda_runtime +
  cs_total :: u64
  cs_malloc :: bool
  cs_malloc_host :: bool
  cs_free0 :: u64
  cs_h2d :: bool
  cs_invert :: bool
  cs_sync :: bool
  cs_d2h :: bool
  cs_host :: "nat \<Rightarrow> u8"
  cs_free1 :: u64

datatype cuda_call = Count | Props | Malloc | Malloc_host | Meminfo | H2d | Invert | Sync | D2h | Free | Free_host

record CudaSelfTestReport =
  rep_device_discovery :: bool
  rep_device_name :: string
  rep_compute_capability :: string
  rep_total_memory :: u64
  rep_allocation :: bool
  rep_pinned_host :: bool
  rep_kernel :: bool
  rep_cpu_parity :: bool
  rep_baseline_return :: bool
  rep_support :: Support
  rep_summary :: string

definition default_CudaSelfTestReport :: CudaSelfTestReport where
  "default_CudaSelfTestReport =
     \<lparr>rep_device_discovery = False, rep_device_name = [], rep_compute_capability = [], rep_total_memory = 0,
      rep_allocation = False, rep_pinned_host = False, rep_kernel = False, rep_cpu_parity = False,
      rep_baseline_return = False, rep_support = Support.UNKNOWN, rep_summary = []\<rparr>"

definition self_test_bytes :: nat where
  "self_test_bytes = 16 * 1024 * 1024"

text \<open>\<open>static_cast<unsigned char>(i ^ 0xA5u)\<close>\<close>

definition test_pattern :: "nat \<Rightarrow> u8" where
  "test_pattern i = ucast ((word_of_nat i :: u64) XOR 0xA5)"

definition cpu_parity :: "(nat \<Rightarrow> u8) \<Rightarrow> bool" where
  "cpu_parity host \<longleftrightarrow> list_all (\<lambda>i. host i = NOT (test_pattern i)) [0..<self_test_bytes]"

definition self_test_tolerance :: u64 where
  "self_test_tolerance = 16 * 1024 * 1024 + 16 * 1024 * 1024"

definition unsupported_report :: "string \<Rightarrow> CudaSelfTestReport \<Rightarrow> CudaSelfTestReport" where
  "unsupported_report msg rep = rep\<lparr>rep_support := Support.UNSUPPORTED, rep_summary := msg\<rparr>"

definition self_test_summary :: "CudaSelfTestReport \<Rightarrow> string" where
  "self_test_summary rep =
     (if rep_support rep = Support.REAL then ''REAL'' else ''FAILED'') @ '' device='' @ rep_device_name rep @
     '' cc='' @ rep_compute_capability rep @ '' parity='' @ (if rep_cpu_parity rep then ''ok'' else ''bad'') @
     '' baseline='' @ (if rep_baseline_return rep then ''ok'' else ''miss'')"

definition self_test :: "cuda_session \<Rightarrow> CudaSelfTestReport \<times> cuda_call list" where
  "self_test cs =
     (let rep = default_CudaSelfTestReport; (rc, count) = rt_count cs in
      if rc \<noteq> 0 \<or> count \<le> 0 then (unsupported_report ''no CUDA device available'' rep, [Count])
      else case rt_props cs 0 of
        None \<Rightarrow> (unsupported_report ''CUDA device property query failed'' rep, [Count, Props])
      | Some (name, major, minor) \<Rightarrow>
      let rep = rep\<lparr>rep_device_discovery := True, rep_device_name := name,
                    rep_compute_capability := dec_of_int major @ ''.'' @ dec_of_int minor,
                    rep_total_memory := cs_total cs\<rparr>
      in if \<not> cs_malloc cs then (unsupported_report ''cudaMalloc failed'' rep, [Count, Props, Malloc])
      else let rep = rep\<lparr>rep_allocation := True\<rparr>
      in if \<not> cs_malloc_host cs then
           (unsupported_report ''cudaMallocHost (pinned) failed'' rep, [Count, Props, Malloc, Malloc_host, Free])
      else let rep = rep\<lparr>rep_pinned_host := True\<rparr>; calls = [Count, Props, Malloc, Malloc_host, Meminfo]
      in if \<not> cs_h2d cs then (unsupported_report ''H2D copy failed'' rep, calls @ [H2d, Free, Free_host])
      else if \<not> cs_invert cs then
        (unsupported_report ''CUDA kernel launch or sync failed'' rep, calls @ [H2d, Invert, Free, Free_host])
      else if \<not> cs_sync cs then
        (unsupported_report ''CUDA kernel launch or sync failed'' rep, calls @ [H2d, Invert, Sync, Free, Free_host])
      else let rep = rep\<lparr>rep_kernel := True\<rparr>
      in if \<not> cs_d2h cs then
           (unsupported_report ''D2H copy failed'' rep, calls @ [H2d, Invert, Sync, D2h, Free, Free_host])
      else
        let parity = cpu_parity (cs_host cs);
            rep = rep\<lparr>rep_cpu_parity := parity,
                      rep_baseline_return := cs_free1 cs + self_test_tolerance \<ge> cs_free0 cs\<rparr>;
            rep = rep\<lparr>rep_support := if parity \<and> rep_baseline_return rep then Support.REAL else Support.UNSUPPORTED\<rparr>
        in (rep\<lparr>rep_summary := self_test_summary rep\<rparr>,
            calls @ [H2d, Invert, Sync, D2h, Free, Free_host, Meminfo]))"

section \<open>What the report means\<close>

lemma cpu_parity_iff: "cpu_parity host \<longleftrightarrow> (\<forall>i < self_test_bytes. host i = NOT (test_pattern i))"
  by (auto simp: cpu_parity_def list_all_iff)

text \<open>
  The self test reports REAL exactly when every call of the proof run succeeded - a device was
  found and its properties read, both buffers were allocated, both copies and the kernel went
  through - and every one of the 16 MiB bytes that came back is the complement of the byte sent, and
  the free memory afterwards is within the tolerance; otherwise it reports UNSUPPORTED. On every path,
  errors included, each buffer is freed exactly once if it was allocated and not at all otherwise, and
  after the first free no copy or kernel runs.
\<close>

lemma self_test_honest:
  "(rep_support (fst (self_test cs)) = Support.REAL \<longleftrightarrow>
     fst (rt_count cs) = 0 \<and> 0 < snd (rt_count cs) \<and> rt_props cs 0 \<noteq> None \<and> cs_malloc cs \<and> cs_malloc_host cs \<and>
     cs_h2d cs \<and> cs_invert cs \<and> cs_sync cs \<and> cs_d2h cs \<and>
     (\<forall>i < self_test_bytes. cs_host cs i = NOT (test_pattern i)) \<and>
     cs_free0 cs \<le> cs_free1 cs + self_test_tolerance) \<and>
   rep_support (fst (self_test cs)) \<in> {Support.REAL, Support.UNSUPPORTED} \<and>
   count_list (snd (self_test cs)) Free = (if Malloc \<in> set (snd (self_test cs)) \<and> cs_malloc cs then 1 else 0) \<and>
   count_list (snd (self_test cs)) Free_host =
     (if Malloc_host \<in> set (snd (self_test cs)) \<and> cs_malloc_host cs then 1 else 0) \<and>
   set (dropWhile (\<lambda>c. c \<noteq> Free) (snd (self_test cs))) \<subseteq> {Free, Free_host, Meminfo}"
proof (cases "rt_props cs 0")
  case None
  then show ?thesis
    by (simp add: self_test_def Let_def unsupported_report_def case_prod_unfold)
next
  case (Some p)
  then show ?thesis
    by (simp add: self_test_def Let_def unsupported_report_def default_CudaSelfTestReport_def cpu_parity_iff case_prod_unfold) linarith
qed

text \<open>
  The memory baseline is read after the buffers have been allocated, and the tolerance is as large as
  both of them: the check also passes when freeing them gives nothing back, or loses up to 32 MiB more.
\<close>

lemma baseline_misses_leak:
  assumes "unat (cs_free0 cs) \<le> unat (cs_free1 cs) + 32 * 1024 * 1024"
    and "unat (cs_free1 cs) + 32 * 1024 * 1024 < 2 ^ 64"
  shows "cs_free0 cs \<le> cs_free1 cs + self_test_tolerance"
  using assms by (simp add: word_le_nat_alt self_test_tolerance_def unat_word_ariths)

end
