(* ===== verification/Inspect.thy ===== *)
theory Inspect
  imports Persistence Synthetic_Seed Cuda_Self_Test
begin

text \<open>
  The inspection tool \<open>tools/inspect_main.cpp\<close>: its command line, the coordinator it looks at (a
  recovered state file, or the demonstration inventory of \<open>seed\<close>) and the text it prints for each
  subcommand. The state file's content and the CUDA runtime are arguments; the result is the text
  written to standard output and the exit code.
\<close>

section \<open>The inventory\<close>

definition inspect_seed :: "cuda_runtime \<Rightarrow> State \<Rightarrow> State" where
  "inspect_seed rt s =
     (let s = snd (seed_synthetic default_SyntheticBackend s);
          cuda = make_cuda_backend rt;
          s = fold (\<lambda>d s. snd (add_device \<lparr>dap_name = d_name d, dap_compute_capability = d_compute_capability d,
                dap_peer_memory_supported = d_peer_memory_supported d, dap_support = d_support d,
                dap_provenance = d_provenance d, dap_authority = default_Authority\<rparr> s)) (cu_devices cuda) s;
          s = snd (add_provider \<lparr>pap_name = ''cuda'', pap_available = cuda_available cuda,
                pap_support = cuda_support cuda, pap_provenance = Provenance.CUDA_RUNTIME\<rparr> s);
          s = snd (add_provider \<lparr>pap_name = ''rdma'', pap_available = False, pap_support = Support.UNSUPPORTED,
                pap_provenance = Provenance.RDMA_PROVIDER\<rparr> s)
      in snd (add_provider \<lparr>pap_name = ''storage'', pap_available = False, pap_support = Support.UNSUPPORTED,
                pap_provenance = Provenance.STORAGE_BACKEND\<rparr> s))"

section \<open>The command line\<close>

record options =
  opt_mode :: string
  opt_state :: string
  opt_json :: bool

text \<open>The argument loop; a value that follows \<open>--state\<close> is skipped over, every other word that does not
  start with two dashes becomes the mode.\<close>

fun parse_options :: "string list \<Rightarrow> options \<Rightarrow> options" where
  "parse_options [] o1 = o1"
| "parse_options (a # rest) o1 =
     (if a = ''--json'' then parse_options rest (o1\<lparr>opt_json := True\<rparr>)
      else if a = ''--state'' then
        (case rest of [] \<Rightarrow> o1 | v # rest' \<Rightarrow> parse_options rest' (o1\<lparr>opt_state := v\<rparr>))
      else if take 2 a \<noteq> ''--'' then parse_options rest (o1\<lparr>opt_mode := a\<rparr>)
      else parse_options rest o1)"

definition default_options :: options where
  "default_options = \<lparr>opt_mode = ''list-devices'', opt_state = [], opt_json = False\<rparr>"

text \<open>
  \<open>std::strtoull(s, nullptr, 10)\<close>: blanks, an optional sign, then digits up to the first other
  character; too large a number is the largest, and a minus negates within 64 bits.
\<close>

definition digit_value :: "char \<Rightarrow> nat option" where
  "digit_value c = (if 48 \<le> (of_char c :: nat) \<and> (of_char c :: nat) \<le> 57 then Some (of_char c - 48) else None)"

definition digits_value :: "string \<Rightarrow> nat" where
  "digits_value s = foldl (\<lambda>acc c. 10 * acc + the (digit_value c)) 0 (takeWhile (\<lambda>c. digit_value c \<noteq> None) s)"

definition strtoull :: "string \<Rightarrow> u64" where
  "strtoull s =
     (let s = dropWhile (\<lambda>c. (of_char c :: nat) \<in> {9, 10, 11, 12, 13, 32}) s;
          neg = (s \<noteq> [] \<and> hd s = CHR ''-'');
          s = (if s \<noteq> [] \<and> (hd s = CHR ''-'' \<or> hd s = CHR ''+'') then tl s else s);
          n = digits_value s
      in if 2 ^ 64 \<le> n then - 1 else if neg then - word_of_nat n else word_of_nat n)"

text \<open>
  One option of the second argument loop: a match with a value after it takes the value, and the
  comparisons that follow in the same round look at that value.
\<close>

definition take_option :: "string \<Rightarrow> (u64 \<Rightarrow> 'a \<Rightarrow> 'a) \<Rightarrow> string \<times> string list \<times> 'a \<Rightarrow> string \<times> string list \<times> 'a" where
  "take_option name set_to x =
     (case x of (a, rest, q) \<Rightarrow>
        if a = name \<and> rest \<noteq> [] then (hd rest, tl rest, set_to (strtoull (hd rest)) q) else (a, rest, q))"

lemma take_option_shrinks: "length (fst (snd (take_option name f x))) \<le> length (fst (snd x))"
  by (cases x) (simp add: take_option_def)

definition query_round :: "string \<Rightarrow> string list \<Rightarrow> u64 \<times> u64 \<times> u64 \<Rightarrow> string list \<times> u64 \<times> u64 \<times> u64" where
  "query_round a rest q =
     (case take_option ''--size'' (\<lambda>v (src, dst, n). (src, dst, v))
            (take_option ''--destination'' (\<lambda>v (src, dst, n). (src, v, n))
              (take_option ''--source'' (\<lambda>v (src, dst, n). (v, dst, n)) (a, rest, q)))
      of (_, rest', q') \<Rightarrow> (rest', q'))"

lemma query_round_shrinks: "length (fst (query_round a rest q)) \<le> length rest"
  unfolding query_round_def case_prod_unfold fst_conv
  by (rule order_trans [OF take_option_shrinks order_trans [OF take_option_shrinks
        order_trans [OF take_option_shrinks]]]) simp

function query_args :: "string list \<Rightarrow> u64 \<times> u64 \<times> u64 \<Rightarrow> u64 \<times> u64 \<times> u64" where
  "query_args [] q = q"
| "query_args (a # rest) q = (let (rest', q') = query_round a rest q in query_args rest' q')"
  by pat_completeness auto

termination
proof (relation "measure (\<lambda>(args, q). length args)")
  fix a rest q x rest' q'
  assume "x = query_round a rest q" and "(rest', q') = x"
  then show "((rest', q'), a # rest, q) \<in> measure (\<lambda>(args, q). length args)"
    using query_round_shrinks [of a rest q] by (metis case_prod_conv fst_conv in_measure le_imp_less_Suc length_Cons)
qed simp

section \<open>Subcommands\<close>

definition newline :: string where "newline = [char_of (10 :: nat)]"
definition quoted :: "string \<Rightarrow> string" where "quoted s = CHR 0x22 # s @ [CHR 0x22]"

text \<open>\<open>std::string::c_str\<close> printed with \<open>%s\<close>: the text ends at the first null character.\<close>

definition c_str :: "string \<Rightarrow> string" where "c_str s = takeWhile (\<lambda>c. c \<noteq> CHR 0x00) s"

definition json_str :: "string \<Rightarrow> string \<Rightarrow> string" where "json_str k v = quoted k @ '':'' @ quoted v"
definition flag_digit :: "bool \<Rightarrow> string" where "flag_digit b = (if b then ''1'' else ''0'')"

text \<open>The body of the loop over the records: in JSON mode an object, with a comma before all but the first.\<close>

definition json_items :: "bool \<Rightarrow> ('a \<Rightarrow> string) \<Rightarrow> 'a list \<Rightarrow> string" where
  "json_items json f xs =
     concat (map (\<lambda>(i, x). if json then (if i \<noteq> 0 then '','' else []) @ f x else []) (enumerate 0 xs))"

text \<open>
  The first two subcommands are written \<open>if (d) for (...) { if (json) ... } else { ... }\<close>: the text for
  people is in the branch of a failed query, which these queries never take (reading the value of the
  failed result there would throw).
\<close>

definition list_devices :: "bool \<Rightarrow> State \<Rightarrow> string" where
  "list_devices json s =
     (if json then ''{'' else []) @ (if json then quoted ''devices'' @ '':['' else []) @
     (case devices s of
        Inr ds \<Rightarrow> json_items json (\<lambda>d.
          ''{'' @ quoted ''id'' @ '':'' @ to_string_u64 (id_value (d_id d)) @ '','' @ json_str ''name'' (c_str (d_name d)) @ '','' @
          json_str ''cc'' (c_str (d_compute_capability d)) @ '','' @ json_str ''support'' (Support_to_string (d_support d)) @ ''}'') ds
      | Inl _ \<Rightarrow> []) @
     (if json then '']}'' @ newline else [])"

definition list_providers :: "bool \<Rightarrow> State \<Rightarrow> string" where
  "list_providers json s =
     (if json then ''{'' @ quoted ''providers'' @ '':['' else []) @
     (case providers s of
        Inr ps \<Rightarrow> json_items json (\<lambda>p.
          ''{'' @ json_str ''name'' (c_str (p_name p)) @ '','' @ quoted ''available'' @ '':'' @ flag_digit (p_available p) @ '','' @
          json_str ''support'' (Support_to_string (p_support p)) @ ''}'') ps
      | Inl _ \<Rightarrow> []) @
     (if json then '']}'' @ newline else [])"

definition list_lines :: "('a \<Rightarrow> string) \<Rightarrow> 'a list Result \<Rightarrow> string" where
  "list_lines line res = (case res of Inl _ \<Rightarrow> [] | Inr xs \<Rightarrow> concat (map (\<lambda>x. line x @ newline) xs))"

definition buffer_line :: "BufferRecord \<Rightarrow> string" where
  "buffer_line x =
     ''buffer '' @ to_string_u64 (id_value (b_id x)) @ '' gen='' @ to_string_u64 (gen_value (b_generation x)) @
     '' domain='' @ MemoryDomain_to_string (b_domain x) @ '' reg='' @ RegistrationState_to_string (b_registration_state x) @
     '' support='' @ Support_to_string (b_support x)"

definition capability_line :: "CapabilityObservation \<Rightarrow> string" where
  "capability_line x =
     ''cap '' @ c_str (c_provider x) @ ''::'' @ c_str (c_capability x) @ ''='' @ c_str (c_value x) @ '' support='' @ Support_to_string (c_support x)"

definition registration_line :: "Registration \<Rightarrow> string" where
  "registration_line x =
     ''reg '' @ to_string_u64 (id_value (r_id x)) @ '' gen='' @ to_string_u64 (gen_value (r_generation x)) @
     '' buffer='' @ to_string_u64 (id_value (r_buffer x)) @ '' endpoint='' @ to_string_u64 (id_value (r_endpoint x)) @
     '' state='' @ RegistrationState_to_string (r_state x) @ '' support='' @ Support_to_string (r_support x)"

definition self_test_line :: "CudaSelfTestReport \<Rightarrow> string" where
  "self_test_line rep =
     ''CUDA: support='' @ Support_to_string (rep_support rep) @ '' device='' @ c_str (rep_device_name rep) @ '' cc='' @
     c_str (rep_compute_capability rep) @ '' alloc='' @ flag_digit (rep_allocation rep) @ '' pinned='' @ flag_digit (rep_pinned_host rep) @
     '' kernel='' @ flag_digit (rep_kernel rep) @ '' parity='' @ flag_digit (rep_cpu_parity rep) @ '' baseline='' @
     flag_digit (rep_baseline_return rep) @ '' '' @ c_str (rep_summary rep) @ newline"

definition violation_line :: "RequirementViolation \<Rightarrow> string" where
  "violation_line v =
     ''  req '' @ c_str (rv_requirement v) @ '' => '' @ (if rv_satisfied v then ''OK'' else ''FAIL'') @
     (if rv_detail v = [] then [] else c_str ('': '' @ rv_detail v))"

definition query_eligibility :: "string list \<Rightarrow> State \<Rightarrow> string \<times> int" where
  "query_eligibility args s =
     (let (src, dst, n) = query_args args (0, 0, 4096) in
      case evaluate_path \<lparr>prp_source = Id src, prp_destination = Id dst, prp_direction = Direction.GPU_TO_PEER,
             prp_policy = PathPolicy.PREFER_DIRECT, prp_size = n\<rparr> s of
        Inl e \<Rightarrow> (''eligibility error: '' @ c_str (err_message e) @ newline, 1)
      | Inr d \<Rightarrow>
          (''direct='' @ PathEligibility_to_string (pd_direct_eligibility d) @ '' support='' @
             Support_to_string (pd_support d) @ newline @
           concat (map (\<lambda>v. violation_line v @ newline) (pd_violations d)) @
           (if pd_fallback_available d then
              ''fallback: '' @ (case pd_selected_fallback d of None \<Rightarrow> ''?'' | Some f \<Rightarrow> PathClass_to_string (cd_path_class f)) @
              '' (copies='' @ (case pd_selected_fallback d of None \<Rightarrow> ''0'' | Some f \<Rightarrow> dec_of_nat (unat (cd_stage_count f))) @
              '')'' @ newline
            else []), 0))"

definition is_stale :: "Registration \<Rightarrow> bool" where
  "is_stale x \<longleftrightarrow> r_state x = RegistrationState.REVALIDATION_REQUIRED \<or> r_state x = RegistrationState.FAILED \<or>
     r_state x = RegistrationState.RETIRED"

definition stale_report :: "State \<Rightarrow> string" where
  "stale_report s =
     (let regs = (case registrations s of Inl _ \<Rightarrow> [] | Inr rs \<Rightarrow> rs)
      in ''stale/revalidation registrations: '' @ dec_of_nat (length (filter is_stale regs)) @ '' / '' @
         dec_of_nat (length regs) @ newline @
         ''live workers: '' @ dec_of_nat (case live_workers s of Inl _ \<Rightarrow> 0 | Inr ws \<Rightarrow> length ws) @ newline)"

definition inspect_main :: "(string \<Rightarrow> bytes option) \<Rightarrow> cuda_session \<Rightarrow> string list \<Rightarrow> string \<times> int" where
  "inspect_main fs cs args =
     (let o1 = parse_options args default_options;
          mode = opt_mode o1; json = opt_json o1;
          (rec, s) = (if opt_state o1 \<noteq> [] then recover_from_file (fs (opt_state o1)) (make_coordinator (Generation 1))
                      else (ok (), inspect_seed (cuda_runtime.truncate cs) (make_coordinator (Generation 1))))
      in case rec of
           Inl e \<Rightarrow> (''state recovery failed: '' @ c_str (err_message e) @ newline, 2)
         | Inr _ \<Rightarrow>
             if mode = ''list-devices'' then (list_devices json s, 0)
             else if mode = ''providers'' then (list_providers json s, 0)
             else if mode = ''buffers'' then (list_lines buffer_line (buffers s), 0)
             else if mode = ''capabilities'' then (list_lines capability_line (capabilities s), 0)
             else if mode = ''registrations'' then (list_lines registration_line (registrations s), 0)
             else if mode = ''cuda-self-test'' then (self_test_line (fst (self_test cs)), 0)
             else if mode = ''query-eligibility'' then query_eligibility args s
             else if mode = ''stale'' then (stale_report s, 0)
             else (''subcommands: list-devices providers buffers capabilities registrations cuda-self-test query-eligibility stale'' @
                   newline, 0))"

section \<open>What the tool shows\<close>

lemma json_items_text: "json_items False f xs = []"
  by (simp add: json_items_def case_prod_unfold)

text \<open>Without \<open>--json\<close> the devices and providers of a coordinator are not printed, whatever they are.\<close>

lemma text_listings_empty: "list_devices False s = []" "list_providers False s = []"
  by (simp_all add: list_devices_def list_providers_def devices_def providers_def ok_def json_items_text)

text \<open>
  The word after an option other than \<open>--state\<close> is taken for the subcommand: a query with its
  identities after it is never answered.
\<close>

lemma parse_options_word:
  "take 2 a = ''--'' \<Longrightarrow> a \<notin> {''--json'', ''--state''} \<Longrightarrow> take 2 v \<noteq> ''--'' \<Longrightarrow>
   parse_options (a # v # rest) o1 = parse_options rest (o1\<lparr>opt_mode := v\<rparr>)"
  by auto

lemma query_words_replace_mode:
  assumes "take 2 dst \<noteq> ''--''" and "take 2 src \<noteq> ''--''"
  shows "opt_mode (parse_options [''query-eligibility'', ''--source'', src, ''--destination'', dst] default_options) = dst"
  using assms parse_options_word [of "''--source''" src] parse_options_word [of "''--destination''" dst]
  by (auto simp: default_options_def)

text \<open>
  The inventory the tool shows without a state file is the outcome of ordinary operations of the
  coordinator, so everything proved of its runs holds of what the tool prints.
\<close>

definition cuda_seed_ops :: "cuda_runtime \<Rightarrow> 'b coord_op list" where
  "cuda_seed_ops rt =
     map (Add_device \<circ> seed_device_params) (cu_devices (make_cuda_backend rt)) @
     [Add_provider \<lparr>pap_name = ''cuda'', pap_available = cuda_available (make_cuda_backend rt),
        pap_support = cuda_support (make_cuda_backend rt), pap_provenance = Provenance.CUDA_RUNTIME\<rparr>,
      Add_provider \<lparr>pap_name = ''rdma'', pap_available = False, pap_support = Support.UNSUPPORTED,
        pap_provenance = Provenance.RDMA_PROVIDER\<rparr>,
      Add_provider \<lparr>pap_name = ''storage'', pap_available = False, pap_support = Support.UNSUPPORTED,
        pap_provenance = Provenance.STORAGE_BACKEND\<rparr>]"

lemma inspect_seed_run:
  "inspect_seed rt s = run (seed_ops default_SyntheticBackend (st_epoch s) @ cuda_seed_ops rt :: 'b coord_op list) s"
proof -
  have devs: "fold (\<lambda>d s. snd (add_device \<lparr>dap_name = d_name d, dap_compute_capability = d_compute_capability d,
        dap_peer_memory_supported = d_peer_memory_supported d, dap_support = d_support d,
        dap_provenance = d_provenance d, dap_authority = default_Authority\<rparr> s)) ds t =
      run (map (Add_device \<circ> seed_device_params) ds :: 'b coord_op list) t" for ds t
    by (induction ds arbitrary: t) (simp_all add: run_def seed_device_params_def)
  show ?thesis
    unfolding run_append seed_synthetic_run [where 'b = 'b, symmetric]
    by (simp add: inspect_seed_def Let_def devs cuda_seed_ops_def run_append) (simp add: run_def)
qed

end
