(* ===== verification/Threads.thy ===== *)
theory Threads
  imports Guarantees "HOL-Library.Sublist"
begin

text \<open>
  Concurrent callers of one coordinator. Its only synchronisation is its mutex, and nothing here
  takes it for granted: a call is a list of actions, among them the locking and unlocking of the mutex,
  and the body of a critical section reads and writes the fields of \<open>State\<close> one by one, so that a
  body running without the mutex really interleaves with the others. Locking a mutex that is held, also
  by the same thread, blocks. \<open>plan_transfer\<close> takes the mutex twice, to build the evidence
  (\<open>evaluate_path\<close>) and again to commit, and decides in between without it. The theory shows that every
  schedule of the actions is a sequential run of the operations, in which a plan is committed on the
  evidence of an earlier state of that same run, and that no schedule gets stuck.
\<close>

section \<open>Memory and actions\<close>

text \<open>The fields of \<open>State\<close>, each read and written on its own.\<close>

datatype state_field =
    At_epoch | At_next_id | At_freshness | At_buffers | At_devices | At_endpoints | At_nics | At_storage
    | At_registrations | At_providers | At_capabilities | At_plans | At_attempts | At_receipts
    | At_verifications | At_workers | At_worker_max_boot | At_max_buffers | At_max_registrations
    | At_max_endpoints | At_max_plans | At_max_attempts

definition state_fields :: "state_field list" where
  "state_fields =
    [At_epoch, At_next_id, At_freshness, At_buffers, At_devices, At_endpoints, At_nics, At_storage,
     At_registrations, At_providers, At_capabilities, At_plans, At_attempts, At_receipts, At_verifications,
     At_workers, At_worker_max_boot, At_max_buffers, At_max_registrations, At_max_endpoints, At_max_plans,
     At_max_attempts]"

fun copy_field :: "state_field \<Rightarrow> State \<Rightarrow> State \<Rightarrow> State" where
  "copy_field At_epoch src s = s\<lparr>st_epoch := st_epoch src\<rparr>"
| "copy_field At_next_id src s = s\<lparr>st_next_id := st_next_id src\<rparr>"
| "copy_field At_freshness src s = s\<lparr>st_freshness := st_freshness src\<rparr>"
| "copy_field At_buffers src s = s\<lparr>st_buffers := st_buffers src\<rparr>"
| "copy_field At_devices src s = s\<lparr>st_devices := st_devices src\<rparr>"
| "copy_field At_endpoints src s = s\<lparr>st_endpoints := st_endpoints src\<rparr>"
| "copy_field At_nics src s = s\<lparr>st_nics := st_nics src\<rparr>"
| "copy_field At_storage src s = s\<lparr>st_storage := st_storage src\<rparr>"
| "copy_field At_registrations src s = s\<lparr>st_registrations := st_registrations src\<rparr>"
| "copy_field At_providers src s = s\<lparr>st_providers := st_providers src\<rparr>"
| "copy_field At_capabilities src s = s\<lparr>st_capabilities := st_capabilities src\<rparr>"
| "copy_field At_plans src s = s\<lparr>st_plans := st_plans src\<rparr>"
| "copy_field At_attempts src s = s\<lparr>st_attempts := st_attempts src\<rparr>"
| "copy_field At_receipts src s = s\<lparr>st_receipts := st_receipts src\<rparr>"
| "copy_field At_verifications src s = s\<lparr>st_verifications := st_verifications src\<rparr>"
| "copy_field At_workers src s = s\<lparr>st_workers := st_workers src\<rparr>"
| "copy_field At_worker_max_boot src s = s\<lparr>st_worker_max_boot := st_worker_max_boot src\<rparr>"
| "copy_field At_max_buffers src s = s\<lparr>st_max_buffers := st_max_buffers src\<rparr>"
| "copy_field At_max_registrations src s = s\<lparr>st_max_registrations := st_max_registrations src\<rparr>"
| "copy_field At_max_endpoints src s = s\<lparr>st_max_endpoints := st_max_endpoints src\<rparr>"
| "copy_field At_max_plans src s = s\<lparr>st_max_plans := st_max_plans src\<rparr>"
| "copy_field At_max_attempts src s = s\<lparr>st_max_attempts := st_max_attempts src\<rparr>"

datatype 'b api_call = Method "'b coord_op" | Plan PlanRequestParams

text \<open>
  The actions of a thread: locking and unlocking the mutex, reading a field of the shared state into
  the thread's working copy and writing it back, computing a method on the working copy, keeping the
  working copy as the evidence of a plan, deciding a plan on that evidence, committing it.
\<close>

datatype 'b action = Lock | Unlock | Fetch state_field | Publish state_field | Compute "'b coord_op" | Keep
  | Decide PlanRequestParams | Commit PlanRequestParams

text \<open>
  What a call does. Every public method of the coordinator is one critical section: a \<open>lock_guard\<close> at
  its beginning, released at every return. \<open>plan_transfer\<close> calls \<open>evaluate_path\<close>, whose \<open>lock_guard\<close>
  ends with the block that builds the evidence, and takes the mutex again only for the commit.
\<close>

definition section_of :: "'b action list \<Rightarrow> 'b action list \<Rightarrow> 'b action list" where
  "section_of body rest = [Lock] @ map Fetch state_fields @ body @ [Unlock] @ rest"

definition evaluate_code :: "PlanRequestParams \<Rightarrow> 'b action list \<Rightarrow> 'b action list" where
  "evaluate_code p rest = section_of [Keep] (Decide p # rest)"

definition commit_code :: "PlanRequestParams \<Rightarrow> 'b action list" where
  "commit_code p = section_of (Commit p # map Publish state_fields) []"

fun code_of :: "'b api_call \<Rightarrow> 'b action list" where
  "code_of (Method x) = section_of (Compute x # map Publish state_fields) []"
| "code_of (Plan p) = evaluate_code p (commit_code p)"

fun is_plan :: "'b coord_op \<Rightarrow> bool" where
  "is_plan (Plan_transfer p snap) \<longleftrightarrow> True"
| "is_plan _ \<longleftrightarrow> False"

fun call_ok :: "'b api_call \<Rightarrow> bool" where
  "call_ok (Method x) \<longleftrightarrow> \<not> is_plan x"
| "call_ok (Plan p) \<longleftrightarrow> True"

section \<open>Threads\<close>

text \<open>A thread has the calls it has not begun, the rest of the one it is in, its evidence and its working copy.\<close>

record 'b thread =
  th_calls :: "'b api_call list"
  th_code :: "'b action list"
  th_evidence :: State
  th_local :: State

record 'b system =
  sy_state :: State
  sy_mutex :: "nat option"
  sy_threads :: "'b thread list"

definition start_thread :: "CoordinatorEpoch \<Rightarrow> 'b api_call list \<Rightarrow> 'b thread" where
  "start_thread epoch calls =
     \<lparr>th_calls = calls, th_code = [], th_evidence = make_coordinator epoch, th_local = make_coordinator epoch\<rparr>"

definition start_system :: "CoordinatorEpoch \<Rightarrow> 'b api_call list list \<Rightarrow> 'b system" where
  "start_system epoch progs =
     \<lparr>sy_state = make_coordinator epoch, sy_mutex = None, sy_threads = map (start_thread epoch) progs\<rparr>"

text \<open>
  The effect of an action on the evidence, the working copy and the shared state; the mutex and the
  decision are the scheduler's business. A decision that does not admit the plan ends the call.
\<close>

fun perform :: "'b action \<Rightarrow> State \<times> State \<times> State \<Rightarrow> State \<times> State \<times> State" where
  "perform (Fetch f) (ev, l, s) = (ev, copy_field f s l, s)"
| "perform (Publish f) (ev, l, s) = (ev, l, copy_field f l s)"
| "perform (Compute x) (ev, l, s) = (ev, step x l, s)"
| "perform Keep (ev, l, s) = (l, l, s)"
| "perform (Commit p) (ev, l, s) = (ev, snd (plan_transfer p ev l), s)"
| "perform _ m = m"

definition plan_goes_on :: "PlanRequestParams \<Rightarrow> State \<Rightarrow> bool" where
  "plan_goes_on p snap \<longleftrightarrow> (case evaluate_path p snap of Inl e \<Rightarrow> False | Inr d \<Rightarrow> plan_admitted d)"

fun goes_on :: "'b action \<Rightarrow> State \<Rightarrow> bool" where
  "goes_on (Decide p) ev \<longleftrightarrow> plan_goes_on p ev"
| "goes_on _ ev \<longleftrightarrow> True"

definition put_thread :: "nat \<Rightarrow> 'b thread \<Rightarrow> 'b system \<Rightarrow> 'b system" where
  "put_thread i t y = y\<lparr>sy_threads := (sy_threads y)[i := t]\<rparr>"

definition act :: "nat \<Rightarrow> 'b action \<Rightarrow> 'b action list \<Rightarrow> 'b system \<Rightarrow> 'b system" where
  "act i a code y =
     (let t = sy_threads y ! i; (ev, l, s) = perform a (th_evidence t, th_local t, sy_state y) in
      put_thread i (t\<lparr>th_code := if goes_on a (th_evidence t) then code else [], th_evidence := ev, th_local := l\<rparr>)
        (y\<lparr>sy_state := s\<rparr>))"

text \<open>The turn of thread \<open>i\<close>: \<open>None\<close> when it has nothing left to do or waits for the mutex.\<close>

definition turn :: "nat \<Rightarrow> 'b system \<Rightarrow> 'b system option" where
  "turn i y =
     (if i < length (sy_threads y) then
        (let t = sy_threads y ! i in
         case th_code t of
           [] \<Rightarrow> (case th_calls t of
               [] \<Rightarrow> None
             | c # cs \<Rightarrow> Some (put_thread i (t\<lparr>th_calls := cs, th_code := code_of c\<rparr>) y))
         | a # code \<Rightarrow>
             (case a of
                Lock \<Rightarrow> (case sy_mutex y of
                    None \<Rightarrow> Some (put_thread i (t\<lparr>th_code := code\<rparr>) (y\<lparr>sy_mutex := Some i\<rparr>))
                  | Some j \<Rightarrow> None)
              | Unlock \<Rightarrow> Some (put_thread i (t\<lparr>th_code := code\<rparr>) (y\<lparr>sy_mutex := None\<rparr>))
              | _ \<Rightarrow> Some (act i a code y)))
      else None)"

text \<open>A schedule is the sequence of the threads that take their turns.\<close>

fun exec :: "nat list \<Rightarrow> 'b system \<Rightarrow> 'b system option" where
  "exec [] y = Some y"
| "exec (i # is) y = (case turn i y of None \<Rightarrow> None | Some z \<Rightarrow> exec is z)"

lemma exec_append: "exec (is @ js) y = (case exec is y of None \<Rightarrow> None | Some z \<Rightarrow> exec js z)"
  by (induction "is" arbitrary: y) (auto split: option.splits)

lemma perform_decide: "perform (Decide p) m = m" "perform Lock m = m" "perform Unlock m = m"
  by (cases m; simp)+

text \<open>The four kinds of turns.\<close>

lemma turn_cases [consumes 1, case_names call lock unlock act]:
  assumes "turn i y = Some z"
  obtains c cs where "i < length (sy_threads y)" "th_code (sy_threads y ! i) = []" "th_calls (sy_threads y ! i) = c # cs"
      "z = put_thread i ((sy_threads y ! i)\<lparr>th_calls := cs, th_code := code_of c\<rparr>) y"
    | code where "i < length (sy_threads y)" "th_code (sy_threads y ! i) = Lock # code" "sy_mutex y = None"
      "z = put_thread i ((sy_threads y ! i)\<lparr>th_code := code\<rparr>) (y\<lparr>sy_mutex := Some i\<rparr>)"
    | code where "i < length (sy_threads y)" "th_code (sy_threads y ! i) = Unlock # code"
      "z = put_thread i ((sy_threads y ! i)\<lparr>th_code := code\<rparr>) (y\<lparr>sy_mutex := None\<rparr>)"
    | a code where "i < length (sy_threads y)" "th_code (sy_threads y ! i) = a # code" "a \<noteq> Lock" "a \<noteq> Unlock"
      "z = act i a code y"
  using assms unfolding turn_def
  by (auto simp: Let_def split: if_splits list.splits action.splits option.splits)

lemma put_thread_simps [simp]:
  "sy_state (put_thread i t y) = sy_state y" "sy_mutex (put_thread i t y) = sy_mutex y"
  "sy_threads (put_thread i t y) = (sy_threads y)[i := t]"
  by (simp_all add: put_thread_def)

section \<open>Critical sections\<close>

text \<open>A thread is inside when the next thing it does to the mutex is to unlock it.\<close>

fun inside :: "'b action list \<Rightarrow> bool" where
  "inside [] \<longleftrightarrow> False"
| "inside (a # code) \<longleftrightarrow> (case a of Lock \<Rightarrow> False | Unlock \<Rightarrow> True | _ \<Rightarrow> inside code)"

text \<open>
  Code whose sections are not nested, which touches the shared state only inside them and leaves no
  section open where it may end.
\<close>

fun disciplined :: "'b action list \<Rightarrow> bool" where
  "disciplined [] \<longleftrightarrow> True"
| "disciplined (a # code) \<longleftrightarrow> disciplined code \<and>
     (case a of Lock \<Rightarrow> inside code | Unlock \<Rightarrow> \<not> inside code | Decide p \<Rightarrow> \<not> inside code
      | _ \<Rightarrow> inside code)"

lemma inside_section [simp]: "\<not> inside (section_of body rest)"
  by (simp add: section_of_def)

lemma inside_fetch [simp]: "inside (map Fetch fs @ code) \<longleftrightarrow> inside code"
  by (induction fs) auto

lemma inside_publish [simp]: "inside (map Publish fs @ code) \<longleftrightarrow> inside code"
  by (induction fs) auto

lemma disciplined_fetch: "disciplined (map Fetch fs @ code) \<longleftrightarrow> disciplined code \<and> (fs = [] \<or> inside code)"
  by (induction fs) auto

lemma disciplined_publish: "disciplined (map Publish fs @ code) \<longleftrightarrow> disciplined code \<and> (fs = [] \<or> inside code)"
  by (induction fs) auto

lemma code_disciplined: "disciplined (code_of c)"
  by (cases c) (simp_all add: section_of_def evaluate_code_def commit_code_def disciplined_fetch disciplined_publish)

lemma code_of_simps [simp]: "\<not> inside (code_of c)" "code_of c \<noteq> []"
  by (cases c; simp add: evaluate_code_def section_of_def)+

lemma disciplined_suffix: "suffix code code' \<Longrightarrow> disciplined code' \<Longrightarrow> disciplined code"
  by (induction code') (auto simp: suffix_Cons)

text \<open>What a section does from some point on, up to its end.\<close>

fun finish :: "'b action list \<Rightarrow> State \<times> State \<times> State \<Rightarrow> State \<times> State \<times> State" where
  "finish [] m = m"
| "finish (a # code) m = (if a = Unlock then m else finish code (perform a m))"

lemma copy_fields: "fold (\<lambda>f. copy_field f src) state_fields s = src"
  by (simp add: state_fields_def)

lemma finish_fetch_fold: "finish (map Fetch fs @ code) (ev, l, s) = finish code (ev, fold (\<lambda>f. copy_field f s) fs l, s)"
  by (induction fs arbitrary: l) simp_all

lemma finish_publish_fold: "finish (map Publish fs @ code) (ev, l, s) = finish code (ev, l, fold (\<lambda>f. copy_field f l) fs s)"
  by (induction fs arbitrary: s) simp_all

lemmas finish_simps = finish_fetch_fold finish_publish_fold copy_fields

text \<open>The three sections there are.\<close>

lemma lock_suffix:
  assumes "suffix (Lock # code) (code_of c)"
  obtains x where "c = Method x" "Lock # code = code_of c"
    | p where "c = Plan p" "Lock # code = code_of c"
    | p where "c = Plan p" "Lock # code = commit_code p"
proof (cases c)
  case (Method x)
  with assms that(1) show ?thesis
    by (auto simp: section_of_def state_fields_def suffix_Cons)
next
  case (Plan p)
  with assms that(2,3) show ?thesis
    by (auto simp: section_of_def evaluate_code_def commit_code_def state_fields_def suffix_Cons)
qed


section \<open>Schedules are sequential runs\<close>

fun call_of :: "'b coord_op \<Rightarrow> 'b api_call" where
  "call_of (Plan_transfer p snap) = Plan p"
| "call_of x = Method x"

lemma call_of_method: "\<not> is_plan x \<Longrightarrow> call_of x = Method x"
  by (cases x) simp_all

text \<open>
  A history is the sequence of operations that have taken effect, each with its thread. A state is
  \<open>seen\<close> at a point of it if it is the state after some shorter part of the history.
\<close>

type_synonym 'b history = "(nat \<times> 'b coord_op) list"

definition state_after :: "CoordinatorEpoch \<Rightarrow> 'b history \<Rightarrow> State" where
  "state_after epoch hist = run (map snd hist) (make_coordinator epoch)"

definition seen :: "CoordinatorEpoch \<Rightarrow> 'b history \<Rightarrow> nat \<Rightarrow> State \<Rightarrow> bool" where
  "seen epoch hist n s \<longleftrightarrow> (\<exists>m \<le> n. s = state_after epoch (take m hist))"

definition evidence_seen :: "CoordinatorEpoch \<Rightarrow> 'b history \<Rightarrow> bool" where
  "evidence_seen epoch hist \<longleftrightarrow>
     (\<forall>k < length hist. \<forall>p snap. snd (hist ! k) = Plan_transfer p snap \<longrightarrow> seen epoch hist k snap)"

definition calls_of :: "nat \<Rightarrow> 'b history \<Rightarrow> 'b api_call list" where
  "calls_of i hist = map (call_of \<circ> snd) (filter (\<lambda>e. fst e = i) hist)"

text \<open>The calls that take effect in a piece of code, and those whose last section has not begun.\<close>

fun effects :: "'b action list \<Rightarrow> 'b api_call list" where
  "effects [] = []"
| "effects (a # code) = (case a of Compute x \<Rightarrow> [Method x] | Commit p \<Rightarrow> [Plan p] | _ \<Rightarrow> []) @ effects code"

fun owed :: "'b action list \<Rightarrow> 'b api_call list" where
  "owed [] = []"
| "owed (a # code) = (if a = Lock then effects code else owed code)"

lemma state_after_snoc: "state_after epoch (hist @ [(i, x)]) = step x (state_after epoch hist)"
  by (simp add: state_after_def run_def)

lemma seen_append: "seen epoch hist n s \<Longrightarrow> n \<le> length hist \<Longrightarrow> seen epoch (hist @ xs) n s"
  unfolding seen_def by (auto intro: exI [where P = "\<lambda>m. m \<le> n \<and> _ m"])

lemma seen_mono: "seen epoch hist n s \<Longrightarrow> n \<le> k \<Longrightarrow> seen epoch hist k s"
  unfolding seen_def using le_trans by blast

lemma seen_longer: "seen epoch hist (length hist) s \<Longrightarrow> seen epoch (hist @ xs) (length (hist @ xs)) s"
  using seen_append [of epoch hist "length hist" s xs] seen_mono [of epoch "hist @ xs" "length hist" s] by simp

lemma seen_now: "seen epoch hist (length hist) (state_after epoch hist)"
  unfolding seen_def by (intro exI [of _ "length hist"]) simp

lemma evidence_seen_snoc:
  assumes "evidence_seen epoch hist" and "\<And>p snap. x = Plan_transfer p snap \<Longrightarrow> seen epoch hist (length hist) snap"
  shows "evidence_seen epoch (hist @ [(i, x)])"
  using assms unfolding evidence_seen_def
  by (auto simp: nth_append less_Suc_eq intro: seen_append)

lemma calls_of_snoc: "calls_of j (hist @ [(i, x)]) = calls_of j hist @ (if j = i then [call_of x] else [])"
  by (simp add: calls_of_def)

lemma effects_append: "effects (code @ code') = effects code @ effects code'"
  by (induction code) auto

lemma effects_copy [simp]: "effects (map Fetch fs) = []" "effects (map Publish fs) = []"
  by (induction fs) auto

lemma owed_copy [simp]: "owed (map Fetch fs @ code) = owed code" "owed (map Publish fs @ code) = owed code"
  by (induction fs) auto

lemma owed_code_of [simp]: "owed (code_of c) = [c]"
  by (cases c) (simp_all add: section_of_def evaluate_code_def commit_code_def effects_append)

text \<open>What a decision is followed by.\<close>

lemma decide_suffix: "suffix (Decide p # code) (code_of c) \<Longrightarrow> c = Plan p \<and> code = commit_code p"
  by (cases c) (auto simp: section_of_def evaluate_code_def commit_code_def state_fields_def suffix_Cons)

lemma plan_rejected: "\<not> plan_goes_on p snap \<Longrightarrow> step (Plan_transfer p snap :: 'b coord_op) s = s"
  by (auto simp: plan_goes_on_def plan_transfer_def split: sum.splits)

text \<open>The memory as it will be when the section a thread is in, if any, has been finished.\<close>

definition outcome :: "'b system \<Rightarrow> 'b thread \<Rightarrow> State \<times> State \<times> State" where
  "outcome y t =
     (let m = (th_evidence t, th_local t, sy_state y) in if inside (th_code t) then finish (th_code t) m else m)"

definition shared_outcome :: "'b system \<Rightarrow> State" where
  "shared_outcome y =
     (case sy_mutex y of None \<Rightarrow> sy_state y | Some i \<Rightarrow> snd (snd (outcome y (sy_threads y ! i))))"

definition thread_linear ::
    "CoordinatorEpoch \<Rightarrow> 'b system \<Rightarrow> 'b history \<Rightarrow> nat \<Rightarrow> 'b api_call list \<Rightarrow> 'b thread \<Rightarrow> bool" where
  "thread_linear epoch y hist i calls t \<longleftrightarrow>
     calls_of i hist @ owed (th_code t) @ th_calls t = calls \<and>
     (inside (th_code t) \<longleftrightarrow> sy_mutex y = Some i) \<and>
     (\<exists>c. call_ok c \<and> suffix (th_code t) (code_of c)) \<and>
     seen epoch hist (length hist) (fst (outcome y t))"

definition linearized :: "CoordinatorEpoch \<Rightarrow> 'b api_call list list \<Rightarrow> 'b system \<Rightarrow> 'b history \<Rightarrow> bool" where
  "linearized epoch progs y hist \<longleftrightarrow>
     length (sy_threads y) = length progs \<and>
     (\<forall>i < length progs. thread_linear epoch y hist i (progs ! i) (sy_threads y ! i)) \<and>
     shared_outcome y = state_after epoch hist \<and>
     (\<forall>i. sy_mutex y = Some i \<longrightarrow> i < length progs) \<and>
     evidence_seen epoch hist \<and> (\<forall>e \<in> set hist. fst e < length progs)"

lemma linearized_start:
  assumes "list_all (list_all call_ok) progs"
  shows "linearized epoch progs (start_system epoch progs) []"
proof -
  have "thread_linear epoch (start_system epoch progs) [] i (progs ! i) (start_thread epoch (progs ! i))" for i
    by (auto simp: thread_linear_def start_system_def start_thread_def calls_of_def outcome_def seen_def state_after_def
        run_def intro: exI [of _ "Method Advance_epoch"])
  then show ?thesis
    by (simp add: linearized_def start_system_def shared_outcome_def state_after_def run_def evidence_seen_def)
qed

text \<open>
  A turn of thread \<open>i\<close> that may append an entry of \<open>i\<close> to the history: what has to be shown of thread
  \<open>i\<close> itself and of the shared state, the rest of the invariant being the same for all turns.
\<close>

definition extends :: "nat \<Rightarrow> 'b coord_op option \<Rightarrow> 'b history \<Rightarrow> 'b history" where
  "extends i x hist = hist @ (case x of None \<Rightarrow> [] | Some x \<Rightarrow> [(i, x)])"

lemma linearized_turn:
  assumes lin: "linearized epoch progs y hist" and i: "i < length progs"
    and z: "sy_threads z = (sy_threads y)[i := t]"
    and mutex: "\<And>j. j \<noteq> i \<Longrightarrow> sy_mutex z = Some j \<longleftrightarrow> sy_mutex y = Some j"
    and t: "thread_linear epoch z (extends i x hist) i (progs ! i) t"
    and shared: "shared_outcome z = state_after epoch (extends i x hist)"
    and others: "sy_state z \<noteq> sy_state y \<Longrightarrow> sy_mutex y = Some i"
    and plan: "\<And>p snap. x = Some (Plan_transfer p snap) \<Longrightarrow> seen epoch hist (length hist) snap"
  shows "linearized epoch progs z (extends i x hist)"
proof -
  note l = lin [unfolded linearized_def]
  have "thread_linear epoch z (extends i x hist) j (progs ! j) (sy_threads y ! j)" if j: "j < length progs" "j \<noteq> i" for j
  proof -
    let ?t = "sy_threads y ! j"
    have old: "thread_linear epoch y hist j (progs ! j) ?t" using l j by blast
    have "outcome z ?t = outcome y ?t \<or> (fst (outcome z ?t) = fst (outcome y ?t))"
    proof (cases "sy_state z = sy_state y")
      case False
      then have "\<not> inside (th_code ?t)" using others old j by (auto simp: thread_linear_def)
      then show ?thesis by (simp add: outcome_def)
    qed (simp add: outcome_def)
    moreover have "calls_of j (extends i x hist) = calls_of j hist"
      using j(2) by (cases x) (simp_all add: extends_def calls_of_snoc)
    moreover have "seen epoch (extends i x hist) (length (extends i x hist)) s" if "seen epoch hist (length hist) s" for s
      unfolding extends_def by (rule seen_longer [OF that])
    ultimately show ?thesis using old mutex [OF j(2)] unfolding thread_linear_def by auto
  qed
  then have "\<forall>j < length progs. thread_linear epoch z (extends i x hist) j (progs ! j) (sy_threads z ! j)"
    using t i l by (auto simp: z nth_list_update)
  moreover have "evidence_seen epoch (extends i x hist)"
    using l plan by (cases x) (simp_all add: extends_def evidence_seen_snoc)
  moreover have "j < length progs" if "sy_mutex z = Some j" for j
    using that mutex [of j] i l by (cases "j = i") auto
  ultimately show ?thesis
    using l i shared by (cases x) (auto simp: linearized_def z extends_def)
qed

text \<open>The disciplined code of a thread at its turn.\<close>

lemma thread_code:
  assumes "linearized epoch progs y hist" and "i < length progs"
  shows "disciplined (th_code (sy_threads y ! i))"
  using assms disciplined_suffix [OF _ code_disciplined] unfolding linearized_def thread_linear_def by blast

text \<open>Beginning a call.\<close>

lemma linearized_call:
  assumes lin: "linearized epoch progs y hist" and i: "i < length progs" and progs: "list_all (list_all call_ok) progs"
    and code: "th_code (sy_threads y ! i) = []" "th_calls (sy_threads y ! i) = c # cs"
  shows "linearized epoch progs (put_thread i ((sy_threads y ! i)\<lparr>th_calls := cs, th_code := code_of c\<rparr>) y) (extends i None hist)"
    (is "linearized epoch progs ?z _")
proof -
  let ?t = "sy_threads y ! i"
  have old: "thread_linear epoch y hist i (progs ! i) ?t" using lin i by (simp add: linearized_def)
  then have "progs ! i = calls_of i hist @ c # cs" using code by (simp add: thread_linear_def)
  then have "c \<in> set (progs ! i)" by simp
  then have c: "call_ok c" using progs i by (auto simp: list_all_iff)
  have m: "sy_mutex y \<noteq> Some i" using old code by (simp add: thread_linear_def)
  show ?thesis
  proof (rule linearized_turn [OF lin i])
    show "thread_linear epoch ?z (extends i None hist) i (progs ! i) (?t\<lparr>th_calls := cs, th_code := code_of c\<rparr>)"
      using old code m c by (auto simp: thread_linear_def extends_def outcome_def intro: exI [of _ c])
    have "shared_outcome ?z = shared_outcome y"
    proof (cases "sy_mutex y")
      case (Some j)
      with m have "j \<noteq> i" by simp
      with Some show ?thesis by (simp add: shared_outcome_def outcome_def nth_list_update_neq [OF not_sym])
    qed (simp add: shared_outcome_def)
    then show "shared_outcome ?z = state_after epoch (extends i None hist)"
      using lin by (simp add: linearized_def extends_def)
  qed simp_all
qed

text \<open>Taking the mutex: from now on the effect of the section counts, when it has one.\<close>

lemma section_inside: "inside (map Fetch state_fields @ Compute x # map Publish state_fields @ [Unlock])"
  "inside (map Fetch state_fields @ Commit p # map Publish state_fields @ [Unlock])"
  "inside (map Fetch state_fields @ Keep # Unlock # code)"
  by simp_all

lemma linearized_lock:
  assumes lin: "linearized epoch progs y hist" and i: "i < length progs"
    and code: "th_code (sy_threads y ! i) = Lock # code" and free: "sy_mutex y = None"
  shows "\<exists>x. linearized epoch progs (put_thread i ((sy_threads y ! i)\<lparr>th_code := code\<rparr>) (y\<lparr>sy_mutex := Some i\<rparr>)) (extends i x hist)"
    (is "\<exists>x. linearized epoch progs ?z _")
proof -
  let ?t = "sy_threads y ! i"
  have old: "thread_linear epoch y hist i (progs ! i) ?t" using lin i by (simp add: linearized_def)
  then obtain c where c: "call_ok c" "suffix (Lock # code) (code_of c)" using code by (auto simp: thread_linear_def)
  have s: "sy_state y = state_after epoch hist" using lin free by (simp add: linearized_def shared_outcome_def)
  have ev: "seen epoch hist (length hist) (th_evidence ?t)"
    using old code free by (simp add: thread_linear_def outcome_def split: if_splits)
  have len: "i < length (sy_threads y)" using lin i by (simp add: linearized_def)
  have step_of: "linearized epoch progs ?z (extends i x hist)"
    if inside: "inside code" and owed: "owed (Lock # code) = (case x of None \<Rightarrow> [] | Some x \<Rightarrow> [call_of x]) @ owed code"
      and result: "finish code (th_evidence ?t, th_local ?t, sy_state y) = (e, l, case x of None \<Rightarrow> sy_state y | Some x \<Rightarrow> step x (sy_state y))"
      and e: "e = th_evidence ?t \<or> e = sy_state y"
      and plan: "\<And>p snap. x = Some (Plan_transfer p snap) \<Longrightarrow> snap = th_evidence ?t" for x e l
  proof (rule linearized_turn [OF lin i])
    have "seen epoch hist (length hist) e" using e ev s seen_now [of epoch hist] by auto
    then have "seen epoch (extends i x hist) (length (extends i x hist)) e" unfolding extends_def by (rule seen_longer)
    moreover have "suffix code (code_of c)" by (rule suffix_ConsD [OF c(2)])
    moreover have "calls_of i (extends i x hist) = calls_of i hist @ (case x of None \<Rightarrow> [] | Some x \<Rightarrow> [call_of x])"
      by (cases x) (simp_all add: extends_def calls_of_snoc)
    ultimately show "thread_linear epoch ?z (extends i x hist) i (progs ! i) (?t\<lparr>th_code := code\<rparr>)"
      using old code inside owed result c by (auto simp: thread_linear_def outcome_def)
    show "shared_outcome ?z = state_after epoch (extends i x hist)"
      using len inside result s by (cases x) (simp_all add: shared_outcome_def outcome_def extends_def state_after_snoc)
    show "seen epoch hist (length hist) snap" if "x = Some (Plan_transfer p snap)" for p snap
      using plan [OF that] ev by simp
  qed (use free in auto)
  from c(2) show ?thesis
  proof (cases rule: lock_suffix)
    case (1 x)
    then have rest: "code = map Fetch state_fields @ Compute x # map Publish state_fields @ [Unlock]"
      and "\<not> is_plan x" using c(1) by (simp_all add: section_of_def)
    then show ?thesis
      by (intro exI [of _ "Some x"] step_of [of _ "th_evidence ?t" "step x (sy_state y)"])
        (auto simp: finish_simps effects_append call_of_method)
  next
    case (2 p)
    then have "code = map Fetch state_fields @ Keep # Unlock # Decide p # commit_code p"
      by (simp add: section_of_def evaluate_code_def)
    then show ?thesis
      by (intro exI [of _ None] step_of [of _ "sy_state y" "sy_state y"])
        (auto simp: finish_simps effects_append commit_code_def section_of_def)
  next
    case (3 p)
    then have "code = map Fetch state_fields @ Commit p # map Publish state_fields @ [Unlock]"
      by (simp add: section_of_def commit_code_def)
    then show ?thesis
      by (intro exI [of _ "Some (Plan_transfer p (th_evidence ?t))"]
          step_of [of _ "th_evidence ?t" "step (Plan_transfer p (th_evidence ?t) :: 'a coord_op) (sy_state y)"])
        (auto simp: finish_simps effects_append)
  qed
qed

text \<open>Releasing the mutex.\<close>

lemma linearized_unlock:
  assumes lin: "linearized epoch progs y hist" and i: "i < length progs"
    and code: "th_code (sy_threads y ! i) = Unlock # code"
  shows "linearized epoch progs (put_thread i ((sy_threads y ! i)\<lparr>th_code := code\<rparr>) (y\<lparr>sy_mutex := None\<rparr>)) (extends i None hist)"
    (is "linearized epoch progs ?z _")
proof -
  let ?t = "sy_threads y ! i"
  have old: "thread_linear epoch y hist i (progs ! i) ?t" using lin i by (simp add: linearized_def)
  have m: "sy_mutex y = Some i" using old code by (simp add: thread_linear_def)
  have out: "\<not> inside code" using thread_code [OF lin i] code by simp
  show ?thesis
  proof (rule linearized_turn [OF lin i])
    show "thread_linear epoch ?z (extends i None hist) i (progs ! i) (?t\<lparr>th_code := code\<rparr>)"
      using old code out by (auto simp: thread_linear_def extends_def outcome_def dest: suffix_ConsD)
    show "shared_outcome ?z = state_after epoch (extends i None hist)"
      using lin m code by (simp add: linearized_def extends_def shared_outcome_def outcome_def)
  qed (use m in auto)
qed

text \<open>The other actions, inside a section or deciding a plan outside of one.\<close>

lemma linearized_act:
  assumes lin: "linearized epoch progs y hist" and i: "i < length progs"
    and code: "th_code (sy_threads y ! i) = a # code" "a \<noteq> Lock" "a \<noteq> Unlock"
  shows "\<exists>x. linearized epoch progs (act i a code y) (extends i x hist)"
proof -
  let ?t = "sy_threads y ! i"
  have old: "thread_linear epoch y hist i (progs ! i) ?t" using lin i by (simp add: linearized_def)
  have disc: "disciplined (a # code)" using thread_code [OF lin i] code by simp
  have len: "i < length (sy_threads y)" using lin i by (simp add: linearized_def)
  obtain c where c: "call_ok c" "suffix (a # code) (code_of c)" using old code by (auto simp: thread_linear_def)
  obtain e l s where eff: "perform a (th_evidence ?t, th_local ?t, sy_state y) = (e, l, s)" by (metis surj_pair)
  have z: "act i a code y =
      put_thread i (?t\<lparr>th_code := if goes_on a (th_evidence ?t) then code else [], th_evidence := e, th_local := l\<rparr>) (y\<lparr>sy_state := s\<rparr>)"
    by (simp add: act_def Let_def eff)
  show ?thesis
  proof (cases "inside code")
    case True
    then have on: "goes_on a (th_evidence ?t)" and m: "sy_mutex y = Some i"
      using disc old code by (cases a; simp add: thread_linear_def)+
    have ins: "inside (a # code)" and fin: "finish (a # code) (th_evidence ?t, th_local ?t, sy_state y) = finish code (e, l, s)"
      using True code(2,3) by (auto simp: eff split: action.splits)
    have "linearized epoch progs (act i a code y) (extends i None hist)"
    proof (rule linearized_turn [OF lin i])
      let ?u = "?t\<lparr>th_code := code, th_evidence := e, th_local := l\<rparr>"
      have "owed (a # code) = owed code" using code(2) by simp
      then show "thread_linear epoch (act i a code y) (extends i None hist) i (progs ! i) ?u"
        using old m True c ins fin code(1)
        by (auto simp: thread_linear_def extends_def outcome_def z on dest: suffix_ConsD)
      show "sy_threads (act i a code y) = (sy_threads y)[i := ?u]" by (simp add: z on)
      show "shared_outcome (act i a code y) = state_after epoch (extends i None hist)"
        using lin m len code(1) ins fin True by (simp add: linearized_def extends_def shared_outcome_def outcome_def z on)
    qed (use m in \<open>simp_all add: z\<close>)
    then show ?thesis by blast
  next
    case False
    then obtain p where a: "a = Decide p" using disc code(2,3) by (cases a) auto
    have out: "sy_mutex y \<noteq> Some i" using False old code(1) a by (simp add: thread_linear_def)
    have s: "s = sy_state y" "e = th_evidence ?t" "l = th_local ?t" using eff by (simp_all add: a)
    have zm: "sy_mutex (act i (Decide p) code y) = sy_mutex y" "sy_state (act i (Decide p) code y) = sy_state y"
      using z a by (simp_all add: s)
    have shared: "shared_outcome (act i a code y) = shared_outcome y"
    proof (cases "sy_mutex y")
      case (Some j)
      with out have "j \<noteq> i" by simp
      with Some show ?thesis by (simp add: z s shared_outcome_def outcome_def nth_list_update_neq [OF not_sym])
    qed (simp add: z s shared_outcome_def)
    have ev: "seen epoch hist (length hist) (th_evidence ?t)"
      using old code(1) a False by (simp add: thread_linear_def outcome_def)
    note plan = decide_suffix [OF c(2) [unfolded a]]
    have step_of: "linearized epoch progs (act i a code y) (extends i x hist)"
      if x: "x = (if plan_goes_on p (th_evidence ?t) then None else Some (Plan_transfer p (th_evidence ?t)))" for x
    proof (rule linearized_turn [OF lin i])
      let ?u = "?t\<lparr>th_code := if plan_goes_on p (th_evidence ?t) then code else []\<rparr>"
      show "sy_threads (act i a code y) = (sy_threads y)[i := ?u]" unfolding z s by (simp add: a)
      show "shared_outcome (act i a code y) = state_after epoch (extends i x hist)"
        using lin plan_rejected [of p "th_evidence ?t" "state_after epoch hist"]
        by (simp add: shared x extends_def state_after_snoc linearized_def)
      show "seen epoch hist (length hist) snap" if "x = Some (Plan_transfer p' snap)" for p' snap
        using ev that x by (simp split: if_splits)
      have "owed (a # code) = [Plan p]"
        using plan by (simp add: a commit_code_def section_of_def effects_append)
      moreover have "suffix code (code_of c)" by (rule suffix_ConsD [OF c(2)])
      ultimately show "thread_linear epoch (act i a code y) (extends i x hist) i (progs ! i) ?u"
        using old code(1) a c(1) False out seen_longer [OF ev, of "[(i, Plan_transfer p (th_evidence ?t))]"] ev
        by (auto simp: thread_linear_def x extends_def calls_of_snoc outcome_def zm)
    qed (simp_all add: z s)
    then show ?thesis by blast
  qed
qed

lemma linearized_turns:
  assumes "turn i y = Some z" and lin: "linearized epoch progs y hist" and progs: "list_all (list_all call_ok) progs"
  shows "\<exists>h. linearized epoch progs z (hist @ h)"
proof -
  have len: "length (sy_threads y) = length progs" using lin by (simp add: linearized_def)
  have "\<exists>x. linearized epoch progs z (extends i x hist)"
    using assms(1)
  proof (cases rule: turn_cases)
    case (call c cs)
    then show ?thesis using linearized_call [OF lin _ progs, of i c cs] len by auto
  next
    case (lock code)
    then show ?thesis using linearized_lock [OF lin, of i code] len by auto
  next
    case (unlock code)
    then show ?thesis using linearized_unlock [OF lin, of i code] len by auto
  next
    case (act a code)
    then show ?thesis using linearized_act [OF lin, of i a code] len by auto
  qed
  then show ?thesis unfolding extends_def by blast
qed

lemma exec_linearized:
  "exec is y = Some z \<Longrightarrow> linearized epoch progs y hist \<Longrightarrow> list_all (list_all call_ok) progs \<Longrightarrow>
   \<exists>h. linearized epoch progs z (hist @ h)"
proof (induction "is" arbitrary: y hist)
  case Nil
  then show ?case by (intro exI [of _ "[]"]) simp
next
  case (Cons i "is")
  then obtain y' where y': "turn i y = Some y'" "exec is y' = Some z" by (auto split: option.splits)
  obtain h where h: "linearized epoch progs y' (hist @ h)" using linearized_turns [OF y'(1) Cons.prems(2,3)] by blast
  from Cons.IH [OF y'(2) h Cons.prems(3)] obtain h' where "linearized epoch progs z ((hist @ h) @ h')" by blast
  then show ?case by (intro exI [of _ "h @ h'"]) simp
qed

lemma exec_start_linearized:
  assumes "list_all (list_all call_ok) progs" and "exec is (start_system epoch progs) = Some y"
  shows "\<exists>hist. linearized epoch progs y hist"
  using exec_linearized [OF assms(2) linearized_start [OF assms(1)] assms(1)] by simp

text \<open>The length of a history.\<close>

lemma length_history:
  "\<forall>e \<in> set hist. fst e < n \<Longrightarrow> length hist = sum_list (map (\<lambda>i. length (calls_of i hist)) [0..<n])"
proof (induction hist rule: rev_induct)
  case (snoc e hist)
  obtain j x where e: "e = (j, x)" by (metis surj_pair)
  let ?f = "\<lambda>i. length (calls_of i hist)"
  have "map (\<lambda>i. length (calls_of i (hist @ [e]))) [0..<n] = (map ?f [0..<n])[j := Suc (?f j)]"
    by (rule nth_equalityI) (use snoc.prems in \<open>auto simp: e calls_of_snoc nth_list_update\<close>)
  moreover have "sum_list ((map ?f [0..<n])[j := Suc (?f j)]) = Suc (sum_list (map ?f [0..<n]))"
    using snoc.prems by (subst sum_list_update) (auto simp: e elem_le_sum_list Suc_diff_le)
  ultimately show ?case using snoc by simp
qed (simp add: calls_of_def)

lemma linearized_length:
  assumes "linearized epoch progs y hist"
  shows "length hist \<le> sum_list (map length progs)"
proof -
  note l = assms [unfolded linearized_def]
  have "map length progs = map (\<lambda>i. length (progs ! i)) [0..<length progs]" by (rule nth_equalityI) simp_all
  moreover have "length (calls_of i hist) \<le> length (progs ! i)" if "i < length progs" for i
  proof -
    have "calls_of i hist @ owed (th_code (sy_threads y ! i)) @ th_calls (sy_threads y ! i) = progs ! i"
      using l that by (simp add: thread_linear_def)
    then show ?thesis by (metis le_add1 length_append)
  qed
  then have "(\<Sum>i\<leftarrow>[0..<length progs]. length (calls_of i hist)) \<le> (\<Sum>i\<leftarrow>[0..<length progs]. length (progs ! i))"
    by (intro sum_list_mono) simp
  ultimately show ?thesis using length_history [of hist "length progs"] l by simp
qed

section \<open>Progress\<close>

text \<open>The turns a thread still has to take: one for each action left, and one to begin each call.\<close>

definition call_steps :: "'b api_call list \<Rightarrow> nat" where
  "call_steps calls = sum_list (map (\<lambda>c. Suc (length (code_of c))) calls)"

definition steps_left :: "'b thread \<Rightarrow> nat" where
  "steps_left t = length (th_code t) + call_steps (th_calls t)"

definition work_left :: "'b system \<Rightarrow> nat" where
  "work_left y = sum_list (map steps_left (sy_threads y))"

lemma call_steps_0: "call_steps calls = 0 \<longleftrightarrow> calls = []"
  by (cases calls) (simp_all add: call_steps_def)

lemma turn_work:
  assumes "turn i y = Some z"
  shows "work_left z < work_left y"
  using assms
proof (cases rule: turn_cases)
  case (call c cs)
  then show ?thesis by (auto simp: work_left_def steps_left_def call_steps_def intro: sum_list_update_less)
next
  case (lock code)
  then show ?thesis by (auto simp: work_left_def steps_left_def intro: sum_list_update_less)
next
  case (unlock code)
  then show ?thesis by (auto simp: work_left_def steps_left_def intro: sum_list_update_less)
next
  case (act a code)
  obtain e l s where "perform a (th_evidence (sy_threads y ! i), th_local (sy_threads y ! i), sy_state y) = (e, l, s)"
    by (metis surj_pair)
  with act show ?thesis
    by (auto simp: act_def Let_def work_left_def steps_left_def intro: sum_list_update_less)
qed

lemma exec_work: "exec is y = Some z \<Longrightarrow> length is + work_left z \<le> work_left y"
proof (induction "is" arbitrary: y)
  case (Cons i "is")
  then obtain y' where "turn i y = Some y'" "exec is y' = Some z" by (auto split: option.splits)
  with turn_work [of i y y'] Cons.IH show ?case by fastforce
qed simp

text \<open>A thread that is not waiting at the mutex and has something left to do can take its turn.\<close>

lemma turn_defined:
  assumes "i < length (sy_threads y)" and "steps_left (sy_threads y ! i) \<noteq> 0"
    and "sy_mutex y = None \<or> inside (th_code (sy_threads y ! i))"
  shows "turn i y \<noteq> None"
proof (cases "th_code (sy_threads y ! i)")
  case Nil
  with assms(2) have "th_calls (sy_threads y ! i) \<noteq> []" by (auto simp: steps_left_def call_steps_def)
  with Nil assms(1) show ?thesis by (auto simp: turn_def Let_def split: list.splits)
next
  case (Cons a code)
  with assms(1,3) show ?thesis by (cases a) (auto simp: turn_def Let_def)
qed

lemma turn_possible:
  assumes lin: "linearized epoch progs y hist" and "work_left y \<noteq> 0"
  shows "\<exists>i z. turn i y = Some z"
proof (cases "sy_mutex y")
  case None
  obtain i where "i < length (sy_threads y)" "steps_left (sy_threads y ! i) \<noteq> 0"
    using assms(2) by (auto simp: work_left_def set_conv_nth)
  with None turn_defined [of i y] show ?thesis by blast
next
  case (Some i)
  then have i: "i < length (sy_threads y)" "inside (th_code (sy_threads y ! i))"
    using lin by (auto simp: linearized_def thread_linear_def)
  then have "th_code (sy_threads y ! i) \<noteq> []" by auto
  with i turn_defined [of i y] show ?thesis by (auto simp: steps_left_def)
qed

lemma work_left_0:
  assumes "linearized epoch progs y hist" and "work_left y = 0"
  shows "sy_mutex y = None \<and> (\<forall>t \<in> set (sy_threads y). th_code t = [] \<and> th_calls t = [])"
proof -
  have "\<forall>t \<in> set (sy_threads y). th_code t = [] \<and> th_calls t = []"
    using assms(2) by (auto simp: work_left_def steps_left_def call_steps_0)
  moreover have "sy_mutex y \<noteq> Some i" for i
    using assms(1) calculation unfolding linearized_def thread_linear_def by (metis inside.simps(1) nth_mem)
  ultimately show ?thesis by (cases "sy_mutex y") auto
qed

definition total_steps :: "'b api_call list list \<Rightarrow> nat" where
  "total_steps progs = sum_list (map call_steps progs)"

lemma start_work: "work_left (start_system epoch progs) = total_steps progs"
  by (simp add: start_system_def start_thread_def work_left_def total_steps_def steps_left_def o_def)

section \<open>Guarantees\<close>

text \<open>
  A small schedule: both threads have begun their calls, the second has taken the mutex first and has
  released it, the first still waits for it.
\<close>

definition small_progs :: "unit api_call list list" where
  "small_progs = [[Method Advance_epoch], [Method (Register_worker (Id 3) (Generation 1) (Generation 1))]]"

definition small_schedule :: "nat list" where
  "small_schedule = [0, 1] @ replicate 47 1"

definition small_system :: "unit system" where
  "small_system =
     (let s = snd (register_worker (Id 3) (Generation 1) (Generation 1) (make_coordinator (Generation 1))) in
      \<lparr>sy_state = s, sy_mutex = None,
       sy_threads = [(start_thread (Generation 1) [])\<lparr>th_code := code_of (Method Advance_epoch)\<rparr>,
                     (start_thread (Generation 1) [])\<lparr>th_local := s\<rparr>]\<rparr>)"

lemma small_system_simps:
  "sy_mutex small_system = None" "length (sy_threads small_system) = 2"
  "sy_threads small_system ! 0 = (start_thread (Generation 1) [])\<lparr>th_code := code_of (Method Advance_epoch)\<rparr>"
  "th_code (sy_threads small_system ! Suc 0) = []" "th_calls (sy_threads small_system ! Suc 0) = []"
  by (simp_all add: small_system_def Let_def start_thread_def)

lemma small_calls_ok: "list_all (list_all call_ok) small_progs"
  by (simp add: small_progs_def)

text \<open>A thread alone: fetching and publishing the fields, and a whole section.\<close>

lemma put_same_code:
  "th_code (sy_threads y ! i) = code \<Longrightarrow> y = y\<lparr>sy_threads := (sy_threads y)[i := (sy_threads y ! i)\<lparr>th_code := code\<rparr>]\<rparr>"
proof -
  assume "th_code (sy_threads y ! i) = code"
  then have "(sy_threads y ! i)\<lparr>th_code := code\<rparr> = sy_threads y ! i" by (cases "sy_threads y ! i") simp
  then show ?thesis by simp
qed

lemma exec_fetch:
  "i < length (sy_threads y) \<Longrightarrow> th_code (sy_threads y ! i) = map Fetch fs @ code \<Longrightarrow>
   exec (replicate (length fs) i) y = Some (put_thread i ((sy_threads y ! i)\<lparr>th_code := code,
     th_local := fold (\<lambda>f. copy_field f (sy_state y)) fs (th_local (sy_threads y ! i))\<rparr>) y)"
proof (induction fs arbitrary: y)
  case Nil
  then show ?case using put_same_code [of y i code] by (simp add: put_thread_def)
next
  case (Cons f fs)
  then show ?case by (simp add: turn_def Let_def act_def put_thread_def)
qed

lemma exec_publish:
  "i < length (sy_threads y) \<Longrightarrow> th_code (sy_threads y ! i) = map Publish fs @ code \<Longrightarrow>
   exec (replicate (length fs) i) y = Some (put_thread i ((sy_threads y ! i)\<lparr>th_code := code\<rparr>)
     (y\<lparr>sy_state := fold (\<lambda>f. copy_field f (th_local (sy_threads y ! i))) fs (sy_state y)\<rparr>))"
proof (induction fs arbitrary: y)
  case Nil
  then show ?case using put_same_code [of y i code] by (simp add: put_thread_def)
next
  case (Cons f fs)
  then show ?case by (simp add: turn_def Let_def act_def put_thread_def)
qed

lemma small_run: "exec small_schedule (start_system (Generation 1) small_progs) = Some small_system"
proof -
  let ?n = "length state_fields"
  let ?x = "Register_worker (Id 3) (Generation 1) (Generation 1) :: unit coord_op"
  let ?pub = "map Publish state_fields @ [Unlock] :: unit action list"
  define s where "s = make_coordinator (Generation 1)"
  define t where "t = (start_thread (Generation 1) [] :: unit thread)\<lparr>th_code := code_of (Method Advance_epoch)\<rparr>"
  define u where "u = (start_thread (Generation 1) [] :: unit thread)"
  have n: "small_schedule = [0, 1, 1] @ replicate ?n 1 @ [1] @ replicate ?n 1 @ [1]"
    by (simp add: small_schedule_def state_fields_def numeral_eq_Suc)
  define y1 where "y1 = \<lparr>sy_state = s, sy_mutex = Some 1,
      sy_threads = [t, u\<lparr>th_code := map Fetch state_fields @ Compute ?x # ?pub\<rparr>]\<rparr>"
  have 1: "exec [0, 1, 1] (start_system (Generation 1) small_progs) = Some y1"
    by (simp add: start_system_def small_progs_def turn_def Let_def put_thread_def start_thread_def y1_def s_def t_def u_def section_of_def)
  define y2 where "y2 = put_thread 1 (u\<lparr>th_code := Compute ?x # ?pub, th_local := s\<rparr>) y1"
  have 2: "exec (replicate ?n 1) y1 = Some y2"
    using exec_fetch [of 1 y1 state_fields "Compute ?x # ?pub"] by (simp add: y2_def y1_def copy_fields)
  define y3 where "y3 = put_thread 1 (u\<lparr>th_code := ?pub, th_local := step ?x s\<rparr>) y1"
  have 3: "exec [1] y2 = Some y3"
    by (simp add: y2_def y3_def y1_def turn_def Let_def act_def put_thread_def)
  define y4 where "y4 = put_thread 1 (u\<lparr>th_code := [Unlock], th_local := step ?x s\<rparr>) (y1\<lparr>sy_state := step ?x s\<rparr>)"
  have 4: "exec (replicate ?n 1) y3 = Some y4"
    using exec_publish [of 1 y3 state_fields "[Unlock]"] by (simp add: y3_def y4_def y1_def copy_fields put_thread_def)
  have 5: "exec [1] y4 = Some small_system"
    by (simp add: y4_def y1_def turn_def Let_def put_thread_def small_system_def t_def u_def s_def start_thread_def)
  show ?thesis
    using 1 2 3 4 5 unfolding n by (simp only: exec_append option.case)
qed

definition took_effect :: "CoordinatorEpoch \<Rightarrow> 'b api_call list list \<Rightarrow> 'b system \<Rightarrow> 'b history \<Rightarrow> bool" where
  "took_effect epoch progs y hist \<longleftrightarrow>
     (sy_mutex y = None \<longrightarrow> sy_state y = run (map snd hist) (make_coordinator epoch)) \<and>
     length (sy_threads y) = length progs \<and>
     (\<forall>i < length progs. progs ! i = calls_of i hist @ owed (th_code (sy_threads y ! i)) @ th_calls (sy_threads y ! i)) \<and>
     length hist \<le> sum_list (map length progs) \<and> evidence_seen epoch hist"

lemma linearized_took_effect: "linearized epoch progs y hist \<Longrightarrow> took_effect epoch progs y hist"
  using linearized_length [of epoch progs y hist]
  by (auto simp: took_effect_def linearized_def thread_linear_def shared_outcome_def state_after_def)

text \<open>
  C12: Concurrent use of a coordinator is linearizable. Threads read and write the fields of the shared
  state one at a time, in any interleaving that the mutex admits. Whatever the schedule, there is a
  sequential run of the operations such that, whenever the mutex is free, the shared state is the
  state after that run; each thread's operations stand in it in the order of that thread's calls,
  and are all there except the calls whose (last) critical section the thread has yet to enter; the
  run of a later point of the schedule extends that of an earlier one, so that the order of calls
  that do not overlap is kept; and every plan in it was decided on the state after an earlier part of
  the same run.
\<close>
theorem threads_linearize:
  assumes "list_all (list_all call_ok) progs"
    and "exec earlier (start_system epoch progs) = Some y" and "exec later y = Some z"
  shows "\<exists>hist more. took_effect epoch progs y hist \<and> took_effect epoch progs z (hist @ more)"
proof -
  obtain hist where lin: "linearized epoch progs y hist" using exec_start_linearized [OF assms(1,2)] by blast
  with exec_linearized [OF assms(3) _ assms(1)] obtain more where "linearized epoch progs z (hist @ more)" by blast
  with lin show ?thesis using linearized_took_effect by blast
qed

theorem threads_linearize_witness:
  "\<exists>hist :: unit history. sy_state small_system = run (map snd hist) (make_coordinator (Generation 1)) \<and>
     calls_of 0 hist = [] \<and> calls_of 1 hist = small_progs ! 1"
proof -
  have "exec [] small_system = Some small_system" by simp
  from threads_linearize [OF small_calls_ok small_run this]
  obtain hist where "took_effect (Generation 1) small_progs small_system hist" by blast
  then have h: "sy_state small_system = run (map snd hist) (make_coordinator (Generation 1))"
    "\<forall>i < 2. small_progs ! i = calls_of i hist @ owed (th_code (sy_threads small_system ! i)) @ th_calls (sy_threads small_system ! i)"
    by (simp_all add: took_effect_def small_system_simps)
  have "calls_of 0 hist = []" "calls_of 1 hist = small_progs ! 1"
    using h(2) [THEN spec, of 0] h(2) [THEN spec, of 1]
    by (simp_all del: code_of.simps add: small_progs_def small_system_simps start_thread_def)
  with h(1) show ?thesis by blast
qed

text \<open>
  C13: Whenever the mutex is free the coordinator's state is well formed, in every schedule of concurrent
  callers that make no more calls than the 64-bit counters have room for. Well formed means: the
  counter has not wrapped around; buffers, endpoints, devices, providers, plans, attempts and
  verifications are keyed by their own nonzero identity, which the counter has handed out, and
  registrations, NICs and storage endpoints, whose identities come from backends and callers, by that
  identity; a capability observation has one entry per provider and capability, under a key and with
  an identity that the counter has handed out; a live worker is recorded with its latest boot; a
  registration that is REGISTERED is the latest of its pair and current for its buffer, its endpoint, the
  epoch and its worker; an authoritative plan is current; an attempt refers to an existing plan, and
  its receipt, if any, reports its state and bytes.
\<close>
theorem threads_state_wf:
  assumes "list_all (list_all call_ok) progs" and "exec sched (start_system epoch progs) = Some y"
    and "sy_mutex y = None" and "sum_list (map length progs) \<le> op_limit"
  shows "\<exists>n \<le> sum_list (map length progs). state_wf n (sy_state y)"
proof -
  from exec_start_linearized [OF assms(1,2)] obtain hist where lin: "linearized epoch progs y hist" by blast
  then have "sy_state y = run (map snd hist) (make_coordinator epoch)"
    using assms(3) by (simp add: linearized_def shared_outcome_def state_after_def)
  with assms(4) run_wf [of "map snd hist" epoch] linearized_length [OF lin]
  show ?thesis by (intro exI [of _ "length hist"]) simp
qed

theorem threads_state_wf_witness: "\<exists>n \<le> 2. state_wf n (sy_state small_system)"
proof -
  have "sum_list (map length small_progs) = 2" by (simp add: small_progs_def)
  moreover have "sy_mutex small_system = None" by (simp add: small_system_def Let_def)
  ultimately show ?thesis using threads_state_wf [OF small_calls_ok small_run] by (simp add: op_limit_def)
qed

text \<open>
  C18: Concurrent callers of the coordinator neither deadlock nor run forever: no schedule is longer than
  the number of actions of all the calls and their beginnings, and after any schedule either some thread
  can take its turn or the mutex is free and every call has returned. A thread that locks the mutex while
  it is held, be it by itself, cannot take its turn.
\<close>
theorem threads_finish:
  assumes "list_all (list_all call_ok) progs" and "exec sched (start_system epoch progs) = Some y"
  shows "length sched \<le> total_steps progs \<and>
    ((\<exists>i z. turn i y = Some z) \<or>
     (sy_mutex y = None \<and> (\<forall>t \<in> set (sy_threads y). th_code t = [] \<and> th_calls t = [])))"
proof
  show "length sched \<le> total_steps progs" using exec_work [OF assms(2)] by (simp add: start_work)
  obtain hist where "linearized epoch progs y hist" using exec_start_linearized [OF assms] by blast
  then show "(\<exists>i z. turn i y = Some z) \<or>
     (sy_mutex y = None \<and> (\<forall>t \<in> set (sy_threads y). th_code t = [] \<and> th_calls t = []))"
    using turn_possible work_left_0 by blast
qed

theorem threads_finish_witness: "49 \<le> total_steps small_progs \<and> (\<exists>i z. turn i small_system = Some z)"
proof -
  have "length small_schedule = 49" by (simp add: small_schedule_def)
  moreover have "sy_threads small_system ! 0 \<in> set (sy_threads small_system)"
    by (rule nth_mem) (simp add: small_system_simps)
  moreover have "th_code (sy_threads small_system ! 0) \<noteq> []"
    by (simp add: small_system_simps del: code_of.simps)
  ultimately show ?thesis using threads_finish [OF small_calls_ok small_run] by metis
qed

end
