(* ===== verification/Sockets.thy ===== *)
theory Sockets
  imports Prelude
begin

text \<open>
  The life of the sockets behind \<open>TcpConn\<close> (\<open>src/transport.cpp\<close>): connecting, listening, accepting,
  closing, moving and destroying. A connection object owns the handle it holds, and a moved-from or
  closed object holds none (the null pointer, handle 0). The operating system is modelled by the
  handles that are open; what a call into it answers is an argument. What the code relies on is that
  a handle it is given is not one that is open already. Handle 0 is a handle like any other to the
  system, but to the code it means that there is no socket.
\<close>

section \<open>The operating system's side\<close>

type_synonym socket = u64

definition INVALID_SOCKET :: socket where "INVALID_SOCKET = - 1"

record Os =
  os_open :: "socket list"
  os_bad_closes :: nat

definition open_handle :: "socket \<Rightarrow> Os \<Rightarrow> Os" where
  "open_handle h os = os\<lparr>os_open := h # os_open os\<rparr>"

definition closesocket :: "socket \<Rightarrow> Os \<Rightarrow> Os" where
  "closesocket h os =
     (if h \<in> set (os_open os) then os\<lparr>os_open := remove1 h (os_open os)\<rparr>
      else os\<lparr>os_bad_closes := os_bad_closes os + 1\<rparr>)"

section \<open>Connection objects\<close>

record Tcp =
  tcp_socket :: socket
  tcp_listener :: bool



text \<open>What the calls of \<open>connect_to\<close> and \<open>listen_on\<close> answer; \<open>an_bind\<close> and \<open>an_listen\<close> are of the latter.\<close>

record answers =
  an_winsock :: bool
  an_socket :: socket
  an_connect :: bool
  an_bind :: bool
  an_listen :: bool
  an_port :: u16

definition connect_to :: "answers \<Rightarrow> Tcp \<Rightarrow> Os \<Rightarrow> bool \<times> Tcp \<times> Os" where
  "connect_to an c os =
     (if \<not> an_winsock an then (False, c, os)
      else if an_socket an = INVALID_SOCKET then (False, c, os)
      else
        let os = open_handle (an_socket an) os in
        if \<not> an_connect an then (False, c, closesocket (an_socket an) os)
        else (True, \<lparr>tcp_socket = an_socket an, tcp_listener = False\<rparr>, os))"

text \<open>\<open>WorkerClient::connect\<close> connects to the loopback address, whatever the client's connection held.\<close>

definition client_connect :: "answers \<Rightarrow> Tcp \<Rightarrow> Os \<Rightarrow> bool \<times> Tcp \<times> Os" where
  "client_connect an conn os = connect_to an conn os"





section \<open>Programs over connection objects\<close>


definition new_handle :: "socket \<Rightarrow> Os \<Rightarrow> bool" where
  "new_handle h os \<longleftrightarrow> h = INVALID_SOCKET \<or> h \<notin> set (os_open os)"



section \<open>Ownership\<close>

text \<open>
  Every handle held is open and held once, every open handle but 0 is held, and no bad close has
  happened. An object whose socket is 0 holds nothing, also when the system handed out handle 0.
\<close>

definition holds :: "(nat \<rightharpoonup> Tcp) \<Rightarrow> nat \<Rightarrow> socket \<Rightarrow> bool" where
  "holds m i h \<longleftrightarrow> (case m i of None \<Rightarrow> False | Some c \<Rightarrow> tcp_socket c = h) \<and> h \<noteq> 0"

definition owned :: "(nat \<rightharpoonup> Tcp) \<Rightarrow> Os \<Rightarrow> bool" where
  "owned m os \<longleftrightarrow> os_bad_closes os = 0 \<and> distinct (os_open os) \<and> INVALID_SOCKET \<notin> set (os_open os) \<and>
     (\<forall>h. h \<noteq> 0 \<longrightarrow> (h \<in> set (os_open os) \<longleftrightarrow> (\<exists>i. holds m i h))) \<and>
     (\<forall>i j h. holds m i h \<longrightarrow> holds m j h \<longrightarrow> i = j)"

lemma holds_upd: "holds (m(i := x)) j h \<longleftrightarrow>
    (if j = i then (case x of None \<Rightarrow> False | Some c \<Rightarrow> tcp_socket c = h) \<and> h \<noteq> 0 else holds m j h)"
  by (auto simp: holds_def)


lemma ownedD:
  assumes "owned m os"
  shows "m i = Some c \<Longrightarrow> tcp_socket c \<noteq> 0 \<Longrightarrow> tcp_socket c \<in> set (os_open os) \<and> tcp_socket c \<noteq> INVALID_SOCKET"
    and "holds m i h \<Longrightarrow> holds m j h \<Longrightarrow> i = j" and "holds m i h \<Longrightarrow> h \<in> set (os_open os)"
proof -
  show "m i = Some c \<Longrightarrow> tcp_socket c \<noteq> 0 \<Longrightarrow> tcp_socket c \<in> set (os_open os) \<and> tcp_socket c \<noteq> INVALID_SOCKET"
  proof -
    assume "m i = Some c" "tcp_socket c \<noteq> 0"
    then have "holds m i (tcp_socket c)" by (simp add: holds_def)
    with assms show ?thesis unfolding owned_def by (metis holds_def)
  qed
  show "holds m i h \<Longrightarrow> h \<in> set (os_open os)" using assms unfolding owned_def by (metis holds_def)
qed (use assms in \<open>unfold owned_def, blast\<close>)




section \<open>The operations keep the ownership\<close>

lemma close_after_open [simp]: "closesocket h (open_handle h os) = os"
  by (simp add: closesocket_def open_handle_def)






section \<open>Guarantees\<close>

text \<open>
  An object that still holds a socket loses it when it connects again: the handle stays open and no
  object holds it. \<open>client_connect\<close> does this when it is called twice.
\<close>

lemma reconnect_leaks:
  assumes "owned m os" and "m i = Some c" and "tcp_socket c \<noteq> 0" and "new_handle (an_socket an) os"
    and "client_connect an c os = (True, c', os')"
  shows "tcp_socket c \<in> set (os_open os')" and "\<not> holds (m(i \<mapsto> c')) j (tcp_socket c)"
proof -
  have held: "holds m i (tcp_socket c)" using assms(2,3) by (simp add: holds_def)
  have c': "tcp_socket c' = an_socket an" "os' = open_handle (an_socket an) os" "an_socket an \<noteq> INVALID_SOCKET"
    using assms(5) by (auto simp: client_connect_def connect_to_def Let_def split: if_splits)
  show "tcp_socket c \<in> set (os_open os')" using ownedD(3) [OF assms(1) held] c' by (simp add: open_handle_def)
  have "an_socket an \<noteq> tcp_socket c" using ownedD(3) [OF assms(1) held] assms(4) c'(3) by (auto simp: new_handle_def)
  with c'(1) ownedD(2) [OF assms(1) held, of j] show "\<not> holds (m(i \<mapsto> c')) j (tcp_socket c)"
    by (auto simp: holds_upd)
qed








end
