(* ===== verification/Process.thy ===== *)
theory Process
  imports Sockets
begin

text \<open>
  Process control (\<open>src/proc.cpp\<close>): the command line a process is started with and the handles a start
  and a termination leave open. What the operating system answers is an argument, as in \<open>Sockets\<close>.
\<close>

section \<open>The command line\<close>

definition quote_char :: char where "quote_char = CHR 0x22"

definition in_quotes :: "string \<Rightarrow> string" where
  "in_quotes s = [quote_char] @ s @ [quote_char]"

definition command_line :: "string \<Rightarrow> string list \<Rightarrow> string" where
  "command_line exe args = foldl (\<lambda>cmd a. cmd @ '' '' @ in_quotes a) (in_quotes exe) args"

section \<open>Processes\<close>

record ProcHandle =
  ph_pid :: u64
  ph_handle :: socket

definition default_ProcHandle :: ProcHandle where
  "default_ProcHandle = \<lparr>ph_pid = 0, ph_handle = 0\<rparr>"

definition proc_valid :: "ProcHandle \<Rightarrow> bool" where
  "proc_valid p \<longleftrightarrow> ph_pid p \<noteq> 0 \<and> ph_handle p \<noteq> 0"

text \<open>Handles of processes and threads are opened and closed like those of sockets.\<close>

definition CloseHandle :: "socket \<Rightarrow> Os \<Rightarrow> Os" where
  "CloseHandle h os = closesocket h os"

text \<open>
  \<open>CreateProcessA\<close> answers a command line with nothing or with a process identity and the handles of
  the process and its first thread, which it has opened.
\<close>

type_synonym create_process = "string \<Rightarrow> (u32 \<times> socket \<times> socket) option"

definition spawn_process :: "create_process \<Rightarrow> string \<Rightarrow> string list \<Rightarrow> Os \<Rightarrow> ProcHandle \<times> Os" where
  "spawn_process create exe args os =
     (case create (command_line exe args) of
        None \<Rightarrow> (default_ProcHandle, os)
      | Some (pid, hProcess, hThread) \<Rightarrow>
          let os = open_handle hThread (if hProcess = 0 then os else open_handle hProcess os) in
          if hProcess = 0 then (default_ProcHandle, os)
          else (\<lparr>ph_pid = ucast pid, ph_handle = hProcess\<rparr>, CloseHandle hThread os))"

text \<open>\<open>terminated\<close> is what \<open>TerminateProcess\<close> returns; the wait that follows changes nothing here.\<close>

definition terminate_process :: "bool \<Rightarrow> ProcHandle \<Rightarrow> Os \<Rightarrow> bool \<times> Os" where
  "terminate_process terminated p os =
     (if ph_handle p = 0 then (False, os) else (terminated, CloseHandle (ph_handle p) os))"

section \<open>What they give\<close>

lemma command_line_Cons: "command_line exe args = in_quotes exe @ concat (map (\<lambda>a. '' '' @ in_quotes a) args)"
proof -
  have "foldl (\<lambda>cmd a. cmd @ '' '' @ in_quotes a) acc args = acc @ concat (map (\<lambda>a. '' '' @ in_quotes a) args)" for acc
    by (induction args arbitrary: acc) simp_all
  then show ?thesis by (simp add: command_line_def)
qed

lemma in_quotes_eq:
  assumes "in_quotes x @ r = in_quotes y @ r'" and "quote_char \<notin> set x" and "quote_char \<notin> set y"
  shows "x = y \<and> r = r'"
proof -
  have eq: "x @ quote_char # r = y @ quote_char # r'" using assms(1) by (simp add: in_quotes_def)
  have "takeWhile (\<lambda>c. c \<noteq> quote_char) (x @ quote_char # r) = x" "takeWhile (\<lambda>c. c \<noteq> quote_char) (y @ quote_char # r') = y"
    using assms(2,3) by (auto intro: takeWhile_append2 [THEN trans])
  with eq show ?thesis by auto
qed

text \<open>
  Arguments without quotes are kept apart: the command line determines the program and its arguments.
  With quotes they are not, since \<open>spawn_process\<close> does not escape them.
\<close>

lemma command_line_unambiguous:
  assumes "command_line exe args = command_line exe' args'"
    and "quote_char \<notin> set exe" "quote_char \<notin> set exe'" and "list_all (\<lambda>a. quote_char \<notin> set a) args" "list_all (\<lambda>a. quote_char \<notin> set a) args'"
  shows "exe = exe' \<and> args = args'"
proof -
  have args: "concat (map (\<lambda>a. '' '' @ in_quotes a) args) = concat (map (\<lambda>a. '' '' @ in_quotes a) args') \<Longrightarrow> args = args'"
    using assms(4,5)
  proof (induction args arbitrary: args')
    case Nil
    then show ?case by (cases args') simp_all
  next
    case (Cons a args)
    from Cons.prems obtain b bs where b: "args' = b # bs" by (cases args') auto
    with Cons.prems in_quotes_eq [of a "concat (map (\<lambda>a. '' '' @ in_quotes a) args)" b] Cons.IH [of bs] show ?case by auto
  qed
  from in_quotes_eq [OF _ assms(2,3)] assms(1) show ?thesis
    unfolding command_line_Cons using args by blast
qed

lemma command_line_quotes_ambiguous:
  "command_line exe [''a'' @ [quote_char] @ '' '' @ [quote_char] @ ''b''] = command_line exe [''a'', ''b'']"
  by (simp add: command_line_def in_quotes_def)

text \<open>A process that is started and terminated leaves the handles as they were; a second termination closes a handle that is not open.\<close>

lemma spawn_terminate:
  assumes "create (command_line exe args) = Some (pid, h, t)" and "h \<noteq> 0" and "h \<noteq> t" and "h \<notin> set (os_open os)"
    and "spawn_process create exe args os = (p, os')"
  shows "snd (terminate_process terminated p os') = os"
    and "os_bad_closes (snd (terminate_process terminated' p (snd (terminate_process terminated p os')))) = os_bad_closes os + 1"
  using assms by (auto simp: spawn_process_def terminate_process_def CloseHandle_def closesocket_def open_handle_def Let_def)

end
