(* ===== verification/Wire.thy ===== *)
theory Wire
  imports Session
begin

text \<open>
  A client's connection to the server (\<open>src/coordinator_server.cpp\<close>) as a system of its two ends: the
  bytes under way in both directions, and the server's thread, which is blocked in \<open>recv_frame\<close> until
  a whole frame has arrived, handles it and sends its answer with the same transport code. Both ends
  see the bytes in pieces of any size. The system is shown to be a link: what the client relies on
  when it sends a frame and waits.
\<close>

section \<open>What a client relies on\<close>

text \<open>The event a frame causes on connection \<open>cid\<close>: the first is the handshake.\<close>

definition link_event :: "nat \<Rightarrow> Frame \<Rightarrow> Server \<Rightarrow> server_event" where
  "link_event cid f sv = (if map_of (sv_conns sv) cid = None then Accept cid f else Receive cid f True)"

text \<open>
  The receiving side is a stream, receiving does not act on the server, and a frame that is sent while
  nothing is under way reaches the server, which handles it and puts its reply on the stream.
\<close>

definition linked ::
    "'s sender \<Rightarrow> 's receiver \<Rightarrow> ('s \<Rightarrow> Server) \<Rightarrow> ('s \<Rightarrow> bytes) \<Rightarrow> ('s \<Rightarrow> bool) \<Rightarrow> nat \<Rightarrow> bool" where
  "linked send recv srv pending calm cid \<longleftrightarrow> delivers recv pending \<and>
     (\<forall>m l. srv (snd (recv m l)) = srv l \<and> calm (snd (recv m l)) = calm l) \<and>
     (\<forall>f l. length (fr_payload f) \<le> 2 ^ 20 \<and> calm l \<longrightarrow>
        (\<exists>l'. send_all send (encode_frame f) 0 l = (True, l') \<and> calm l' \<and>
           srv l' = snd (server_step (link_event cid f (srv l)) (srv l)) \<and>
           pending l' = pending l @ (case fst (server_step (link_event cid f (srv l)) (srv l)) of
             None \<Rightarrow> [] | Some rep \<Rightarrow> encode_frame rep)))"

lemma recv_all_keeps:
  assumes "\<And>m l. P (snd (recv m l)) = P l"
  shows "P (snd (recv_all recv n got l)) = P l"
  using assms
proof (induction recv n got l rule: recv_all.induct)
  case (1 recv n got l)
  obtain d l' where r: "recv (n - length got) l = (d, l')" by fastforce
  have "P l' = P l" using 1(2) [of "n - length got" l] r by simp
  with 1(1) [OF _ r [symmetric] refl] 1(2) r show ?case
    by (subst recv_all.simps) auto
qed

lemma recv_frame_keeps:
  assumes "\<And>m l. P (snd (recv m l)) = P l"
  shows "P (tc_socket (snd (recv_frame recv c))) = P (tc_socket c)"
    and "tc_invalid (snd (recv_frame recv c)) = tc_invalid c" and "tc_listener (snd (recv_frame recv c)) = tc_listener c"
proof -
  have keep: "P l' = P l" if "recv_all recv n got l = (x, l')" for n got l x l'
    using recv_all_keeps [of P recv n got l, OF assms] that by simp
  show "P (tc_socket (snd (recv_frame recv c))) = P (tc_socket c)"
    by (auto simp: recv_frame_def Let_def split: prod.splits option.splits dest!: keep)
qed (simp_all add: recv_frame_def Let_def split: prod.splits option.splits)

section \<open>The two ends\<close>

record wire =
  wi_server :: Server
  wi_in :: bytes
  wi_out :: bytes

text \<open>How many bytes each socket call moves, given the bytes there are; it is cut to what is possible.\<close>

record cuts =
  cut_send :: "bytes \<Rightarrow> nat"
  cut_recv :: "bytes \<Rightarrow> nat"
  cut_server_send :: "bytes \<Rightarrow> nat"
  cut_server_recv :: "bytes \<Rightarrow> nat"

definition piece :: "(bytes \<Rightarrow> nat) \<Rightarrow> nat \<Rightarrow> bytes \<Rightarrow> nat" where
  "piece lim m bs = max 1 (min (lim bs) (min m (length bs)))"

definition take_piece :: "(bytes \<Rightarrow> nat) \<Rightarrow> bytes receiver" where
  "take_piece lim m bs = (take (piece lim m bs) bs, drop (piece lim m bs) bs)"

definition put_piece :: "(bytes \<Rightarrow> nat) \<Rightarrow> bytes sender" where
  "put_piece lim bs s =
     (if bs = [] then (0, s) else (piece lim (length bs) bs, s @ take (piece lim (length bs) bs) bs))"

definition connected :: "'s \<Rightarrow> 's TcpConn" where
  "connected l = \<lparr>tc_socket = l, tc_invalid = False, tc_listener = False\<rparr>"

text \<open>
  Whether the bytes that have arrived make up a frame, by the length in its header: with a header that is
  in order, \<open>recv_frame\<close> returns then and not before.
\<close>

definition arrived :: "bytes \<Rightarrow> bool" where
  "arrived bs \<longleftrightarrow> 16 \<le> length bs \<and> 16 + unat (le_word (take 4 (drop 8 bs)) :: u32) \<le> length bs"

text \<open>
  The server on connection \<open>cid\<close>: one frame received, handled and answered, the handshake by the loop
  that accepts connections, every later frame by the connection's own thread.
\<close>

definition server_turn :: "cuts \<Rightarrow> nat \<Rightarrow> wire \<Rightarrow> wire" where
  "server_turn cs cid l =
     (let (rf, conn) = recv_frame (take_piece (cut_server_recv cs)) (connected (wi_in l)); sv = wi_server l in
      case rf of
        Inl e \<Rightarrow> l\<lparr>wi_server := snd (server_step (Closed cid) sv), wi_in := tc_socket conn\<rparr>
      | Inr f \<Rightarrow>
          let (rep, sv') = server_step (link_event cid f sv) sv;
              out = (case rep of
                  None \<Rightarrow> wi_out l
                | Some r \<Rightarrow> tc_socket (snd (send_frame (put_piece (cut_server_send cs)) r (connected (wi_out l)))))
          in l\<lparr>wi_server := sv', wi_in := tc_socket conn, wi_out := out\<rparr>)"

text \<open>The client's socket calls.\<close>

definition wire_send :: "cuts \<Rightarrow> nat \<Rightarrow> wire sender" where
  "wire_send cs cid bs l =
     (let (n, input) = put_piece (cut_send cs) bs (wi_in l); l' = l\<lparr>wi_in := input\<rparr>
      in (n, if arrived input then server_turn cs cid l' else l'))"

definition wire_recv :: "cuts \<Rightarrow> wire receiver" where
  "wire_recv cs m l = (let (bs, out) = take_piece (cut_recv cs) m (wi_out l) in (bs, l\<lparr>wi_out := out\<rparr>))"

definition wire_calm :: "wire \<Rightarrow> bool" where
  "wire_calm l \<longleftrightarrow> wi_in l = []"

lemma piece_bounds: "0 < m \<Longrightarrow> bs \<noteq> [] \<Longrightarrow> 1 \<le> piece lim m bs \<and> piece lim m bs \<le> m \<and> piece lim m bs \<le> length bs"
  by (cases bs) (auto simp: piece_def)

lemma take_piece_delivers: "delivers (take_piece lim) (\<lambda>bs. bs)"
  unfolding delivers_def
proof (intro allI impI)
  fix m :: nat and s d s' :: bytes
  assume "0 < m" "take_piece lim m s = (d, s')"
  then show "s = d @ s' \<and> length d \<le> m \<and> (s \<noteq> [] \<longrightarrow> d \<noteq> [])"
    using piece_bounds [of m s lim] by (cases "s = []") (auto simp: take_piece_def)
qed

lemma put_piece_takes: "takes (put_piece lim) (\<lambda>s. s)"
  unfolding takes_def put_piece_def using piece_bounds by (auto split: if_splits)

text \<open>A sender that takes at least one byte of what it is given takes everything in the end.\<close>

lemma send_all_total:
  assumes "\<And>bs s. bs \<noteq> [] \<Longrightarrow> 0 < fst (send bs s)"
  shows "fst (send_all send wire n s)"
  using assms
proof (induction send wire n s rule: send_all.induct)
  case (1 send wire n s)
  show ?case
  proof (cases "n < length wire")
    case True
    obtain r s1 where r: "send (drop n wire) s = (r, s1)" by fastforce
    then have "r \<noteq> 0" using 1(2) [of "drop n wire" s] True by simp
    with 1(1) [OF True r [symmetric] refl] 1(2) True r show ?thesis by (subst send_all.simps) simp
  qed (subst send_all.simps, simp)
qed

lemma send_pieces: "send_frame (put_piece lim) r (connected out) = (True, connected (out @ encode_frame r))"
proof -
  have "fst (send_all (put_piece lim) (encode_frame r) 0 out)"
  proof (rule send_all_total)
    show "0 < fst (put_piece lim bs s)" if "bs \<noteq> []" for bs s
      using piece_bounds [of "length bs" bs lim] that by (simp add: put_piece_def)
  qed
  then obtain s where s: "send_all (put_piece lim) (encode_frame r) 0 out = (True, s)" by (metis prod.collapse)
  with send_all_sent [OF put_piece_takes this] show ?thesis
    by (simp add: send_frame_def connected_def)
qed

text \<open>The server's turn on a frame that has arrived, alone or with more behind it.\<close>

lemma server_turn_frame:
  assumes "wi_in l = encode_frame f" and "length (fr_payload f) \<le> 2 ^ 20"
    and "server_step (link_event cid f (wi_server l)) (wi_server l) = (rep, sv)"
  shows "server_turn cs cid l = \<lparr>wi_server = sv, wi_in = [],
    wi_out = wi_out l @ (case rep of None \<Rightarrow> [] | Some r \<Rightarrow> encode_frame r)\<rparr>"
proof -
  obtain conn where "recv_frame (take_piece (cut_server_recv cs)) (connected (wi_in l)) = (Inr f, conn)" "tc_socket conn = []"
    using recv_frame_encoded [OF take_piece_delivers, of "connected (wi_in l)" f "[]" "cut_server_recv cs"] assms(1,2)
    by (auto simp: connected_def)
  with assms(3) show ?thesis
    by (cases rep) (simp_all add: server_turn_def send_pieces, simp_all add: connected_def)
qed

text \<open>A frame has arrived when all of it has.\<close>

lemma arrived_prefix:
  assumes "length (fr_payload f) \<le> 2 ^ 20" and "n \<le> length (encode_frame f)"
  shows "arrived (take n (encode_frame f)) \<longleftrightarrow> n = length (encode_frame f)"
proof (cases "16 \<le> n")
  case True
  then have "take 4 (drop 8 (take n (encode_frame f))) = take 4 (drop 8 (encode_frame f))"
    by (simp add: drop_take min_def)
  with True assms(2) wire_header(1,4) [OF assms(1)] show ?thesis by (auto simp: arrived_def)
next
  case False
  with assms(2) wire_header(1) [OF assms(1)] show ?thesis by (auto simp: arrived_def)
qed

lemma wire_send_all:
  assumes small: "length (fr_payload f) \<le> 2 ^ 20"
    and "server_step (link_event cid f (wi_server l)) (wi_server l) = (rep, sv)"
    and "wi_in l = take n (encode_frame f)" and "n < length (encode_frame f)"
  shows "send_all (wire_send cs cid) (encode_frame f) n l = (True, \<lparr>wi_server = sv, wi_in = [],
    wi_out = wi_out l @ (case rep of None \<Rightarrow> [] | Some r \<Rightarrow> encode_frame r)\<rparr>)"
  using assms(2-4)
proof (induction "length (encode_frame f) - n" arbitrary: n l rule: less_induct)
  case less
  let ?w = "encode_frame f"
  define k where "k = piece (cut_send cs) (length ?w - n) (drop n ?w)"
  have k: "1 \<le> k" "k \<le> length ?w - n"
    using piece_bounds [of "length ?w - n" "drop n ?w" "cut_send cs"] less.prems(3) by (simp_all add: k_def)
  have input: "take n ?w @ take k (drop n ?w) = take (n + k) ?w" by (simp add: take_add)
  let ?l = "l\<lparr>wi_in := take (n + k) ?w\<rparr>"
  have arr: "arrived (take (n + k) ?w) \<longleftrightarrow> n + k = length ?w"
    by (rule arrived_prefix [OF small]) (use k less.prems(3) in simp)
  have snd_k: "wire_send cs cid (drop n ?w) l = (k, if n + k = length ?w then server_turn cs cid ?l else ?l)"
    using less.prems(2,3) by (simp add: wire_send_def put_piece_def k_def [symmetric] input arr)
  show ?case
  proof (cases "n + k = length ?w")
    case True
    have "send_all (wire_send cs cid) ?w n l = send_all (wire_send cs cid) ?w (n + k) (server_turn cs cid ?l)"
      using less.prems(3) snd_k True k by (subst send_all.simps) simp
    also have "\<dots> = (True, server_turn cs cid ?l)" using True by (subst send_all.simps) simp
    finally show ?thesis using server_turn_frame [of ?l f cid rep sv cs] True small less.prems(1) by simp
  next
    case False
    have "send_all (wire_send cs cid) ?w n l = send_all (wire_send cs cid) ?w (n + k) ?l"
      using less.prems(3) snd_k False k by (subst send_all.simps) simp
    also have "\<dots> = (True, \<lparr>wi_server = sv, wi_in = [], wi_out = wi_out ?l @ (case rep of None \<Rightarrow> [] | Some r \<Rightarrow> encode_frame r)\<rparr>)"
      by (rule less.hyps) (use k False less.prems in auto)
    finally show ?thesis by simp
  qed
qed

text \<open>The system is a link, however the bytes are cut up in both directions.\<close>

lemma wire_linked: "linked (wire_send cs cid) (wire_recv cs) wi_server wi_out wire_calm cid"
  unfolding linked_def
proof (intro conjI allI impI)
  show "delivers (wire_recv cs) wi_out"
    unfolding delivers_def
  proof (intro allI impI)
    fix m l d l'
    assume m: "0 < m" and "wire_recv cs m l = (d, l')"
    then have "take_piece (cut_recv cs) m (wi_out l) = (d, wi_out l')"
      by (auto simp: wire_recv_def split: prod.splits)
    from deliversD [OF take_piece_delivers m this]
    show "wi_out l = d @ wi_out l' \<and> length d \<le> m \<and> (wi_out l \<noteq> [] \<longrightarrow> d \<noteq> [])" .
  qed
  show "wi_server (snd (wire_recv cs m l)) = wi_server l" "wire_calm (snd (wire_recv cs m l)) = wire_calm l" for m l
    by (simp_all add: wire_recv_def wire_calm_def case_prod_unfold Let_def)
  fix f :: Frame and l
  assume a: "length (fr_payload f) \<le> 2 ^ 20 \<and> wire_calm l"
  obtain rep sv where s: "server_step (link_event cid f (wi_server l)) (wi_server l) = (rep, sv)" by (metis surj_pair)
  have "0 < length (encode_frame f)" using wire_header(1) a by simp
  with wire_send_all [of f cid l rep sv 0 cs] a s
  show "\<exists>l'. send_all (wire_send cs cid) (encode_frame f) 0 l = (True, l') \<and> wire_calm l' \<and>
      wi_server l' = snd (server_step (link_event cid f (wi_server l)) (wi_server l)) \<and>
      wi_out l' = wi_out l @ (case fst (server_step (link_event cid f (wi_server l)) (wi_server l)) of
        None \<Rightarrow> [] | Some rep \<Rightarrow> encode_frame rep)"
    by (simp add: wire_calm_def)
qed

end
