(* ===== verification/Worker.thy ===== *)
theory Worker
  imports Wire Inspect Server_Guarantees
begin

text \<open>
  The worker tool (\<open>tools/worker_main.cpp\<close>): a process that connects to the coordinator server,
  introduces itself and publishes a device, an endpoint, two capabilities, a buffer and its
  registration, and then stays up until it is killed. Its run is related to the coordinator's
  operations through every layer in between: the client's frames, the sockets that carry them, and
  the server that reads them.
\<close>

section \<open>The tool\<close>

text \<open>
  \<open>std::atoi\<close>, for numbers that fit an \<open>int\<close> (its behaviour for others is undefined), and the cast to
  an \<open>unsigned short\<close>.
\<close>

definition atoi :: "string \<Rightarrow> int" where
  "atoi s =
     (let s = dropWhile (\<lambda>c. (of_char c :: nat) \<in> {9, 10, 11, 12, 13, 32}) s;
          neg = (s \<noteq> [] \<and> hd s = CHR ''-'');
          s = (if s \<noteq> [] \<and> (hd s = CHR ''-'' \<or> hd s = CHR ''+'') then tl s else s)
      in if neg then - int (digits_value s) else int (digits_value s))"

text \<open>The port \<open>coordinator_main.cpp\<close> serves on: its argument, or any free port.\<close>

definition coordinator_port :: "string list \<Rightarrow> u16" where
  "coordinator_port argv = (if 2 \<le> length argv then word_of_int (atoi (argv ! 1)) else 0)"

text \<open>\<open>if (!call) return code;\<close>, with the rest of \<open>main\<close> as the continuation; no code is a run that stays up.\<close>

definition or_exit :: "nat \<Rightarrow> 'a option \<times> 'c \<Rightarrow> ('a \<Rightarrow> 'c \<Rightarrow> nat option \<times> 'c) \<Rightarrow> nat option \<times> 'c" where
  "or_exit code r k = (case r of (None, c) \<Rightarrow> (Some code, c) | (Some v, c) \<Rightarrow> k v c)"

definition okay :: "bool \<times> 'c \<Rightarrow> unit option \<times> 'c" where
  "okay r = (if fst r then Some () else None, snd r)"

definition worker_session :: "'s sender \<Rightarrow> 's receiver \<Rightarrow> u64 \<Rightarrow> u64 \<Rightarrow> 's WorkerClient \<Rightarrow>
    nat option \<times> 's WorkerClient" where
  "worker_session send recv worker boot c =
     or_exit 4 (okay (client_hello send recv worker boot 1 c)) (\<lambda>_ c.
     or_exit 5 (client_publish_device send recv ''worker-gpu'' ''12.0'' False Support.SYNTHETIC
       Provenance.SYNTHETIC_FIXTURE c) (\<lambda>dev c.
     or_exit 6 (client_publish_endpoint send recv EndpointClass.NIC ''worker-nic'' ''pci'' True Support.SYNTHETIC
       Provenance.SYNTHETIC_FIXTURE c) (\<lambda>nic c.
     or_exit 7 (okay (client_publish_capability send recv ''rdma'' ''direct_nic'' ''true'' Support.SYNTHETIC
       Provenance.SYNTHETIC_FIXTURE c)) (\<lambda>_ c.
     or_exit 8 (okay (client_publish_capability send recv ''synthetic'' ''host_staging'' ''true'' Support.SYNTHETIC
       Provenance.SYNTHETIC_FIXTURE c)) (\<lambda>_ c.
     or_exit 9 (client_create_buffer send recv MemoryDomain.CUDA_DEVICE (1024 * 1024) 64 dev Support.SYNTHETIC
       Provenance.SYNTHETIC_FIXTURE c) (\<lambda>buf c.
     or_exit 10 (client_register_buffer send recv buf nic Support.SYNTHETIC Provenance.SYNTHETIC_FIXTURE c) (\<lambda>reg c.
     or_exit 11 (okay (client_ready send recv c)) (\<lambda>_ c. (None, c)))))))))"

text \<open>
  The whole of \<open>main\<close>: what it prints, the exit code if it returns, and the client. \<open>connect\<close> stands for
  \<open>WorkerClient::connect\<close>, the opening of a TCP connection.
\<close>

definition worker_main :: "(u16 \<Rightarrow> 's WorkerClient \<Rightarrow> bool \<times> 's WorkerClient) \<Rightarrow> 's sender \<Rightarrow> 's receiver \<Rightarrow>
    string list \<Rightarrow> 's WorkerClient \<Rightarrow> string \<times> nat option \<times> 's WorkerClient" where
  "worker_main connect send recv argv client =
     (if length argv < 4 then (''missing args'' @ newline, Some 2, client)
      else
        let port = (word_of_int (atoi (argv ! 1)) :: u16);
            worker = strtoull (argv ! 2); boot = strtoull (argv ! 3);
            (up, client) = connect port client
        in if \<not> up then (''connect-fail'' @ newline, Some 3, client)
           else case worker_session send recv worker boot client of
             (Some code, client) \<Rightarrow> (if code = 4 then ''hello-fail'' @ newline else [], Some code, client)
           | (None, client) \<Rightarrow> (''WORKER_UP'' @ newline, None, client))"

section \<open>The coordinator's side of a worker's run\<close>

definition worker_device :: "Authority \<Rightarrow> DeviceAddParams" where
  "worker_device auth = \<lparr>dap_name = ''worker-gpu'', dap_compute_capability = ''12.0'', dap_peer_memory_supported = False,
     dap_support = Support.SYNTHETIC, dap_provenance = Provenance.SYNTHETIC_FIXTURE, dap_authority = auth\<rparr>"

definition worker_endpoint :: "Authority \<Rightarrow> EndpointAddParams" where
  "worker_endpoint auth = \<lparr>eap_endpoint_class = EndpointClass.NIC, eap_name = ''worker-nic'', eap_topology_hint = ''pci'',
     eap_healthy = True, eap_provider = Id 0, eap_support = Support.SYNTHETIC,
     eap_provenance = Provenance.SYNTHETIC_FIXTURE, eap_authority = auth\<rparr>"

definition worker_capability :: "string \<Rightarrow> string \<Rightarrow> Authority \<Rightarrow> CapabilityPublishParams" where
  "worker_capability provider cap auth = \<lparr>cpp_provider = provider, cpp_capability = cap, cpp_value = ''true'',
     cpp_support = Support.SYNTHETIC, cpp_provenance = Provenance.SYNTHETIC_FIXTURE, cpp_authority = auth\<rparr>"

definition worker_buffer :: "DeviceId \<Rightarrow> Authority \<Rightarrow> CreateBufferParams" where
  "worker_buffer dev auth = \<lparr>cbp_domain = MemoryDomain.CUDA_DEVICE, cbp_size = 1024 * 1024, cbp_alignment = 64,
     cbp_device = dev, cbp_locality = Locality.LOCAL, cbp_support = Support.SYNTHETIC,
     cbp_provenance = Provenance.SYNTHETIC_FIXTURE, cbp_authority = auth, cbp_name = ''worker_buffer''\<rparr>"

definition worker_registration :: "BufferId \<Rightarrow> EndpointId \<Rightarrow> Authority \<Rightarrow> RegisterParams" where
  "worker_registration buf nic auth = \<lparr>rp_buffer = buf, rp_endpoint = nic, rp_provider = Id 0, rp_authority = auth,
     rp_support = Support.SYNTHETIC, rp_provenance = Provenance.SYNTHETIC_FIXTURE, rp_required_capabilities = []\<rparr>"

definition done_or_none :: "'a Result \<times> State \<Rightarrow> 'a option \<times> State" where
  "done_or_none r = (case fst r of Inl e \<Rightarrow> None | Inr v \<Rightarrow> Some v, snd r)"

text \<open>The operations the tool asks for, in its order, with the exit code of the first that fails.\<close>

definition worker_script :: "u64 \<Rightarrow> u64 \<Rightarrow> State \<Rightarrow> nat option \<times> State" where
  "worker_script worker boot s =
     (let auth = session_authority worker boot 1 in
     or_exit 4 (done_or_none (register_worker (Id worker) (Generation boot) (Generation 1) s)) (\<lambda>_ s.
     or_exit 5 (done_or_none (add_device (worker_device auth) s)) (\<lambda>d s.
     or_exit 6 (done_or_none (add_endpoint (worker_endpoint auth) s)) (\<lambda>e s.
     or_exit 7 (done_or_none (publish_capability (worker_capability ''rdma'' ''direct_nic'' auth) s)) (\<lambda>_ s.
     or_exit 8 (done_or_none (publish_capability (worker_capability ''synthetic'' ''host_staging'' auth) s)) (\<lambda>_ s.
     or_exit 9 (done_or_none (create_buffer (worker_buffer (d_id d) auth) s)) (\<lambda>b s.
     or_exit 10 (done_or_none (let (res, s, _) = register_buffer (worker_registration (b_id b) (e_id e) auth) (None :: unit Backend_ptr) s
       in (res, s))) (\<lambda>_ s. (None, s)))))))))"

section \<open>Calls over a connection\<close>

locale server_link =
  fixes send :: "'s sender" and recv :: "'s receiver" and srv :: "'s \<Rightarrow> Server" and pending :: "'s \<Rightarrow> bytes"
    and calm :: "'s \<Rightarrow> bool" and cid :: nat and w b :: u64
  assumes link: "linked send recv srv pending calm cid"
begin

definition server_of :: "'s WorkerClient \<Rightarrow> Server" where
  "server_of c = srv (tc_socket (wc_conn c))"

definition usable :: "'s WorkerClient \<Rightarrow> bool" where
  "usable c \<longleftrightarrow> \<not> tc_invalid (wc_conn c) \<and> \<not> tc_listener (wc_conn c) \<and> pending (tc_socket (wc_conn c)) = [] \<and>
     calm (tc_socket (wc_conn c))"

text \<open>The client is connected and introduced, and the coordinator's state is \<open>s\<close>.\<close>

definition at :: "'s WorkerClient \<Rightarrow> State \<Rightarrow> bool" where
  "at c s \<longleftrightarrow> usable c \<and> sv_coord (server_of c) = s \<and> map_of (sv_conns (server_of c)) cid = Some (Worker_conn w b 1) \<and>
     wc_worker c = w \<and> wc_boot c = b \<and> wc_epoch c = 1"

lemma request_linked:
  assumes "usable c" and "length (fr_payload f) \<le> 2 ^ 20"
    and "server_step (link_event cid f (server_of c)) (server_of c) = (Some rep, sv)" and "ack_of rep res"
  shows "\<exists>conn. request send recv f c = (res, c\<lparr>wc_conn := conn\<rparr>) \<and> usable (c\<lparr>wc_conn := conn\<rparr>) \<and>
    server_of (c\<lparr>wc_conn := conn\<rparr>) = sv"
proof -
  from link assms(2) obtain l where l: "send_all send (encode_frame f) 0 (tc_socket (wc_conn c)) = (True, l)"
      "srv l = sv" "pending l = encode_frame rep" "calm l"
    using assms(1,3) unfolding linked_def server_of_def usable_def by fastforce
  let ?conn = "(wc_conn c)\<lparr>tc_socket := l\<rparr>"
  have del: "delivers recv pending" and keeps: "\<And>m l. srv (snd (recv m l)) = srv l" "\<And>m l. calm (snd (recv m l)) = calm l"
    using link by (auto simp: linked_def)
  have flags: "\<not> tc_invalid ?conn" "\<not> tc_listener ?conn" using assms(1) by (simp_all add: usable_def)
  have small: "length (fr_payload rep) \<le> 2 ^ 20" using assms(4) by (simp add: ack_of_def)
  obtain conn where conn: "recv_frame recv ?conn = (Inr rep, conn)" "pending (tc_socket conn) = []"
    using recv_frame_encoded [OF del flags, of rep "[]"] l(3) small by auto
  have kept: "srv (tc_socket conn) = sv" "\<not> tc_invalid conn" "\<not> tc_listener conn" "calm (tc_socket conn)"
    using recv_frame_keeps [of srv recv ?conn, OF keeps(1)] recv_frame_keeps(1) [of calm recv ?conn, OF keeps(2)]
      conn(1) flags l(2,4) by auto
  have sent: "send_frame send f (wc_conn c) = (True, ?conn)"
    using l(1) assms(1) by (simp add: send_frame_def usable_def)
  have "recv_ack recv (c\<lparr>wc_conn := ?conn\<rparr>) = (res, c\<lparr>wc_conn := conn\<rparr>)"
    using recv_ack_of_ack [of recv "c\<lparr>wc_conn := ?conn\<rparr>"] recv_ack_of_nack [of recv "c\<lparr>wc_conn := ?conn\<rparr>"]
      conn(1) assms(4) by (auto simp: ack_of_def split: option.splits)
  with sent have "request send recv f c = (res, c\<lparr>wc_conn := conn\<rparr>)" by (simp add: request_def)
  with kept conn(2) show ?thesis by (intro exI [of _ conn]) (simp add: usable_def server_of_def)
qed

text \<open>A call of an introduced client is the handling of its frame.\<close>

lemma request_handled:
  assumes "at c s" and "length (fr_payload f) \<le> 2 ^ 20"
    and "handle_worker_message f w b 1 s = (Some (reply res (\<lambda>v. send_ack (g v) (h v) 0)), s')" and "short_error res"
  shows "\<exists>c'. request send recv f c = (case res of Inl _ \<Rightarrow> None | Inr v \<Rightarrow> Some (g v, h v), c') \<and> at c' s'"
proof -
  have "link_event cid f (server_of c) = Receive cid f True" using assms(1) by (simp add: at_def link_event_def)
  then have "server_step (link_event cid f (server_of c)) (server_of c) =
      (Some (reply res (\<lambda>v. send_ack (g v) (h v) 0)), (server_of c)\<lparr>sv_coord := s'\<rparr>)"
    using assms(1,3) by (simp add: at_def)
  from request_linked [OF _ assms(2) this ack_of_reply [OF assms(4)]] assms(1)
  show ?thesis unfolding at_def by fastforce
qed

text \<open>Outcomes agree; and so do runs whose first calls agree and whose continuations agree.\<close>

definition agree :: "nat option \<times> 's WorkerClient \<Rightarrow> nat option \<times> State \<Rightarrow> bool" where
  "agree x y \<longleftrightarrow> fst x = fst y \<and> sv_coord (server_of (snd x)) = snd y"

definition call_agrees :: "('v \<Rightarrow> 'u) \<Rightarrow> 'u option \<times> 's WorkerClient \<Rightarrow> 'v option \<times> State \<Rightarrow> bool" where
  "call_agrees i x y \<longleftrightarrow> fst x = map_option i (fst y) \<and> at (snd x) (snd y)"

lemma agree_or_exit:
  assumes "call_agrees i x y" and "\<And>v c s. at c s \<Longrightarrow> agree (k (i v) c) (k' v s)"
  shows "agree (or_exit code x k) (or_exit code y k')"
  using assms by (cases x; cases y; cases "fst y")
    (auto simp: call_agrees_def or_exit_def agree_def at_def)

lemma call_agrees_handled:
  assumes "at c s" and "length (fr_payload f) \<le> 2 ^ 20"
    and "handle_worker_message f w b 1 s = (Some (reply res (\<lambda>v. send_ack (g v) (h v) 0)), s')" and "short_error res"
  shows "call_agrees g (request_id send recv f c) (done_or_none (res, s'))"
    and "call_agrees (\<lambda>_. ()) (okay (request_ok send recv f c)) (done_or_none (res, s'))"
  using request_handled [OF assms]
  by (auto simp: call_agrees_def request_id_def request_ok_def okay_def done_or_none_def split: sum.splits)

lemma enums_declared:
  "Support.SYNTHETIC \<in> set Support_values" "Provenance.SYNTHETIC_FIXTURE \<in> set Provenance_values"
  "EndpointClass.NIC \<in> set EndpointClass_values" "MemoryDomain.CUDA_DEVICE \<in> set MemoryDomain_values"
  by (simp_all add: Support_values_def Provenance_values_def EndpointClass_values_def MemoryDomain_values_def)

lemma handle_worker:
  assumes "at c s"
  shows "wc_worker c = w" "wc_boot c = b" "wc_epoch c = 1"
  using assms by (simp_all add: at_def)

lemma device_agrees:
  assumes "at c s"
  shows "call_agrees (\<lambda>d. id_value (d_id d)) (client_publish_device send recv ''worker-gpu'' ''12.0'' False Support.SYNTHETIC
    Provenance.SYNTHETIC_FIXTURE c) (done_or_none (add_device (worker_device (session_authority w b 1)) s))"
proof -
  note handle = handle_frames(1) [of c, unfolded handle_worker [OF assms], OF parse_device_frame]
  show ?thesis
    unfolding client_publish_device_def worker_device_def
    by (subst surjective_pairing [of "add_device _ s"], rule call_agrees_handled(1) [OF assms frame_lengths(1) handle])
       (simp_all add: enums_declared short_errors)
qed

lemma endpoint_agrees:
  assumes "at c s"
  shows "call_agrees (\<lambda>e. id_value (e_id e)) (client_publish_endpoint send recv EndpointClass.NIC ''worker-nic'' ''pci'' True
    Support.SYNTHETIC Provenance.SYNTHETIC_FIXTURE c) (done_or_none (add_endpoint (worker_endpoint (session_authority w b 1)) s))"
proof -
  note handle = handle_frames(2) [of c, unfolded handle_worker [OF assms], OF parse_endpoint_frame]
  show ?thesis
    unfolding client_publish_endpoint_def worker_endpoint_def
    by (subst surjective_pairing [of "add_endpoint _ s"], rule call_agrees_handled(1) [OF assms frame_lengths(2) handle])
       (simp_all add: enums_declared short_errors)
qed

lemma capability_agrees:
  assumes "at c s" and "length x + length y \<le> 900"
  shows "call_agrees (\<lambda>_. ()) (okay (client_publish_capability send recv x y ''true'' Support.SYNTHETIC
    Provenance.SYNTHETIC_FIXTURE c)) (done_or_none (publish_capability (worker_capability x y (session_authority w b 1)) s))"
proof -
  note handle = handle_frames(3) [of c, unfolded handle_worker [OF assms(1)], OF parse_capability_frame]
  show ?thesis
    unfolding client_publish_capability_def worker_capability_def
    by (subst surjective_pairing [of "publish_capability _ s"], rule call_agrees_handled(2) [OF assms(1) frame_lengths(3) handle])
       (use assms(2) in \<open>simp_all add: enums_declared short_errors\<close>)
qed

lemma buffer_agrees:
  assumes "at c s"
  shows "call_agrees (\<lambda>r. id_value (b_id r)) (client_create_buffer send recv MemoryDomain.CUDA_DEVICE (1024 * 1024) 64
    (id_value dev) Support.SYNTHETIC Provenance.SYNTHETIC_FIXTURE c)
    (done_or_none (create_buffer (worker_buffer dev (session_authority w b 1)) s))"
proof -
  note handle = handle_frames(4) [of c, unfolded handle_worker [OF assms], OF parse_create_frame]
  have dev: "Id (id_value dev) = dev" by (cases dev) simp
  show ?thesis
    unfolding client_create_buffer_def worker_buffer_def
    by (subst surjective_pairing [of "create_buffer _ s"], rule call_agrees_handled(1) [OF assms frame_lengths(4) handle [where dv = "id_value dev", unfolded dev]])
       (simp_all add: enums_declared short_errors)
qed

lemma registration_agrees:
  assumes "at c s"
  shows "call_agrees (\<lambda>r. id_value (r_id r)) (client_register_buffer send recv (id_value buf) (id_value nic)
    Support.SYNTHETIC Provenance.SYNTHETIC_FIXTURE c)
    (done_or_none (let (res, s, _) = register_buffer (worker_registration buf nic (session_authority w b 1)) (None :: unit Backend_ptr) s
       in (res, s)))"
proof -
  note handle = handle_frames(5) [of c, unfolded handle_worker [OF assms], OF parse_register_frame]
  have ids: "Id (id_value buf) = buf" "Id (id_value nic) = nic" by (cases buf; cases nic; simp)+
  have "call_agrees (\<lambda>r. id_value (r_id r)) (client_register_buffer send recv (id_value buf) (id_value nic)
      Support.SYNTHETIC Provenance.SYNTHETIC_FIXTURE c)
      (done_or_none (fst (register_buffer (worker_registration buf nic (session_authority w b 1)) (None :: unit Backend_ptr) s),
        fst (snd (register_buffer (worker_registration buf nic (session_authority w b 1)) (None :: unit Backend_ptr) s))))"
    unfolding client_register_buffer_def worker_registration_def
    by (rule call_agrees_handled(1) [OF assms frame_lengths(5) handle [where i = "id_value buf" and j = "id_value nic", unfolded ids]])
       (simp_all add: enums_declared short_error_register)
  then show ?thesis by (simp add: case_prod_unfold Let_def)
qed

lemma ready_agrees:
  assumes "at c s"
  shows "call_agrees (\<lambda>_. ()) (okay (client_ready send recv c)) (Some (), s)"
proof -
  have "handle_worker_message (ready_frame c) w b 1 s = (Some (reply (ok ()) (\<lambda>v. send_ack 0 0 0)), s)"
    by (simp add: handle_worker_message_def ready_frame_def reply_def ok_def Let_def)
  from call_agrees_handled(2) [OF assms frame_lengths(6) this short_error_simps(1)] show ?thesis
    by (simp add: client_ready_def done_or_none_def ok_def)
qed

text \<open>The handshake: the server registers the worker and keeps the connection, or refuses and closes it.\<close>

lemma hello_agrees:
  assumes "usable c" and "map_of (sv_conns (server_of c)) cid = None" and "w \<noteq> 0"
    and "\<And>c s. at c s \<Longrightarrow> agree (k () c) (k' () s)"
  shows "agree (or_exit 4 (okay (client_hello send recv w b 1 c)) k)
    (or_exit 4 (done_or_none (register_worker (Id w) (Generation b) (Generation 1) (sv_coord (server_of c)))) k')"
proof -
  let ?c = "c\<lparr>wc_worker := w, wc_boot := b, wc_epoch := 1\<rparr>"
  have sv: "server_of ?c = server_of c" "usable ?c = usable c" by (simp_all add: server_of_def usable_def)
  have ev: "link_event cid (hello_frame ?c) (server_of c) = Accept cid (hello_frame ?c)" using assms(2) by (simp add: link_event_def)
  have hello_type: "fr_type (hello_frame ?c) = MessageType.HELLO" by (simp add: hello_frame_def)
  obtain r where rd: "read_worker (payload_reader (fr_payload (hello_frame ?c))) = ((w, b, 1), r)"
    using read_worker_hello [of ?c] by auto
  obtain res s' where reg: "register_worker (Id w) (Generation b) (Generation 1) (sv_coord (server_of c)) = (res, s')" by fastforce
  have short: "short_error res" using short_errors(5) reg by (metis fst_conv)
  define sv' where "sv' = (case res of Inl _ \<Rightarrow> (server_of c)\<lparr>sv_coord := s'\<rparr>
    | Inr _ \<Rightarrow> (server_of c)\<lparr>sv_coord := s', sv_conns := AList.update cid (Worker_conn w b 1) (sv_conns (server_of c))\<rparr>)"
  have "server_step (link_event cid (hello_frame ?c) (server_of ?c)) (server_of ?c) = (Some (reply res (\<lambda>_. send_ack 0 0 0)), sv')"
    unfolding sv ev using assms(3) rd reg hello_type by (simp add: reply_def sv'_def split: sum.splits)
  from request_linked [OF _ frame_lengths(7) this ack_of_reply [OF short, of "\<lambda>_. 0" "\<lambda>_. 0"]] assms(1) sv(2)
  obtain conn where conn: "request send recv (hello_frame ?c) ?c = (case res of Inl _ \<Rightarrow> None | Inr v \<Rightarrow> Some (0, 0), ?c\<lparr>wc_conn := conn\<rparr>)"
      "usable (?c\<lparr>wc_conn := conn\<rparr>)" "server_of (?c\<lparr>wc_conn := conn\<rparr>) = sv'" by auto
  show ?thesis
  proof (cases res)
    case (Inl e)
    with conn reg sv'_def show ?thesis
      by (simp add: client_hello_def Let_def request_ok_def okay_def or_exit_def done_or_none_def agree_def)
  next
    case (Inr v)
    then have "at (?c\<lparr>wc_conn := conn\<rparr>) s'" using conn(2,3) by (simp add: at_def sv'_def update_conv')
    from assms(4) [OF this] Inr conn(1) reg show ?thesis
      by (simp add: client_hello_def Let_def request_ok_def okay_def or_exit_def done_or_none_def)
  qed
qed

lemma session_agrees:
  assumes "usable c" and "map_of (sv_conns (server_of c)) cid = None" and "w \<noteq> 0"
  shows "agree (worker_session send recv w b c) (worker_script w b (sv_coord (server_of c)))"
proof -
  have ready: "agree (or_exit 11 (okay (client_ready send recv c)) (\<lambda>_ c. (None, c))) (None, s)" if "at c s" for c s
    using agree_or_exit [OF ready_agrees [OF that], of "\<lambda>_ c. (None, c)" "\<lambda>_ s. (None, s)" 11]
    by (simp add: or_exit_def agree_def at_def)
  show ?thesis
    unfolding worker_session_def worker_script_def Let_def
    by (intro hello_agrees [OF assms] agree_or_exit [OF device_agrees] agree_or_exit [OF endpoint_agrees]
        agree_or_exit [OF capability_agrees] agree_or_exit [OF buffer_agrees] agree_or_exit [OF registration_agrees [unfolded Let_def]] ready)
      (assumption | simp)+
qed

end

section \<open>When the tool comes up\<close>

text \<open>The operations of the script succeed for a live worker where there is room.\<close>

lemma worker_live_cong:
  "worker_live_locked a s \<Longrightarrow> st_epoch s' = st_epoch s \<Longrightarrow> st_workers s' = st_workers s \<Longrightarrow> worker_live_locked a s'"
  by (simp add: worker_live_locked_def split: if_splits)

lemma add_worker_device:
  "worker_live_locked auth s \<Longrightarrow> \<exists>d ds. add_device (worker_device auth) s =
     (ok d, s\<lparr>st_next_id := st_next_id s + 1, st_freshness := st_freshness s + 1, st_devices := ds\<rparr>)"
  by (simp add: add_device_def worker_device_def next_id_locked_def next_freshness_locked_def Let_def) blast

lemma add_worker_endpoint:
  "worker_live_locked auth s \<Longrightarrow> length (st_endpoints s) < unat (st_max_endpoints s) \<Longrightarrow>
   \<exists>e. add_endpoint (worker_endpoint auth) s =
     (ok e, s\<lparr>st_next_id := st_next_id s + 1, st_freshness := st_freshness s + 1,
       st_endpoints := umap_put (st_next_id s + 1) e (st_endpoints s)\<rparr>) \<and>
     e_id e = Id (st_next_id s + 1) \<and> e_support e = Support.SYNTHETIC"
  by (simp add: add_endpoint_def worker_endpoint_def next_id_locked_def next_freshness_locked_def Let_def)

lemma publish_worker_capability:
  "worker_live_locked auth s \<Longrightarrow> \<exists>c cs. publish_capability (worker_capability x y auth) s =
     (ok c, s\<lparr>st_next_id := st_next_id s + 1, st_freshness := st_freshness s + 1, st_capabilities := cs\<rparr>)"
  by (auto simp: publish_capability_def worker_capability_def next_id_locked_def next_freshness_locked_def Let_def
      split: option.splits)

lemma create_worker_buffer:
  "worker_live_locked auth s \<Longrightarrow> length (st_buffers s) < unat (st_max_buffers s) \<Longrightarrow>
   \<exists>r. create_buffer (worker_buffer dev auth) s =
     (ok r, s\<lparr>st_next_id := st_next_id s + 1, st_freshness := st_freshness s + 1,
       st_buffers := umap_put (st_next_id s + 1) r (st_buffers s)\<rparr>) \<and>
     b_id r = Id (st_next_id s + 1) \<and> b_lifecycle r = BufferLifecycle.ACTIVE \<and> b_authority r = auth"
  by (simp add: create_buffer_def worker_buffer_def next_id_locked_def next_freshness_locked_def Let_def)

lemma register_worker_buffer:
  assumes "umap_find (st_buffers s) (id_value buf) = Some r" "b_id r = buf" "b_lifecycle r = BufferLifecycle.ACTIVE" "b_authority r = auth"
    and "umap_find (st_endpoints s) (id_value nic) = Some e" "e_id e = nic" "e_support e = Support.SYNTHETIC"
    and "length (st_registrations s) < unat (st_max_registrations s)"
    and "worker_live_locked auth s" and "au_epoch auth = st_epoch s"
    and "list_all (\<lambda>v. r_buffer v \<noteq> buf) (umap_values (st_registrations s))"
  shows "\<exists>g s'. register_buffer (worker_registration buf nic auth) (None :: unit Backend_ptr) s = (ok g, s', None) \<and>
    umap_find (st_registrations s') (id_value (r_id g)) = Some g \<and> r_state g = RegistrationState.REGISTERED \<and>
    r_buffer g = buf \<and> r_endpoint g = nic \<and> r_authority g = auth"
proof -
  have guards: "register_guards (worker_registration buf nic auth) s = ok (r, e)"
    using assms by (simp add: register_guards_def worker_registration_def)
  have "latest_registration buf nic s = None"
    using assms(11) by (auto simp: latest_registration_def latest_by_None list_all_iff)
  with guards assms(2,6) show ?thesis
    by (simp add: register_buffer_def ok_def worker_registration_def retire_deregistering_def register_commit_def
        next_id_locked_def next_freshness_locked_def Let_def)
qed

text \<open>A coordinator of epoch 1 with room for a worker's records, in which the identities to come are unused.\<close>

definition has_room :: "State \<Rightarrow> bool" where
  "has_room s \<longleftrightarrow> st_epoch s = Generation 1 \<and> length (st_endpoints s) < unat (st_max_endpoints s) \<and>
     length (st_buffers s) < unat (st_max_buffers s) \<and> length (st_registrations s) < unat (st_max_registrations s) \<and>
     list_all (\<lambda>v. r_buffer v \<noteq> Id (st_next_id s + 5)) (umap_values (st_registrations s))"

lemma register_worker_live:
  assumes "register_worker (Id w) (Generation b) (Generation 1) s = (ok (), s')" and "st_epoch s = Generation 1"
  shows "worker_live_locked (session_authority w b 1) s'"
  using assms by (auto simp: register_worker_def worker_live_locked_def session_authority_def Let_def worker_owned_def
      gen_value_def split: if_splits option.splits Generation.splits)

lemma register_worker_room:
  assumes "register_worker (Id w) (Generation b) (Generation 1) s = (ok (), s')" and "has_room s"
  shows "has_room s'"
  using assms by (auto simp: register_worker_def has_room_def Let_def split: if_splits option.splits)

lemma script_comes_up:
  assumes reg: "register_worker (Id w) (Generation b) (Generation 1) s0 = (ok (), s)" and room0: "has_room s0"
  shows "\<exists>s' g. worker_script w b s0 = (None, s') \<and> umap_find (st_registrations s') (id_value (r_id g)) = Some g \<and>
    r_state g = RegistrationState.REGISTERED \<and> r_authority g = session_authority w b 1"
proof -
  let ?auth = "session_authority w b 1"
  have live: "worker_live_locked ?auth s" by (rule register_worker_live [OF reg]) (use room0 in \<open>simp add: has_room_def\<close>)
  have room: "has_room s" by (rule register_worker_room [OF reg room0])
  from add_worker_device [OF live] obtain d ds where d: "add_device (worker_device ?auth) s =
      (ok d, s\<lparr>st_next_id := st_next_id s + 1, st_freshness := st_freshness s + 1, st_devices := ds\<rparr>)" by blast
  let ?s1 = "s\<lparr>st_next_id := st_next_id s + 1, st_freshness := st_freshness s + 1, st_devices := ds\<rparr>"
  have "worker_live_locked ?auth ?s1" by (rule worker_live_cong [OF live]) simp_all
  moreover have "length (st_endpoints ?s1) < unat (st_max_endpoints ?s1)" using room by (simp add: has_room_def)
  ultimately obtain e s2 where e: "add_endpoint (worker_endpoint ?auth) ?s1 = (ok e, s2)"
      "s2 = ?s1\<lparr>st_next_id := st_next_id ?s1 + 1, st_freshness := st_freshness ?s1 + 1,
        st_endpoints := umap_put (st_next_id ?s1 + 1) e (st_endpoints ?s1)\<rparr>"
      "e_id e = Id (st_next_id ?s1 + 1)" "e_support e = Support.SYNTHETIC"
    using add_worker_endpoint by blast
  have live2: "worker_live_locked ?auth s2" by (rule worker_live_cong [OF live]) (simp_all add: e(2))
  from publish_worker_capability [OF this] obtain c cs s3 where c: "publish_capability (worker_capability ''rdma'' ''direct_nic'' ?auth) s2 = (ok c, s3)"
      "s3 = s2\<lparr>st_next_id := st_next_id s2 + 1, st_freshness := st_freshness s2 + 1, st_capabilities := cs\<rparr>" by blast
  have live3: "worker_live_locked ?auth s3" by (rule worker_live_cong [OF live2]) (simp_all add: c(2))
  from publish_worker_capability [OF this] obtain c' cs' s4 where c': "publish_capability (worker_capability ''synthetic'' ''host_staging'' ?auth) s3 = (ok c', s4)"
      "s4 = s3\<lparr>st_next_id := st_next_id s3 + 1, st_freshness := st_freshness s3 + 1, st_capabilities := cs'\<rparr>" by blast
  have live4: "worker_live_locked ?auth s4" by (rule worker_live_cong [OF live3]) (simp_all add: c'(2))
  moreover have "length (st_buffers s4) < unat (st_max_buffers s4)" using room by (simp add: c' c e has_room_def)
  ultimately obtain r s5 where r: "create_buffer (worker_buffer (d_id d) ?auth) s4 = (ok r, s5)"
      "s5 = s4\<lparr>st_next_id := st_next_id s4 + 1, st_freshness := st_freshness s4 + 1,
        st_buffers := umap_put (st_next_id s4 + 1) r (st_buffers s4)\<rparr>"
      "b_id r = Id (st_next_id s4 + 1)" "b_lifecycle r = BufferLifecycle.ACTIVE" "b_authority r = ?auth"
    using create_worker_buffer by blast
  have "worker_live_locked ?auth s5" by (rule worker_live_cong [OF live4]) (simp_all add: r(2))
  moreover have "list_all (\<lambda>v. r_buffer v \<noteq> b_id r) (umap_values (st_registrations s5))"
    using room by (simp add: r(2,3) c' c e has_room_def add.assoc)
  moreover have "umap_find (st_buffers s5) (id_value (b_id r)) = Some r" by (simp add: r(2,3))
  moreover have "umap_find (st_endpoints s5) (id_value (e_id e)) = Some e" by (simp add: r(2) c'(2) c(2) e(2,3))
  moreover have "length (st_registrations s5) < unat (st_max_registrations s5)" "au_epoch ?auth = st_epoch s5"
    using room by (simp_all add: r(2) c'(2) c(2) e(2) has_room_def session_authority_def)
  ultimately obtain g s6 where g: "register_buffer (worker_registration (b_id r) (e_id e) ?auth) (None :: unit Backend_ptr) s5 = (ok g, s6, None)"
      "umap_find (st_registrations s6) (id_value (r_id g)) = Some g" "r_state g = RegistrationState.REGISTERED" "r_authority g = ?auth"
    using register_worker_buffer [of s5 "b_id r" r ?auth "e_id e" e] r(4,5) e(4) by blast
  have "worker_script w b s0 = (None, s6)"
    unfolding worker_script_def Let_def
    by (simp add: reg d e(1) c(1) c'(1) r(1) g(1) or_exit_def done_or_none_def ok_def)
  with g show ?thesis by blast
qed

text \<open>The tool always claims epoch 1: a coordinator at another epoch refuses it.\<close>

lemma later_epoch_refused: "gen_value (st_epoch s) \<noteq> 1 \<Longrightarrow> worker_script w b s = (Some 4, s)"
  by (simp add: worker_script_def or_exit_def done_or_none_def register_worker_def err_def)

text \<open>Behind a server that was started at epoch 1 there is room as long as the tables are not full.\<close>

lemma server_room:
  assumes "2 * length evs \<le> op_limit" and "s = sv_coord (server_run evs (make_server (Generation 1)))"
    and "length (st_endpoints s) < 4096" and "length (st_buffers s) < 8192" and "length (st_registrations s) < 8192"
  shows "has_room s"
proof -
  obtain n where n: "n \<le> 2 * length evs" "state_wf n s" "fixed_for_peers s = fixed_for_peers (make_coordinator (Generation 1))"
      "buffers_precede s"
    using server_run_bounds [OF assms(1,2)] by blast
  have "unat (st_next_id s) \<le> Suc (3 * n)" using state_wf_counters [OF n(2)] by (simp add: counters_wf_def)
  then have "unat (st_next_id s) + 5 < 2 ^ 64" using n(1) assms(1) by (simp add: op_limit_def)
  then have "unat (st_next_id s + 5) = unat (st_next_id s) + 5" by (simp add: unat_word_ariths)
  then have later: "st_next_id s < st_next_id s + 5" by (simp add: word_less_nat_alt)
  have "r_buffer v \<noteq> Id (st_next_id s + 5)" if "v \<in> set (umap_values (st_registrations s))" for v
  proof -
    have "umap_ok (st_registrations s)" using n(2) by (simp add: state_wf_def registrations_wf_def)
    from umap_values_iff [OF this, THEN iffD1, OF that] obtain k where "umap_find (st_registrations s) k = Some v" by blast
    from umap_allD [OF n(4) [unfolded buffers_precede_def] this] later show ?thesis by (cases "r_buffer v") auto
  qed
  then have "list_all (\<lambda>v. r_buffer v \<noteq> Id (st_next_id s + 5)) (umap_values (st_registrations s))" by (simp add: list_all_iff)
  with n(3) assms(3-5) show ?thesis
    by (simp add: has_room_def fixed_for_peers_def make_coordinator_def default_State_def)
qed

section \<open>The tool on its connection\<close>

interpretation wired: server_link "wire_send cs cid" "wire_recv cs" wi_server wi_out wire_calm cid w b
  for cs cid w b
  by (rule server_link.intro [OF wire_linked])

text \<open>A connection that has just been opened: nothing is under way on it.\<close>

definition opened :: "nat \<Rightarrow> wire WorkerClient \<Rightarrow> bool" where
  "opened cid c \<longleftrightarrow> (\<exists>sv. wc_conn c = connected \<lparr>wi_server = sv, wi_in = [], wi_out = []\<rparr> \<and> map_of (sv_conns sv) cid = None)"

abbreviation behind :: "wire WorkerClient \<Rightarrow> Server" where
  "behind c \<equiv> wi_server (tc_socket (wc_conn c))"

lemma session_over_wire:
  assumes "opened cid c" and "w \<noteq> 0" and "worker_session (wire_send cs cid) (wire_recv cs) w b c = (code, c')"
  shows "worker_script w b (sv_coord (behind c)) = (code, sv_coord (behind c'))"
  using wired.session_agrees [of c cid w cs b] assms
  by (auto simp: opened_def connected_def wired.usable_def wired.server_of_def wired.agree_def wire_calm_def prod_eq_iff)

section \<open>Guarantees\<close>

text \<open>
  C11: The worker tool is the coordinator's operations, end to end. Started with its three arguments and
  a worker id other than 0 on a connection that has just been opened to a server in any state, the
  program, down to the bytes of its frames and however the socket calls cut those up in either
  direction, does what its seven operations do when they are run one after the other on the server's
  coordinator. It exits with the code of the first operation the coordinator refused, or reports
  \<open>WORKER_UP\<close> and stays up if there is none, prints what the code prints in each case, and leaves the
  coordinator, while the connection is still open, in the state those operations leave it in. The
  server's thread runs as soon as a whole frame has arrived; the opening of the connection is a
  parameter, and no other connection of the server acts in the meantime. Worker id 0 is left out
  because it makes the connection a query connection, which the server does not answer.
\<close>
theorem worker_tool_refines:
  assumes "4 \<le> length argv" and "connect (word_of_int (atoi (argv ! 1))) c0 = (True, c)" and "opened cid c"
    and "strtoull (argv ! 2) \<noteq> 0"
    and "worker_main connect (wire_send cs cid) (wire_recv cs) argv c0 = (printed, code, c')"
  shows "worker_script (strtoull (argv ! 2)) (strtoull (argv ! 3)) (sv_coord (behind c)) = (code, sv_coord (behind c')) \<and>
    printed = (if code = None then ''WORKER_UP'' @ newline else if code = Some 4 then ''hello-fail'' @ newline else [])"
proof -
  obtain k c'' where run: "worker_session (wire_send cs cid) (wire_recv cs) (strtoull (argv ! 2)) (strtoull (argv ! 3)) c = (k, c'')"
    by (metis surj_pair)
  with assms(1,2,5) have "k = code" "c'' = c'"
      "printed = (if code = None then ''WORKER_UP'' @ newline else if code = Some 4 then ''hello-fail'' @ newline else [])"
    by (auto simp: worker_main_def Let_def split: option.splits)
  with session_over_wire [OF assms(3,4) run] show ?thesis by simp
qed

definition demo_cuts :: cuts where
  "demo_cuts = \<lparr>cut_send = \<lambda>bs. 5, cut_recv = \<lambda>bs. 1, cut_server_send = \<lambda>bs. length bs, cut_server_recv = \<lambda>bs. 3\<rparr>"

definition new_client :: "CoordinatorEpoch \<Rightarrow> wire WorkerClient" where
  "new_client epoch =
     \<lparr>wc_conn = connected \<lparr>wi_server = make_server epoch, wi_in = [], wi_out = []\<rparr>, wc_worker = 0, wc_boot = 0, wc_epoch = 0\<rparr>"

lemma new_client_opened: "opened 0 (new_client epoch)" and new_client_behind: "behind (new_client epoch) = make_server epoch"
  by (simp_all add: opened_def new_client_def connected_def make_server_def)

lemma demo_arguments: "strtoull ''7'' = 7" "strtoull ''1'' = 1"
  by (simp_all add: strtoull_def digits_value_def digit_value_def)

theorem worker_tool_refines_witness:
  "\<exists>c'. worker_main (\<lambda>port c. (True, c)) (wire_send demo_cuts 0) (wire_recv demo_cuts)
     [''worker'', ''9000'', ''7'', ''1''] (new_client (Generation 2)) = (''hello-fail'' @ newline, Some 4, c')"
proof -
  let ?argv = "[''worker'', ''9000'', ''7'', ''1'']"
  obtain printed code c' where run: "worker_main (\<lambda>port c. (True, c)) (wire_send demo_cuts 0) (wire_recv demo_cuts) ?argv
      (new_client (Generation 2)) = (printed, code, c')" by (metis surj_pair)
  have "4 \<le> length ?argv" "strtoull (?argv ! 2) \<noteq> 0" by (simp_all add: demo_arguments)
  from worker_tool_refines [OF this(1) refl new_client_opened this(2) run]
  have script: "worker_script 7 1 (make_coordinator (Generation 2)) = (code, sv_coord (behind c'))"
      and printed: "printed = (if code = None then ''WORKER_UP'' @ newline else if code = Some 4 then ''hello-fail'' @ newline else [])"
    by (simp_all add: demo_arguments new_client_behind make_server_def)
  moreover have "fst (worker_script 7 1 (make_coordinator (Generation 2))) = Some 4"
    by (subst later_epoch_refused) (simp_all add: make_coordinator_def default_State_def)
  ultimately show ?thesis using run by auto
qed

text \<open>
  C17: A worker comes up. Take a server that was started at epoch 1 and has handled any frames and
  disconnections on its connections since, with fewer than 4096 endpoints, 8192 buffers and 8192
  registrations in its coordinator. The worker tool, started with an id other than 0 and a boot that
  this coordinator accepts and able to open a connection to the server, reports \<open>WORKER_UP\<close> and does not
  exit, and the coordinator then has a registration of that worker's authority in state REGISTERED -
  however the socket calls cut up the bytes, as long as the server's thread runs when a frame has
  arrived and no other connection acts in the meantime.
\<close>
theorem worker_comes_up:
  assumes "connect (word_of_int (atoi port)) c0 = (True, c)" and "opened cid c" and "strtoull worker \<noteq> 0"
    and "behind c = server_run evs (make_server (Generation 1))" and "2 * length evs \<le> op_limit"
    and "length (st_endpoints (sv_coord (behind c))) < 4096" and "length (st_buffers (sv_coord (behind c))) < 8192"
    and "length (st_registrations (sv_coord (behind c))) < 8192"
    and "fst (register_worker (Id (strtoull worker)) (Generation (strtoull boot)) (Generation 1) (sv_coord (behind c))) = ok ()"
  shows "\<exists>c' g. worker_main connect (wire_send cs cid) (wire_recv cs) [name, port, worker, boot] c0 =
      (''WORKER_UP'' @ newline, None, c') \<and>
    umap_find (st_registrations (sv_coord (behind c'))) (id_value (r_id g)) = Some g \<and>
    r_state g = RegistrationState.REGISTERED \<and> r_authority g = session_authority (strtoull worker) (strtoull boot) 1"
proof -
  let ?w = "strtoull worker" and ?b = "strtoull boot"
  obtain code c' where run: "worker_session (wire_send cs cid) (wire_recv cs) ?w ?b c = (code, c')" by (metis surj_pair)
  obtain s where reg: "register_worker (Id ?w) (Generation ?b) (Generation 1) (sv_coord (behind c)) = (ok (), s)"
    using assms(9) by (metis prod.collapse)
  have "has_room (sv_coord (behind c))" by (rule server_room [OF assms(5) _ assms(6-8)]) (simp add: assms(4))
  from script_comes_up [OF reg this] session_over_wire [OF assms(2,3) run] obtain g where g: "code = None"
      "umap_find (st_registrations (sv_coord (behind c'))) (id_value (r_id g)) = Some g"
      "r_state g = RegistrationState.REGISTERED" "r_authority g = session_authority ?w ?b 1"
    by auto
  then have "worker_main connect (wire_send cs cid) (wire_recv cs) [name, port, worker, boot] c0 =
      (''WORKER_UP'' @ newline, None, c')"
    using assms(1) run by (simp add: worker_main_def Let_def numeral_2_eq_2 numeral_3_eq_3)
  with g show ?thesis by blast
qed

theorem worker_comes_up_witness:
  "\<exists>c'. worker_main (\<lambda>port c. (True, c)) (wire_send demo_cuts 0) (wire_recv demo_cuts)
     [''worker'', ''9000'', ''7'', ''1''] (new_client (Generation 1)) = (''WORKER_UP'' @ newline, None, c')"
proof -
  have fresh: "behind (new_client (Generation 1)) = server_run [] (make_server (Generation 1))"
    by (simp add: new_client_behind server_run_def)
  have coord: "sv_coord (behind (new_client (Generation 1))) = make_coordinator (Generation 1)"
    by (simp add: new_client_behind make_server_def)
  have "fst (register_worker (Id (strtoull ''7'')) (Generation (strtoull ''1'')) (Generation 1) (make_coordinator (Generation 1))) = ok ()"
    by (simp add: demo_arguments register_worker_def make_coordinator_def default_State_def id_valid_def Let_def)
  then show ?thesis
    using worker_comes_up [where connect = "\<lambda>port c. (True, c)" and port = "''9000''" and name = "''worker''" and boot = "''1''"
        and cs = demo_cuts, OF refl new_client_opened _ fresh, unfolded coord, of "''7''"]
    by (auto simp: demo_arguments make_coordinator_def default_State_def)
qed

end
