(* ===== verification/Cuda_Kernel.thy ===== *)
theory Cuda_Kernel
  imports Cuda_Self_Test Bytes "HOL-Library.Signed_Division"
begin

unbundle bit_operations_syntax

text \<open>
  The CUDA translation unit \<open>src/backends/cuda_raw.cu\<close>: the kernel that complements a buffer, run by a
  grid of threads whose loads and stores interleave in any order, the launch that computes its grid,
  and the copy of a device's name. The remaining functions of the file, which hand their arguments to
  the CUDA runtime and its return code back, are in \<open>Cuda_Api\<close>.
\<close>

section \<open>The kernel\<close>

text \<open>\<open>int i = blockIdx.x * blockDim.x + threadIdx.x\<close>: unsigned arithmetic, then a conversion to \<open>int\<close>.\<close>

definition kernel_index :: "u32 \<Rightarrow> u32 \<Rightarrow> u32 \<Rightarrow> int" where
  "kernel_index block dim thread = sint (block * dim + thread)"

text \<open>The threads of a grid with 256 threads per block, numbered through.\<close>

definition thread_index :: "nat \<Rightarrow> int" where
  "thread_index t = kernel_index (word_of_nat (t div 256)) 256 (word_of_nat (t mod 256))"

text \<open>
  A thread reads its byte into a register and writes the complement back, unless the guard \<open>i < n\<close> is
  false. An access outside the buffer is a fault.
\<close>

datatype gpu_thread = Ready | Loaded u8 | Finished | Fault

inductive kernel_step :: "int \<Rightarrow> bytes \<times> gpu_thread list \<Rightarrow> bytes \<times> gpu_thread list \<Rightarrow> bool" for n :: int where
  guarded: "t < length ts \<Longrightarrow> ts ! t = Ready \<Longrightarrow> \<not> thread_index t < n \<Longrightarrow> kernel_step n (p, ts) (p, ts[t := Finished])"
| load: "t < length ts \<Longrightarrow> ts ! t = Ready \<Longrightarrow> thread_index t < n \<Longrightarrow> 0 \<le> thread_index t \<Longrightarrow>
     nat (thread_index t) < length p \<Longrightarrow> kernel_step n (p, ts) (p, ts[t := Loaded (p ! nat (thread_index t))])"
| store: "t < length ts \<Longrightarrow> ts ! t = Loaded v \<Longrightarrow>
     kernel_step n (p, ts) (p[nat (thread_index t) := NOT v], ts[t := Finished])"
| fault: "t < length ts \<Longrightarrow> ts ! t = Ready \<Longrightarrow> thread_index t < n \<Longrightarrow>
     \<not> (0 \<le> thread_index t \<and> nat (thread_index t) < length p) \<Longrightarrow> kernel_step n (p, ts) (p, ts[t := Fault])"

section \<open>The launch\<close>

text \<open>
  The number of blocks and the \<open>int\<close> argument that the kernel is launched with. \<open>launch\<close> stands for the
  launch itself together with the answer of \<open>cudaGetLastError\<close>, which the function returns.
\<close>

definition invert_launch :: "u64 \<Rightarrow> int \<times> int" where
  "invert_launch n =
     (let bytes = sint (ucast n :: u32); blocks = (bytes + 255) sdiv 256 in (blocks, bytes))"

definition gdf_cuda_invert :: "(int \<times> int \<Rightarrow> 'r) \<Rightarrow> u64 \<Rightarrow> 'r" where
  "gdf_cuda_invert launch n = launch (invert_launch n)"

text \<open>The grid at the start: the given number of blocks, of 256 threads each.\<close>

definition launched :: "u64 \<Rightarrow> bytes \<Rightarrow> bytes \<times> gpu_thread list" where
  "launched n p = (p, replicate (nat (fst (invert_launch n)) * 256) Ready)"

inductive grid_run :: "u64 \<Rightarrow> bytes \<Rightarrow> bytes \<times> gpu_thread list \<Rightarrow> bool" for n :: u64 and p :: bytes where
  launch: "grid_run n p (launched n p)"
| run_thread: "grid_run n p g \<Longrightarrow> kernel_step (snd (invert_launch n)) g g' \<Longrightarrow> grid_run n p g'"

text \<open>The reference: the first bytes complemented, the rest as it was.\<close>

definition complemented :: "nat \<Rightarrow> bytes \<Rightarrow> bytes" where
  "complemented k p = map (\<lambda>v. NOT v) (take k p) @ drop k p"

section \<open>Grids that cover the buffer\<close>

lemma thread_index_eq: "t < 2 ^ 31 \<Longrightarrow> thread_index t = int t"
proof -
  assume t: "t < 2 ^ 31"
  have "word_of_nat (t div 256) * 256 + word_of_nat (t mod 256) = (word_of_nat (t div 256 * 256 + t mod 256) :: u32)"
    by (simp only: of_nat_add of_nat_mult of_nat_numeral)
  also have "\<dots> = word_of_nat t" by (simp only: div_mult_mod_eq)
  finally show ?thesis
    using t by (simp add: thread_index_def kernel_index_def signed_of_nat signed_take_bit_int_eq_self)
qed

lemma invert_launch_covers:
  assumes "unat n \<le> 2 ^ 31 - 256"
  shows "snd (invert_launch n) = int (unat n)" "fst (invert_launch n) = (int (unat n) + 255) div 256"
proof -
  have "unat n \<le> 2147483392" using assms by simp
  then have "int (unat n) < 2147483648" by linarith
  then have "uint n < 2 ^ 31" by simp
  moreover have "- (2 ^ 31) \<le> uint n" by (rule order_trans [OF _ uint_ge_0]) simp
  ultimately have "take_bit 32 (uint n) = uint n" "signed_take_bit 31 (uint n) = uint n"
    by (simp_all add: take_bit_int_eq_self signed_take_bit_int_eq_self)
  then have "sint (ucast n :: u32) = int (unat n)" by (simp add: sint_uint unsigned_ucast_eq)
  moreover have "sgn (uint n + 255) = 1" by (intro sgn_pos add_nonneg_pos) simp_all
  ultimately show "snd (invert_launch n) = int (unat n)" "fst (invert_launch n) = (int (unat n) + 255) div 256"
    by (simp_all add: invert_launch_def Let_def signed_divide_int_def)
qed

lemma grid_covers:
  assumes "unat n \<le> 2 ^ 31 - 256"
  shows "unat n \<le> length (snd (launched n p))" "length (snd (launched n p)) \<le> 2 ^ 31"
proof -
  have "nat (fst (invert_launch n)) = (unat n + 255) div 256"
    unfolding invert_launch_covers(2) [OF assms] by (simp add: nat_div_distrib nat_add_distrib)
  then have len: "length (snd (launched n p)) = (unat n + 255) div 256 * 256" by (simp add: launched_def)
  show "unat n \<le> length (snd (launched n p))" "length (snd (launched n p)) \<le> 2 ^ 31"
    unfolding len using assms div_times_less_eq_dividend [of "unat n + 255" 256] by simp_all
qed

text \<open>
  What holds throughout a run of a covering grid of \<open>T\<close> threads on the buffer \<open>p0\<close>: a byte below \<open>n\<close> is
  complemented exactly when its thread has finished, and a register holds the byte that was there.
\<close>

definition run_inv :: "nat \<Rightarrow> bytes \<Rightarrow> nat \<Rightarrow> bytes \<times> gpu_thread list \<Rightarrow> bool" where
  "run_inv n p0 T g \<longleftrightarrow> length (fst g) = length p0 \<and> length (snd g) = T \<and>
     (\<forall>i < length p0. fst g ! i = (if i < n \<and> snd g ! i = Finished then NOT (p0 ! i) else p0 ! i)) \<and>
     (\<forall>t < T. snd g ! t \<noteq> Fault) \<and> (\<forall>t < T. \<forall>v. snd g ! t = Loaded v \<longrightarrow> t < n \<and> v = p0 ! t)"

lemma kernel_step_inv:
  assumes "kernel_step (int n) g g'" and "run_inv n p0 T g" and "n \<le> T" and "T \<le> 2 ^ 31" and "n \<le> length p0"
  shows "run_inv n p0 T g'"
  using assms(1,2)
proof (induction rule: kernel_step.induct)
  case (guarded t ts p)
  then have "\<not> t < n" using assms(4) thread_index_eq [of t] by (auto simp: run_inv_def)
  with guarded show ?case by (auto simp: run_inv_def nth_list_update)
next
  case (load t ts p)
  then have "t < n" "nat (thread_index t) = t" using assms(4) thread_index_eq [of t] by (auto simp: run_inv_def)
  with load assms(5) show ?case by (auto simp: run_inv_def nth_list_update)
next
  case (store t ts v p)
  then have "t < n" "nat (thread_index t) = t" using assms(4) thread_index_eq [of t] by (auto simp: run_inv_def)
  with store assms(3,5) show ?case by (auto simp: run_inv_def nth_list_update)
next
  case (fault t ts p)
  then have "t < n" "thread_index t = int t" using assms(4) thread_index_eq [of t] by (auto simp: run_inv_def)
  with fault assms(5) show ?case by (simp add: run_inv_def)
qed

lemma grid_run_inv:
  assumes "grid_run n p g" and "unat n \<le> 2 ^ 31 - 256" and "unat n \<le> length p"
  shows "run_inv (unat n) p (length (snd (launched n p))) g"
  using assms(1)
proof (induction rule: grid_run.induct)
  case launch
  show ?case using grid_covers(1) [OF assms(2), of p] assms(3) by (auto simp: run_inv_def launched_def)
next
  case (run_thread g g')
  then show ?case
    using kernel_step_inv [of "unat n" g g' p] invert_launch_covers(1) [OF assms(2)] grid_covers [OF assms(2), of p] assms(3) by simp
qed

lemma run_inv_finished:
  assumes "run_inv n p0 T (p, ts)" and "list_all (\<lambda>t. t = Finished) ts" and "n \<le> T" and "n \<le> length p0"
  shows "p = complemented n p0"
proof (rule nth_equalityI)
  show "length p = length (complemented n p0)" using assms(1,4) by (simp add: run_inv_def complemented_def)
  fix i
  assume "i < length p"
  with assms show "p ! i = complemented n p0 ! i"
    by (auto simp: run_inv_def complemented_def nth_append list_all_length)
qed

section \<open>Every run ends\<close>

fun thread_steps :: "gpu_thread \<Rightarrow> nat" where
  "thread_steps Ready = 2"
| "thread_steps (Loaded v) = 1"
| "thread_steps Finished = 0"
| "thread_steps Fault = 0"

lemma kernel_step_decreases:
  "kernel_step n g g' \<Longrightarrow> sum_list (map thread_steps (snd g')) < sum_list (map thread_steps (snd g))"
  by (induction rule: kernel_step.induct) (auto intro!: sum_list_update_less)

lemma kernel_can_step:
  assumes "t < length ts" and "thread_steps (ts ! t) \<noteq> 0"
  shows "\<exists>g. kernel_step n (p, ts) g"
proof (cases "ts ! t")
  case Ready
  then show ?thesis using assms(1) kernel_step.intros(1,2,4) [of t ts n] by blast
next
  case (Loaded v)
  then show ?thesis using assms(1) kernel_step.store by blast
qed (use assms in auto)

text \<open>From every point of a run some continuation finishes all threads.\<close>

lemma grid_run_finishes:
  assumes "grid_run n p g" and "unat n \<le> 2 ^ 31 - 256" and "unat n \<le> length p"
  shows "\<exists>p' ts. grid_run n p (p', ts) \<and> list_all (\<lambda>t. t = Finished) ts"
  using assms(1)
proof (induction "sum_list (map thread_steps (snd g))" arbitrary: g rule: less_induct)
  case less
  obtain q ts where g: "g = (q, ts)" by (cases g)
  show ?case
  proof (cases "list_all (\<lambda>t. t = Finished) ts")
    case True
    then show ?thesis using less.prems g by blast
  next
    case False
    then obtain t where t: "t < length ts" "ts ! t \<noteq> Finished" by (auto simp: list_all_length)
    have "ts ! t \<noteq> Fault" using grid_run_inv [OF less.prems assms(2,3)] t(1) g by (simp add: run_inv_def)
    then have "thread_steps (ts ! t) \<noteq> 0" using t(2) by (cases "ts ! t") auto
    then obtain g' where g': "kernel_step (snd (invert_launch n)) g g'" using kernel_can_step [OF t(1)] g by blast
    then show ?thesis using less.hyps kernel_step_decreases grid_run.run_thread [OF less.prems g'] by blast
  qed
qed

section \<open>Device names\<close>

text \<open>
  The loop of \<open>gdf_cuda_props\<close> that copies the name: it writes to the buffer of \<open>name_len\<close> bytes from the
  field \<open>p.name\<close>, and the terminating zero after it. \<open>None\<close> is an access outside either of them.
\<close>

function copy_name :: "nat \<Rightarrow> bytes \<Rightarrow> bytes \<Rightarrow> nat \<Rightarrow> bytes option" where
  "copy_name name_len src name i =
     (if i < name_len - 1 then
        if length src \<le> i then None
        else if src ! i \<noteq> 0 then
          if length name \<le> i then None else copy_name name_len src (name[i := src ! i]) (Suc i)
        else if length name \<le> i then None else Some (name[i := 0])
      else if length name \<le> i then None else Some (name[i := 0]))"
  by pat_completeness auto

termination
  by (relation "measure (\<lambda>(name_len, src, name, i). name_len - i)") auto

declare copy_name.simps [simp del]

text \<open>A C string ends at its first zero.\<close>

definition c_string :: "bytes \<Rightarrow> bytes" where
  "c_string bs = takeWhile (\<lambda>v. v \<noteq> 0) bs"

lemma copy_name_copies:
  assumes "i < name_len" and "name_len \<le> length name" and "\<forall>j < i. src ! j \<noteq> 0 \<and> name ! j = src ! j" and "k < length src" and "src ! k = 0"
  shows "\<exists>res m. copy_name name_len src name i = Some res \<and> length res = length name \<and> drop name_len res = drop name_len name \<and>
    m < name_len \<and> m \<le> k \<and> (\<forall>j < m. src ! j \<noteq> 0 \<and> res ! j = src ! j) \<and> res ! m = 0 \<and> (m = name_len - 1 \<or> src ! m = 0)"
  using assms
proof (induction name_len src name i rule: copy_name.induct)
  case (1 name_len src name i)
  have ik: "i \<le> k" using 1(4,6) by (metis not_le)
  show ?case
  proof (cases "i < name_len - 1 \<and> src ! i \<noteq> 0")
    case True
    then have i: "i < k" "i < length src" "i < length name" using ik 1(3,5,6) by (auto simp: le_less)
    have "\<exists>res m. copy_name name_len src (name[i := src ! i]) (Suc i) = Some res \<and> length res = length (name[i := src ! i]) \<and>
      drop name_len res = drop name_len (name[i := src ! i]) \<and>
      m < name_len \<and> m \<le> k \<and> (\<forall>j < m. src ! j \<noteq> 0 \<and> res ! j = src ! j) \<and> res ! m = 0 \<and> (m = name_len - 1 \<or> src ! m = 0)"
      by (rule 1(1)) (use True i 1(3-6) in \<open>auto simp: nth_list_update less_Suc_eq\<close>)
    then show ?thesis using True i 1(2) by (subst copy_name.simps) simp
  next
    case False
    then have "copy_name name_len src name i = Some (name[i := 0])"
      using 1(2,3,5) ik by (subst copy_name.simps) auto
    then show ?thesis
      using False 1(2-6) ik by (intro exI [of _ "name[i := 0]"] exI [of _ i]) (auto simp: nth_list_update)
  qed
qed

lemma c_string_upto:
  assumes "m < length bs" and "bs ! m = 0" and "\<forall>j < m. bs ! j \<noteq> 0"
  shows "c_string bs = take m bs"
  unfolding c_string_def using assms
proof (intro takeWhile_eq_take_P_nth)
qed auto

lemma take_c_string:
  assumes "m \<le> length bs" and "\<forall>j < m. bs ! j \<noteq> 0"
  shows "take m (c_string bs) = take m bs"
proof -
  have "\<forall>v \<in> set (take m bs). v \<noteq> 0" using assms by (auto simp: in_set_conv_nth)
  then have "takeWhile (\<lambda>v. v \<noteq> 0) (take m bs @ drop m bs) = take m bs @ takeWhile (\<lambda>v. v \<noteq> 0) (drop m bs)"
    by (intro takeWhile_append2) auto
  then show ?thesis using assms(1) by (simp add: c_string_def)
qed

text \<open>
  The properties of a device; \<open>None\<close> for an output is a null pointer, and the outer \<open>None\<close> an access
  outside the name's buffer.
\<close>

record cudaDeviceProp =
  dp_name :: bytes
  dp_major :: int
  dp_minor :: int
  dp_totalGlobalMem :: u64

definition gdf_cuda_props :: "(int \<Rightarrow> int \<times> cudaDeviceProp) \<Rightarrow> int \<Rightarrow> bytes option \<Rightarrow> int \<Rightarrow> int option \<Rightarrow> int option \<Rightarrow>
    u64 option \<Rightarrow> (int \<times> bytes option \<times> int option \<times> int option \<times> u64 option) option" where
  "gdf_cuda_props getProperties index name name_len cc_major cc_minor total_mem =
     (let (r, p) = getProperties index in
      if r \<noteq> 0 then Some (r, name, cc_major, cc_minor, total_mem)
      else
        let outputs = (map_option (\<lambda>_. dp_major p) cc_major, map_option (\<lambda>_. dp_minor p) cc_minor,
                       map_option (\<lambda>_. dp_totalGlobalMem p) total_mem)
        in case name of
             None \<Rightarrow> Some (0, None, outputs)
           | Some buf \<Rightarrow>
               if name_len > 0 then
                 (case copy_name (nat name_len) (dp_name p) buf 0 of
                    None \<Rightarrow> None | Some buf' \<Rightarrow> Some (0, Some buf', outputs))
               else Some (0, Some buf, outputs))"

text \<open>\<open>gdf_cuda_meminfo\<close> writes its outputs also when the query fails, zeros in that case.\<close>

definition gdf_cuda_meminfo :: "int \<times> (u64 \<times> u64) option \<Rightarrow> u64 option \<Rightarrow> u64 option \<Rightarrow> int \<times> u64 option \<times> u64 option" where
  "gdf_cuda_meminfo answer free_bytes total_bytes =
     (let (r, written) = answer; (f, t) = (case written of None \<Rightarrow> (0, 0) | Some ft \<Rightarrow> ft)
      in (r, map_option (\<lambda>_. f) free_bytes, map_option (\<lambda>_. t) total_bytes))"

lemma props_name:
  assumes "getProperties index = (0, p)" and "0 \<in> set (dp_name p)" and "0 < name_len" and "nat name_len \<le> length buf"
  shows "\<exists>buf'. gdf_cuda_props getProperties index (Some buf) name_len mj mn tm =
      Some (0, Some buf', map_option (\<lambda>_. dp_major p) mj, map_option (\<lambda>_. dp_minor p) mn, map_option (\<lambda>_. dp_totalGlobalMem p) tm) \<and>
    c_string buf' = take (nat name_len - 1) (c_string (dp_name p)) \<and> drop (nat name_len) buf' = drop (nat name_len) buf"
proof -
  let ?src = "dp_name p"
  obtain k where k: "k < length ?src" "?src ! k = 0" using assms(2) by (auto simp: in_set_conv_nth)
  from copy_name_copies [OF _ assms(4) _ k, of 0] assms(3)
  obtain res m where r: "copy_name (nat name_len) ?src buf 0 = Some res" "length res = length buf"
      "drop (nat name_len) res = drop (nat name_len) buf" "m < nat name_len" "m \<le> k"
      "\<forall>j < m. ?src ! j \<noteq> 0 \<and> res ! j = ?src ! j" "res ! m = 0" "m = nat name_len - 1 \<or> ?src ! m = 0"
    by auto
  have "c_string res = take m res" by (rule c_string_upto) (use r(2,4,6,7) assms(4) in auto)
  also have "take m res = take m ?src" by (rule nth_take_lemma) (use r(2,4,5,6) k(1) assms(4) in auto)
  also have "\<dots> = take (nat name_len - 1) (c_string ?src)"
    using r(4,5,6,8) k(1) take_c_string [of m ?src] c_string_upto [of m ?src] by auto
  finally show ?thesis using r(1,3) assms(1,3) by (simp add: gdf_cuda_props_def)
qed

section \<open>Guarantees\<close>

text \<open>A size of 4 GiB or more is cut to 32 bits: the kernel then covers less than it was asked for.\<close>

lemma invert_size_wraps: "invert_launch (n + 2 ^ 32) = invert_launch n"
proof -
  have "unat (n + 2 ^ 32) mod 2 ^ 32 = unat n mod 2 ^ 32"
    unfolding unat_word_ariths by (simp add: mod_mod_cancel)
  then have "unat (ucast (n + 2 ^ 32) :: u32) = unat (ucast n :: u32)"
    unfolding unsigned_ucast_eq take_bit_nat_def by simp
  then have "(ucast (n + 2 ^ 32) :: u32) = ucast n" by (simp only: unsigned_word_eqI)
  then show ?thesis by (simp only: invert_launch_def)
qed

text \<open>
  C34: The device complements exactly the bytes it is asked to: for every size from 1 to \<open>2\<^sup>3\<^sup>1 - 256\<close> and every
  buffer that has that many bytes, the launched grid can run to its end, no interleaving of the
  threads' loads and stores makes an access outside the buffer, and whenever all threads have
  finished, the first bytes are complemented and the rest is untouched.
\<close>
theorem kernel_inverts_buffer:
  assumes "n \<noteq> 0" and "unat n \<le> 2 ^ 31 - 256" and "unat n \<le> length p"
  shows "(\<exists>p' ts. grid_run n p (p', ts) \<and> list_all (\<lambda>t. t = Finished) ts) \<and>
    (\<forall>p' ts. grid_run n p (p', ts) \<longrightarrow> list_all (\<lambda>t. t \<noteq> Fault) ts \<and>
       (list_all (\<lambda>t. t = Finished) ts \<longrightarrow> p' = complemented (unat n) p))"
proof (intro conjI allI impI)
  show "\<exists>p' ts. grid_run n p (p', ts) \<and> list_all (\<lambda>t. t = Finished) ts"
    by (rule grid_run_finishes [OF grid_run.launch assms(2,3)])
  fix p' ts
  assume "grid_run n p (p', ts)"
  note inv = grid_run_inv [OF this assms(2,3)]
  then show "list_all (\<lambda>t. t \<noteq> Fault) ts" by (auto simp: run_inv_def list_all_length)
  show "p' = complemented (unat n) p" if "list_all (\<lambda>t. t = Finished) ts"
    by (rule run_inv_finished [OF inv that grid_covers(1) [OF assms(2)] assms(3)])
qed

theorem kernel_inverts_buffer_witness:
  "\<exists>ts. grid_run 2 [1, 2, 3] ([254, 253, 3], ts) \<and> list_all (\<lambda>t. t = Finished) ts"
proof -
  have small: "(2 :: u64) \<noteq> 0" "unat (2 :: u64) \<le> 2 ^ 31 - 256" "unat (2 :: u64) \<le> length [1, 2, 3 :: u8]" by simp_all
  from kernel_inverts_buffer [OF small] obtain p' ts where
      "grid_run 2 [1, 2, 3] (p', ts)" "list_all (\<lambda>t. t = Finished) ts" "p' = complemented (unat (2 :: u64)) [1, 2, 3]" by blast
  moreover have "complemented 2 [1, 2, 3] = [254, 253, 3]" by (simp add: complemented_def)
  ultimately show ?thesis by auto
qed

text \<open>The kernel passes the comparison of the self test on the pattern it sends.\<close>

lemma kernel_passes_parity:
  assumes "grid_run (word_of_nat self_test_bytes) (map test_pattern [0..<self_test_bytes]) (p', ts)"
    and "list_all (\<lambda>t. t = Finished) ts"
  shows "cpu_parity (\<lambda>i. p' ! i)"
proof -
  let ?p = "map test_pattern [0..<self_test_bytes]"
  have n: "unat (word_of_nat self_test_bytes :: u64) = self_test_bytes" by (simp add: self_test_bytes_def)
  have le: "self_test_bytes \<le> 2 ^ 31 - 256" by (simp add: self_test_bytes_def)
  have "p' = complemented self_test_bytes ?p"
    using run_inv_finished [OF grid_run_inv [OF assms(1)] assms(2) grid_covers(1)] n le by simp
  then show ?thesis by (simp add: cpu_parity_iff complemented_def)
qed

end
