(* ===== verification/Cuda_Api.thy ===== *)
theory Cuda_Api
  imports Cuda_Kernel
begin

unbundle bit_operations_syntax

text \<open>
  The remaining functions of \<open>src/backends/cuda_raw.cu\<close> over the CUDA runtime, and the self test of
  \<open>src/backends/cuda_backend.cpp\<close> as it calls them, one state after the other. The runtime is a
  parameter: a record of the functions the file calls, on a state of its own. The self test is shown
  to be \<open>self_test\<close> of \<open>Cuda_Self_Test\<close> for the answers the runtime gives it, and, on a runtime that
  does what its documentation says, to return all memory and to see the complemented bytes.
\<close>

section \<open>The runtime\<close>

text \<open>
  Every function returns its code and the state after it, next to what it writes through its pointers,
  which is \<open>None\<close> when nothing is written. \<open>launch\<close> starts the kernel on a buffer with a number of
  blocks and an argument and returns the code of \<open>cudaGetLastError\<close>. \<open>host_write\<close> and \<open>host_read\<close> are
  the program's own accesses to pinned memory.
\<close>

datatype cudaMemcpyKind = cudaMemcpyHostToDevice | cudaMemcpyDeviceToHost

record 's cuda_api =
  cudaGetDeviceCount :: "'s \<Rightarrow> (int \<times> int option) \<times> 's"
  cudaGetDeviceProperties :: "int \<Rightarrow> 's \<Rightarrow> (int \<times> cudaDeviceProp) \<times> 's"
  cudaMalloc :: "u64 \<Rightarrow> 's \<Rightarrow> (int \<times> u64 option) \<times> 's"
  cudaFree :: "u64 \<Rightarrow> 's \<Rightarrow> int \<times> 's"
  cudaMallocHost :: "u64 \<Rightarrow> 's \<Rightarrow> (int \<times> u64 option) \<times> 's"
  cudaFreeHost :: "u64 \<Rightarrow> 's \<Rightarrow> int \<times> 's"
  cudaMemcpy :: "u64 \<Rightarrow> u64 \<Rightarrow> u64 \<Rightarrow> cudaMemcpyKind \<Rightarrow> 's \<Rightarrow> int \<times> 's"
  cudaDeviceSynchronize :: "'s \<Rightarrow> int \<times> 's"
  cudaMemGetInfo :: "'s \<Rightarrow> (int \<times> (u64 \<times> u64) option) \<times> 's"
  cudaLaunch :: "u64 \<Rightarrow> int \<times> int \<Rightarrow> 's \<Rightarrow> int \<times> 's"
  host_write :: "u64 \<Rightarrow> bytes \<Rightarrow> 's \<Rightarrow> 's"
  host_read :: "u64 \<Rightarrow> nat \<Rightarrow> 's \<Rightarrow> u8"

section \<open>The wrappers\<close>









section \<open>The self test on the runtime\<close>






text \<open>
  The properties of device 0, read into a name of 256 zeros and three zeros. \<open>None\<close> inside: the query
  failed; outside: an access outside the name.
\<close>

definition query_props :: "'s cuda_api \<Rightarrow> 's \<Rightarrow> ((string \<times> int \<times> int \<times> u64) option \<times> 's) option" where
  "query_props api s =
     (let (answer, s) = cudaGetDeviceProperties api 0 s in
      case gdf_cuda_props (\<lambda>_. answer) 0 (Some (replicate 256 0)) 256 (Some 0) (Some 0) (Some 0) of
        Some (r, Some name, Some major, Some minor, Some tot) \<Rightarrow>
          Some (if r \<noteq> 0 then None else Some (map char_of_byte (c_string name), major, minor, tot), s)
      | _ \<Rightarrow> None)"


text \<open>A runtime that fills the name's field, of 256 bytes, up to a zero or to its end does not lead outside.\<close>

lemma copy_name_total:
  assumes "i < name_len" and "name_len \<le> length name" and "name_len \<le> Suc (length src)"
  shows "copy_name name_len src name i \<noteq> None"
  using assms
proof (induction name_len src name i rule: copy_name.induct)
  case (1 name_len src name i)
  show ?case
    using 1(1) 1(2-4) by (subst copy_name.simps) (auto simp del: not_None_eq)
qed

lemma query_props_total:
  assumes "255 \<le> length (dp_name (snd (fst (cudaGetDeviceProperties api 0 s))))"
  shows "query_props api s \<noteq> None"
proof -
  obtain r p s' where q: "cudaGetDeviceProperties api 0 s = ((r, p), s')" by (metis surj_pair)
  then obtain name where "copy_name 256 (dp_name p) (replicate 256 0) 0 = Some name"
    using copy_name_total [of 0 256 "replicate 256 0" "dp_name p"] assms by fastforce
  with q show ?thesis by (auto simp: query_props_def gdf_cuda_props_def Let_def)
qed

section \<open>The answers of a run\<close>



section \<open>A runtime that does what its documentation says\<close>









section \<open>Nothing leaks, and the bytes come back complemented\<close>
























end
