(* ===== verification/Crc_Race.thy ===== *)
theory Crc_Race
  imports Crc32
begin

text \<open>
  The lazily filled table of \<open>crc32\<close> (the same code in \<open>src/protocol.cpp\<close> and \<open>src/persistence.cpp\<close>):
  a static table and a static flag, read and written without synchronisation, while the connection
  threads of the server encode and decode frames at the same time. The threads are modelled access by
  access, on a memory that is sequentially consistent; the C++ standard promises nothing for the race.
\<close>

section \<open>The code, access by access\<close>

record crc_static =
  crc_tab :: "u32 list"
  crc_init :: bool

definition initial_static :: crc_static where
  "initial_static = \<lparr>crc_tab = replicate 256 0, crc_init = False\<rparr>"

text \<open>
  Where a call with the given data is: before it reads the flag, filling entry \<open>i\<close> of the table or past
  the last, in the loop over the data with the register \<open>crc\<close>, returned.
\<close>

datatype crc_thread = Check bytes | Fill nat bytes | Run bytes u32 | Returned u32

fun crc_access :: "crc_thread \<Rightarrow> crc_static \<Rightarrow> crc_thread \<times> crc_static" where
  "crc_access (Check data) st = (if \<not> crc_init st then (Fill 0 data, st) else (Run data 0xFFFFFFFF, st))"
| "crc_access (Fill i data) st =
     (if i < 256 then (Fill (Suc i) data, st\<lparr>crc_tab := (crc_tab st)[i := (crc_step ^^ 8) (word_of_nat i)]\<rparr>)
      else (Run data 0xFFFFFFFF, st\<lparr>crc_init := True\<rparr>))"
| "crc_access (Run (b # data) crc) st =
     (Run data (crc_tab st ! unat ((crc XOR ucast b) AND 0xFF) XOR drop_bit 8 crc), st)"
| "crc_access (Run [] crc) st = (Returned (crc XOR 0xFFFFFFFF), st)"
| "crc_access (Returned v) st = (Returned v, st)"

text \<open>The calls of any number of threads, in any order of their accesses.\<close>

fun returned :: "crc_thread \<Rightarrow> bool" where
  "returned (Returned v) \<longleftrightarrow> True"
| "returned _ \<longleftrightarrow> False"

inductive crc_schedule :: "bytes list \<Rightarrow> nat \<Rightarrow> crc_thread list \<Rightarrow> crc_static \<Rightarrow> bool" for calls :: "bytes list" where
  start: "crc_schedule calls 0 (map Check calls) initial_static"
| access: "crc_schedule calls n ts st \<Longrightarrow> j < length ts \<Longrightarrow> \<not> returned (ts ! j) \<Longrightarrow>
     crc_access (ts ! j) st = (t, st') \<Longrightarrow> crc_schedule calls (Suc n) (ts[j := t]) st'"

section \<open>The table is never wrong where it is read\<close>

text \<open>Entry by entry the table is what it was or what it will be, and a filled entry stays filled.\<close>

definition filled :: "nat \<Rightarrow> crc_static \<Rightarrow> bool" where
  "filled i st \<longleftrightarrow> (\<forall>k < i. crc_tab st ! k = crc_table ! k)"

definition thread_ok :: "crc_static \<Rightarrow> bytes \<Rightarrow> crc_thread \<Rightarrow> bool" where
  "thread_ok st data t \<longleftrightarrow>
     (case t of
        Check d \<Rightarrow> d = data
      | Fill i d \<Rightarrow> d = data \<and> i \<le> 256 \<and> filled i st
      | Run d crc \<Rightarrow> filled 256 st \<and> foldl crc_update crc d = foldl crc_update 0xFFFFFFFF data
      | Returned v \<Rightarrow> v = crc32 data)"

definition static_ok :: "crc_static \<Rightarrow> bool" where
  "static_ok st \<longleftrightarrow> length (crc_tab st) = 256 \<and> (crc_init st \<longrightarrow> filled 256 st)"

lemma crc_table_entry: "i < 256 \<Longrightarrow> crc_table ! i = (crc_step ^^ 8) (word_of_nat i)"
  by (simp add: crc_table_def)

lemma table_index: "unat ((crc XOR ucast (b :: u8)) AND 0xFF :: u32) < 256"
proof -
  have low: "(crc XOR ucast b) AND (0xFF :: u32) = take_bit 8 (crc XOR ucast b)"
    by (simp add: take_bit_eq_mask mask_eq_exp_minus_1)
  show ?thesis
    unfolding low unsigned_take_bit_eq using take_bit_nat_less_exp [of 8 "unat (crc XOR ucast b)"] by simp
qed

lemma filled_access:
  assumes "crc_access t st = (t', st')" and "static_ok st" and "filled i st"
  shows "filled i st'"
  using assms by (cases "(t, st)" rule: crc_access.cases)
    (auto simp: filled_def static_ok_def nth_list_update crc_table_entry split: if_splits)

lemma filled_Suc:
  assumes "filled i st" and "i < 256" and "length (crc_tab st) = 256"
  shows "filled (Suc i) (st\<lparr>crc_tab := (crc_tab st)[i := (crc_step ^^ 8) (word_of_nat i)]\<rparr>)"
  using assms by (auto simp: filled_def nth_list_update crc_table_entry less_Suc_eq)

lemma access_static_ok:
  assumes "crc_access t st = (t', st')" and "static_ok st" and "thread_ok st data t"
  shows "static_ok st'"
proof -
  have "length (crc_tab st') = 256" "crc_init st' \<longrightarrow> filled 256 st"
    using assms by (cases "(t, st)" rule: crc_access.cases; auto simp: static_ok_def thread_ok_def split: if_splits)+
  then show ?thesis using filled_access [OF assms(1,2)] by (simp add: static_ok_def)
qed

lemma access_thread_ok:
  assumes "crc_access t st = (t', st')" and "static_ok st" and "thread_ok st data t"
  shows "thread_ok st' data t'"
proof (cases "(t, st)" rule: crc_access.cases)
  case (1 d s)
  then show ?thesis using assms by (auto simp: thread_ok_def static_ok_def filled_def split: if_splits)
next
  case (2 i d s)
  show ?thesis
  proof (cases "i < 256")
    case True
    then show ?thesis using 2 assms filled_Suc [of i st] by (auto simp: thread_ok_def static_ok_def)
  next
    case False
    then show ?thesis using 2 assms filled_access [OF assms(1,2)] by (auto simp: thread_ok_def)
  qed
next
  case (3 b d crc s)
  then show ?thesis using assms table_index [of crc b] by (auto simp: thread_ok_def filled_def crc_update_def)
next
  case (4 crc s)
  then show ?thesis using assms by (auto simp: thread_ok_def crc32_def)
next
  case (5 v s)
  then show ?thesis using assms by (auto simp: thread_ok_def)
qed

lemma other_thread_ok:
  assumes "crc_access t st = (t', st')" and "static_ok st" and "thread_ok st data u"
  shows "thread_ok st' data u"
  using assms(3) filled_access [OF assms(1,2)] by (auto simp: thread_ok_def split: crc_thread.splits)

lemma crc_schedule_ok:
  "crc_schedule calls n ts st \<Longrightarrow>
     static_ok st \<and> length ts = length calls \<and> (\<forall>j < length calls. thread_ok st (calls ! j) (ts ! j))"
proof (induction rule: crc_schedule.induct)
  case start
  then show ?case by (auto simp: static_ok_def initial_static_def thread_ok_def)
next
  case (access n ts st j t st')
  then have "static_ok st'" using access_static_ok [of "ts ! j" st t st'] by metis
  moreover have "thread_ok st' (calls ! j) t" using access access_thread_ok [of "ts ! j" st t st'] by metis
  moreover have "\<forall>k < length calls. thread_ok st' (calls ! k) (ts ! k)"
    using access other_thread_ok [of "ts ! j" st t st'] by blast
  ultimately show ?case using access.IH access.hyps(2) by (simp add: nth_list_update)
qed

section \<open>Every call returns\<close>

text \<open>The accesses that a call still makes, at most: it fills the whole table, also if others have.\<close>

fun accesses_left :: "crc_thread \<Rightarrow> nat" where
  "accesses_left (Check data) = 259 + length data"
| "accesses_left (Fill i data) = (256 - i) + 2 + length data"
| "accesses_left (Run data crc) = 1 + length data"
| "accesses_left (Returned v) = 0"

lemma access_progress:
  "crc_access t st = (t', st') \<Longrightarrow> \<not> returned t \<Longrightarrow> accesses_left t' < accesses_left t"
  by (cases "(t, st)" rule: crc_access.cases) (auto split: if_splits)

lemma crc_schedule_bound:
  "crc_schedule calls n ts st \<Longrightarrow> n + sum_list (map accesses_left ts) \<le> sum_list (map (\<lambda>d. 259 + length d) calls)"
proof (induction rule: crc_schedule.induct)
  case start
  show ?case by (simp add: comp_def)
next
  case (access n ts st j t st')
  then have "sum_list (map accesses_left (ts[j := t])) < sum_list (map accesses_left ts)"
    by (intro sum_list_update_less access_progress)
  then show ?case using access.IH by simp
qed

text \<open>
  C36: Calls of the checksum that race on the unguarded static table never see it half filled: in every
  interleaving of their accesses, each call that has returned has returned the checksum of its own
  data; and unless all have returned, a further access can be made, of which there is a bounded number:
  so every interleaving that is not cut short ends with all of them returned.
\<close>
theorem crc_threads_agree:
  assumes "crc_schedule calls n ts st"
  shows "(\<forall>j < length calls. \<forall>v. ts ! j = Returned v \<longrightarrow> v = crc32 (calls ! j)) \<and>
    n \<le> sum_list (map (\<lambda>d. 259 + length d) calls) \<and>
    (list_all returned ts \<or> (\<exists>ts' st'. crc_schedule calls (Suc n) ts' st'))"
proof (intro conjI allI impI)
  fix j v
  assume "j < length calls" "ts ! j = Returned v"
  then show "v = crc32 (calls ! j)" using crc_schedule_ok [OF assms] by (auto simp: thread_ok_def)
next
  show "n \<le> sum_list (map (\<lambda>d. 259 + length d) calls)" using crc_schedule_bound [OF assms] by simp
next
  show "list_all returned ts \<or> (\<exists>ts' st'. crc_schedule calls (Suc n) ts' st')"
  proof (cases "list_all returned ts")
    case False
    then obtain j where "j < length ts" "\<not> returned (ts ! j)" by (auto simp: list_all_length)
    then show ?thesis using crc_schedule.access [OF assms] by (metis surj_pair)
  qed simp
qed

text \<open>The start of a race: the second call is about to fill the table, the first has not read the flag.\<close>

theorem crc_threads_agree_witness:
  "\<exists>n ts st. crc_schedule [[1], []] n ts st \<and> ts = [Check [1], Fill 0 []] \<and> n \<le> 519"
proof -
  have init: "crc_access ([Check [1], Check []] ! 1) initial_static = (Fill 0 [], initial_static)"
    by (simp add: initial_static_def)
  have "crc_schedule [[1], []] 0 [Check [1], Check []] initial_static"
    using crc_schedule.start [of "[[1], []]"] by simp
  from crc_schedule.access [OF this _ _ init]
  have sched: "crc_schedule [[1], []] (Suc 0) [Check [1], Fill 0 []] initial_static" by simp
  from crc_threads_agree [OF this] have "Suc 0 \<le> 519" by simp
  with sched show ?thesis by blast
qed

end
