(* ===== verification/Examples.thy ===== *)
theory Examples
  imports Inspect "HOL-Library.Signed_Division"
begin

text \<open>
  The programs of \<open>examples/\<close>, which use the library as a client does. Each definition is the text the
  program prints; \<open>None\<close> is the exception that \<open>Result\<close> throws when the value of an error, or the error
  of a value, is asked for. The programs are split where a result is taken apart; the backend is
  carried along, since registering changes it.
\<close>

section \<open>Unsupported providers\<close>

definition backend_line :: "string \<Rightarrow> UnsupportedBackend \<Rightarrow> string" where
  "backend_line label b =
     label @ '' backend support='' @ Support_to_string (vt_support unsupported_vtable b) @ '' available='' @
     flag_digit (vt_available unsupported_vtable b) @ newline"

definition example_unsupported :: string where
  "example_unsupported =
     backend_line ''rdma'' make_rdma_backend @ backend_line ''storage'' make_storage_backend @
     ''rdma provider support='' @
     (case fst (add_provider \<lparr>pap_name = ''rdma'', pap_available = False, pap_support = Support.UNSUPPORTED,
                 pap_provenance = Provenance.RDMA_PROVIDER\<rparr> (make_coordinator (Generation 1))) of
        Inl e \<Rightarrow> ''none'' | Inr p \<Rightarrow> Support_to_string (p_support p)) @ newline"

section \<open>The CUDA proof run\<close>

definition example_cuda_proof :: "CudaSelfTestReport \<Rightarrow> string" where
  "example_cuda_proof rep =
     ''CUDA self-test: support='' @ Support_to_string (rep_support rep) @ '' device='' @ c_str (rep_device_name rep) @
     '' cc='' @ c_str (rep_compute_capability rep) @ '' parity='' @ flag_digit (rep_cpu_parity rep) @
     '' baseline='' @ flag_digit (rep_baseline_return rep) @ newline"

section \<open>Direct path decisions\<close>

text \<open>The parameters that the programs fill in, over the defaults of their structures.\<close>

definition client_authority :: "State \<Rightarrow> Authority" where
  "client_authority s = default_Authority\<lparr>au_epoch := st_epoch s\<rparr>"

definition example_buffer :: "DeviceId \<Rightarrow> Authority \<Rightarrow> CreateBufferParams" where
  "example_buffer device auth =
     \<lparr>cbp_domain = MemoryDomain.CUDA_DEVICE, cbp_size = 2 ^ 20, cbp_alignment = 64, cbp_device = device,
      cbp_locality = Locality.LOCAL, cbp_support = Support.SYNTHETIC,
      cbp_provenance = Provenance.SYNTHETIC_FIXTURE, cbp_authority = auth, cbp_name = []\<rparr>"

definition example_registration :: "BufferId \<Rightarrow> EndpointId \<Rightarrow> ProviderId \<Rightarrow> Authority \<Rightarrow> RegisterParams" where
  "example_registration buffer endpoint provider auth =
     \<lparr>rp_buffer = buffer, rp_endpoint = endpoint, rp_provider = provider, rp_authority = auth,
      rp_support = Support.SYNTHETIC, rp_provenance = Provenance.SYNTHETIC_FIXTURE, rp_required_capabilities = []\<rparr>"

definition example_request :: "BufferId \<Rightarrow> EndpointId \<Rightarrow> PathPolicy \<Rightarrow> PlanRequestParams" where
  "example_request source destination policy =
     \<lparr>prp_source = source, prp_destination = destination, prp_direction = Direction.GPU_TO_PEER,
      prp_policy = policy, prp_size = 2 ^ 20\<rparr>"

definition direct_lines :: "PathDecision \<Rightarrow> PathDecision \<Rightarrow> string" where
  "direct_lines d d2 =
     ''direct eligibility='' @ PathEligibility_to_string (pd_eligibility d) @ '' support='' @
     Support_to_string (pd_support d) @ '' fallback='' @ flag_digit (pd_fallback_available d) @ newline @
     ''DIRECT_ONLY eligibility='' @ PathEligibility_to_string (pd_eligibility d2) @ '' fallback_available='' @
     flag_digit (pd_fallback_available d2) @ '' fallback_disallowed='' @ flag_digit (pd_fallback_disallowed d2) @ newline"

text \<open>From the two evaluations; from the registration; from the buffer's creation.\<close>

definition direct_evaluate :: "BufferId \<Rightarrow> EndpointId \<Rightarrow> State \<Rightarrow> string option" where
  "direct_evaluate b nic s =
     (case evaluate_path (example_request b nic PathPolicy.PREFER_DIRECT) s of
        Inl e \<Rightarrow> None
      | Inr d \<Rightarrow>
          (case evaluate_path (example_request b nic PathPolicy.DIRECT_ONLY) s of
             Inl e \<Rightarrow> None
           | Inr d2 \<Rightarrow> Some (direct_lines d d2)))"

definition direct_register :: "SyntheticBackend \<Rightarrow> SyntheticSeedResult \<Rightarrow> Authority \<Rightarrow> BufferId \<Rightarrow> State \<Rightarrow> string option" where
  "direct_register synth seed auth b s =
     direct_evaluate b (sr_nic seed)
       (fst (snd (register_buffer (example_registration b (sr_nic seed) (sr_rdma seed) auth) (Some (synthetic_vtable, synth)) s)))"

definition direct_create :: "SyntheticBackend \<Rightarrow> SyntheticSeedResult \<times> State \<Rightarrow> string option" where
  "direct_create synth seeded =
     (case seeded of (seed, s) \<Rightarrow>
       (case create_buffer (example_buffer (sr_device seed) (client_authority s)) s of
          (Inl e, s1) \<Rightarrow> None
        | (Inr b, s1) \<Rightarrow> direct_register synth seed (client_authority s) (b_id b) s1))"

definition example_direct_decision :: "string option" where
  "example_direct_decision =
     direct_create default_SyntheticBackend (seed_synthetic default_SyntheticBackend (make_coordinator (Generation 1)))"

section \<open>Stale registrations and fenced workers\<close>

text \<open>
  The worker's authority, then the program from its last part to its first: after the registration;
  from the registration, the buffer, the capability and the device, the endpoint and the provider.
\<close>

definition fencing_authority :: "CoordinatorEpoch \<Rightarrow> Authority" where
  "fencing_authority epoch = \<lparr>au_worker = Id 1, au_boot = Generation 1, au_epoch = epoch\<rparr>"

definition fencing_lines :: "Registration \<Rightarrow> Registration \<Rightarrow> Error \<Rightarrow> string" where
  "fencing_lines r r' e =
     ''registration state='' @ RegistrationState_to_string (r_state r) @ newline @
     ''after worker death state='' @ RegistrationState_to_string (r_state r') @ newline @
     ''stale boot rejected? 1 code='' @ (if err_code e = ErrorCode.STALE_BOOT then ''STALE_BOOT'' else ''other'') @ newline"

definition fencing_finish :: "Registration \<Rightarrow> State \<Rightarrow> string option" where
  "fencing_finish r s =
     (case registrations s of
        Inl e \<Rightarrow> None
      | Inr [] \<Rightarrow> None
      | Inr (r' # rs) \<Rightarrow>
          (case fst (register_worker (Id 1) (Generation 1) (st_epoch s) s) of
             Inl e \<Rightarrow> Some (fencing_lines r r' e)
           | Inr u \<Rightarrow> None))"

definition fencing_register :: "SyntheticBackend \<Rightarrow> Authority \<Rightarrow> EndpointId \<Rightarrow> ProviderId \<Rightarrow> BufferId \<Rightarrow> State \<Rightarrow> string option" where
  "fencing_register synth wa nic rd b s =
     (case register_buffer (example_registration b nic rd wa) (Some (synthetic_vtable, synth)) s of
        (Inl e, s1) \<Rightarrow> None
      | (Inr r, s1) \<Rightarrow> fencing_finish r (snd (mark_worker_dead (Id 1) (fst s1))))"

definition fencing_create :: "SyntheticBackend \<Rightarrow> Authority \<Rightarrow> EndpointId \<Rightarrow> ProviderId \<Rightarrow> DeviceId \<Rightarrow> State \<Rightarrow> string option" where
  "fencing_create synth wa nic rd dev s =
     (case create_buffer (example_buffer dev wa) s of
        (Inl e, s1) \<Rightarrow> None
      | (Inr b, s1) \<Rightarrow> fencing_register synth wa nic rd (b_id b) s1)"

definition fencing_capability :: "Authority \<Rightarrow> CapabilityPublishParams" where
  "fencing_capability wa =
     \<lparr>cpp_provider = ''rdma'', cpp_capability = ''direct_nic'', cpp_value = ''true'', cpp_support = Support.SYNTHETIC,
      cpp_provenance = Provenance.SYNTHETIC_FIXTURE, cpp_authority = wa\<rparr>"

definition fencing_device :: "Authority \<Rightarrow> DeviceAddParams" where
  "fencing_device wa =
     \<lparr>dap_name = ''gpu'', dap_compute_capability = [], dap_peer_memory_supported = False,
      dap_support = Support.SYNTHETIC, dap_provenance = Provenance.SYNTHETIC_FIXTURE, dap_authority = wa\<rparr>"

definition fencing_publish :: "SyntheticBackend \<Rightarrow> Authority \<Rightarrow> EndpointId \<Rightarrow> ProviderId \<Rightarrow> State \<Rightarrow> string option" where
  "fencing_publish synth wa nic rd s =
     (case add_device (fencing_device wa) (snd (publish_capability (fencing_capability wa) s)) of
        (Inl e, s1) \<Rightarrow> None
      | (Inr dev, s1) \<Rightarrow> fencing_create synth wa nic rd (d_id dev) s1)"

definition fencing_provider :: "SyntheticBackend \<Rightarrow> Authority \<Rightarrow> EndpointId \<Rightarrow> State \<Rightarrow> string option" where
  "fencing_provider synth wa nic s =
     (case add_provider \<lparr>pap_name = ''rdma'', pap_available = True, pap_support = Support.SYNTHETIC,
             pap_provenance = Provenance.SYNTHETIC_FIXTURE\<rparr> s of
        (Inl e, s1) \<Rightarrow> None
      | (Inr rd, s1) \<Rightarrow> fencing_publish synth wa nic (p_id rd) s1)"

definition fencing_endpoint :: "Authority \<Rightarrow> EndpointAddParams" where
  "fencing_endpoint wa =
     \<lparr>eap_endpoint_class = EndpointClass.NIC, eap_name = ''nic'', eap_topology_hint = [], eap_healthy = True,
      eap_provider = Id 0, eap_support = Support.SYNTHETIC, eap_provenance = Provenance.SYNTHETIC_FIXTURE,
      eap_authority = wa\<rparr>"

definition fencing_worker :: "SyntheticBackend \<Rightarrow> Authority \<Rightarrow> State \<Rightarrow> string option" where
  "fencing_worker synth wa s =
     (case add_endpoint (fencing_endpoint wa) (snd (register_worker (Id 1) (Generation 1) (st_epoch s) s)) of
        (Inl e, s1) \<Rightarrow> None
      | (Inr nic, s1) \<Rightarrow> fencing_provider synth wa (e_id nic) s1)"

definition example_stale_fencing :: "string option" where
  "example_stale_fencing =
     fencing_worker default_SyntheticBackend (fencing_authority (Generation 1))
       (snd (seed_synthetic default_SyntheticBackend (make_coordinator (Generation 1))))"

section \<open>The benchmark\<close>

text \<open>
  The work of \<open>bench/bench_control.cpp\<close>, between the readings of the clock: \<open>n\<close> buffers, whose
  identities are kept, a registration for each, then the same evaluation and the same plan \<open>n\<close> times. The
  evaluation changes nothing. The three durations, in microseconds, are arguments.
\<close>

fun bench_create :: "nat \<Rightarrow> DeviceId \<Rightarrow> Authority \<Rightarrow> State \<Rightarrow> (BufferId list \<times> State) option" where
  "bench_create 0 device auth s = Some ([], s)"
| "bench_create (Suc n) device auth s =
     (case create_buffer (example_buffer device auth) s of
        (Inl e, s1) \<Rightarrow> None
      | (Inr b, s1) \<Rightarrow>
          (case bench_create n device auth s1 of None \<Rightarrow> None | Some (bufs, s2) \<Rightarrow> Some (b_id b # bufs, s2)))"

fun bench_register ::
    "BufferId list \<Rightarrow> SyntheticSeedResult \<Rightarrow> Authority \<Rightarrow> SyntheticBackend Backend_ptr \<Rightarrow> State \<Rightarrow> State \<times> SyntheticBackend Backend_ptr" where
  "bench_register [] seed auth synth s = (s, synth)"
| "bench_register (b # bufs) seed auth synth s =
     (case register_buffer (example_registration b (sr_nic seed) (sr_rdma seed) auth) synth s of
        (r, s1, synth1) \<Rightarrow> bench_register bufs seed auth synth1 s1)"

definition bench_plan :: "nat \<Rightarrow> PlanRequestParams \<Rightarrow> State \<Rightarrow> State" where
  "bench_plan n pr s = ((\<lambda>s. snd (plan_transfer pr s s)) ^^ n) s"

definition bench_line :: "int \<Rightarrow> int \<Rightarrow> int \<Rightarrow> nat \<Rightarrow> string" where
  "bench_line reg_ms el_ms plan_ms n =
     ''bench: register='' @ dec_of_int (reg_ms sdiv int n) @ ''us/eval='' @ dec_of_int (el_ms sdiv int n) @
     ''us/plan='' @ dec_of_int (plan_ms sdiv int n) @ ''us for N='' @ dec_of_nat n @ '' (completed work)'' @ newline"

definition bench_control :: "nat \<Rightarrow> int \<times> int \<times> int \<Rightarrow> (string \<times> State) option" where
  "bench_control n durations =
     (let (seed, s0) = seed_synthetic default_SyntheticBackend (make_coordinator (Generation 1));
          auth = client_authority s0; (reg_ms, el_ms, plan_ms) = durations
      in case bench_create n (sr_device seed) auth s0 of
           Some (b # bufs, s1) \<Rightarrow>
             let s2 = fst (bench_register (b # bufs) seed auth (Some (synthetic_vtable, default_SyntheticBackend)) s1)
             in Some (bench_line reg_ms el_ms plan_ms n,
                      bench_plan n (example_request b (sr_nic seed) PathPolicy.PREFER_DIRECT) s2)
         | _ \<Rightarrow> None)"

section \<open>Evaluation\<close>

definition example_authority :: Authority where
  "example_authority = default_Authority\<lparr>au_epoch := Generation 1\<rparr>"

text \<open>The coordinator after the seed.\<close>

definition seeded_state :: State where
  "seeded_state =
     \<lparr>st_epoch = Generation 1, st_next_id = 12, st_freshness = 9, st_buffers = [],
      st_devices = [(5, \<lparr>d_id = Id 5, d_generation = Generation 1, d_name = ''synthetic-gpu-0'',
           d_compute_capability = ''synthetic'', d_peer_memory_supported = True, d_support = SYNTHETIC,
           d_provenance = SYNTHETIC_FIXTURE, d_authority = default_Authority, d_freshness = 2\<rparr>)],
      st_endpoints = [(6, \<lparr>e_id = Id 6, e_generation = Generation 1, e_endpoint_class = NIC,
           e_name = ''synthetic-nic-0'', e_topology_hint = ''synthetic:pci'', e_healthy = True, e_provider = Id 1,
           e_support = SYNTHETIC, e_provenance = SYNTHETIC_FIXTURE, e_authority = default_Authority, e_freshness = 3,
           e_handle = None\<rparr>),
         (7, \<lparr>e_id = Id 7, e_generation = Generation 1, e_endpoint_class = STORAGE, e_name = ''synthetic-storage-0'',
              e_topology_hint = ''synthetic:nvme'', e_healthy = True, e_provider = Id 2, e_support = SYNTHETIC,
              e_provenance = SYNTHETIC_FIXTURE, e_authority = default_Authority, e_freshness = 4, e_handle = None\<rparr>),
         (8, \<lparr>e_id = Id 8, e_generation = Generation 1, e_endpoint_class = EndpointClass.PEER_DEVICE,
              e_name = ''synthetic-peer-gpu-1'', e_topology_hint = ''synthetic:p2p'', e_healthy = True, e_provider = Id 3,
              e_support = SYNTHETIC, e_provenance = SYNTHETIC_FIXTURE, e_authority = default_Authority, e_freshness = 5,
              e_handle = None\<rparr>)],
      st_nics = [], st_storage = [], st_registrations = [],
      st_providers = [(2, \<lparr>p_id = Id 2, p_name = ''rdma'', p_available = True, p_support = SYNTHETIC,
           p_provenance = SYNTHETIC_FIXTURE\<rparr>),
         (3, \<lparr>p_id = Id 3, p_name = ''storage'', p_available = True, p_support = SYNTHETIC,
              p_provenance = SYNTHETIC_FIXTURE\<rparr>),
         (4, \<lparr>p_id = Id 4, p_name = ''cuda'', p_available = True, p_support = SYNTHETIC,
              p_provenance = SYNTHETIC_FIXTURE\<rparr>)],
      st_capabilities = [(9, \<lparr>c_id = Id 9, c_provider = ''rdma'', c_capability = ''direct_nic'', c_value = ''true'',
           c_support = SYNTHETIC, c_provenance = SYNTHETIC_FIXTURE, c_authority = example_authority, c_freshness = 6\<rparr>),
         (10, \<lparr>c_id = Id 10, c_provider = ''storage'', c_capability = ''direct_storage'', c_value = ''true'',
              c_support = SYNTHETIC, c_provenance = SYNTHETIC_FIXTURE, c_authority = example_authority,
              c_freshness = 7\<rparr>),
         (11, \<lparr>c_id = Id 11, c_provider = ''cuda'', c_capability = ''peer_memory'', c_value = ''true'',
              c_support = SYNTHETIC, c_provenance = SYNTHETIC_FIXTURE, c_authority = example_authority,
              c_freshness = 8\<rparr>),
         (12, \<lparr>c_id = Id 12, c_provider = ''synthetic'', c_capability = ''host_staging'', c_value = ''true'',
              c_support = SYNTHETIC, c_provenance = SYNTHETIC_FIXTURE, c_authority = example_authority,
              c_freshness = 9\<rparr>)],
      st_plans = [], st_attempts = [], st_receipts = [], st_verifications = [], st_workers = [], st_worker_max_boot = [],
      st_max_buffers = 8192, st_max_registrations = 8192, st_max_endpoints = 4096, st_max_plans = 4096,
           st_max_attempts = 4096\<rparr>"

definition seeded_result :: SyntheticSeedResult where
  "seeded_result =
     \<lparr>sr_device = Id 5, sr_nic = Id 6, sr_storage = Id 7, sr_peer = Id 8, sr_rdma = Id 2, sr_storage_provider = Id 3,
      sr_cuda = Id 4\<rparr>"

lemma seed_run: "seed_synthetic default_SyntheticBackend (make_coordinator (Generation 1)) = (seeded_result, seeded_state)"
  by code_simp

definition example_buffer_record :: BufferRecord where
  "example_buffer_record = default_BufferRecord
     \<lparr>b_id := Id 13, b_generation := Generation 1, b_authority := example_authority,
      b_domain := MemoryDomain.CUDA_DEVICE, b_size := 2 ^ 20, b_alignment := 64, b_device := Id 5,
      b_locality := Locality.LOCAL, b_lifecycle := BufferLifecycle.ACTIVE, b_support := Support.SYNTHETIC,
      b_provenance := Provenance.SYNTHETIC_FIXTURE, b_freshness := 10\<rparr>"

definition seeded_buffer_state :: State where
  "seeded_buffer_state = seeded_state\<lparr>st_next_id := 13, st_freshness := 10, st_buffers := [(13, example_buffer_record)]\<rparr>"

lemma seeded_create: "create_buffer (example_buffer (Id 5) example_authority) seeded_state = (ok example_buffer_record, seeded_buffer_state)"
  by code_simp

definition example_registered :: Registration where
  "example_registered = default_Registration
     \<lparr>r_id := Id 1, r_generation := Generation 1, r_buffer := Id 13, r_buffer_generation := Generation 1,
      r_endpoint := Id 6, r_endpoint_generation := Generation 1, r_provider := Id 2, r_authority := example_authority,
      r_state := RegistrationState.REGISTERED, r_support := Support.SYNTHETIC,
      r_provenance := Provenance.SYNTHETIC_FIXTURE, r_freshness := 11, r_handle := Some (SyntheticHandle 1)\<rparr>"

definition seeded_registered_state :: State where
  "seeded_registered_state = seeded_buffer_state
     \<lparr>st_freshness := 12,
      st_buffers := [(13, example_buffer_record\<lparr>b_registration_state := RegistrationState.REGISTERED,
        b_registration_id := Id 1, b_registration_generation := Generation 1, b_freshness := 12\<rparr>)],
      st_registrations := [(1, example_registered)]\<rparr>"

lemma seeded_register:
  "fst (register_buffer (example_registration (Id 13) (Id 6) (Id 2) example_authority) (Some (synthetic_vtable, default_SyntheticBackend)) seeded_buffer_state) = ok example_registered"
  by code_simp

lemma seeded_register_state:
  "fst (snd (register_buffer (example_registration (Id 13) (Id 6) (Id 2) example_authority) (Some (synthetic_vtable, default_SyntheticBackend)) seeded_buffer_state)) = seeded_registered_state"
  by code_simp

lemma example_unsupported_prints:
  "example_unsupported =
     ''rdma backend support=UNSUPPORTED available=0'' @ newline @
     ''storage backend support=UNSUPPORTED available=0'' @ newline @ ''rdma provider support=UNSUPPORTED'' @ newline"
  by code_simp

text \<open>The states of the fencing program, after the worker's endpoint, capability, device and buffer.\<close>

definition fenced_worker :: Authority where
  "fenced_worker = fencing_authority (Generation 1)"

definition fencing_nic :: EndpointRecord where
  "fencing_nic = default_EndpointRecord
     \<lparr>e_id := Id 13, e_generation := Generation 1, e_endpoint_class := EndpointClass.NIC, e_name := ''nic'',
      e_healthy := True, e_support := Support.SYNTHETIC, e_provenance := Provenance.SYNTHETIC_FIXTURE,
      e_authority := fenced_worker, e_freshness := 10\<rparr>"

definition fencing_state1 :: State where
  "fencing_state1 = seeded_state
     \<lparr>st_next_id := 13, st_freshness := 10, st_endpoints := st_endpoints seeded_state @ [(13, fencing_nic)],
      st_workers := [(1, Id 1, Generation 1)], st_worker_max_boot := [(1, 1)]\<rparr>"

lemma fencing_run1:
  "add_endpoint (fencing_endpoint fenced_worker) (snd (register_worker (Id 1) (Generation 1) (st_epoch seeded_state) seeded_state)) =
     (ok fencing_nic, fencing_state1)"
  by code_simp

lemma fencing_run2:
  "add_provider \<lparr>pap_name = ''rdma'', pap_available = True, pap_support = Support.SYNTHETIC,
     pap_provenance = Provenance.SYNTHETIC_FIXTURE\<rparr> fencing_state1 =
     (ok \<lparr>p_id = Id 2, p_name = ''rdma'', p_available = True, p_support = Support.SYNTHETIC,
        p_provenance = Provenance.SYNTHETIC_FIXTURE\<rparr>, fencing_state1)"
  by code_simp

definition fencing_capability_record :: CapabilityObservation where
  "fencing_capability_record =
     \<lparr>c_id = Id 14, c_provider = ''rdma'', c_capability = ''direct_nic'', c_value = ''true'', c_support = Support.SYNTHETIC,
      c_provenance = Provenance.SYNTHETIC_FIXTURE, c_authority = fenced_worker, c_freshness = 11\<rparr>"

definition fencing_gpu :: DeviceRecord where
  "fencing_gpu =
     \<lparr>d_id = Id 15, d_generation = Generation 1, d_name = ''gpu'', d_compute_capability = [],
      d_peer_memory_supported = False, d_support = Support.SYNTHETIC, d_provenance = Provenance.SYNTHETIC_FIXTURE,
      d_authority = fenced_worker, d_freshness = 12\<rparr>"

definition fencing_state3 :: State where
  "fencing_state3 = fencing_state1
     \<lparr>st_next_id := 15, st_freshness := 12, st_devices := st_devices seeded_state @ [(15, fencing_gpu)],
      st_capabilities := (9, fencing_capability_record) # tl (st_capabilities seeded_state)\<rparr>"

lemma fencing_run3:
  "add_device (fencing_device fenced_worker) (snd (publish_capability (fencing_capability fenced_worker) fencing_state1)) =
     (ok fencing_gpu, fencing_state3)"
  by code_simp

definition fencing_buffer :: BufferRecord where
  "fencing_buffer = example_buffer_record
     \<lparr>b_id := Id 16, b_authority := fenced_worker, b_device := Id 15, b_freshness := 13\<rparr>"

definition fencing_state4 :: State where
  "fencing_state4 = fencing_state3\<lparr>st_next_id := 16, st_freshness := 13, st_buffers := [(16, fencing_buffer)]\<rparr>"

lemma fencing_run4: "create_buffer (example_buffer (Id 15) fenced_worker) fencing_state3 = (ok fencing_buffer, fencing_state4)"
  by code_simp

definition fencing_registration :: Registration where
  "fencing_registration = example_registered
     \<lparr>r_buffer := Id 16, r_endpoint := Id 13, r_authority := fenced_worker, r_freshness := 14\<rparr>"

definition fencing_state5 :: State where
  "fencing_state5 = fencing_state4
     \<lparr>st_freshness := 15,
      st_buffers := [(16, fencing_buffer\<lparr>b_registration_state := RegistrationState.REGISTERED,
        b_registration_id := Id 1, b_registration_generation := Generation 1, b_freshness := 15\<rparr>)],
      st_registrations := [(1, fencing_registration)]\<rparr>"

lemma fencing_run5:
  "fst (register_buffer (example_registration (Id 16) (Id 13) (Id 2) fenced_worker) (Some (synthetic_vtable, default_SyntheticBackend))
     fencing_state4) = ok fencing_registration"
  "fst (snd (register_buffer (example_registration (Id 16) (Id 13) (Id 2) fenced_worker)
     (Some (synthetic_vtable, default_SyntheticBackend)) fencing_state4)) = fencing_state5"
  by code_simp+

lemma fencing_run6:
  "fencing_finish fencing_registration (snd (mark_worker_dead (Id 1) fencing_state5)) = Some
     (''registration state=REGISTERED'' @ newline @ ''after worker death state=REVALIDATION_REQUIRED'' @ newline @
      ''stale boot rejected? 1 code=STALE_BOOT'' @ newline)"
  by code_simp

section \<open>What the programs print\<close>

lemma case_result_pair:
  "(case r of (Inl e, s) \<Rightarrow> f e s | (Inr v, s) \<Rightarrow> g v s) = (case fst r of Inl e \<Rightarrow> f e (snd r) | Inr v \<Rightarrow> g v (snd r))"
  by (simp add: case_prod_beta)

lemma example_direct_decision_prints:
  "example_direct_decision = Some
     (''direct eligibility=DIRECT_ALLOWED_DEGRADED support=SYNTHETIC fallback=0'' @ newline @
      ''DIRECT_ONLY eligibility=DIRECT_ALLOWED_DEGRADED fallback_available=0 fallback_disallowed=0'' @ newline)"
proof -
  have auth: "client_authority seeded_state = example_authority" by code_simp
  have "direct_evaluate (Id 13) (Id 6) seeded_registered_state = Some
     (''direct eligibility=DIRECT_ALLOWED_DEGRADED support=SYNTHETIC fallback=0'' @ newline @
      ''DIRECT_ONLY eligibility=DIRECT_ALLOWED_DEGRADED fallback_available=0 fallback_disallowed=0'' @ newline)"
    by code_simp
  then show ?thesis
    by (simp add: example_direct_decision_def seed_run direct_create_def auth seeded_result_def seeded_create ok_def
      direct_register_def seeded_register_state example_buffer_record_def)
qed

lemma example_stale_fencing_prints:
  "example_stale_fencing = Some
     (''registration state=REGISTERED'' @ newline @ ''after worker death state=REVALIDATION_REQUIRED'' @ newline @
      ''stale boot rejected? 1 code=STALE_BOOT'' @ newline)"
proof -
  have ids: "e_id fencing_nic = Id 13" "d_id fencing_gpu = Id 15" "b_id fencing_buffer = Id 16"
    by (simp_all add: fencing_nic_def fencing_gpu_def fencing_buffer_def)
  show ?thesis
    unfolding example_stale_fencing_def seed_run snd_conv fenced_worker_def [symmetric]
    by (simp add: fencing_worker_def fencing_provider_def fencing_publish_def fencing_create_def fencing_register_def ok_def
      fencing_run1 fencing_run2 fencing_run3 fencing_run4 case_result_pair fencing_run5 fencing_run6 ids)
qed

text \<open>The benchmark completes for every size up to the coordinator's limit on buffers; it uses 1000.\<close>

lemma bench_create_completes:
  assumes "\<not> worker_owned auth" and "length (st_buffers s) + n \<le> unat (st_max_buffers s)"
  shows "\<exists>bufs s'. bench_create n device auth s = Some (bufs, s') \<and> length bufs = n"
  using assms(2)
proof (induction n arbitrary: s)
  case 0
  then show ?case by simp
next
  case (Suc n)
  obtain r s1 where c: "create_buffer (example_buffer device auth) s = (r, s1)" by (metis surj_pair)
  have "has_value r" and len: "length (st_buffers s1) \<le> Suc (length (st_buffers s))" and m: "st_max_buffers s1 = st_max_buffers s"
    using c assms(1) Suc.prems by (auto simp: create_buffer_def example_buffer_def next_id_locked_def next_freshness_locked_def
      Let_def has_value_def ok_def umap_put_length split: if_splits)
  then obtain b where "r = Inr b" by (auto simp: has_value_def split: sum.splits)
  moreover obtain bufs s2 where "bench_create n device auth s1 = Some (bufs, s2)" "length bufs = n"
    using Suc.IH [of s1] len m Suc.prems by auto
  ultimately show ?case using c by simp
qed

lemma bench_completes:
  assumes "0 < n" and "n \<le> 8192"
  shows "\<exists>s. bench_control n (reg_ms, el_ms, plan_ms) = Some (bench_line reg_ms el_ms plan_ms n, s)"
proof -
  have "\<not> worker_owned (client_authority seeded_state)" by code_simp
  moreover have "length (st_buffers seeded_state) + n \<le> unat (st_max_buffers seeded_state)"
    using assms(2) by (simp add: seeded_state_def)
  ultimately obtain bufs s' where "bench_create n (Id 5) (client_authority seeded_state) seeded_state = Some (bufs, s')" "length bufs = n"
    using bench_create_completes by blast
  moreover obtain b bs where "bufs = b # bs" using calculation(2) assms(1) by (cases bufs) auto
  ultimately show ?thesis by (simp add: bench_control_def seed_run seeded_result_def Let_def)
qed

text \<open>
  The seed stores each endpoint with the provider's identity in the backend, not with the one that the
  coordinator gave it: the NIC's provider does not exist, and the storage endpoint's is \<open>rdma\<close>.
\<close>

lemma seeded_endpoints_wrong_provider:
  "map (\<lambda>(k, e). (e_name e, map_option p_name (umap_find (st_providers s) (id_value (e_provider e))))) (st_endpoints s) =
     [(''synthetic-nic-0'', None), (''synthetic-storage-0'', Some ''rdma''), (''synthetic-peer-gpu-1'', Some ''storage'')]"
  if "snd (seed_synthetic default_SyntheticBackend (make_coordinator (Generation 1))) = s"
proof -
  have "s = seeded_state" using that seed_run by simp
  then show ?thesis by (simp only:) code_simp
qed

end
