(* ===== verification/Spec2Isabelle.thy ===== *)
theory Spec2Isabelle
  imports Guarantees_Transfers Guarantees_Fencing Guarantees_Operations Restart Session Server_Guarantees Inspect
    Threads Process Worker Cuda_Api Crc_Race Examples
begin

text \<open>
  GPU Direct Fabric decides whether a transfer between a memory buffer and an endpoint (a NIC, a storage
  endpoint, a peer device) may take a direct path, on evidence that is current, and governs the
  registrations, plans and transfers that rest on such decisions. Workers own buffers and registrations
  and may die or restart; a coordinator fences their stale authority. This library models the C++
  implementation and proves what it guarantees.

  The parts of the program and their theories:

  \<^item> Values and records. \<open>Prelude\<close> has the machine integers, the finite maps that stand for
    \<open>std::unordered_map\<close> (\<open>umap\<close>: an association list, its order the iteration order, about which no
    theorem assumes anything), the scan for the latest generation and the locales of bounded runs. \<open>Enums\<close>
    has the thirteen enumerations of \<open>enums.hpp\<close> with their string conversions (locale \<open>enum_table\<close>,
    interpreted for each), with a constructor for values that only a cast can produce. \<open>Records\<close> has the
    structs of \<open>ids.hpp\<close>, \<open>result.hpp\<close>, \<open>authority.hpp\<close>, \<open>records.hpp\<close>, \<open>observation.hpp\<close>, \<open>path.hpp\<close>,
    \<open>transfer.hpp\<close> and \<open>backend.hpp\<close>.
  \<^item> The path planner, \<open>src/path.cpp\<close>, in \<open>Planner\<close>: one definition per block of
    \<open>PathPlanner::evaluate\<close>. Its theorems say exactly when a direct path and when a fallback is offered,
    that the planner refines the checklist of the README (the first requirement that fails is the
    verdict), and that a refusal is explained.
  \<^item> The backends, \<open>src/backends/\<close>, in \<open>Backends\<close> (synthetic, unsupported, CUDA; the calls into the
    CUDA runtime are a parameter; the locale \<open>honest_backend\<close> is the contract of the backend interface),
    \<open>Cuda_Self_Test\<close> (the proof run of the CUDA backend), \<open>Cuda_Kernel\<close> (the kernel of
    \<open>cuda_raw.cu\<close>, run by a grid of threads whose loads and stores interleave in any order, with its
    launch) and \<open>Cuda_Api\<close> (the functions of \<open>cuda_raw.cu\<close> over the CUDA runtime and the proof run as it
    calls them: on a runtime that keeps its documentation it gives back every buffer on every path, and
    sees the complemented bytes). \<open>Synthetic_Seed\<close> has \<open>seed_synthetic\<close>.
  \<^item> The coordinator. \<open>Coordinator\<close> has the state and the registry and registration operations of
    \<open>src/coordinator.cpp\<close>, \<open>Planning\<close> its evaluation and planning, \<open>Lifecycle\<close> the transfers of
    \<open>src/coordinator_lifecycle.cpp\<close>. Every public method holds the one mutex, so a method is a function
    from the state to a result and a new state; \<open>plan_transfer\<close>, which evaluates and commits under two
    separate locks, takes the state of the first lock as an argument of its own, so that any operations
    may come between. \<open>Threads\<close> justifies this view: the threads lock the mutex, read and write the
    fields of the state one by one, and unlock it, in any interleaving; every schedule is then a
    sequential run of the operations, the state is well formed whenever the mutex is free, and no
    schedule deadlocks. \<open>Machine\<close> makes the methods one step function over \<open>coord_op\<close> and states the
    invariant \<open>state_wf\<close>; \<open>Invariant\<close> and \<open>Invariant_Transfers\<close> prove that every operation keeps it,
    \<open>Progress\<close> what no operation ever undoes.
  \<^item> What follows for every run: \<open>Guarantees\<close> (registrations and authoritative plans are current, plans
    are sound and are made when they can be), \<open>Guarantees_Transfers\<close> (transfers, receipts, integrity),
    \<open>Guarantees_Fencing\<close> (epochs, dead workers, idempotent registration, deregistration) and
    \<open>Guarantees_Operations\<close> (errors change nothing, limits, ownership). \<open>Scenario\<close> is the run their
    witnesses use: a seeded coordinator, a buffer, its registration, a plan and a transfer.
  \<^item> The state file, \<open>src/persistence.cpp\<close> and \<open>src/atomic_file.cpp\<close>: \<open>State_Codec\<close> has the writers
    and the reader of fields (locale \<open>field_codec\<close>, interpreted for each kind of field), \<open>Persistence\<close>
    the writing and reading of the sections (how many bytes of the file stream reach the disk is an
    argument, since the code does not look at the outcome of its flush), \<open>Recovery\<close> shows that reading undoes writing, record by
    record (locale \<open>record_codec\<close>, interpreted for the nine record types), and \<open>Restart\<close> what a restart
    keeps, drops and refuses.
  \<^item> The protocol. \<open>Bytes\<close> and \<open>Crc32\<close> have the little-endian codings and the checksum (shared with the
    state file), \<open>Crc_Race\<close> the unguarded table of the checksum when several threads fill it at once,
    \<open>Protocol\<close> the frames and \<open>Payload\<close> the payload reader and writers of
    \<open>src/protocol.cpp\<close>, \<open>Transport\<close> the exchange of frames over a socket of \<open>src/transport.cpp\<close>, with
    the socket calls as parameters and \<open>delivers\<close> and \<open>takes\<close> as what a stream socket promises.
    \<open>Sockets\<close> has the life of the connection objects of the same file, with the handles the operating
    system has open: none is leaked or closed twice, but for handle 0, which the code takes for no
    socket. \<open>Process\<close> has \<open>src/proc.cpp\<close>.
  \<^item> The server and its client. \<open>Server\<close> models \<open>src/coordinator_server.cpp\<close> as a state machine over the
    events of its connections, \<open>Client\<close> models \<open>src/worker_client.cpp\<close>. \<open>Session\<close> composes client,
    transport, server and coordinator for a single call; \<open>Wire\<close> is a client's connection to the server
    as a system of both ends, with the bytes under way cut up in any way and the server's thread that
    answers a frame when it has arrived. \<open>Server_Guarantees\<close> shows that every run of the server is a
    run of the coordinator, what no remote peer can change, and what a stale session can do.
  \<^item> The tools: \<open>tools/inspect_main.cpp\<close> in \<open>Inspect\<close> and \<open>tools/worker_main.cpp\<close> in \<open>Worker\<close>, whose
    locale \<open>server_link\<close> is what the tool needs of its connection; interpreted on \<open>Wire\<close>, the tool's run is
    shown to be the coordinator's operations one after the other, and to come up where the coordinator
    has room.
  \<^item> The programs of \<open>examples/\<close> and \<open>bench/\<close>, in \<open>Examples\<close>: what each prints, evaluated, and that the
    benchmark completes.

  Integers are kept at their width. Identities and generations come from 64-bit counters that could wrap
  around; the invariant is indexed by the number of operations run so far, and holds for runs of up to
  \<open>op_limit\<close> \<open>= 2 ^ 62\<close> operations: an operation takes at most three identities and advances a generation
  at most once, so until then no counter wraps, and at a billion operations a second that takes more than
  a century. No definition uses fuel: the loops that are not structural (\<open>recv_all\<close>, \<open>send_all\<close>,
  \<open>read_plans\<close>, \<open>query_args\<close>, \<open>copy_name\<close>) are functions with a termination proof.

  Not modelled: what the operating system and the CUDA runtime do behind their calls. Their answers, or
  a record of their functions, are arguments; \<open>moves_or_fails\<close> (\<open>MoveFileExA\<close>) and \<open>documented_runtime\<close>
  (CUDA) say what the theorems ask of them, \<open>delivers\<close> and \<open>takes\<close> what they ask of a socket. Export
  macros have no behaviour, and the tests are left out: what they try on one run is proved here for all.
  The C++ memory model is not modelled: the threads of \<open>Threads\<close>, \<open>Crc_Race\<close> and \<open>Cuda_Kernel\<close> share a
  sequentially consistent memory. In \<open>Threads\<close> the result of a method is computed from the fields its
  thread has read, in one step of that thread. \<open>persist_to_file\<close>, which takes no lock, is modelled on a
  state at rest. On a \<open>Wire\<close> the server's thread runs as soon as a frame is there, and no other
  connection acts between a client's calls.
\<close>

end
